(* ===== verification/Prelude.thy ===== *)
theory Prelude
  imports Complex_Main "HOL-Library.List_Lexorder" "HOL-Library.Product_Lexorder" "HOL-Library.Char_ord"
begin

text \<open>
  The vocabulary every component shares: Python exceptions as values of a sum type, the
  sequencing of fallible steps, the few \<open>str\<close> operations the package uses, and generic lemmas on
  options, lists and association lists.

  A Python \<open>str\<close> is the list of the bytes of its UTF-8 encoding, so \<open>length\<close> is
  \<open>len(value.encode("utf-8"))\<close> (the unit of every size budget of the package) and \<open>py_len\<close>
  is \<open>len(value)\<close>. UTF-8 keeps the order of code points, so comparing and sorting such lists is
  comparing and sorting the strings.
\<close>

named_theorems py_simps \<open>rewrite rules for the Python helpers\<close>
named_theorems res_dests \<open>elimination of successful results\<close>

section \<open>Exceptions as values\<close>

text \<open>The exceptions the modelled code raises or catches, with the message where it keeps one.\<close>

datatype py_error =
    ValidationError string
  | ConflictError string
  | KeyError
  | TypeError
  | ValueError
  | OverflowError
  | OSError string
  | RuntimeError string
  | RegexError
  | DatabaseError string

type_synonym 'a res = "py_error + 'a"

definition raise_validation :: "string \<Rightarrow> 'a res" where
  "raise_validation m = Inl (ValidationError m)"

definition raise_conflict :: "string \<Rightarrow> 'a res" where
  "raise_conflict m = Inl (ConflictError m)"

text \<open>A statement that may raise, followed by the rest of the body.\<close>

definition bindE :: "'a res \<Rightarrow> ('a \<Rightarrow> 'b res) \<Rightarrow> 'b res" where
  "bindE m f = (case m of Inl e \<Rightarrow> Inl e | Inr x \<Rightarrow> f x)"

text \<open>A guard: \<open>if bad: raise\<close>.\<close>

definition unlessE :: "bool \<Rightarrow> py_error \<Rightarrow> unit res" where
  "unlessE bad e = (if bad then Inl e else Inr ())"

fun map_res :: "('a \<Rightarrow> 'b res) \<Rightarrow> 'a list \<Rightarrow> 'b list res" where
  "map_res f [] = Inr []"
| "map_res f (x # xs) = bindE (f x) (\<lambda>y. bindE (map_res f xs) (\<lambda>ys. Inr (y # ys)))"

lemma bindE_simps [simp]:
  "bindE (Inl e) f = Inl e" "bindE (Inr x) f = f x"
  by (simp_all add: bindE_def)

lemma bindE_Inr_iff [simp]: "bindE m f = Inr y \<longleftrightarrow> (\<exists>x. m = Inr x \<and> f x = Inr y)"
  by (cases m) (auto simp: bindE_def)

lemma bindE_Inl_iff: "bindE m f = Inl e \<longleftrightarrow> m = Inl e \<or> (\<exists>x. m = Inr x \<and> f x = Inl e)"
  by (cases m) (auto simp: bindE_def)

lemma bindE_cong [fundef_cong]:
  "m = m' \<Longrightarrow> (\<And>x. m' = Inr x \<Longrightarrow> f x = g x) \<Longrightarrow> bindE m f = bindE m' g"
  by (cases m') (auto simp: bindE_def)

lemma unlessE_Inr_iff [simp]: "unlessE b e = Inr u \<longleftrightarrow> \<not> b"
  by (simp add: unlessE_def)

lemma unlessE_simps [simp]: "unlessE False e = Inr ()" "unlessE True e = Inl e"
  by (simp_all add: unlessE_def)

lemma raise_not_Inr [simp]:
  "raise_validation m \<noteq> Inr x" "raise_conflict m \<noteq> Inr x"
  by (simp_all add: raise_validation_def raise_conflict_def)

lemma map_res_cong [fundef_cong]:
  "xs = ys \<Longrightarrow> (\<And>x. x \<in> set ys \<Longrightarrow> f x = g x) \<Longrightarrow> map_res f xs = map_res g ys"
  by (induction ys arbitrary: xs) auto

lemma map_res_Inr_length: "map_res f xs = Inr ys \<Longrightarrow> length ys = length xs"
  by (induction xs arbitrary: ys) auto

lemma map_res_Inr_set:
  "map_res f xs = Inr ys \<Longrightarrow> y \<in> set ys \<Longrightarrow> \<exists>x \<in> set xs. f x = Inr y"
  by (induction xs arbitrary: ys) auto

lemma map_res_id: "(\<And>x. x \<in> set xs \<Longrightarrow> f x = Inr x) \<Longrightarrow> map_res f xs = Inr xs"
  by (induction xs) auto

lemma map_res_map:
  "(\<And>x. x \<in> set xs \<Longrightarrow> f (g x) = Inr x) \<Longrightarrow> map_res f (map g xs) = Inr xs"
  by (induction xs) auto

section \<open>Strings\<close>

definition starts_with :: "string \<Rightarrow> string \<Rightarrow> bool" where
  "starts_with p s \<longleftrightarrow> take (length p) s = p"

definition code :: "char \<Rightarrow> nat" where
  "code c = of_char c"

text \<open>The continuation bytes of UTF-8 are 128 to 191; every other byte starts a code point.\<close>

definition lead_byte :: "char \<Rightarrow> bool" where
  "lead_byte c \<longleftrightarrow> \<not> (128 \<le> code c \<and> code c < 192)"

definition py_len :: "string \<Rightarrow> nat" where
  "py_len s = length (filter lead_byte s)"

text \<open>The slice \<open>s[:n]\<close>: the bytes before the \<open>n\<close>-th further lead byte.\<close>

fun py_take :: "nat \<Rightarrow> string \<Rightarrow> string" where
  "py_take n [] = []"
| "py_take n (c # cs) =
     (if lead_byte c then (case n of 0 \<Rightarrow> [] | Suc m \<Rightarrow> c # py_take m cs) else c # py_take n cs)"

fun split_on :: "char \<Rightarrow> string \<Rightarrow> string list" where
  "split_on d [] = [[]]"
| "split_on d (c # cs) =
     (if c = d then [] # split_on d cs
      else (case split_on d cs of [] \<Rightarrow> [[c]] | w # ws \<Rightarrow> (c # w) # ws))"

fun join_with :: "string \<Rightarrow> string list \<Rightarrow> string" where
  "join_with s [] = []"
| "join_with s [x] = x"
| "join_with s (x # y # zs) = x @ s @ join_with s (y # zs)"

definition is_digit :: "char \<Rightarrow> bool" where
  "is_digit c \<longleftrightarrow> 48 \<le> code c \<and> code c \<le> 57"

definition is_lower_hex :: "char \<Rightarrow> bool" where
  "is_lower_hex c \<longleftrightarrow> is_digit c \<or> 97 \<le> code c \<and> code c \<le> 102"

definition is_hex :: "char \<Rightarrow> bool" where
  "is_hex c \<longleftrightarrow> is_lower_hex c \<or> 65 \<le> code c \<and> code c \<le> 70"

text \<open>\<open>str.lower\<close> on the ASCII letters; it leaves every other byte alone.\<close>

definition ascii_lower :: "char \<Rightarrow> char" where
  "ascii_lower c = (if 65 \<le> code c \<and> code c \<le> 90 then char_of (code c + 32) else c)"

fun show_nat :: "nat \<Rightarrow> string" where
  "show_nat n =
     (if n < 10 then [char_of (48 + n)] else show_nat (n div 10) @ [char_of (48 + n mod 10)])"

declare show_nat.simps [simp del]

definition show_int :: "int \<Rightarrow> string" where
  "show_int i = (if i < 0 then CHR ''-'' # show_nat (nat (- i)) else show_nat (nat i))"

lemma starts_with_refl [simp]: "starts_with p (p @ s)"
  by (simp add: starts_with_def)

lemma py_len_le_length: "py_len s \<le> length s"
  by (simp add: py_len_def)

lemma py_len_py_take: "py_len (py_take n s) \<le> n"
  by (induction n s rule: py_take.induct) (auto simp: py_len_def split: nat.splits)

lemma py_take_short: "py_len s \<le> n \<Longrightarrow> py_take n s = s"
  by (induction n s rule: py_take.induct) (auto simp: py_len_def split: nat.splits)

text \<open>The codes of the characters that occur in field names, for evaluation.\<close>

lemma code_ascii [simp]:
  "code CHR ''a'' = 97" "code CHR ''b'' = 98" "code CHR ''c'' = 99" "code CHR ''d'' = 100"
  "code CHR ''e'' = 101" "code CHR ''f'' = 102" "code CHR ''g'' = 103" "code CHR ''h'' = 104"
  "code CHR ''i'' = 105" "code CHR ''j'' = 106" "code CHR ''k'' = 107" "code CHR ''l'' = 108"
  "code CHR ''m'' = 109" "code CHR ''n'' = 110" "code CHR ''o'' = 111" "code CHR ''p'' = 112"
  "code CHR ''q'' = 113" "code CHR ''r'' = 114" "code CHR ''s'' = 115" "code CHR ''t'' = 116"
  "code CHR ''u'' = 117" "code CHR ''v'' = 118" "code CHR ''w'' = 119" "code CHR ''x'' = 120"
  "code CHR ''y'' = 121" "code CHR ''z'' = 122" "code CHR ''A'' = 65" "code CHR ''B'' = 66"
  "code CHR ''C'' = 67" "code CHR ''D'' = 68" "code CHR ''E'' = 69" "code CHR ''F'' = 70"
  "code CHR ''G'' = 71" "code CHR ''H'' = 72" "code CHR ''I'' = 73" "code CHR ''J'' = 74"
  "code CHR ''K'' = 75" "code CHR ''L'' = 76" "code CHR ''M'' = 77" "code CHR ''N'' = 78"
  "code CHR ''O'' = 79" "code CHR ''P'' = 80" "code CHR ''Q'' = 81" "code CHR ''R'' = 82"
  "code CHR ''S'' = 83" "code CHR ''T'' = 84" "code CHR ''U'' = 85" "code CHR ''V'' = 86"
  "code CHR ''W'' = 87" "code CHR ''X'' = 88" "code CHR ''Y'' = 89" "code CHR ''Z'' = 90"
  "code CHR ''0'' = 48" "code CHR ''1'' = 49" "code CHR ''2'' = 50" "code CHR ''3'' = 51"
  "code CHR ''4'' = 52" "code CHR ''5'' = 53" "code CHR ''6'' = 54" "code CHR ''7'' = 55"
  "code CHR ''8'' = 56" "code CHR ''9'' = 57" "code CHR ''_'' = 95" "code CHR ''-'' = 45"
  "code CHR ''/'' = 47" "code CHR ''.'' = 46" "code CHR '' '' = 32" "code CHR '':'' = 58"
  by (simp_all add: code_def)

lemma code_char_of [simp]: "code (char_of n) = n mod 256"
  by (simp add: code_def)

lemma ascii_lower_hex: "is_hex c \<Longrightarrow> is_lower_hex (ascii_lower c)"
  by (auto simp: is_hex_def is_lower_hex_def is_digit_def ascii_lower_def)

lemma lower_hex_is_hex [simp]: "is_lower_hex c \<Longrightarrow> is_hex c"
  by (simp add: is_hex_def)

lemma ascii_lower_lower_hex: "is_lower_hex c \<Longrightarrow> ascii_lower c = c"
  by (auto simp: is_lower_hex_def is_digit_def ascii_lower_def)

lemma ascii_lower_idem [simp]: "ascii_lower (ascii_lower c) = ascii_lower c"
  by (auto simp: ascii_lower_def)

end
