(* ===== verification/Json.thy ===== *)
theory Json
  imports Prelude
begin

text \<open>
  The JSON values the package stores and compares. Conditions, evidence, receipts and delivery
  records are plain Python dicts in the source, inspected with \<open>isinstance\<close> and \<open>.get\<close>; they are
  plain JSON values here, and a dict is an association list in insertion order with distinct keys.

  A Python float is an exact rational or one of the three special values: the rounding of binary64
  arithmetic is not modelled, its special values are.
\<close>

section \<open>Values\<close>

datatype pyfloat = Fin rat | PosInf | NegInf | NaN

datatype json =
    JNull
  | JBool bool
  | JInt int
  | JFloat pyfloat
  | JStr string
  | JList "json list"
  | JObj "(string \<times> json) list"

abbreviation jnum :: "rat \<Rightarrow> json" where
  "jnum r \<equiv> JFloat (Fin r)"

fun is_obj :: "json \<Rightarrow> bool" where
  "is_obj (JObj _) = True"
| "is_obj _ = False"

fun is_str :: "json \<Rightarrow> bool" where
  "is_str (JStr _) = True"
| "is_str _ = False"

text \<open>\<open>isinstance(v, (int, float)) and not isinstance(v, bool)\<close>, with the value where it is finite.\<close>

fun finite_num :: "json \<Rightarrow> rat option" where
  "finite_num (JInt i) = Some (of_int i)"
| "finite_num (JFloat (Fin r)) = Some r"
| "finite_num _ = None"

fun is_number :: "json \<Rightarrow> bool" where
  "is_number (JInt _) = True"
| "is_number (JFloat _) = True"
| "is_number _ = False"

text \<open>
  Comparison and the two operations the observers perform on floats; a comparison with NaN is false
  and \<open>max(0.0, x)\<close> keeps the first argument unless the second is greater.
\<close>

fun pf_le :: "pyfloat \<Rightarrow> pyfloat \<Rightarrow> bool" where
  "pf_le NaN y = False"
| "pf_le x NaN = False"
| "pf_le NegInf y = True"
| "pf_le x PosInf = True"
| "pf_le (Fin a) (Fin b) = (a \<le> b)"
| "pf_le x y = False"

fun pf_neg :: "pyfloat \<Rightarrow> pyfloat" where
  "pf_neg (Fin a) = Fin (- a)"
| "pf_neg PosInf = NegInf"
| "pf_neg NegInf = PosInf"
| "pf_neg NaN = NaN"

fun pf_add :: "pyfloat \<Rightarrow> pyfloat \<Rightarrow> pyfloat" where
  "pf_add (Fin a) (Fin b) = Fin (a + b)"
| "pf_add NaN y = NaN"
| "pf_add x NaN = NaN"
| "pf_add PosInf NegInf = NaN"
| "pf_add NegInf PosInf = NaN"
| "pf_add PosInf y = PosInf"
| "pf_add NegInf y = NegInf"
| "pf_add x y = y"

definition pf_sub :: "pyfloat \<Rightarrow> pyfloat \<Rightarrow> pyfloat" where
  "pf_sub x y = pf_add x (pf_neg y)"

definition pf_max0 :: "pyfloat \<Rightarrow> pyfloat" where
  "pf_max0 x = (if pf_le x (Fin 0) \<or> x = NaN then Fin 0 else x)"

text \<open>Lists and dicts are not hashable: looking one up in a set or a dict raises.\<close>

fun hashable :: "json \<Rightarrow> bool" where
  "hashable (JList _) = False"
| "hashable (JObj _) = False"
| "hashable _ = True"

definition memE :: "json \<Rightarrow> string list \<Rightarrow> bool res" where
  "memE v names = (if hashable v then Inr (v \<in> JStr ` set names) else Inl TypeError)"

text \<open>Python's truth value of a JSON value.\<close>

fun truthy :: "json \<Rightarrow> bool" where
  "truthy JNull = False"
| "truthy (JBool b) = b"
| "truthy (JInt i) = (i \<noteq> 0)"
| "truthy (JFloat f) = (f \<noteq> Fin 0)"
| "truthy (JStr s) = (s \<noteq> [])"
| "truthy (JList xs) = (xs \<noteq> [])"
| "truthy (JObj kvs) = (kvs \<noteq> [])"

text \<open>
  \<open>str(v)\<close>. The text of a float, a list or a dict is left unspecified: the source applies \<open>str\<close> to
  such a value only where a stored record is corrupt, and nothing below depends on it.
\<close>

fun py_str :: "json \<Rightarrow> string" where
  "py_str (JStr s) = s"
| "py_str JNull = ''None''"
| "py_str (JBool b) = (if b then ''True'' else ''False'')"
| "py_str (JInt i) = show_int i"

section \<open>Dicts\<close>

text \<open>\<open>d[k] = v\<close>: in place for a key that is there, at the end for a new one; \<open>d.pop(k, None)\<close>.\<close>

fun aset :: "string \<Rightarrow> 'v \<Rightarrow> (string \<times> 'v) list \<Rightarrow> (string \<times> 'v) list" where
  "aset k v [] = [(k, v)]"
| "aset k v (kv # kvs) = (if fst kv = k then (k, v) # kvs else kv # aset k v kvs)"

fun apop :: "string \<Rightarrow> (string \<times> 'v) list \<Rightarrow> (string \<times> 'v) list" where
  "apop k [] = []"
| "apop k (kv # kvs) = (if fst kv = k then kvs else kv # apop k kvs)"

text \<open>\<open>d.update(e)\<close> and \<open>{**d, **e}\<close>.\<close>

fun aupdate :: "(string \<times> 'v) list \<Rightarrow> (string \<times> 'v) list \<Rightarrow> (string \<times> 'v) list" where
  "aupdate d [] = d"
| "aupdate d (kv # kvs) = aupdate (aset (fst kv) (snd kv) d) kvs"

fun entries :: "json \<Rightarrow> (string \<times> json) list" where
  "entries (JObj kvs) = kvs"
| "entries _ = []"

text \<open>\<open>v.get(k)\<close> with \<open>None\<close> for a missing key, and the membership test \<open>k in v\<close>.\<close>

definition jget :: "string \<Rightarrow> json \<Rightarrow> json" where
  "jget k v = (case map_of (entries v) k of Some w \<Rightarrow> w | None \<Rightarrow> JNull)"

definition jhas :: "string \<Rightarrow> json \<Rightarrow> bool" where
  "jhas k v \<longleftrightarrow> map_of (entries v) k \<noteq> None"

text \<open>\<open>v[k]\<close>, which raises for a missing key.\<close>

definition jindex :: "string \<Rightarrow> json \<Rightarrow> json res" where
  "jindex k v = (case map_of (entries v) k of Some w \<Rightarrow> Inr w | None \<Rightarrow> Inl KeyError)"

definition jset :: "string \<Rightarrow> json \<Rightarrow> json \<Rightarrow> json" where
  "jset k w v = JObj (aset k w (entries v))"

fun list_items :: "json \<Rightarrow> json list" where
  "list_items (JList xs) = xs"
| "list_items _ = []"

lemma map_of_aset [simp]: "map_of (aset k v kvs) = (map_of kvs)(k \<mapsto> v)"
  by (induction kvs) (auto simp: fun_eq_iff)

lemma fst_set_aset [simp]: "fst ` set (aset k v kvs) = insert k (fst ` set kvs)"
  by (induction kvs) auto

lemma distinct_aset [simp]:
  "distinct (map fst (aset k v kvs)) \<longleftrightarrow> distinct (map fst kvs)"
  by (induction kvs) simp_all

lemma map_of_apop:
  "distinct (map fst kvs) \<Longrightarrow> map_of (apop k kvs) = (map_of kvs)(k := None)"
  by (induction kvs) (auto simp: fun_eq_iff map_of_eq_None_iff)

lemma apop_notin: "k \<notin> fst ` set kvs \<Longrightarrow> apop k kvs = kvs"
  by (induction kvs) auto

lemma apop_append: 
  "apop k (xs @ ys) = (if k \<in> fst ` set xs then apop k xs @ ys else xs @ apop k ys)"
  by (induction xs) auto

lemma map_of_aupdate:
  "distinct (map fst e) \<Longrightarrow> map_of (aupdate d e) = map_of d ++ map_of e"
proof (induction e arbitrary: d)
  case Nil
  then show ?case by simp
next
  case (Cons kv e)
  then have "map_of e (fst kv) = None"
    by (simp add: map_of_eq_None_iff)
  with Cons show ?case
    by (auto simp: fun_eq_iff map_add_def split: option.splits)
qed

lemma jget_jset [simp]: "jget k (jset k' w v) = (if k = k' then w else jget k v)"
  by (simp add: jget_def jset_def)

lemma jget_jset_entries [simp]: "is_obj (jset k w v)"
  by (simp add: jset_def)

lemma jindex_jset [simp]: "jindex k (jset k' w v) = (if k = k' then Inr w else jindex k v)"
  by (simp add: jindex_def jset_def)

lemma jhas_jset [simp]: "jhas k (jset k' w v) \<longleftrightarrow> k = k' \<or> jhas k v"
  by (simp add: jhas_def jset_def)

lemma jget_nonobj: "\<not> is_obj v \<Longrightarrow> jget k v = JNull"
  by (cases v) (auto simp: jget_def)

lemma jget_in_entries: "jget k v \<noteq> JNull \<Longrightarrow> (k, jget k v) \<in> set (entries v)"
  by (auto simp: jget_def split: option.splits dest: map_of_SomeD)

lemma json_size_entry: "(k, w) \<in> set kvs \<Longrightarrow> size w < size (JObj kvs)"
  by (induction kvs) auto

lemma json_size_item: "x \<in> set xs \<Longrightarrow> size x < size (JList xs)"
  by (induction xs) auto

lemma jget_size: "jget k v \<noteq> JNull \<Longrightarrow> size (jget k v) < size v"
  by (cases v) (use jget_in_entries [of k v] json_size_entry in auto)

lemma jget_items_size: "x \<in> set (list_items (jget k v)) \<Longrightarrow> size x < size v"
proof -
  assume x: "x \<in> set (list_items (jget k v))"
  then obtain xs where xs: "jget k v = JList xs" "x \<in> set xs"
    by (cases "jget k v") auto
  then have "size (jget k v) < size v"
    by (intro jget_size) simp
  with xs json_size_item show ?thesis
    by fastforce
qed

section \<open>Equality and canonical form\<close>

text \<open>
  Python's \<open>==\<close>: numbers (booleans included) by value, lists element by element, dicts as finite
  maps whatever their insertion order.
\<close>

fun py_num :: "json \<Rightarrow> rat option" where
  "py_num (JBool b) = Some (if b then 1 else 0)"
| "py_num v = finite_num v"

function json_eq :: "json \<Rightarrow> json \<Rightarrow> bool" where
  "json_eq v w =
     (case (v, w) of
        (JNull, JNull) \<Rightarrow> True
      | (JStr s, JStr t) \<Rightarrow> s = t
      | (JList xs, JList ys) \<Rightarrow>
          length xs = length ys \<and> list_all (\<lambda>i. json_eq (xs ! i) (ys ! i)) [0..<length xs]
      | (JObj kvs, JObj lws) \<Rightarrow>
          length kvs = length lws \<and>
          list_all (\<lambda>kv. case map_of lws (fst kv) of
                            None \<Rightarrow> False | Some u \<Rightarrow> json_eq (snd kv) u) kvs
      | (JFloat PosInf, JFloat PosInf) \<Rightarrow> True
      | (JFloat NegInf, JFloat NegInf) \<Rightarrow> True
      | _ \<Rightarrow> py_num v \<noteq> None \<and> py_num v = py_num w)"
  by pat_completeness auto
termination
  by (relation "measure (size \<circ> fst)")
    (auto simp: less_Suc_eq_le intro: size_list_estimation'
      dest!: json_size_entry json_size_item [OF nth_mem])

declare json_eq.simps [simp del]

text \<open>\<open>sort_keys=True\<close>: what is read back from a stored canonical text.\<close>

function canon :: "json \<Rightarrow> json" where
  "canon v =
     (case v of
        JList xs \<Rightarrow> JList (map canon xs)
      | JObj kvs \<Rightarrow> JObj (sort_key fst (map (\<lambda>kv. (fst kv, canon (snd kv))) kvs))
      | _ \<Rightarrow> v)"
  by pat_completeness auto
termination
  by (relation "measure size") (auto dest: json_size_entry json_size_item)

declare canon.simps [simp del]

lemma canon_simps [simp]:
  "canon JNull = JNull" "canon (JBool b) = JBool b" "canon (JInt i) = JInt i"
  "canon (JFloat f) = JFloat f" "canon (JStr s) = JStr s"
  "canon (JList xs) = JList (map canon xs)"
  "canon (JObj kvs) = JObj (sort_key fst (map (\<lambda>kv. (fst kv, canon (snd kv))) kvs))"
  by (simp_all add: canon.simps)

lemma map_of_canon: "map_of (map (\<lambda>kv. (fst kv, f (snd kv))) kvs) k = map_option f (map_of kvs k)"
  by (induction kvs) auto

lemma map_of_sort_key:
  assumes "distinct (map fst kvs)"
  shows "map_of (sort_key fst kvs) = map_of kvs"
proof -
  have "distinct (map fst (sort_key fst kvs))"
    using assms by (metis distinct_map distinct_sort inj_on_cong set_sort sort_key_def set_map)
  with assms show ?thesis
    by (intro map_of_inject_set [THEN iffD2]) (auto simp: set_sort)
qed

lemma canon_keeps_shape [simp]:
  "is_obj (canon v) = is_obj v" "canon v = JStr s \<longleftrightarrow> v = JStr s" "canon v = JNull \<longleftrightarrow> v = JNull"
  by (cases v; simp)+

end
