(* ===== verification/Models.thy ===== *)
theory Models
  imports Json
begin

text \<open>
  The value objects of \<open>models.py\<close>: the three truth values of a condition, the monitor states with
  the terminal ones, modes and wake reasons, the goal guard a monitor is armed with and what the
  app-server reports of a target, and the result of an evaluation.
\<close>

section \<open>Truth values\<close>

datatype TriState = FALSE | UNKNOWN | TRUE

fun tri_value :: "TriState \<Rightarrow> string" where
  "tri_value TRUE = ''true''"
| "tri_value FALSE = ''false''"
| "tri_value UNKNOWN = ''unknown''"

text \<open>The order of strong Kleene logic, in which a conjunction is a minimum.\<close>

fun tri_rank :: "TriState \<Rightarrow> nat" where
  "tri_rank FALSE = 0"
| "tri_rank UNKNOWN = 1"
| "tri_rank TRUE = 2"

lemma tri_rank_inject [simp]: "tri_rank a = tri_rank b \<longleftrightarrow> a = b"
  by (cases a; cases b) auto

instantiation TriState :: linorder
begin

definition less_eq_TriState :: "TriState \<Rightarrow> TriState \<Rightarrow> bool" where
  "less_eq_TriState a b \<longleftrightarrow> tri_rank a \<le> tri_rank b"

definition less_TriState :: "TriState \<Rightarrow> TriState \<Rightarrow> bool" where
  "less_TriState a b \<longleftrightarrow> tri_rank a < tri_rank b"

instance
  by standard (auto simp: less_eq_TriState_def less_TriState_def)

end

lemma tri_bounds [simp]: "FALSE \<le> a" "a \<le> TRUE" "a \<le> FALSE \<longleftrightarrow> a = FALSE" "TRUE \<le> a \<longleftrightarrow> a = TRUE"
  by (cases a; simp add: less_eq_TriState_def)+

section \<open>Monitor states\<close>

datatype MonitorState =
    REGISTERING | DEFER_INTENT | PAUSING | ARMED | CLAIMED | ADMISSION_IN_PROGRESS
  | QUEUE_ACCEPTED | CANCEL_REQUESTED | CANCELLATION_IN_PROGRESS | ACTIVATING | FIRED | RECORDED
  | DELIVERY_REJECTED | DELIVERY_UNCERTAIN | DELIVERY_MODIFIED | DELIVERY_CAPABILITY_UNAVAILABLE
  | CANCELLATION_TOO_LATE | CANCELLED | EXPIRED | SUPERSEDED | UNLOADED_TARGET | OBSERVER_FAILED
  | SATISFIED_REQUIRES_AUTHORIZATION | ACTIVATION_UNCERTAIN | ACTIVATION_FAILED
  | MIS_TARGETED_ACTIVATION | DAEMON_UNAVAILABLE | DEFER_ABANDONED | PAUSE_UNCERTAIN
  | PAUSE_REJECTED | MIS_TARGETED_PAUSE

datatype MonitorMode = LEGACY | DEFERRED

datatype WakeReason = CONDITION | WAKE_EXPIRED | UNAUTHORIZED_EVIDENCE | WAKE_OBSERVER_FAILED

fun wake_reason_value :: "WakeReason \<Rightarrow> string" where
  "wake_reason_value CONDITION = ''condition''"
| "wake_reason_value WAKE_EXPIRED = ''expired''"
| "wake_reason_value UNAUTHORIZED_EVIDENCE = ''unauthorized_evidence''"
| "wake_reason_value WAKE_OBSERVER_FAILED = ''observer_failed''"

definition TERMINAL_STATES :: "MonitorState list" where
  "TERMINAL_STATES =
     [FIRED, RECORDED, DELIVERY_REJECTED, DELIVERY_UNCERTAIN, DELIVERY_MODIFIED,
      DELIVERY_CAPABILITY_UNAVAILABLE, CANCELLATION_TOO_LATE, CANCELLED, EXPIRED, SUPERSEDED,
      UNLOADED_TARGET, OBSERVER_FAILED, SATISFIED_REQUIRES_AUTHORIZATION, ACTIVATION_UNCERTAIN,
      ACTIVATION_FAILED, MIS_TARGETED_ACTIVATION, DAEMON_UNAVAILABLE, DEFER_ABANDONED,
      PAUSE_UNCERTAIN, PAUSE_REJECTED, MIS_TARGETED_PAUSE]"

definition is_terminal :: "MonitorState \<Rightarrow> bool" where
  "is_terminal s \<longleftrightarrow> s \<in> set TERMINAL_STATES"

lemma is_terminal_simps [simp]:
  "\<not> is_terminal REGISTERING" "\<not> is_terminal DEFER_INTENT" "\<not> is_terminal PAUSING"
  "\<not> is_terminal ARMED" "\<not> is_terminal CLAIMED" "\<not> is_terminal ADMISSION_IN_PROGRESS"
  "\<not> is_terminal QUEUE_ACCEPTED" "\<not> is_terminal CANCEL_REQUESTED"
  "\<not> is_terminal CANCELLATION_IN_PROGRESS" "\<not> is_terminal ACTIVATING"
  "is_terminal FIRED" "is_terminal RECORDED" "is_terminal DELIVERY_REJECTED"
  "is_terminal DELIVERY_UNCERTAIN" "is_terminal DELIVERY_MODIFIED"
  "is_terminal DELIVERY_CAPABILITY_UNAVAILABLE" "is_terminal CANCELLATION_TOO_LATE"
  "is_terminal CANCELLED" "is_terminal EXPIRED" "is_terminal SUPERSEDED"
  "is_terminal UNLOADED_TARGET" "is_terminal OBSERVER_FAILED"
  "is_terminal SATISFIED_REQUIRES_AUTHORIZATION" "is_terminal ACTIVATION_UNCERTAIN"
  "is_terminal ACTIVATION_FAILED" "is_terminal MIS_TARGETED_ACTIVATION"
  "is_terminal DAEMON_UNAVAILABLE" "is_terminal DEFER_ABANDONED" "is_terminal PAUSE_UNCERTAIN"
  "is_terminal PAUSE_REJECTED" "is_terminal MIS_TARGETED_PAUSE"
  by (simp_all add: is_terminal_def TERMINAL_STATES_def)

text \<open>The states a monitor can leave, for case analyses on a state that is not terminal.\<close>

lemma nonterminal_cases:
  "\<not> is_terminal s \<longleftrightarrow>
     s \<in> {REGISTERING, DEFER_INTENT, PAUSING, ARMED, CLAIMED, ADMISSION_IN_PROGRESS,
          QUEUE_ACCEPTED, CANCEL_REQUESTED, CANCELLATION_IN_PROGRESS, ACTIVATING}"
  by (cases s) simp_all

section \<open>Numbers read from JSON\<close>

text \<open>\<open>int(x)\<close> of a float truncates towards zero.\<close>

definition trunc :: "rat \<Rightarrow> int" where
  "trunc r = (if r < 0 then \<lceil>r\<rceil> else \<lfloor>r\<rfloor>)"

fun digits_value :: "nat \<Rightarrow> string \<Rightarrow> nat option" where
  "digits_value acc [] = Some acc"
| "digits_value acc (c # cs) =
     (if is_digit c then digits_value (10 * acc + (code c - 48)) cs else None)"

text \<open>\<open>int(s)\<close> of an optionally signed run of decimal digits.\<close>

fun parse_int :: "string \<Rightarrow> int res" where
  "parse_int [] = Inl ValueError"
| "parse_int (c # cs) =
     (if c = CHR ''-'' \<and> cs \<noteq> [] then
        (case digits_value 0 cs of Some n \<Rightarrow> Inr (- int n) | None \<Rightarrow> Inl ValueError)
      else if c = CHR ''+'' \<and> cs \<noteq> [] then
        (case digits_value 0 cs of Some n \<Rightarrow> Inr (int n) | None \<Rightarrow> Inl ValueError)
      else
        (case digits_value 0 (c # cs) of Some n \<Rightarrow> Inr (int n) | None \<Rightarrow> Inl ValueError))"

fun py_int :: "json \<Rightarrow> int res" where
  "py_int (JInt i) = Inr i"
| "py_int (JBool b) = Inr (if b then 1 else 0)"
| "py_int (JFloat (Fin r)) = Inr (trunc r)"
| "py_int (JFloat NaN) = Inl ValueError"
| "py_int (JFloat _) = Inl OverflowError"
| "py_int (JStr s) = parse_int s"
| "py_int _ = Inl TypeError"

text \<open>
  \<open>float(x)\<close> of a number, which overflows from the midpoint above the largest binary64 number on;
  \<open>float\<close> of a string, which only a corrupt record would reach, is left unspecified.
\<close>

definition float_overflow :: "int \<Rightarrow> bool" where
  "float_overflow i \<longleftrightarrow> 2 ^ 1024 - 2 ^ 970 \<le> \<bar>i\<bar>"

fun py_float :: "json \<Rightarrow> pyfloat res" where
  "py_float (JInt i) = (if float_overflow i then Inl OverflowError else Inr (Fin (of_int i)))"
| "py_float (JBool b) = Inr (Fin (if b then 1 else 0))"
| "py_float (JFloat f) = Inr f"
| "py_float JNull = Inl TypeError"
| "py_float (JList _) = Inl TypeError"
| "py_float (JObj _) = Inl TypeError"

section \<open>Goal guards and target observations\<close>

record GoalMarker =
  created_at :: int
  objective :: string
  token_budget :: "int option"

definition optional_int :: "json \<Rightarrow> int option res" where
  "optional_int v = (if v = JNull then Inr None else bindE (py_int v) (\<lambda>i. Inr (Some i)))"

definition goal_from_wire :: "json \<Rightarrow> GoalMarker res" where
  "goal_from_wire goal =
     bindE (bindE (jindex ''createdAt'' goal) py_int) (\<lambda>c.
     bindE (jindex ''objective'' goal) (\<lambda>ob.
     bindE (optional_int (jget ''tokenBudget'' goal)) (\<lambda>t.
     Inr \<lparr>created_at = c, objective = py_str ob, token_budget = t\<rparr>)))"

definition goal_as_dict :: "GoalMarker \<Rightarrow> json" where
  "goal_as_dict g = JObj
     [(''created_at'', JInt (created_at g)), (''objective'', JStr (objective g)),
      (''token_budget'', case token_budget g of None \<Rightarrow> JNull | Some t \<Rightarrow> JInt t)]"

record TargetGuard =
  guard_thread_id :: string
  guard_goal :: GoalMarker

definition guard_as_dict :: "TargetGuard \<Rightarrow> json" where
  "guard_as_dict g = JObj
     [(''thread_id'', JStr (guard_thread_id g)), (''goal'', goal_as_dict (guard_goal g))]"

definition guard_from_dict :: "json \<Rightarrow> TargetGuard res" where
  "guard_from_dict v =
     bindE (jindex ''goal'' v) (\<lambda>goal.
     bindE (unlessE (\<not> is_obj goal) (ValidationError ''stored target guard has no goal marker'')) (\<lambda>_.
     bindE (jindex ''thread_id'' v) (\<lambda>tid.
     bindE (bindE (jindex ''created_at'' goal) py_int) (\<lambda>c.
     bindE (jindex ''objective'' goal) (\<lambda>ob.
     bindE (optional_int (jget ''token_budget'' goal)) (\<lambda>t.
     Inr \<lparr>guard_thread_id = py_str tid,
          guard_goal = \<lparr>created_at = c, objective = py_str ob, token_budget = t\<rparr>\<rparr>))))))"

record TargetObservation =
  obs_thread_id :: string
  runtime_status :: string
  is_loaded :: bool
  goal_status :: "string option"
  obs_goal :: "GoalMarker option"
  goal_snapshot :: json

definition matches_guard :: "TargetObservation \<Rightarrow> TargetGuard \<Rightarrow> bool" where
  "matches_guard ob g \<longleftrightarrow>
     obs_thread_id ob = guard_thread_id g \<and> is_loaded ob \<and>
     goal_status ob = Some ''paused'' \<and> obs_goal ob = Some (guard_goal g)"

definition activation_eligible :: "TargetObservation \<Rightarrow> TargetGuard \<Rightarrow> bool" where
  "activation_eligible ob g \<longleftrightarrow> runtime_status ob = ''idle'' \<and> matches_guard ob g"

text \<open>A guard stored in a row and read back is the guard: the row cannot retarget a monitor.\<close>

lemma guard_roundtrip: "guard_from_dict (guard_as_dict g) = Inr g"
  by (cases g; cases "guard_goal g"; cases "token_budget (guard_goal g)")
    (auto simp: guard_from_dict_def guard_as_dict_def goal_as_dict_def jindex_def jget_def
      optional_int_def)

section \<open>Evaluations and registration failures\<close>

record Evaluation =
  ev_value :: TriState
  ev_evidence :: json
  ev_witness :: "json list"
  ev_fatal :: bool

definition mk_eval :: "TriState \<Rightarrow> json \<Rightarrow> json list \<Rightarrow> bool \<Rightarrow> Evaluation" where
  "mk_eval v e w f = \<lparr>ev_value = v, ev_evidence = e, ev_witness = w, ev_fatal = f\<rparr>"

lemma mk_eval_sel [simp]:
  "ev_value (mk_eval v e w f) = v" "ev_evidence (mk_eval v e w f) = e"
  "ev_witness (mk_eval v e w f) = w" "ev_fatal (mk_eval v e w f) = f"
  by (simp_all add: mk_eval_def)

record PreArmRegistrationError =
  stage :: string
  error_kind :: string
  prearm_error :: string
  safe_to_retry :: bool
  retry_attempted :: bool
  required_capability :: "string option"
  budget_seconds :: "rat option"

definition prearm_as_dict :: "PreArmRegistrationError \<Rightarrow> json" where
  "prearm_as_dict e = JObj
     ([(''state'', JStr ''not_created''), (''monitor_created'', JBool False),
       (''stage'', JStr (stage e)),
       (''error'', JObj [(''kind'', JStr (error_kind e)), (''message'', JStr (prearm_error e))]),
       (''safe_to_retry'', JBool (safe_to_retry e)),
       (''retry_attempted'', JBool (retry_attempted e))]
      @ (case required_capability e of None \<Rightarrow> [] | Some c \<Rightarrow> [(''required_capability'', JStr c)])
      @ (case budget_seconds e of None \<Rightarrow> [] | Some b \<Rightarrow> [(''budget_seconds'', jnum b)]))"

end
