(* ===== verification/Terminal_Events.thy ===== *)
theory Terminal_Events
  imports Models
begin

text \<open>
  \<open>terminal_events.py\<close>: the validators that turn a producer's mapping into a bounded immutable
  event, heartbeat or reservation, the canonical text that is hashed, and the idempotency rules
  for rewrites. An exception is an \<open>Inl\<close>; its message is the source's without the interpolated
  parts. SHA-256 and the decimal text of a float are parameters (\<open>digest_env\<close>).
\<close>

record digest_env =
  sha256 :: "string \<Rightarrow> string"
  float_repr :: "pyfloat \<Rightarrow> string"

text \<open>A concrete instance for the examples: the identity in place of SHA-256.\<close>

definition plain_env :: digest_env where
  "plain_env = \<lparr>sha256 = (\<lambda>s. s), float_repr = (\<lambda>_. ''0.0'')\<rparr>"

lemma plain_env_sel [simp]: "sha256 plain_env s = s" "float_repr plain_env f = ''0.0''"
  by (simp_all add: plain_env_def)

definition MAX_EVENT_BYTES :: nat where "MAX_EVENT_BYTES = 64 * 1024"
definition MAX_STRING_BYTES :: nat where "MAX_STRING_BYTES = 4 * 1024"
definition MAX_PATH_REFERENCES :: nat where "MAX_PATH_REFERENCES = 64"
definition MAX_RESERVATION_TTL_SECONDS :: rat where
  "MAX_RESERVATION_TTL_SECONDS = 30 * 24 * 60 * 60"

lemmas budgets = MAX_EVENT_BYTES_def MAX_STRING_BYTES_def MAX_PATH_REFERENCES_def
  MAX_RESERVATION_TTL_SECONDS_def

datatype EventKind = COMMAND_TERMINAL | WORKER_TERMINAL
datatype ReservationState = RES_RESERVED | RES_BOUND | RES_TERMINAL | RES_CANCELLED | RES_EXPIRED
datatype CommandStatus = CMD_SUCCEEDED | CMD_FAILED | CMD_CANCELLED | CMD_SIGNALED
datatype WorkerOutcome =
    DELIVERED | COMPLETED | BLOCKED | WORKER_FAILED | WORKER_CANCELLED | SETTLEMENT_UNCERTAIN

fun kind_value :: "EventKind \<Rightarrow> string" where
  "kind_value COMMAND_TERMINAL = ''command_terminal''"
| "kind_value WORKER_TERMINAL = ''worker_terminal''"

fun kind_of :: "string \<Rightarrow> EventKind option" where
  "kind_of s =
     (if s = ''command_terminal'' then Some COMMAND_TERMINAL
      else if s = ''worker_terminal'' then Some WORKER_TERMINAL else None)"

declare kind_of.simps [simp del]

lemma kind_of_Some [simp]: "kind_of s = Some k \<longleftrightarrow> s = kind_value k"
  by (cases k) (auto simp: kind_of.simps)

lemma kind_of_values [simp]:
  "kind_of ''command_terminal'' = Some COMMAND_TERMINAL"
  "kind_of ''worker_terminal'' = Some WORKER_TERMINAL"
  by simp_all

fun reservation_state_value :: "ReservationState \<Rightarrow> string" where
  "reservation_state_value RES_RESERVED = ''reserved''"
| "reservation_state_value RES_BOUND = ''bound''"
| "reservation_state_value RES_TERMINAL = ''terminal''"
| "reservation_state_value RES_CANCELLED = ''cancelled''"
| "reservation_state_value RES_EXPIRED = ''expired''"

definition reservation_state_of :: "string \<Rightarrow> ReservationState option" where
  "reservation_state_of s =
     find (\<lambda>x. reservation_state_value x = s)
       [RES_RESERVED, RES_BOUND, RES_TERMINAL, RES_CANCELLED, RES_EXPIRED]"

fun status_value :: "CommandStatus \<Rightarrow> string" where
  "status_value CMD_SUCCEEDED = ''succeeded''"
| "status_value CMD_FAILED = ''failed''"
| "status_value CMD_CANCELLED = ''cancelled''"
| "status_value CMD_SIGNALED = ''signaled''"

definition status_of :: "string \<Rightarrow> CommandStatus option" where
  "status_of s =
     find (\<lambda>x. status_value x = s) [CMD_SUCCEEDED, CMD_FAILED, CMD_CANCELLED, CMD_SIGNALED]"

fun outcome_value :: "WorkerOutcome \<Rightarrow> string" where
  "outcome_value DELIVERED = ''delivered''"
| "outcome_value COMPLETED = ''completed''"
| "outcome_value BLOCKED = ''blocked''"
| "outcome_value WORKER_FAILED = ''failed''"
| "outcome_value WORKER_CANCELLED = ''cancelled''"
| "outcome_value SETTLEMENT_UNCERTAIN = ''settlement_uncertain''"

definition outcome_of :: "string \<Rightarrow> WorkerOutcome option" where
  "outcome_of s =
     find (\<lambda>x. outcome_value x = s)
       [DELIVERED, COMPLETED, BLOCKED, WORKER_FAILED, WORKER_CANCELLED, SETTLEMENT_UNCERTAIN]"

text \<open>The classifications of an unverifiable settlement are fixed strings.\<close>

definition uncertainty_of :: "string \<Rightarrow> string option" where
  "uncertainty_of s =
     (if s \<in> {''driver_rejected'', ''driver_unverifiable''} then Some s else None)"

lemma enum_roundtrips [simp]:
  "kind_of (kind_value k) = Some k" "status_of (status_value c) = Some c"
  "outcome_of (outcome_value w) = Some w" "reservation_state_of (reservation_state_value r) = Some r"
  by simp (cases c, simp_all add: status_of_def,
      cases w, simp_all add: outcome_of_def, cases r, simp_all add: reservation_state_of_def)

section \<open>Field validators\<close>

fun bounded_text :: "json \<Rightarrow> string \<Rightarrow> string res" where
  "bounded_text (JStr s) what =
     (if s = [] then raise_validation (what @ '' must be non-empty'')
      else if length s > MAX_STRING_BYTES then
        raise_validation (what @ '' exceeds the 4 KiB string budget'')
      else Inr s)"
| "bounded_text _ what = raise_validation (what @ '' must be a string'')"

fun finite_number :: "json \<Rightarrow> string \<Rightarrow> json res" where
  "finite_number (JInt i) what =
     (if float_overflow i then raise_validation (what @ '' must be a bounded finite number'')
      else Inr (JInt i))"
| "finite_number (JFloat (Fin r)) what = Inr (JFloat (Fin r))"
| "finite_number (JFloat _) what = raise_validation (what @ '' must be finite'')"
| "finite_number _ what = raise_validation (what @ '' must be a number'')"

text \<open>The same with \<open>integer=True\<close>.\<close>

definition finite_integer :: "json \<Rightarrow> string \<Rightarrow> int res" where
  "finite_integer v what =
     bindE (finite_number v what) (\<lambda>n.
       let r = the (finite_num n); i = trunc r in
       if of_int i \<noteq> r \<or> \<bar>i\<bar> > 2 ^ 63 - 1 then
         raise_validation (what @ '' must be a bounded integer'')
       else Inr i)"

definition positive_timestamp :: "json \<Rightarrow> string \<Rightarrow> rat res" where
  "positive_timestamp v what =
     bindE (finite_number v what) (\<lambda>n.
       let r = the (finite_num n) in
       if r \<le> 0 then raise_validation (what @ '' must be greater than zero'') else Inr r)"

definition host_time :: "json \<Rightarrow> rat res" where
  "host_time v =
     (if v = JNull then raise_validation ''host receive time must be provided''
      else positive_timestamp v ''host receive time'')"

datatype ptime = PTime rat | PText string

definition producer_time :: "json \<Rightarrow> ptime res" where
  "producer_time v =
     (if is_str v then bindE (bounded_text v ''producer timestamp'') (\<lambda>s. Inr (PText s))
      else bindE (positive_timestamp v ''producer timestamp'') (\<lambda>r. Inr (PTime r)))"

fun ptime_json :: "ptime \<Rightarrow> json" where
  "ptime_json (PTime r) = jnum r"
| "ptime_json (PText s) = JStr s"

fun enum_field :: "(string \<Rightarrow> 'e option) \<Rightarrow> json \<Rightarrow> string \<Rightarrow> 'e res" where
  "enum_field of_string (JStr s) what =
     (case of_string s of Some e \<Rightarrow> Inr e | None \<Rightarrow> raise_validation (''unknown '' @ what))"
| "enum_field of_string _ what = raise_validation (what @ '' must be one of the listed values'')"

text \<open>A field under one of several names: at most one of them may be used.\<close>

definition optional_alias :: "json \<Rightarrow> string list \<Rightarrow> string \<Rightarrow> json option \<Rightarrow> json res" where
  "optional_alias value names what dflt =
     (case filter (\<lambda>n. jhas n value) names of
        [] \<Rightarrow> (case dflt of None \<Rightarrow> raise_validation (''missing '' @ what) | Some d \<Rightarrow> Inr d)
      | [n] \<Rightarrow> Inr (jget n value)
      | _ \<Rightarrow> raise_validation (what @ '' must use exactly one field''))"

text \<open>
  \<open>re.sub(r"[^a-z0-9]", "", key.lower())\<close>. Besides the ASCII capitals, two characters have ASCII
  letters in their lower case: the Kelvin sign (bytes E2 84 AA) and the dotted capital I (C4 B0).
\<close>

fun key_lower :: "string \<Rightarrow> string" where
  "key_lower [] = []"
| "key_lower (c # cs) =
     (if c = CHR 0xE2 \<and> cs \<noteq> [] \<and> hd cs = CHR 0x84 \<and> tl cs \<noteq> [] \<and> hd (tl cs) = CHR 0xAA then
        CHR ''k'' # key_lower (tl (tl cs))
      else if c = CHR 0xC4 \<and> cs \<noteq> [] \<and> hd cs = CHR 0xB0 then CHR ''i'' # key_lower (tl cs)
      else ascii_lower c # key_lower cs)"

definition normalize_key :: "string \<Rightarrow> string" where
  "normalize_key k = filter (\<lambda>c. is_digit c \<or> 97 \<le> code c \<and> code c \<le> 122) (key_lower k)"

definition RAW_COMMAND_KEYS :: "string list" where
  "RAW_COMMAND_KEYS =
     [''args'', ''argv'', ''cmd'', ''command'', ''commandline'', ''commandlineargs'',
      ''rawcommand'', ''script'', ''shell'', ''shellcommand'']"

definition SECRET_KEYS :: "string list" where
  "SECRET_KEYS = [''token'', ''publishtoken'']"

definition forbidden_key :: "string \<Rightarrow> py_error option" where
  "forbidden_key k =
     (if normalize_key k \<in> set RAW_COMMAND_KEYS then
        Some (ValidationError ''raw command fields are forbidden'')
      else if normalize_key k \<in> set SECRET_KEYS then
        Some (ValidationError ''publish token fields are forbidden'')
      else None)"

function reject_raw_commands :: "json \<Rightarrow> unit res" where
  "reject_raw_commands v =
     (case v of
        JObj kvs \<Rightarrow>
          bindE (map_res (\<lambda>kv. case forbidden_key (fst kv) of
                                 Some e \<Rightarrow> Inl e
                               | None \<Rightarrow> reject_raw_commands (snd kv)) kvs) (\<lambda>_. Inr ())
      | JList xs \<Rightarrow> bindE (map_res reject_raw_commands xs) (\<lambda>_. Inr ())
      | _ \<Rightarrow> Inr ())"
  by pat_completeness auto
termination
  by (relation "measure size") (auto dest: json_size_entry json_size_item)

declare reject_raw_commands.simps [simp del]

lemma reject_raw_commands_simps [simp]:
  "reject_raw_commands JNull = Inr ()" "reject_raw_commands (JBool b) = Inr ()"
  "reject_raw_commands (JInt i) = Inr ()" "reject_raw_commands (JFloat f) = Inr ()"
  "reject_raw_commands (JStr s) = Inr ()"
  by (simp_all add: reject_raw_commands.simps)

section \<open>Canonical text and fingerprints\<close>

function canonical_value :: "json \<Rightarrow> json res" where
  "canonical_value v =
     (case v of
        JFloat f \<Rightarrow>
          (case f of Fin r \<Rightarrow> Inr v | _ \<Rightarrow> raise_validation ''payload numbers must be finite'')
      | JObj kvs \<Rightarrow>
          bindE (map_res (\<lambda>kv. bindE (canonical_value (snd kv)) (\<lambda>w. Inr (fst kv, w))) kvs)
            (\<lambda>kvs'. Inr (JObj (sort_key fst kvs')))
      | JList xs \<Rightarrow> bindE (map_res canonical_value xs) (\<lambda>ys. Inr (JList ys))
      | _ \<Rightarrow> Inr v)"
  by pat_completeness auto
termination
  by (relation "measure size") (auto dest: json_size_entry json_size_item)

declare canonical_value.simps [simp del]

definition hex_digit :: "nat \<Rightarrow> char" where
  "hex_digit n = (if n < 10 then char_of (48 + n) else char_of (87 + n))"

definition escape_char :: "char \<Rightarrow> string" where
  "escape_char c =
     (if c = CHR 0x22 then [CHR 0x5C, CHR 0x22]
      else if c = CHR 0x5C then [CHR 0x5C, CHR 0x5C]
      else if c = CHR 0x0A then CHR 0x5C # ''n''
      else if c = CHR 0x0D then CHR 0x5C # ''r''
      else if c = CHR 0x09 then CHR 0x5C # ''t''
      else if c = CHR 0x08 then CHR 0x5C # ''b''
      else if c = CHR 0x0C then CHR 0x5C # ''f''
      else if code c < 32 then
        CHR 0x5C # ''u00'' @ [hex_digit (code c div 16), hex_digit (code c mod 16)]
      else [c])"

definition dump_string :: "string \<Rightarrow> string" where
  "dump_string s = CHR 0x22 # concat (map escape_char s) @ [CHR 0x22]"

text \<open>\<open>json.dumps\<close> with compact separators and \<open>ensure_ascii=False\<close>, of a canonical value.\<close>

function dump_json :: "digest_env \<Rightarrow> json \<Rightarrow> string" where
  "dump_json E v =
     (case v of
        JNull \<Rightarrow> ''null''
      | JBool b \<Rightarrow> (if b then ''true'' else ''false'')
      | JInt i \<Rightarrow> show_int i
      | JFloat f \<Rightarrow> float_repr E f
      | JStr s \<Rightarrow> dump_string s
      | JList xs \<Rightarrow> CHR ''['' # join_with '','' (map (dump_json E) xs) @ '']''
      | JObj kvs \<Rightarrow>
          CHR ''{'' # join_with '',''
            (map (\<lambda>kv. dump_string (fst kv) @ '':'' @ dump_json E (snd kv)) kvs) @ ''}'')"
  by pat_completeness auto
termination
  by (relation "measure (size \<circ> snd)") (auto dest: json_size_entry json_size_item)

declare dump_json.simps [simp del]

definition canonical_json :: "digest_env \<Rightarrow> json \<Rightarrow> string res" where
  "canonical_json E v = bindE (canonical_value v) (\<lambda>w. Inr (dump_json E w))"

definition payload_fingerprint :: "digest_env \<Rightarrow> json \<Rightarrow> string res" where
  "payload_fingerprint E v = bindE (canonical_json E v) (\<lambda>t. Inr (sha256 E t))"

definition check_budget :: "digest_env \<Rightarrow> json \<Rightarrow> string \<Rightarrow> unit res" where
  "check_budget E v what =
     bindE (canonical_json E v) (\<lambda>t.
       if length t > MAX_EVENT_BYTES then
         raise_validation (what @ '' exceeds the 64 KiB JSON budget'')
       else Inr ())"

section \<open>Object IDs, digests and paths\<close>

definition full_oid :: "json \<Rightarrow> string \<Rightarrow> string res" where
  "full_oid v what =
     bindE (bounded_text v what) (\<lambda>t.
       if length t \<notin> {40, 64} \<or> \<not> list_all is_hex t then
         raise_validation (what @ '' must be one full commit object ID'')
       else Inr (map ascii_lower t))"

definition command_digest_field :: "json \<Rightarrow> string res" where
  "command_digest_field v =
     bindE (bounded_text v ''command digest'') (\<lambda>t.
       if length t \<noteq> 64 \<or> \<not> list_all is_hex t then
         raise_validation ''command digest must be a 64-character hexadecimal SHA-256''
       else Inr (map ascii_lower t))"

fun path_list :: "json \<Rightarrow> string \<Rightarrow> string list res" where
  "path_list JNull what = Inr []"
| "path_list (JList xs) what =
     (if length xs > MAX_PATH_REFERENCES then
        raise_validation (what @ '' exceeds the 64-path budget'')
      else map_res (\<lambda>x. bounded_text x (what @ '' entry'')) xs)"
| "path_list _ what = raise_validation (what @ '' must be a list'')"

text \<open>\<open>posixpath.normpath\<close> of an absolute path: two leading slashes survive, any other number is one.\<close>

fun norm_comps :: "string list \<Rightarrow> string list \<Rightarrow> string list" where
  "norm_comps acc [] = rev acc"
| "norm_comps acc (c # cs) =
     (if c = [] \<or> c = ''.'' then norm_comps acc cs
      else if c = ''..'' then norm_comps (tl acc) cs
      else norm_comps (c # acc) cs)"

definition normpath_abs :: "string \<Rightarrow> string" where
  "normpath_abs p =
     (if starts_with ''//'' p \<and> \<not> starts_with ''///'' p then ''//'' else ''/'')
     @ join_with ''/'' (norm_comps [] (split_on CHR ''/'' p))"

definition absolute_path :: "json \<Rightarrow> string \<Rightarrow> string res" where
  "absolute_path v what =
     bindE (bounded_text v what) (\<lambda>t.
       if CHR 0x00 \<in> set t \<or> \<not> starts_with ''/'' t then
         raise_validation (what @ '' must be an absolute path'')
       else if ''..'' \<in> set (split_on CHR ''/'' t) then
         raise_validation (what @ '' must not contain dot-dot'')
       else Inr (normpath_abs t))"

definition relative_prefix :: "json \<Rightarrow> string res" where
  "relative_prefix item =
     bindE (bounded_text item ''allowed path prefix'') (\<lambda>t.
       let parts = split_on CHR ''/'' t;
           canonical = join_with ''/'' (filter (\<lambda>p. p \<noteq> []) parts) in
       if starts_with ''/'' t \<or> starts_with ''-'' t \<or> CHR 0x00 \<in> set t \<or> CHR 0x5C \<in> set t then
         raise_validation ''allowed path prefix must be repository-relative''
       else if list_ex (\<lambda>p. p \<in> {''.'', ''..'', ''.git''}) parts then
         raise_validation ''allowed path prefix has unsafe components''
       else if canonical \<in> {'''', ''.'', ''..''} then
         raise_validation ''allowed path prefix cannot be unrestricted''
       else Inr canonical)"

fun relative_prefixes :: "json \<Rightarrow> string list res" where
  "relative_prefixes (JList xs) =
     (if xs = [] then raise_validation ''allowed path prefixes must be a non-empty list''
      else if length xs > MAX_PATH_REFERENCES then
        raise_validation ''allowed path prefixes exceed the 64-path budget''
      else bindE (map_res relative_prefix xs) (\<lambda>ps. Inr (sort (remdups ps))))"
| "relative_prefixes _ = raise_validation ''allowed path prefixes must be a non-empty list''"

end
