(* ===== verification/Events.thy ===== *)
theory Events
  imports Terminal_Events
begin

text \<open>
  The immutable values of \<open>terminal_events.py\<close>: command and worker terminal events, heartbeats and
  reservations, with \<open>__post_init__\<close> as the \<open>make_\<dots>\<close> functions (the checks in the source's order) and
  the \<open>normalize_\<dots>\<close> entry points that read a producer's mapping. \<open>dataclasses.replace\<close> runs
  \<open>__post_init__\<close> again, and so does the model.
\<close>

section \<open>Command events\<close>

datatype signal_id = SigNumber int | SigName string

record CommandTerminalEvent =
  cmd_status :: CommandStatus
  command_label :: string
  command_digest :: string
  exit_code :: "int option"
  cmd_signal :: "signal_id option"
  cmd_reason :: "string option"
  cmd_producer_timestamp :: "ptime option"
  log_paths :: "string list"
  artifact_paths :: "string list"
  cmd_host_received_at :: "rat option"

text \<open>\<open>None\<close> stays \<open>None\<close>; anything else is validated.\<close>

definition optionalE :: "(json \<Rightarrow> 'a res) \<Rightarrow> json \<Rightarrow> 'a option res" where
  "optionalE f v = (if v = JNull then Inr None else bindE (f v) (\<lambda>x. Inr (Some x)))"

definition exit_code_field :: "json \<Rightarrow> int res" where
  "exit_code_field v =
     bindE (finite_integer v ''exit code'') (\<lambda>c.
       if 0 \<le> c \<and> c \<le> 255 then Inr c
       else raise_validation ''exit code must be between 0 and 255'')"

fun signal_field :: "json \<Rightarrow> signal_id res" where
  "signal_field (JBool b) = raise_validation ''signal identity must not be boolean''"
| "signal_field (JInt i) =
     (if 1 \<le> i \<and> i \<le> 255 then Inr (SigNumber i)
      else raise_validation ''signal identity must be between 1 and 255'')"
| "signal_field v = bindE (bounded_text v ''signal identity'') (\<lambda>s. Inr (SigName s))"

fun signal_json :: "signal_id \<Rightarrow> json" where
  "signal_json (SigNumber i) = JInt i"
| "signal_json (SigName s) = JStr s"

text \<open>Which evidence goes with which status.\<close>

definition check_command_evidence ::
    "CommandStatus \<Rightarrow> int option \<Rightarrow> signal_id option \<Rightarrow> unit res" where
  "check_command_evidence st ec sg =
     (if st \<in> {CMD_SUCCEEDED, CMD_FAILED} then
        (if ec = None \<or> sg \<noteq> None then
           raise_validation ''succeeded and failed statuses require exit evidence only''
         else if st = CMD_SUCCEEDED \<and> ec \<noteq> Some 0 then
           raise_validation ''succeeded status requires exit code zero''
         else if st = CMD_FAILED \<and> ec = Some 0 then
           raise_validation ''failed status requires a nonzero exit code''
         else Inr ())
      else if st = CMD_SIGNALED then
        (if sg = None \<or> ec \<noteq> None then
           raise_validation ''signaled status requires signal evidence only'' else Inr ())
      else if ec \<noteq> None \<or> sg \<noteq> None then
        raise_validation ''cancelled status must not carry exit or signal evidence''
      else Inr ())"

definition opt_entry :: "string \<Rightarrow> ('a \<Rightarrow> json) \<Rightarrow> 'a option \<Rightarrow> (string \<times> json) list" where
  "opt_entry k f x = (case x of None \<Rightarrow> [] | Some a \<Rightarrow> [(k, f a)])"

definition list_entry :: "string \<Rightarrow> string list \<Rightarrow> (string \<times> json) list" where
  "list_entry k xs = (if xs = [] then [] else [(k, JList (map JStr xs))])"

definition command_semantic :: "CommandTerminalEvent \<Rightarrow> (string \<times> json) list" where
  "command_semantic ev =
     [(''kind'', JStr (kind_value COMMAND_TERMINAL)),
      (''status'', JStr (status_value (cmd_status ev))),
      (''command_label'', JStr (command_label ev)),
      (''command_digest'', JStr (command_digest ev)),
      (''lead_accepted'', JBool False)]
     @ opt_entry ''exit_code'' JInt (exit_code ev)
     @ opt_entry ''signal'' signal_json (cmd_signal ev)
     @ opt_entry ''reason'' JStr (cmd_reason ev)
     @ opt_entry ''producer_at'' ptime_json (cmd_producer_timestamp ev)
     @ list_entry ''log_paths'' (log_paths ev)
     @ list_entry ''artifact_paths'' (artifact_paths ev)"

definition make_command ::
    "digest_env \<Rightarrow> json \<Rightarrow> json \<Rightarrow> json \<Rightarrow> json \<Rightarrow> json \<Rightarrow> json \<Rightarrow> json \<Rightarrow> json \<Rightarrow> json \<Rightarrow> json
     \<Rightarrow> CommandTerminalEvent res" where
  "make_command E status label digest exit sig reason producer logs artifacts host =
     bindE (enum_field status_of status ''command status'') (\<lambda>st.
     bindE (bounded_text label ''command label'') (\<lambda>lb.
     bindE (command_digest_field digest) (\<lambda>dg.
     bindE (path_list logs ''log paths'') (\<lambda>lp.
     bindE (path_list artifacts ''artifact paths'') (\<lambda>ap.
     bindE (optionalE exit_code_field exit) (\<lambda>ec.
     bindE (optionalE signal_field sig) (\<lambda>sg.
     bindE (optionalE (\<lambda>v. bounded_text v ''command reason'') reason) (\<lambda>rs.
     bindE (optionalE producer_time producer) (\<lambda>pt.
     bindE (optionalE host_time host) (\<lambda>ht.
     bindE (check_command_evidence st ec sg) (\<lambda>_.
       let ev = \<lparr>cmd_status = st, command_label = lb, command_digest = dg, exit_code = ec,
                 cmd_signal = sg, cmd_reason = rs, cmd_producer_timestamp = pt, log_paths = lp,
                 artifact_paths = ap, cmd_host_received_at = ht\<rparr> in
       bindE (check_budget E (JObj (command_semantic ev)) ''event'') (\<lambda>_. Inr ev))))))))))))"

definition command_as_dict :: "CommandTerminalEvent \<Rightarrow> (string \<times> json) list" where
  "command_as_dict ev =
     command_semantic ev @ opt_entry ''host_received_at'' jnum (cmd_host_received_at ev)"

section \<open>Worker events\<close>

record WorkerTerminalEvent =
  wrk_outcome :: WorkerOutcome
  wrk_task_id :: string
  candidate_oid :: "string option"
  wrk_reason :: "string option"
  wrk_invocation_id :: "string option"
  result_ref :: "string option"
  wrk_producer_timestamp :: "ptime option"
  wrk_host_received_at :: "rat option"

text \<open>What an outcome may carry; the reason of an uncertain settlement is a fixed classification.\<close>

definition check_worker_outcome ::
    "WorkerOutcome \<Rightarrow> string option \<Rightarrow> string option \<Rightarrow> string option res" where
  "check_worker_outcome oc cand rs =
     (if oc = DELIVERED then
        (if cand = None then
           raise_validation ''delivered outcome requires exactly one full commit object ID''
         else Inr rs)
      else if oc = COMPLETED then
        (if cand \<noteq> None then
           raise_validation ''non-delivery outcome must not claim a candidate commit''
         else if rs \<noteq> None then raise_validation ''completed outcome must not carry a reason''
         else Inr rs)
      else
        (if cand \<noteq> None then
           raise_validation ''non-delivery outcome must not claim a candidate commit''
         else case rs of
             None \<Rightarrow> raise_validation ''non-delivery worker outcome requires a bounded reason''
           | Some r \<Rightarrow>
               (if oc = SETTLEMENT_UNCERTAIN then
                  bindE (enum_field uncertainty_of (JStr r)
                          ''settlement uncertainty fixed classification'') (\<lambda>c. Inr (Some c))
                else Inr (Some r))))"

definition worker_semantic :: "WorkerTerminalEvent \<Rightarrow> (string \<times> json) list" where
  "worker_semantic ev =
     [(''kind'', JStr (kind_value WORKER_TERMINAL)),
      (''outcome'', JStr (outcome_value (wrk_outcome ev))),
      (''producer_task_id'', JStr (wrk_task_id ev)),
      (''lead_accepted'', JBool False)]
     @ (if wrk_outcome ev \<in> {COMPLETED, SETTLEMENT_UNCERTAIN} then [(''task_success'', JBool False)]
        else [])
     @ opt_entry ''candidate_oid'' JStr (candidate_oid ev)
     @ opt_entry ''reason'' JStr (wrk_reason ev)
     @ opt_entry ''producer_invocation_id'' JStr (wrk_invocation_id ev)
     @ (case result_ref ev of
          None \<Rightarrow> []
        | Some r \<Rightarrow> [(''result_ref'', JStr r), (''result_ref_provenance'', JStr ''publisher_declared'')])
     @ opt_entry ''producer_at'' ptime_json (wrk_producer_timestamp ev)"

definition make_worker ::
    "digest_env \<Rightarrow> json \<Rightarrow> json \<Rightarrow> json \<Rightarrow> json \<Rightarrow> json \<Rightarrow> json \<Rightarrow> json \<Rightarrow> json
     \<Rightarrow> WorkerTerminalEvent res" where
  "make_worker E outcome task candidate reason invocation ref producer host =
     bindE (enum_field outcome_of outcome ''worker outcome'') (\<lambda>oc.
     bindE (bounded_text task ''producer task identity'') (\<lambda>tk.
     bindE (optionalE (\<lambda>v. full_oid v ''commit object ID'') candidate) (\<lambda>cd.
     bindE (optionalE (\<lambda>v. bounded_text v ''worker reason'') reason) (\<lambda>rs.
     bindE (optionalE (\<lambda>v. bounded_text v ''worker invocation identity'') invocation) (\<lambda>inv.
     bindE (optionalE (\<lambda>v. bounded_text v ''worker result reference'') ref) (\<lambda>rr.
     bindE (optionalE producer_time producer) (\<lambda>pt.
     bindE (optionalE host_time host) (\<lambda>ht.
     bindE (check_worker_outcome oc cd rs) (\<lambda>rs'.
       let ev = \<lparr>wrk_outcome = oc, wrk_task_id = tk, candidate_oid = cd, wrk_reason = rs',
                 wrk_invocation_id = inv, result_ref = rr, wrk_producer_timestamp = pt,
                 wrk_host_received_at = ht\<rparr> in
       bindE (check_budget E (JObj (worker_semantic ev)) ''event'') (\<lambda>_. Inr ev))))))))))"

definition worker_as_dict :: "WorkerTerminalEvent \<Rightarrow> (string \<times> json) list" where
  "worker_as_dict ev =
     worker_semantic ev @ opt_entry ''host_received_at'' jnum (wrk_host_received_at ev)"

section \<open>Reading a producer's mapping\<close>

definition event_keys :: "json \<Rightarrow> string list \<Rightarrow> unit res" where
  "event_keys v allowed =
     bindE (map_res (\<lambda>kv.
       if fst kv = ''host_received_at'' then
         raise_validation ''host receive time is stamped by the host''
       else if fst kv \<notin> set allowed then raise_validation ''unknown terminal event field''
       else Inr ()) (entries v)) (\<lambda>_. Inr ())"

definition command_event_keys :: "string list" where
  "command_event_keys =
     [''kind'', ''status'', ''command_label'', ''label'', ''operator_label'', ''command_digest'',
      ''digest'', ''exit_code'', ''signal'', ''reason'', ''producer_at'', ''producer_timestamp'',
      ''log_paths'', ''artifact_paths'']"

definition worker_event_keys :: "string list" where
  "worker_event_keys =
     [''kind'', ''outcome'', ''producer_task_id'', ''reason'', ''candidate_oid'',
      ''candidate_commit'', ''candidate_commit_oid'', ''producer_invocation_id'', ''result_ref'',
      ''result_ref_provenance'', ''producer_at'', ''producer_timestamp'']"

text \<open>The optional \<open>kind\<close> field must name the expected kind.\<close>

definition check_kind :: "json \<Rightarrow> EventKind \<Rightarrow> string \<Rightarrow> unit res" where
  "check_kind v k msg =
     (if jhas ''kind'' v then
        bindE (enum_field kind_of (jget ''kind'' v) ''event kind'') (\<lambda>k'.
          if k' \<noteq> k then raise_validation msg else Inr ())
      else Inr ())"

definition normalize_command_terminal ::
    "digest_env \<Rightarrow> json \<Rightarrow> json \<Rightarrow> CommandTerminalEvent res" where
  "normalize_command_terminal E v host =
     bindE (unlessE (\<not> is_obj v) (ValidationError ''command terminal event must be an object'')) (\<lambda>_.
     bindE (reject_raw_commands v) (\<lambda>_.
     bindE (event_keys v command_event_keys) (\<lambda>_.
     bindE (check_kind v COMMAND_TERMINAL ''command event has the wrong kind'') (\<lambda>_.
     bindE (optional_alias v [''command_label'', ''label'', ''operator_label''] ''command label'' None) (\<lambda>label.
     bindE (optional_alias v [''command_digest'', ''digest''] ''command digest'' None) (\<lambda>digest.
     bindE (optional_alias v [''producer_at'', ''producer_timestamp''] ''producer timestamp'' (Some JNull)) (\<lambda>pa.
       make_command E (jget ''status'' v) label digest (jget ''exit_code'' v) (jget ''signal'' v)
         (jget ''reason'' v) pa (jget ''log_paths'' v) (jget ''artifact_paths'' v) host)))))))"

definition normalize_worker_terminal ::
    "digest_env \<Rightarrow> json \<Rightarrow> json \<Rightarrow> WorkerTerminalEvent res" where
  "normalize_worker_terminal E v host =
     bindE (unlessE (\<not> is_obj v) (ValidationError ''worker terminal event must be an object'')) (\<lambda>_.
     bindE (reject_raw_commands v) (\<lambda>_.
     bindE (event_keys v worker_event_keys) (\<lambda>_.
       let provenance = jget ''result_ref_provenance'' v in
     bindE (unlessE (provenance \<noteq> JNull \<and> provenance \<noteq> JStr ''publisher_declared'')
       (ValidationError ''worker result reference provenance is invalid'')) (\<lambda>_.
     bindE (unlessE (provenance \<noteq> JNull \<and> jget ''result_ref'' v = JNull)
       (ValidationError ''worker result reference provenance requires a result reference'')) (\<lambda>_.
     bindE (check_kind v WORKER_TERMINAL ''worker event has the wrong kind'') (\<lambda>_.
     bindE (optional_alias v [''candidate_oid'', ''candidate_commit'', ''candidate_commit_oid'']
       ''candidate commit object ID'' (Some JNull)) (\<lambda>cand.
     bindE (optional_alias v [''producer_at'', ''producer_timestamp''] ''producer timestamp'' (Some JNull)) (\<lambda>pa.
       make_worker E (jget ''outcome'' v) (jget ''producer_task_id'' v) cand (jget ''reason'' v)
         (jget ''producer_invocation_id'' v) (jget ''result_ref'' v) pa host))))))))"

datatype TerminalEvent =
    CommandEvent CommandTerminalEvent
  | WorkerEvent WorkerTerminalEvent

fun event_kind :: "TerminalEvent \<Rightarrow> EventKind" where
  "event_kind (CommandEvent _) = COMMAND_TERMINAL"
| "event_kind (WorkerEvent _) = WORKER_TERMINAL"

fun event_semantic :: "TerminalEvent \<Rightarrow> json" where
  "event_semantic (CommandEvent c) = JObj (command_semantic c)"
| "event_semantic (WorkerEvent w) = JObj (worker_semantic w)"

fun event_as_dict :: "TerminalEvent \<Rightarrow> json" where
  "event_as_dict (CommandEvent c) = JObj (command_as_dict c)"
| "event_as_dict (WorkerEvent w) = JObj (worker_as_dict w)"

definition event_fingerprint :: "digest_env \<Rightarrow> TerminalEvent \<Rightarrow> string res" where
  "event_fingerprint E ev = payload_fingerprint E (event_semantic ev)"

text \<open>\<open>replace(value, host_received_at=\<dots>)\<close>: the event's own fields, validated again.\<close>

definition opt_json :: "('a \<Rightarrow> json) \<Rightarrow> 'a option \<Rightarrow> json" where
  "opt_json f x = (case x of None \<Rightarrow> JNull | Some a \<Rightarrow> f a)"

fun restamp_event :: "digest_env \<Rightarrow> TerminalEvent \<Rightarrow> json \<Rightarrow> TerminalEvent res" where
  "restamp_event E (CommandEvent c) host =
     (if host = JNull then Inr (CommandEvent c)
      else bindE (make_command E (JStr (status_value (cmd_status c))) (JStr (command_label c))
             (JStr (command_digest c)) (opt_json JInt (exit_code c))
             (opt_json signal_json (cmd_signal c)) (opt_json JStr (cmd_reason c))
             (opt_json ptime_json (cmd_producer_timestamp c)) (JList (map JStr (log_paths c)))
             (JList (map JStr (artifact_paths c))) host) (\<lambda>e. Inr (CommandEvent e)))"
| "restamp_event E (WorkerEvent w) host =
     (if host = JNull then Inr (WorkerEvent w)
      else bindE (make_worker E (JStr (outcome_value (wrk_outcome w))) (JStr (wrk_task_id w))
             (opt_json JStr (candidate_oid w)) (opt_json JStr (wrk_reason w))
             (opt_json JStr (wrk_invocation_id w)) (opt_json JStr (result_ref w))
             (opt_json ptime_json (wrk_producer_timestamp w)) host) (\<lambda>e. Inr (WorkerEvent e)))"

text \<open>A terminal event arrives as a validated value or as a mapping.\<close>

datatype event_input = EventValue TerminalEvent | EventMapping json

fun normalize_terminal_event ::
    "digest_env \<Rightarrow> event_input \<Rightarrow> EventKind option \<Rightarrow> json \<Rightarrow> TerminalEvent res" where
  "normalize_terminal_event E (EventValue ev) expected host =
     (if expected \<noteq> None \<and> expected \<noteq> Some (event_kind ev) then
        raise_validation ''terminal event kind does not match payload''
      else restamp_event E ev host)"
| "normalize_terminal_event E (EventMapping v) expected host =
     bindE (unlessE (\<not> is_obj v) (ValidationError ''terminal event must be an object'')) (\<lambda>_.
     bindE (if jget ''kind'' v \<noteq> JNull then
              bindE (enum_field kind_of (jget ''kind'' v) ''event kind'') (\<lambda>k. Inr (Some k))
            else Inr expected) (\<lambda>actual.
     case actual of
       None \<Rightarrow> raise_validation ''terminal event requires an event kind''
     | Some k \<Rightarrow>
         if expected \<noteq> None \<and> expected \<noteq> Some k then
           raise_validation ''terminal event kind does not match payload''
         else if k = COMMAND_TERMINAL then
           bindE (normalize_command_terminal E v host) (\<lambda>c. Inr (CommandEvent c))
         else bindE (normalize_worker_terminal E v host) (\<lambda>w. Inr (WorkerEvent w))))"

definition validate_terminal_rewrite ::
    "digest_env \<Rightarrow> event_input \<Rightarrow> event_input \<Rightarrow> TerminalEvent res" where
  "validate_terminal_rewrite E existing incoming =
     bindE (normalize_terminal_event E existing None JNull) (\<lambda>first.
     bindE (normalize_terminal_event E incoming (Some (event_kind first)) JNull) (\<lambda>second.
     bindE (event_fingerprint E first) (\<lambda>f1.
     bindE (event_fingerprint E second) (\<lambda>f2.
       if f1 = f2 then Inr first
       else raise_conflict ''terminal event is immutable; conflicting rewrite rejected''))))"

section \<open>Heartbeats\<close>

record Heartbeat =
  hb_sequence :: int
  hb_payload :: json
  hb_producer_timestamp :: "ptime option"
  hb_host_received_at :: "rat option"

definition heartbeat_semantic :: "Heartbeat \<Rightarrow> (string \<times> json) list" where
  "heartbeat_semantic h =
     [(''sequence'', JInt (hb_sequence h)), (''payload'', hb_payload h)]
     @ opt_entry ''producer_at'' ptime_json (hb_producer_timestamp h)"

definition heartbeat_as_dict :: "Heartbeat \<Rightarrow> (string \<times> json) list" where
  "heartbeat_as_dict h =
     heartbeat_semantic h @ opt_entry ''host_received_at'' jnum (hb_host_received_at h)"

definition heartbeat_fingerprint :: "digest_env \<Rightarrow> Heartbeat \<Rightarrow> string res" where
  "heartbeat_fingerprint E h = payload_fingerprint E (JObj (heartbeat_semantic h))"

function validate_all_strings :: "json \<Rightarrow> unit res" where
  "validate_all_strings v =
     (case v of
        JStr s \<Rightarrow> unlessE (length s > MAX_STRING_BYTES)
                    (ValidationError ''heartbeat string exceeds the 4 KiB string budget'')
      | JObj kvs \<Rightarrow>
          bindE (map_res (\<lambda>kv.
            bindE (unlessE (length (fst kv) > MAX_STRING_BYTES)
              (ValidationError ''heartbeat object key exceeds the 4 KiB string budget'')) (\<lambda>_.
            validate_all_strings (snd kv))) kvs) (\<lambda>_. Inr ())
      | JList xs \<Rightarrow> bindE (map_res validate_all_strings xs) (\<lambda>_. Inr ())
      | _ \<Rightarrow> Inr ())"
  by pat_completeness auto
termination
  by (relation "measure size") (auto dest: json_size_entry json_size_item)

declare validate_all_strings.simps [simp del]

definition make_heartbeat ::
    "digest_env \<Rightarrow> json \<Rightarrow> json \<Rightarrow> json \<Rightarrow> json \<Rightarrow> Heartbeat res" where
  "make_heartbeat E sequence payload producer host =
     bindE (finite_integer sequence ''heartbeat sequence'') (\<lambda>n.
     bindE (unlessE (n < 0) (ValidationError ''heartbeat sequence must be nonnegative'')) (\<lambda>_.
     bindE (unlessE (\<not> is_obj payload) (ValidationError ''heartbeat payload must be an object'')) (\<lambda>_.
     bindE (reject_raw_commands payload) (\<lambda>_.
     bindE (optionalE producer_time producer) (\<lambda>pt.
     bindE (optionalE host_time host) (\<lambda>ht.
       let h = \<lparr>hb_sequence = n, hb_payload = payload, hb_producer_timestamp = pt,
                hb_host_received_at = ht\<rparr>;
           semantic = JObj (heartbeat_semantic h) in
     bindE (validate_all_strings semantic) (\<lambda>_.
     bindE (check_budget E semantic ''heartbeat payload'') (\<lambda>_. Inr h))))))))"

definition normalize_heartbeat :: "digest_env \<Rightarrow> json \<Rightarrow> json \<Rightarrow> Heartbeat res" where
  "normalize_heartbeat E v host =
     bindE (unlessE (\<not> is_obj v) (ValidationError ''heartbeat must be an object'')) (\<lambda>_.
     bindE (event_keys v [''sequence'', ''payload'', ''producer_at'', ''producer_timestamp'']) (\<lambda>_.
     bindE (optional_alias v [''producer_at'', ''producer_timestamp''] ''producer timestamp'' (Some JNull)) (\<lambda>pa.
       make_heartbeat E (jget ''sequence'' v)
         (if jhas ''payload'' v then jget ''payload'' v else JObj []) pa host)))"

text \<open>The ordering rule of two validated heartbeats.\<close>

definition validate_heartbeat :: "digest_env \<Rightarrow> Heartbeat option \<Rightarrow> Heartbeat \<Rightarrow> Heartbeat res" where
  "validate_heartbeat E previous candidate =
     (case previous of
        None \<Rightarrow> Inr candidate
      | Some prior \<Rightarrow>
          if hb_sequence candidate > hb_sequence prior then Inr candidate
          else if hb_sequence candidate = hb_sequence prior
                \<and> heartbeat_fingerprint E candidate = heartbeat_fingerprint E prior then Inr prior
          else raise_conflict ''heartbeat sequence must advance; conflicting retry rejected'')"

section \<open>Reservations\<close>

record Reservation =
  rsv_kind :: EventKind
  reserved_at :: rat
  rsv_expires_at :: rat
  rsv_id :: "string option"
  rsv_idempotency_key :: "string option"
  producer_identity :: "string option"
  rsv_task_id :: "string option"
  repository :: "string option"
  worktree :: "string option"
  baseline_commit :: "string option"
  allowed_path_prefixes :: "string list"
  rsv_state :: ReservationState

definition reservation_semantic :: "Reservation \<Rightarrow> (string \<times> json) list" where
  "reservation_semantic r =
     [(''kind'', JStr (kind_value (rsv_kind r))), (''expires_at'', jnum (rsv_expires_at r))]
     @ opt_entry ''idempotency_key'' JStr (rsv_idempotency_key r)
     @ opt_entry ''producer_identity'' JStr (producer_identity r)
     @ opt_entry ''producer_task_id'' JStr (rsv_task_id r)
     @ (if rsv_kind r = WORKER_TERMINAL \<and> repository r \<noteq> None then
          [(''repository'', opt_json JStr (repository r)),
           (''worktree'', opt_json JStr (worktree r)),
           (''baseline_commit'', opt_json JStr (baseline_commit r)),
           (''allowed_path_prefixes'', JList (map JStr (allowed_path_prefixes r)))]
        else [])"

text \<open>The delivery scope of a worker reservation is complete or absent, a command one has none.\<close>

definition delivery_scope ::
    "EventKind \<Rightarrow> string option \<Rightarrow> json \<Rightarrow> json \<Rightarrow> json \<Rightarrow> json
     \<Rightarrow> (string option \<times> string option \<times> string option \<times> string list) res" where
  "delivery_scope kind task repo wt base prefixes =
     (if kind = WORKER_TERMINAL then
        bindE (unlessE (task = None)
          (ValidationError ''worker reservation requires producer task identity'')) (\<lambda>_.
        if repo \<noteq> JNull \<or> wt \<noteq> JNull \<or> base \<noteq> JNull \<or> truthy prefixes then
          bindE (unlessE (repo = JNull \<or> wt = JNull \<or> base = JNull)
            (ValidationError ''worker delivery scope must be complete or absent'')) (\<lambda>_.
          bindE (absolute_path repo ''repository'') (\<lambda>rp.
          bindE (absolute_path wt ''worktree'') (\<lambda>w.
          bindE (full_oid base ''baseline commit'') (\<lambda>bc.
          bindE (relative_prefixes prefixes) (\<lambda>ps. Inr (Some rp, Some w, Some bc, ps))))))
        else Inr (None, None, None, []))
      else
        bindE (unlessE (repo \<noteq> JNull \<or> wt \<noteq> JNull \<or> base \<noteq> JNull \<or> truthy prefixes)
          (ValidationError ''command reservation must not carry worker delivery scope'')) (\<lambda>_.
        Inr (None, None, None, [])))"

definition make_reservation ::
    "digest_env \<Rightarrow> EventKind \<Rightarrow> json \<Rightarrow> json \<Rightarrow> json \<Rightarrow> json \<Rightarrow> json \<Rightarrow> json \<Rightarrow> json \<Rightarrow> json
     \<Rightarrow> json \<Rightarrow> json \<Rightarrow> json \<Rightarrow> Reservation res" where
  "make_reservation E kind reserved expires rid ikey producer task repo wt base prefixes state =
     bindE (enum_field reservation_state_of state ''reservation state'') (\<lambda>st.
     bindE (host_time reserved) (\<lambda>ra.
     bindE (positive_timestamp expires ''reservation expiry'') (\<lambda>ex.
     bindE (unlessE (ex \<le> ra) (ValidationError ''reservation expiry must be in the future'')) (\<lambda>_.
     bindE (unlessE (ex > ra + MAX_RESERVATION_TTL_SECONDS)
       (ValidationError ''reservation expiry exceeds the bounded lifetime'')) (\<lambda>_.
     bindE (optionalE (\<lambda>v. bounded_text v ''reservation ID'') rid) (\<lambda>i.
     bindE (optionalE (\<lambda>v. bounded_text v ''idempotency key'') ikey) (\<lambda>ik.
     bindE (optionalE (\<lambda>v. bounded_text v ''producer identity'') producer) (\<lambda>pi.
     bindE (optionalE (\<lambda>v. bounded_text v ''producer task identity'') task) (\<lambda>tk.
     bindE (delivery_scope kind tk repo wt base prefixes) (\<lambda>(rp, w, bc, ps).
       let r = \<lparr>rsv_kind = kind, reserved_at = ra, rsv_expires_at = ex, rsv_id = i,
                rsv_idempotency_key = ik, producer_identity = pi, rsv_task_id = tk,
                repository = rp, worktree = w, baseline_commit = bc, allowed_path_prefixes = ps,
                rsv_state = st\<rparr> in
       bindE (check_budget E (JObj (reservation_semantic r)) ''reservation payload'') (\<lambda>_. Inr r)))))))))))"

definition monitor_condition :: "Reservation \<Rightarrow> json res" where
  "monitor_condition r =
     (case rsv_id r of
        None \<Rightarrow> raise_validation ''monitor condition requires a reservation ID''
      | Some i \<Rightarrow> Inr (JObj [(''type'', JStr (kind_value (rsv_kind r))), (''reservation_id'', JStr i)]))"

definition reservation_keys :: "string list" where
  "reservation_keys =
     [''reservation_id'', ''kind'', ''event_kind'', ''expires_at'', ''expires_in_seconds'',
      ''idempotency_key'', ''producer_identity'', ''producer_id'', ''producer_task_id'',
      ''repository'', ''repository_root'', ''worktree'', ''worktree_root'', ''baseline_commit'',
      ''baseline_oid'', ''allowed_path_prefixes'', ''allowed_paths'', ''state'']"

text \<open>The expiry, absolute or relative to \<open>current\<close>, within the bounded lifetime.\<close>

definition reservation_expiry :: "json \<Rightarrow> rat \<Rightarrow> rat res" where
  "reservation_expiry v current =
     bindE (unlessE (jhas ''expires_at'' v \<and> jhas ''expires_in_seconds'' v)
       (ValidationError ''reservation must use expires_at or expires_in_seconds, not both'')) (\<lambda>_.
     bindE (if jhas ''expires_in_seconds'' v then
              bindE (finite_number (jget ''expires_in_seconds'' v) ''reservation lifetime'') (\<lambda>n.
                let d = the (finite_num n) in
                if d \<le> 0 \<or> d > MAX_RESERVATION_TTL_SECONDS then
                  raise_validation ''reservation lifetime is outside the bounded range''
                else Inr (current + d))
            else if \<not> jhas ''expires_at'' v then raise_validation ''missing reservation expiry''
            else positive_timestamp (jget ''expires_at'' v) ''reservation expiry'') (\<lambda>ex.
     bindE (unlessE (ex \<le> current) (ValidationError ''reservation expiry must be in the future'')) (\<lambda>_.
     bindE (unlessE (ex > current + MAX_RESERVATION_TTL_SECONDS)
       (ValidationError ''reservation expiry exceeds the bounded lifetime'')) (\<lambda>_. Inr ex))))"

definition normalize_reservation :: "digest_env \<Rightarrow> json \<Rightarrow> json \<Rightarrow> Reservation res" where
  "normalize_reservation E v now =
     bindE (unlessE (now = JNull) (ValidationError ''now is required to bound reservation expiry'')) (\<lambda>_.
     bindE (finite_number now ''current time'') (\<lambda>n.
       let current = the (finite_num n) in
     bindE (unlessE (\<not> is_obj v) (ValidationError ''reservation must be an object'')) (\<lambda>_.
     bindE (reject_raw_commands v) (\<lambda>_.
     bindE (unlessE (\<not> list_all (\<lambda>kv. fst kv \<in> set reservation_keys) (entries v))
       (ValidationError ''unknown reservation field'')) (\<lambda>_.
     bindE (bindE (optional_alias v [''kind'', ''event_kind''] ''event kind'' None)
             (\<lambda>k. enum_field kind_of k ''event kind'')) (\<lambda>kind.
     bindE (reservation_expiry v current) (\<lambda>ex.
     bindE (optional_alias v [''repository'', ''repository_root''] ''repository'' (Some JNull)) (\<lambda>repo.
     bindE (optional_alias v [''worktree'', ''worktree_root''] ''worktree'' (Some JNull)) (\<lambda>wt.
     bindE (optional_alias v [''baseline_commit'', ''baseline_oid''] ''baseline commit'' (Some JNull)) (\<lambda>base.
     bindE (optional_alias v [''allowed_path_prefixes'', ''allowed_paths''] ''allowed path prefixes''
       (Some (JList []))) (\<lambda>prefixes.
     bindE (optional_alias v [''producer_identity'', ''producer_id''] ''producer identity'' (Some JNull)) (\<lambda>producer.
       make_reservation E kind (jnum current) (jnum ex) (jget ''reservation_id'' v)
         (jget ''idempotency_key'' v) producer (jget ''producer_task_id'' v) repo wt base prefixes
         (if jhas ''state'' v then jget ''state'' v
          else JStr (reservation_state_value RES_RESERVED))))))))))))))"

end
