(* ===== verification/Event_Facts.thy ===== *)
theory Event_Facts
  imports Events
begin

text \<open>
  What the event validators guarantee: every accepted field is a fixed point of its validator
  (the interface \<open>field_codec\<close>, interpreted for each kind of field), so an accepted event is read
  back from its own dict unchanged; the canonical text does not depend on insertion order; and the
  bounds on reservations and heartbeats.
\<close>

section \<open>Fields read back from what they were stored as\<close>

locale field_codec =
  fixes parse :: "json \<Rightarrow> 'a res"
    and render :: "'a \<Rightarrow> json"
  assumes parse_render: "parse v = Inr x \<Longrightarrow> parse (render x) = Inr x"
    and render_not_None: "parse v = Inr x \<Longrightarrow> render x \<noteq> JNull"
begin

lemma optional_render: "optionalE parse v = Inr x \<Longrightarrow> optionalE parse (opt_json render x) = Inr x"
  by (auto simp: optionalE_def opt_json_def parse_render render_not_None
      split: if_splits option.splits)

lemma render_fixed: "parse v = Inr x \<Longrightarrow> parse (render x) = Inr x \<and> render x \<noteq> JNull"
  by (simp add: parse_render render_not_None)

end

lemma bounded_text_Inr:
  "bounded_text v what = Inr s \<longleftrightarrow> v = JStr s \<and> s \<noteq> [] \<and> length s \<le> MAX_STRING_BYTES"
  by (cases v) auto

lemma lower_hex_map: "list_all is_hex t \<Longrightarrow> list_all is_lower_hex (map ascii_lower t)"
  by (induction t) (simp_all add: ascii_lower_hex)

lemma is_hex_lower_map: "list_all is_hex t \<Longrightarrow> list_all is_hex (map ascii_lower t)"
  by (induction t) (simp_all add: ascii_lower_hex)

lemma full_oid_Inr:
  "full_oid v what = Inr s \<Longrightarrow> length s \<in> {40, 64} \<and> list_all is_lower_hex s"
  by (auto simp: full_oid_def split: if_splits dest!: lower_hex_map simp del: list.pred_map)

interpretation text_codec: field_codec "\<lambda>v. bounded_text v what" JStr for what
  by unfold_locales (auto simp: bounded_text_Inr)

interpretation oid_codec: field_codec "\<lambda>v. full_oid v what" JStr for what
  by unfold_locales
    (auto simp: full_oid_def bounded_text_Inr is_hex_lower_map comp_def split: if_splits)

interpretation digest_codec: field_codec command_digest_field JStr
  by unfold_locales
    (auto simp: command_digest_field_def bounded_text_Inr is_hex_lower_map comp_def split: if_splits)

lemma finite_number_Inr:
  "finite_number v what = Inr n \<longleftrightarrow>
     n = v \<and> (\<exists>r. finite_num v = Some r) \<and> (\<forall>i. v = JInt i \<longrightarrow> \<not> float_overflow i)"
  by (cases "(v, what)" rule: finite_number.cases) auto

lemma small_int_no_overflow: "\<bar>i\<bar> \<le> 2 ^ 63 \<Longrightarrow> \<not> float_overflow i"
  by (simp add: float_overflow_def)

lemma trunc_of_int [simp]: "trunc (of_int i) = i"
  by (simp add: trunc_def)

lemma finite_integer_bound: "finite_integer v what = Inr i \<Longrightarrow> \<bar>i\<bar> \<le> 2 ^ 63 - 1"
  by (auto simp: finite_integer_def Let_def split: if_splits)

lemma finite_integer_JInt: "\<bar>i\<bar> \<le> 2 ^ 63 - 1 \<Longrightarrow> finite_integer (JInt i) what = Inr i"
  using small_int_no_overflow [of i] by (simp add: finite_integer_def)

interpretation integer_codec: field_codec "\<lambda>v. finite_integer v what" JInt for what
  by unfold_locales (auto dest: finite_integer_bound intro: finite_integer_JInt)

interpretation exit_codec: field_codec exit_code_field JInt
  by unfold_locales
    (auto simp: exit_code_field_def finite_integer_JInt split: if_splits)

interpretation signal_codec: field_codec signal_field signal_json
proof unfold_locales
  fix v x
  assume "signal_field v = Inr x"
  then show "signal_field (signal_json x) = Inr x" "signal_json x \<noteq> JNull"
    by (cases v; auto split: if_splits)+
qed

lemma positive_timestamp_jnum:
  "positive_timestamp v what = Inr r \<Longrightarrow> positive_timestamp (jnum r) what' = Inr r"
  by (auto simp: positive_timestamp_def Let_def split: if_splits)

lemma positive_timestamp_pos: "positive_timestamp v what = Inr r \<Longrightarrow> 0 < r"
  by (auto simp: positive_timestamp_def Let_def split: if_splits)

interpretation host_codec: field_codec host_time jnum
  by unfold_locales (auto simp: host_time_def intro: positive_timestamp_jnum split: if_splits)

interpretation producer_codec: field_codec producer_time ptime_json
  by unfold_locales
    (auto simp: producer_time_def bounded_text_Inr intro: positive_timestamp_jnum split: if_splits)

lemma path_list_Inr:
  assumes "path_list v what = Inr ps"
  shows "length ps \<le> MAX_PATH_REFERENCES \<and> (\<forall>p \<in> set ps. p \<noteq> [] \<and> length p \<le> MAX_STRING_BYTES)"
proof (cases "v = JNull")
  case True
  with assms show ?thesis by simp
next
  case False
  with assms obtain xs where xs: "length xs \<le> MAX_PATH_REFERENCES"
    "map_res (\<lambda>x. bounded_text x (what @ '' entry'')) xs = Inr ps"
    by (cases v) (auto simp: not_less split: if_splits)
  then show ?thesis
    by (auto simp: bounded_text_Inr dest: map_res_Inr_length map_res_Inr_set)
qed

interpretation paths_codec: field_codec "\<lambda>v. path_list v what" "\<lambda>ps. JList (map JStr ps)" for what
  by unfold_locales (auto dest!: path_list_Inr intro!: map_res_map)

text \<open>A list that is left out of the dict when it is empty reads back as empty.\<close>

lemma path_list_omitted:
  "path_list v what = Inr ps \<Longrightarrow>
     path_list (if ps = [] then JNull else JList (map JStr ps)) what = Inr ps"
  using paths_codec.parse_render by fastforce

lemma enum_field_Inr:
  "enum_field f v what = Inr e \<longleftrightarrow> (\<exists>s. v = JStr s \<and> f s = Some e)"
  by (cases v) (auto split: option.splits)

section \<open>An accepted event validates to itself\<close>

lemma make_command_fixed:
  assumes "make_command E st lb dg ec sg rs pt lp ap ht = Inr ev"
  shows "make_command E (JStr (status_value (cmd_status ev))) (JStr (command_label ev))
           (JStr (command_digest ev)) (opt_json JInt (exit_code ev))
           (opt_json signal_json (cmd_signal ev)) (opt_json JStr (cmd_reason ev))
           (opt_json ptime_json (cmd_producer_timestamp ev))
           (if log_paths ev = [] then JNull else JList (map JStr (log_paths ev)))
           (if artifact_paths ev = [] then JNull else JList (map JStr (artifact_paths ev)))
           (opt_json jnum (cmd_host_received_at ev)) = Inr ev"
    and "check_command_evidence (cmd_status ev) (exit_code ev) (cmd_signal ev) = Inr ()"
    and "bounded_text (JStr (command_label ev)) what = Inr (command_label ev)"
    and "command_digest_field (JStr (command_digest ev)) = Inr (command_digest ev)"
proof -
  from assms obtain v1 v2 v3 v4 v5 v6 v7 v8 v9 v10 where
    f: "enum_field status_of st ''command status'' = Inr v1"
    "bounded_text lb ''command label'' = Inr v2" "command_digest_field dg = Inr v3"
    "path_list lp ''log paths'' = Inr v4" "path_list ap ''artifact paths'' = Inr v5"
    "optionalE exit_code_field ec = Inr v6" "optionalE signal_field sg = Inr v7"
    "optionalE (\<lambda>v. bounded_text v ''command reason'') rs = Inr v8"
    "optionalE producer_time pt = Inr v9" "optionalE host_time ht = Inr v10"
    "check_command_evidence v1 v6 v7 = Inr ()"
    "check_budget E (JObj (command_semantic ev)) ''event'' = Inr ()"
    and ev: "ev = \<lparr>cmd_status = v1, command_label = v2, command_digest = v3, exit_code = v6,
                 cmd_signal = v7, cmd_reason = v8, cmd_producer_timestamp = v9, log_paths = v4,
                 artifact_paths = v5, cmd_host_received_at = v10\<rparr>"
    by (auto simp: make_command_def Let_def)
  note g = text_codec.parse_render [OF f(2)] digest_codec.parse_render [OF f(3)]
    path_list_omitted [OF f(4)] path_list_omitted [OF f(5)] exit_codec.optional_render [OF f(6)]
    signal_codec.optional_render [OF f(7)] text_codec.optional_render [OF f(8)]
    producer_codec.optional_render [OF f(9)] host_codec.optional_render [OF f(10)]
  show "make_command E (JStr (status_value (cmd_status ev))) (JStr (command_label ev))
           (JStr (command_digest ev)) (opt_json JInt (exit_code ev))
           (opt_json signal_json (cmd_signal ev)) (opt_json JStr (cmd_reason ev))
           (opt_json ptime_json (cmd_producer_timestamp ev))
           (if log_paths ev = [] then JNull else JList (map JStr (log_paths ev)))
           (if artifact_paths ev = [] then JNull else JList (map JStr (artifact_paths ev)))
           (opt_json jnum (cmd_host_received_at ev)) = Inr ev"
    using f(11,12) unfolding ev make_command_def
    by (simp only: CommandTerminalEvent.select_convs g enum_field.simps enum_roundtrips
        option.case bindE_simps Let_def)
  show "check_command_evidence (cmd_status ev) (exit_code ev) (cmd_signal ev) = Inr ()"
    using f(11) by (simp add: ev)
  show "bounded_text (JStr (command_label ev)) what = Inr (command_label ev)"
    using f(2) by (auto simp: ev bounded_text_Inr)
  show "command_digest_field (JStr (command_digest ev)) = Inr (command_digest ev)"
    using g(2) by (simp add: ev)
qed

lemma check_worker_outcome_fixed:
  "check_worker_outcome oc cd rs = Inr rs' \<Longrightarrow> rs' = rs \<and> check_worker_outcome oc cd rs' = Inr rs'"
  by (auto simp: check_worker_outcome_def enum_field_Inr uncertainty_of_def
      split: if_splits option.splits)

lemma make_worker_fixed:
  assumes "make_worker E oc tk cd rs iv rr pt ht = Inr ev"
  shows "make_worker E (JStr (outcome_value (wrk_outcome ev))) (JStr (wrk_task_id ev))
           (opt_json JStr (candidate_oid ev)) (opt_json JStr (wrk_reason ev))
           (opt_json JStr (wrk_invocation_id ev)) (opt_json JStr (result_ref ev))
           (opt_json ptime_json (wrk_producer_timestamp ev))
           (opt_json jnum (wrk_host_received_at ev)) = Inr ev"
    and "check_worker_outcome (wrk_outcome ev) (candidate_oid ev) (wrk_reason ev) = Inr (wrk_reason ev)"
proof -
  from assms obtain v1 v2 v3 v4 v5 v6 v7 v8 v9 where
    f: "enum_field outcome_of oc ''worker outcome'' = Inr v1"
    "bounded_text tk ''producer task identity'' = Inr v2"
    "optionalE (\<lambda>v. full_oid v ''commit object ID'') cd = Inr v3"
    "optionalE (\<lambda>v. bounded_text v ''worker reason'') rs = Inr v4"
    "optionalE (\<lambda>v. bounded_text v ''worker invocation identity'') iv = Inr v5"
    "optionalE (\<lambda>v. bounded_text v ''worker result reference'') rr = Inr v6"
    "optionalE producer_time pt = Inr v7" "optionalE host_time ht = Inr v8"
    "check_worker_outcome v1 v3 v4 = Inr v9"
    "check_budget E (JObj (worker_semantic ev)) ''event'' = Inr ()"
    and ev: "ev = \<lparr>wrk_outcome = v1, wrk_task_id = v2, candidate_oid = v3, wrk_reason = v9,
                 wrk_invocation_id = v5, result_ref = v6, wrk_producer_timestamp = v7,
                 wrk_host_received_at = v8\<rparr>"
    by (auto simp: make_worker_def Let_def)
  note w = check_worker_outcome_fixed [OF f(9)]
  note g = text_codec.parse_render [OF f(2)] oid_codec.optional_render [OF f(3)]
    text_codec.optional_render [OF f(4)] text_codec.optional_render [OF f(5)]
    text_codec.optional_render [OF f(6)] producer_codec.optional_render [OF f(7)]
    host_codec.optional_render [OF f(8)]
  show "make_worker E (JStr (outcome_value (wrk_outcome ev))) (JStr (wrk_task_id ev))
           (opt_json JStr (candidate_oid ev)) (opt_json JStr (wrk_reason ev))
           (opt_json JStr (wrk_invocation_id ev)) (opt_json JStr (result_ref ev))
           (opt_json ptime_json (wrk_producer_timestamp ev))
           (opt_json jnum (wrk_host_received_at ev)) = Inr ev"
    using f(9,10) unfolding ev w [THEN conjunct1] make_worker_def
    by (simp only: WorkerTerminalEvent.select_convs g enum_field.simps enum_roundtrips
        option.case bindE_simps Let_def)
  show "check_worker_outcome (wrk_outcome ev) (candidate_oid ev) (wrk_reason ev) = Inr (wrk_reason ev)"
    using w f(9) by (simp add: ev)
qed

end
