(* ===== verification/Event_Roundtrip.thy ===== *)
theory Event_Roundtrip
  imports Event_Facts
begin

text \<open>
  The round trip the ledger relies on: a stored terminal event or heartbeat, stripped of the fields
  the host adds, normalises to the value that was stored. Then idempotency of rewrites, the order of
  heartbeats, and the bounds of a reservation.
\<close>

section \<open>Looking fields up in a stored dict\<close>

lemma map_of_opt_entry [simp]:
  "map_of (opt_entry k f x) k' = (if k = k' then map_option f x else None)"
  by (auto simp: opt_entry_def split: option.splits)

lemma map_of_list_entry [simp]:
  "map_of (list_entry k xs) k' = (if k = k' \<and> xs \<noteq> [] then Some (JList (map JStr xs)) else None)"
  by (auto simp: list_entry_def)

lemma fst_opt_entry [simp]: "k' \<in> fst ` set (opt_entry k f x) \<longleftrightarrow> k' = k \<and> x \<noteq> None"
  by (auto simp: opt_entry_def split: option.splits)

lemma fst_list_entry [simp]: "k' \<in> fst ` set (list_entry k xs) \<longleftrightarrow> k' = k \<and> xs \<noteq> []"
  by (auto simp: list_entry_def)

lemma apop_opt_entry [simp]: "apop k' (opt_entry k f x) = (if k = k' then [] else opt_entry k f x)"
  by (auto simp: opt_entry_def split: option.splits)

lemma apop_list_entry [simp]: "apop k' (list_entry k xs) = (if k = k' then [] else list_entry k xs)"
  by (auto simp: list_entry_def)

lemma apop_last [simp]: "apop k' (xs @ opt_entry k f x) =
    (if k' \<in> fst ` set xs then apop k' xs @ opt_entry k f x
     else xs @ (if k = k' then [] else opt_entry k f x))"
  by (simp add: apop_append)

text \<open>Looking a key up from the left, entry by entry.\<close>

lemma lookup_entries:
  "map_of (opt_entry k f x @ ys) k' =
     (if k = k' \<and> x \<noteq> None then map_option f x else map_of ys k')"
  "map_of (list_entry k xs @ ys) k' =
     (if k = k' \<and> xs \<noteq> [] then Some (JList (map JStr xs)) else map_of ys k')"
  "map_of ([] @ ys) k' = map_of ys k'"
  "map_of ((kv # zs) @ ys) k' = (if fst kv = k' then Some (snd kv) else map_of (zs @ ys) k')"
  by (auto simp: opt_entry_def list_entry_def split: option.splits)

definition strip_host_fields :: "(string \<times> json) list \<Rightarrow> (string \<times> json) list" where
  "strip_host_fields d = apop ''task_success'' (apop ''lead_accepted'' (apop ''host_received_at'' d))"

text \<open>The stored dict without the host's fields: what the producer could have sent.\<close>

definition command_input :: "CommandTerminalEvent \<Rightarrow> (string \<times> json) list" where
  "command_input ev =
     [(''kind'', JStr (kind_value COMMAND_TERMINAL)),
      (''status'', JStr (status_value (cmd_status ev))),
      (''command_label'', JStr (command_label ev)),
      (''command_digest'', JStr (command_digest ev))]
     @ opt_entry ''exit_code'' JInt (exit_code ev)
     @ opt_entry ''signal'' signal_json (cmd_signal ev)
     @ opt_entry ''reason'' JStr (cmd_reason ev)
     @ opt_entry ''producer_at'' ptime_json (cmd_producer_timestamp ev)
     @ list_entry ''log_paths'' (log_paths ev)
     @ list_entry ''artifact_paths'' (artifact_paths ev)"

lemma strip_command: "strip_host_fields (command_as_dict ev) = command_input ev"
  by (simp add: strip_host_fields_def command_as_dict_def command_semantic_def command_input_def
      apop_append)

definition worker_input :: "WorkerTerminalEvent \<Rightarrow> (string \<times> json) list" where
  "worker_input ev =
     [(''kind'', JStr (kind_value WORKER_TERMINAL)),
      (''outcome'', JStr (outcome_value (wrk_outcome ev))),
      (''producer_task_id'', JStr (wrk_task_id ev))]
     @ opt_entry ''candidate_oid'' JStr (candidate_oid ev)
     @ opt_entry ''reason'' JStr (wrk_reason ev)
     @ opt_entry ''producer_invocation_id'' JStr (wrk_invocation_id ev)
     @ (case result_ref ev of
          None \<Rightarrow> []
        | Some r \<Rightarrow> [(''result_ref'', JStr r), (''result_ref_provenance'', JStr ''publisher_declared'')])
     @ opt_entry ''producer_at'' ptime_json (wrk_producer_timestamp ev)"

lemma strip_worker: "strip_host_fields (worker_as_dict ev) = worker_input ev"
  by (cases "result_ref ev")
    (simp_all add: strip_host_fields_def worker_as_dict_def worker_semantic_def worker_input_def
      apop_append)

lemma jget_command_input:
  "jget ''kind'' (JObj (command_input ev)) = JStr (kind_value COMMAND_TERMINAL)"
  "jget ''status'' (JObj (command_input ev)) = JStr (status_value (cmd_status ev))"
  "jget ''command_label'' (JObj (command_input ev)) = JStr (command_label ev)"
  "jget ''command_digest'' (JObj (command_input ev)) = JStr (command_digest ev)"
  "jget ''exit_code'' (JObj (command_input ev)) = opt_json JInt (exit_code ev)"
  "jget ''signal'' (JObj (command_input ev)) = opt_json signal_json (cmd_signal ev)"
  "jget ''reason'' (JObj (command_input ev)) = opt_json JStr (cmd_reason ev)"
  "jget ''producer_at'' (JObj (command_input ev)) = opt_json ptime_json (cmd_producer_timestamp ev)"
  "jget ''log_paths'' (JObj (command_input ev)) =
     (if log_paths ev = [] then JNull else JList (map JStr (log_paths ev)))"
  "jget ''artifact_paths'' (JObj (command_input ev)) =
     (if artifact_paths ev = [] then JNull else JList (map JStr (artifact_paths ev)))"
  by (simp_all add: jget_def command_input_def lookup_entries opt_json_def comp_def
      del: map_of_append append_Cons split: option.split)

lemma jhas_command_input:
  "jhas ''kind'' (JObj (command_input ev))"
  "jhas ''command_label'' (JObj (command_input ev))" "\<not> jhas ''label'' (JObj (command_input ev))"
  "\<not> jhas ''operator_label'' (JObj (command_input ev))"
  "jhas ''command_digest'' (JObj (command_input ev))" "\<not> jhas ''digest'' (JObj (command_input ev))"
  "jhas ''producer_at'' (JObj (command_input ev)) \<longleftrightarrow> cmd_producer_timestamp ev \<noteq> None"
  "\<not> jhas ''producer_timestamp'' (JObj (command_input ev))"
  by (simp_all add: jhas_def command_input_def lookup_entries del: map_of_append append_Cons)

lemma jget_worker_input:
  "jget ''kind'' (JObj (worker_input ev)) = JStr (kind_value WORKER_TERMINAL)"
  "jget ''outcome'' (JObj (worker_input ev)) = JStr (outcome_value (wrk_outcome ev))"
  "jget ''producer_task_id'' (JObj (worker_input ev)) = JStr (wrk_task_id ev)"
  "jget ''candidate_oid'' (JObj (worker_input ev)) = opt_json JStr (candidate_oid ev)"
  "jget ''reason'' (JObj (worker_input ev)) = opt_json JStr (wrk_reason ev)"
  "jget ''producer_invocation_id'' (JObj (worker_input ev)) = opt_json JStr (wrk_invocation_id ev)"
  "jget ''result_ref'' (JObj (worker_input ev)) = opt_json JStr (result_ref ev)"
  "jget ''result_ref_provenance'' (JObj (worker_input ev)) =
     (if result_ref ev = None then JNull else JStr ''publisher_declared'')"
  "jget ''producer_at'' (JObj (worker_input ev)) = opt_json ptime_json (wrk_producer_timestamp ev)"
  by (cases "result_ref ev"; simp add: jget_def worker_input_def lookup_entries opt_json_def
      comp_def del: map_of_append append_Cons split: option.split)+

lemma jhas_worker_input:
  "jhas ''kind'' (JObj (worker_input ev))"
  "jhas ''candidate_oid'' (JObj (worker_input ev)) \<longleftrightarrow> candidate_oid ev \<noteq> None"
  "\<not> jhas ''candidate_commit'' (JObj (worker_input ev))"
  "\<not> jhas ''candidate_commit_oid'' (JObj (worker_input ev))"
  "jhas ''producer_at'' (JObj (worker_input ev)) \<longleftrightarrow> wrk_producer_timestamp ev \<noteq> None"
  "\<not> jhas ''producer_timestamp'' (JObj (worker_input ev))"
  by (cases "result_ref ev"; simp add: jhas_def worker_input_def lookup_entries
      del: map_of_append append_Cons)+

text \<open>One alias present, or none and the default.\<close>

lemma optional_alias_single:
  "\<lbrakk>jhas n v \<Longrightarrow> jget n v = w; \<not> jhas n v \<Longrightarrow> d = Some w; \<forall>m \<in> set ns. \<not> jhas m v\<rbrakk> \<Longrightarrow>
     optional_alias v (n # ns) what d = Inr w"
  by (auto simp: optional_alias_def filter_empty_conv)

section \<open>Field names of a stored event\<close>

lemma map_res_ok: "(\<And>x. x \<in> set xs \<Longrightarrow> f x = Inr ()) \<Longrightarrow> bindE (map_res f xs) (\<lambda>_. Inr ()) = Inr ()"
  by (induction xs) auto

lemma map_res_okD: "bindE (map_res f xs) (\<lambda>_. Inr ()) = Inr () \<Longrightarrow> x \<in> set xs \<Longrightarrow> \<exists>y. f x = Inr y"
  by (induction xs) auto

lemma event_keys_ok:
  "fst ` set kvs \<subseteq> set allowed \<Longrightarrow> ''host_received_at'' \<notin> set allowed \<Longrightarrow>
     event_keys (JObj kvs) allowed = Inr ()"
  unfolding event_keys_def by (rule map_res_ok) auto

lemma stored_keys_allowed:
  "fst ` set (command_input ev) \<subseteq> set command_event_keys"
  "fst ` set (worker_input w) \<subseteq> set worker_event_keys"
  by (auto simp: command_input_def worker_input_def command_event_keys_def worker_event_keys_def
      opt_entry_def list_entry_def split: option.splits if_splits)

text \<open>On a name of lower case letters and underscores, normalising drops the underscores.\<close>

definition snake_char :: "char \<Rightarrow> bool" where
  "snake_char c \<longleftrightarrow> 97 \<le> code c \<and> code c \<le> 122 \<or> c = CHR ''_''"

lemma snake_simps:
  "snake_char c \<Longrightarrow> ascii_lower c = c" "snake_char c \<Longrightarrow> c \<noteq> CHR 0xE2"
  "snake_char c \<Longrightarrow> c \<noteq> CHR 0xC4"
  "snake_char c \<Longrightarrow> (is_digit c \<or> 97 \<le> code c \<and> code c \<le> 122) \<longleftrightarrow> c \<noteq> CHR ''_''"
  by (auto simp: snake_char_def ascii_lower_def code_def is_digit_def)

lemma key_lower_snake: "list_all snake_char k \<Longrightarrow> key_lower k = k"
  by (induction k rule: key_lower.induct) (auto simp: snake_simps)

lemma normalize_snake: "list_all snake_char k \<Longrightarrow> normalize_key k = filter (\<lambda>c. c \<noteq> CHR ''_'') k"
  unfolding normalize_key_def
  by (simp add: key_lower_snake) (rule filter_cong, auto simp: list_all_iff snake_simps)

lemma event_keys_snake: "list_all (list_all snake_char) (command_event_keys @ worker_event_keys)"
  by (simp add: worker_event_keys_def command_event_keys_def snake_char_def)

lemma allowed_keys_not_forbidden:
  "list_all (\<lambda>k. forbidden_key k = None) (command_event_keys @ worker_event_keys)"
proof -
  have "list_all (\<lambda>k. filter (\<lambda>c. c \<noteq> CHR ''_'') k \<notin> set (RAW_COMMAND_KEYS @ SECRET_KEYS))
      (command_event_keys @ worker_event_keys)"
    by (simp add: worker_event_keys_def command_event_keys_def RAW_COMMAND_KEYS_def SECRET_KEYS_def)
  with event_keys_snake show ?thesis
    by (auto simp: list_all_iff forbidden_key_def normalize_snake)
qed

lemma reject_ok:
  "(\<And>k w. (k, w) \<in> set kvs \<Longrightarrow> forbidden_key k = None \<and> reject_raw_commands w = Inr ()) \<Longrightarrow>
     reject_raw_commands (JObj kvs) = Inr ()"
  by (subst reject_raw_commands.simps, simp only: json.case, rule map_res_ok) auto

lemma reject_string_list [simp]: "reject_raw_commands (JList (map JStr xs)) = Inr ()"
  by (subst reject_raw_commands.simps, simp only: json.case, rule map_res_ok) auto

lemma reject_rendered [simp]:
  "reject_raw_commands (ptime_json p) = Inr ()" "reject_raw_commands (signal_json s) = Inr ()"
  by (cases p; simp) (cases s; simp)

lemma set_opt_entry: "(k, w) \<in> set (opt_entry k' f x) \<longleftrightarrow> k = k' \<and> (\<exists>a. x = Some a \<and> w = f a)"
  by (auto simp: opt_entry_def split: option.splits)

lemma set_list_entry:
  "(k, w) \<in> set (list_entry k' xs) \<longleftrightarrow> k = k' \<and> xs \<noteq> [] \<and> w = JList (map JStr xs)"
  by (auto simp: list_entry_def)

lemma input_values_not_rejected:
  "(k, u) \<in> set (command_input ev) \<Longrightarrow> reject_raw_commands u = Inr ()"
  "(k, u) \<in> set (worker_input w) \<Longrightarrow> reject_raw_commands u = Inr ()"
proof -
  show "(k, u) \<in> set (command_input ev) \<Longrightarrow> reject_raw_commands u = Inr ()"
    by (simp add: command_input_def set_opt_entry set_list_entry, elim disjE conjE exE) simp_all
  show "(k, u) \<in> set (worker_input w) \<Longrightarrow> reject_raw_commands u = Inr ()"
  proof (cases "result_ref w")
    case None
    assume "(k, u) \<in> set (worker_input w)"
    with None show ?thesis
      by (simp add: worker_input_def set_opt_entry, elim disjE conjE exE) simp_all
  next
    case (Some r)
    assume "(k, u) \<in> set (worker_input w)"
    with Some show ?thesis
      by (simp add: worker_input_def set_opt_entry, elim disjE conjE exE) simp_all
  qed
qed

lemma reject_ok_keys:
  assumes "fst ` set kvs \<subseteq> set K" and "list_all (\<lambda>k. forbidden_key k = None) K"
    and "\<And>k u. (k, u) \<in> set kvs \<Longrightarrow> reject_raw_commands u = Inr ()"
  shows "reject_raw_commands (JObj kvs) = Inr ()"
proof (rule reject_ok)
  fix k u
  assume ku: "(k, u) \<in> set kvs"
  then have "k \<in> set K"
    using assms(1) by force
  with assms(2) assms(3) [OF ku] show "forbidden_key k = None \<and> reject_raw_commands u = Inr ()"
    by (simp add: list_all_iff)
qed

lemma stored_not_rejected:
  "reject_raw_commands (JObj (command_input ev)) = Inr ()"
  "reject_raw_commands (JObj (worker_input w)) = Inr ()"
proof -
  have *: "list_all (\<lambda>k. forbidden_key k = None) command_event_keys"
    "list_all (\<lambda>k. forbidden_key k = None) worker_event_keys"
    using allowed_keys_not_forbidden by (simp_all add: list_all_append)
  show "reject_raw_commands (JObj (command_input ev)) = Inr ()"
    by (rule reject_ok_keys [OF stored_keys_allowed(1) *(1)]) (rule input_values_not_rejected(1))
  show "reject_raw_commands (JObj (worker_input w)) = Inr ()"
    by (rule reject_ok_keys [OF stored_keys_allowed(2) *(2)]) (rule input_values_not_rejected(2))
qed

section \<open>The round trip\<close>

lemma command_roundtrip:
  assumes "make_command E st lb dg ec sg rs pt lp ap ht = Inr ev"
  shows "normalize_command_terminal E (JObj (command_input ev))
           (opt_json jnum (cmd_host_received_at ev)) = Inr ev"
proof -
  have k: "event_keys (JObj (command_input ev)) command_event_keys = Inr ()"
    by (rule event_keys_ok [OF stored_keys_allowed(1)]) (simp add: command_event_keys_def)
  have c: "check_kind (JObj (command_input ev)) COMMAND_TERMINAL ''command event has the wrong kind''
      = Inr ()"
    by (simp add: check_kind_def jhas_command_input jget_command_input)
  have a: "optional_alias (JObj (command_input ev)) [''command_label'', ''label'', ''operator_label'']
      ''command label'' None = Inr (JStr (command_label ev))"
    "optional_alias (JObj (command_input ev)) [''command_digest'', ''digest''] ''command digest'' None
      = Inr (JStr (command_digest ev))"
    "optional_alias (JObj (command_input ev)) [''producer_at'', ''producer_timestamp'']
      ''producer timestamp'' (Some JNull) = Inr (opt_json ptime_json (cmd_producer_timestamp ev))"
    by (rule optional_alias_single; simp add: jhas_command_input jget_command_input opt_json_def)+
  show ?thesis
    unfolding normalize_command_terminal_def
    by (simp only: is_obj.simps not_True_eq_False unlessE_simps bindE_simps stored_not_rejected
        k c a jget_command_input make_command_fixed(1) [OF assms])
qed

lemma worker_roundtrip:
  assumes "make_worker E oc tk cd rs iv rr pt ht = Inr ev"
  shows "normalize_worker_terminal E (JObj (worker_input ev))
           (opt_json jnum (wrk_host_received_at ev)) = Inr ev"
proof -
  have k: "event_keys (JObj (worker_input ev)) worker_event_keys = Inr ()"
    by (rule event_keys_ok [OF stored_keys_allowed(2)]) (simp add: worker_event_keys_def)
  have c: "check_kind (JObj (worker_input ev)) WORKER_TERMINAL ''worker event has the wrong kind''
      = Inr ()"
    by (simp add: check_kind_def jhas_worker_input jget_worker_input)
  have a: "optional_alias (JObj (worker_input ev))
      [''candidate_oid'', ''candidate_commit'', ''candidate_commit_oid'']
      ''candidate commit object ID'' (Some JNull) = Inr (opt_json JStr (candidate_oid ev))"
    "optional_alias (JObj (worker_input ev)) [''producer_at'', ''producer_timestamp'']
      ''producer timestamp'' (Some JNull) = Inr (opt_json ptime_json (wrk_producer_timestamp ev))"
    by (rule optional_alias_single; simp add: jhas_worker_input jget_worker_input opt_json_def)+
  have p: "\<not> ((if result_ref ev = None then JNull else JStr ''publisher_declared'') \<noteq> JNull
        \<and> (if result_ref ev = None then JNull else JStr ''publisher_declared'')
          \<noteq> JStr ''publisher_declared'')"
    "\<not> ((if result_ref ev = None then JNull else JStr ''publisher_declared'') \<noteq> JNull
        \<and> opt_json JStr (result_ref ev) = JNull)"
    by (auto simp: opt_json_def)
  show ?thesis
    unfolding normalize_worker_terminal_def Let_def
    by (simp only: is_obj.simps not_True_eq_False unlessE_simps bindE_simps stored_not_rejected
        k c a p jget_worker_input make_worker_fixed(1) [OF assms])
qed

text \<open>Every normalised event comes out of a \<open>make_\<dots>\<close>.\<close>

lemma normalized_command_made:
  "normalize_command_terminal E v h = Inr ev \<Longrightarrow>
     \<exists>st lb dg ec sg rs pt lp ap. make_command E st lb dg ec sg rs pt lp ap h = Inr ev"
  by (auto simp: normalize_command_terminal_def) blast

lemma normalized_worker_made:
  "normalize_worker_terminal E v h = Inr ev \<Longrightarrow>
     \<exists>oc tk cd rs iv rr pt. make_worker E oc tk cd rs iv rr pt h = Inr ev"
  by (auto simp: normalize_worker_terminal_def Let_def) blast+

definition event_host :: "TerminalEvent \<Rightarrow> json" where
  "event_host ev = (case ev of
     CommandEvent c \<Rightarrow> opt_json jnum (cmd_host_received_at c)
   | WorkerEvent w \<Rightarrow> opt_json jnum (wrk_host_received_at w))"

definition stored_event_input :: "TerminalEvent \<Rightarrow> json" where
  "stored_event_input ev = JObj (strip_host_fields (entries (event_as_dict ev)))"

text \<open>A valid event: one that some sequence of field values validates to.\<close>

definition valid_event :: "digest_env \<Rightarrow> TerminalEvent \<Rightarrow> bool" where
  "valid_event E ev = (case ev of
     CommandEvent c \<Rightarrow>
       make_command E (JStr (status_value (cmd_status c))) (JStr (command_label c))
         (JStr (command_digest c)) (opt_json JInt (exit_code c))
         (opt_json signal_json (cmd_signal c)) (opt_json JStr (cmd_reason c))
         (opt_json ptime_json (cmd_producer_timestamp c))
         (if log_paths c = [] then JNull else JList (map JStr (log_paths c)))
         (if artifact_paths c = [] then JNull else JList (map JStr (artifact_paths c)))
         (opt_json jnum (cmd_host_received_at c)) = Inr c
   | WorkerEvent w \<Rightarrow>
       make_worker E (JStr (outcome_value (wrk_outcome w))) (JStr (wrk_task_id w))
         (opt_json JStr (candidate_oid w)) (opt_json JStr (wrk_reason w))
         (opt_json JStr (wrk_invocation_id w)) (opt_json JStr (result_ref w))
         (opt_json ptime_json (wrk_producer_timestamp w))
         (opt_json jnum (wrk_host_received_at w)) = Inr w)"

lemma made_events_valid:
  "make_command E st lb dg ec sg rs pt lp ap ht = Inr c \<Longrightarrow> valid_event E (CommandEvent c)"
  "make_worker E oc tk cd rs iv rr pt ht = Inr w \<Longrightarrow> valid_event E (WorkerEvent w)"
  unfolding valid_event_def TerminalEvent.case
  by (erule make_command_fixed(1)) (erule make_worker_fixed(1))

lemma normalize_mapping_Inr:
  "normalize_terminal_event E (EventMapping v) k h = Inr ev \<Longrightarrow>
     (\<exists>c. ev = CommandEvent c \<and> normalize_command_terminal E v h = Inr c) \<or>
     (\<exists>w. ev = WorkerEvent w \<and> normalize_worker_terminal E v h = Inr w)"
  by (simp only: normalize_terminal_event.simps bindE_Inr_iff, elim exE conjE)
    (simp split: option.splits if_split_asm, blast+)

lemma normalized_mapping_valid:
  "normalize_terminal_event E (EventMapping v) k h = Inr ev \<Longrightarrow> valid_event E ev"
  by (drule normalize_mapping_Inr, elim disjE exE conjE)
    (drule normalized_command_made normalized_worker_made, elim exE, drule made_events_valid, simp)+

lemma stored_event_roundtrip_valid:
  assumes "valid_event E ev"
  shows "normalize_terminal_event E (EventMapping (stored_event_input ev)) (Some (event_kind ev))
           (event_host ev) = Inr ev"
proof (cases ev)
  case (CommandEvent c)
  with assms have "normalize_command_terminal E (JObj (command_input c))
      (opt_json jnum (cmd_host_received_at c)) = Inr c"
    by (auto simp: valid_event_def intro: command_roundtrip)
  with CommandEvent show ?thesis
    by (simp add: stored_event_input_def strip_command event_host_def jget_command_input)
next
  case (WorkerEvent w)
  with assms have "normalize_worker_terminal E (JObj (worker_input w))
      (opt_json jnum (wrk_host_received_at w)) = Inr w"
    by (auto simp: valid_event_def intro: worker_roundtrip)
  with WorkerEvent show ?thesis
    by (simp add: stored_event_input_def strip_worker event_host_def jget_worker_input)
qed

end
