(* ===== verification/Event_Budget.thy ===== *)
theory Event_Budget
  imports Event_Roundtrip
begin

text \<open>
  The canonical text: canonicalising a value changes its key order only, so the text and its hash
  do not depend on insertion order, and its length is bounded by a sum over the value.
\<close>

lemma map_res_cases:
  "(\<exists>ys. map_res f xs = Inr ys) \<or> (\<exists>x \<in> set xs. \<exists>e. f x = Inl e \<and> map_res f xs = Inl e)"
  by (induction xs) (auto simp: bindE_def split: sum.splits)

lemma map_res_Inr_iff:
  "map_res f xs = Inr ys \<longleftrightarrow> list_all2 (\<lambda>x y. f x = Inr y) xs ys"
  by (induction xs arbitrary: ys) (auto simp: list_all2_Cons1)

lemma canonical_list:
  "canonical_value (JList xs) = bindE (map_res canonical_value xs) (\<lambda>ys. Inr (JList ys))"
  by (subst canonical_value.simps) simp

definition canonical_entry :: "string \<times> json \<Rightarrow> (string \<times> json) res" where
  "canonical_entry kv = bindE (canonical_value (snd kv)) (\<lambda>w. Inr (fst kv, w))"

lemma canonical_object:
  "canonical_value (JObj kvs) =
     bindE (map_res canonical_entry kvs) (\<lambda>kvs'. Inr (JObj (sort_key fst kvs')))"
  by (subst canonical_value.simps) (simp add: canonical_entry_def [abs_def])

text \<open>The only reason a value has no canonical form is a number that is not finite.\<close>

lemma canonical_value_error:
  "canonical_value v = Inl e \<Longrightarrow> e = ValidationError ''payload numbers must be finite''"
proof (induction v arbitrary: e rule: canonical_value.induct)
  case (1 v)
  show ?case
  proof (cases v)
    case (JFloat f)
    with "1.prems" show ?thesis
      by (cases f) (simp_all add: canonical_value.simps raise_validation_def)
  next
    case (JList xs)
    with "1.prems" obtain x where "x \<in> set xs" "canonical_value x = Inl e"
      using map_res_cases [of canonical_value xs]
      by (auto simp: canonical_list bindE_Inl_iff)
    then show ?thesis
      using "1.IH"(1) [OF JList] by blast
  next
    case (JObj kvs)
    with "1.prems" obtain kv where "kv \<in> set kvs" "canonical_value (snd kv) = Inl e"
      using map_res_cases [of canonical_entry kvs]
      by (fastforce simp: canonical_object bindE_Inl_iff canonical_entry_def)
    then show ?thesis
      using "1.IH"(2) [OF JObj] by blast
  qed (use "1.prems" in \<open>simp_all add: canonical_value.simps\<close>)
qed

lemma canonical_entry_fst: "canonical_entry kv = Inr kw \<Longrightarrow> fst kw = fst kv"
  by (auto simp: canonical_entry_def)

lemma map_res_entry_keys: "map_res canonical_entry kvs = Inr ys \<Longrightarrow> map fst ys = map fst kvs"
  by (induction kvs arbitrary: ys) (auto dest!: canonical_entry_fst)

lemma map_res_entry_set:
  "map_res canonical_entry kvs = Inr ys \<Longrightarrow>
     set ys = {kw. \<exists>kv \<in> set kvs. canonical_entry kv = Inr kw}"
  by (induction kvs arbitrary: ys) auto

lemma sort_key_fst_unique:
  assumes "distinct (map fst xs)" "distinct (map fst ys)" "set xs = set ys"
  shows "sort_key fst xs = sort_key fst (ys :: (string \<times> 'v) list)"
proof (rule map_sorted_distinct_set_unique [where f = fst])
  have *: "distinct (map fst (sort_key fst zs)) \<longleftrightarrow> distinct (map fst zs)"
    for zs :: "(string \<times> 'v) list"
    by (metis distinct_map distinct_sort set_sort)
  show "inj_on fst (set (sort_key fst xs) \<union> set (sort_key fst ys))"
    using assms by (simp add: distinct_map)
  show "distinct (map fst (sort_key fst xs))" "distinct (map fst (sort_key fst ys))"
    using assms * by blast+
qed (use assms in simp_all)

lemma canonical_object_order:
  assumes "distinct (map fst kvs)" "distinct (map fst lws)" "set kvs = set lws"
  shows "canonical_value (JObj kvs) = canonical_value (JObj lws)"
proof (cases "\<exists>kv \<in> set kvs. \<exists>e. canonical_entry kv = Inl e")
  case True
  have "canonical_value (JObj zs) = Inl (ValidationError ''payload numbers must be finite'')"
    if "set zs = set kvs" for zs
  proof -
    from True that have "\<not> (\<exists>ys. map_res canonical_entry zs = Inr ys)"
      by (auto simp: map_res_Inr_iff list_all2_conv_all_nth in_set_conv_nth)
        (metis in_set_conv_nth sum.distinct(1) that)
    then obtain e where "canonical_value (JObj zs) = Inl e"
      using map_res_cases [of canonical_entry zs] by (auto simp: canonical_object)
    then show ?thesis using canonical_value_error by blast
  qed
  with assms(3) show ?thesis by simp
next
  case False
  then obtain xs ys where *: "map_res canonical_entry kvs = Inr xs" "map_res canonical_entry lws = Inr ys"
    using map_res_cases [of canonical_entry kvs] map_res_cases [of canonical_entry lws] assms(3)
    by blast
  then have "sort_key fst xs = sort_key fst ys"
    using assms by (intro sort_key_fst_unique)
      (simp_all add: map_res_entry_keys map_res_entry_set)
  with * show ?thesis by (simp add: canonical_object)
qed

section \<open>A bound on the length of the text\<close>

lemma length_escape_char: "length (escape_char c) \<le> 6"
  by (simp add: escape_char_def)

lemma length_dump_string: "length (dump_string s) \<le> 6 * length s + 2"
proof -
  have "length (concat (map escape_char s)) \<le> 6 * length s"
    by (induction s) (auto intro: add_mono length_escape_char [THEN order_trans])
  then show ?thesis by (simp add: dump_string_def)
qed

lemma length_join_with: "length (join_with '','' xs) \<le> sum_list (map (\<lambda>x. length x + 1) xs)"
  by (induction "'',''" xs rule: join_with.induct) auto

function dump_bound :: "digest_env \<Rightarrow> json \<Rightarrow> nat" where
  "dump_bound E v =
     (case v of
        JNull \<Rightarrow> 4
      | JBool b \<Rightarrow> 5
      | JInt i \<Rightarrow> length (show_int i)
      | JFloat f \<Rightarrow> length (float_repr E f)
      | JStr s \<Rightarrow> 6 * length s + 2
      | JList xs \<Rightarrow> 2 + sum_list (map (\<lambda>x. dump_bound E x + 1) xs)
      | JObj kvs \<Rightarrow> 2 + sum_list (map (\<lambda>kv. 6 * length (fst kv) + dump_bound E (snd kv) + 4) kvs))"
  by pat_completeness auto
termination
  by (relation "measure (size \<circ> snd)") (auto dest: json_size_entry json_size_item)

declare dump_bound.simps [simp del]

lemma dump_bound_simps [simp]:
  "dump_bound E JNull = 4" "dump_bound E (JBool b) = 5"
  "dump_bound E (JInt i) = length (show_int i)"
  "dump_bound E (JFloat f) = length (float_repr E f)" "dump_bound E (JStr s) = 6 * length s + 2"
  "dump_bound E (JList xs) = 2 + sum_list (map (\<lambda>x. dump_bound E x + 1) xs)"
  "dump_bound E (JObj kvs) =
     2 + sum_list (map (\<lambda>kv. 6 * length (fst kv) + dump_bound E (snd kv) + 4) kvs)"
  by (simp_all add: dump_bound.simps)

lemma sum_list_mono2:
  "(\<And>x. x \<in> set xs \<Longrightarrow> f x \<le> (g x :: nat)) \<Longrightarrow> sum_list (map f xs) \<le> sum_list (map g xs)"
  by (rule sum_list_mono)

lemma dump_json_list [simp]:
  "dump_json E (JList xs) = ''['' @ join_with '','' (map (dump_json E) xs) @ '']''"
  by (subst dump_json.simps) simp

lemma dump_json_object [simp]:
  "dump_json E (JObj kvs) =
     ''{'' @ join_with '','' (map (\<lambda>kv. dump_string (fst kv) @ '':'' @ dump_json E (snd kv)) kvs) @ ''}''"
  by (subst dump_json.simps) simp

lemma length_dump_json: "length (dump_json E v) \<le> dump_bound E v"
proof (induction v rule: dump_json.induct)
  case (1 E v)
  show ?case
  proof (cases v)
    case (JBool b)
    then show ?thesis by (simp add: dump_json.simps)
  next
    case (JStr s)
    then show ?thesis using length_dump_string [of s] by (simp add: dump_json.simps)
  next
    case (JList xs)
    have "length (join_with '','' (map (dump_json E) xs)) \<le> sum_list (map (\<lambda>x. dump_bound E x + 1) xs)"
      by (rule order_trans [OF length_join_with])
        (auto simp: comp_def intro!: sum_list_mono2 "1.IH"(1) [OF JList])
    with JList show ?thesis by simp
  next
    case (JObj kvs)
    have "length (join_with '','' (map (\<lambda>kv. dump_string (fst kv) @ '':'' @ dump_json E (snd kv)) kvs))
        \<le> sum_list (map (\<lambda>kv. 6 * length (fst kv) + dump_bound E (snd kv) + 4) kvs)"
    proof (rule order_trans [OF length_join_with], unfold map_map comp_def, rule sum_list_mono2)
      fix kv
      assume "kv \<in> set kvs"
      then have "length (dump_json E (snd kv)) \<le> dump_bound E (snd kv)"
        by (rule "1.IH"(2) [OF JObj])
      moreover have "length (dump_string (fst kv)) \<le> 6 * length (fst kv) + 2"
        by (rule length_dump_string)
      ultimately show "length (dump_string (fst kv) @ '':'' @ dump_json E (snd kv)) + 1
          \<le> 6 * length (fst kv) + dump_bound E (snd kv) + 4"
        by simp
    qed
    with JObj show ?thesis by simp
  qed (simp_all add: dump_json.simps)
qed

lemma sum_list_sort_key: "sum_list (map f (sort_key g xs)) = (sum_list (map f xs) :: nat)"
proof -
  have insort: "sum_list (map f (insort_key g x ys)) = f x + (sum_list (map f ys) :: nat)" for x ys
    by (induction ys) simp_all
  show ?thesis
    by (induction xs) (simp_all add: insort)
qed

lemma map_res_bound:
  "map_res f xs = Inr ys \<Longrightarrow> (\<And>x y. x \<in> set xs \<Longrightarrow> f x = Inr y \<Longrightarrow> h y = (g x :: nat)) \<Longrightarrow>
     sum_list (map h ys) = sum_list (map g xs)"
  by (induction xs arbitrary: ys) auto

lemma dump_bound_canonical: "canonical_value v = Inr w \<Longrightarrow> dump_bound E w = dump_bound E v"
proof (induction v arbitrary: w rule: canonical_value.induct)
  case (1 v)
  show ?case
  proof (cases v)
    case (JFloat f)
    with "1.prems" show ?thesis
      by (cases f) (auto simp: canonical_value.simps)
  next
    case (JList xs)
    with "1.prems" obtain ys where ys: "map_res canonical_value xs = Inr ys" "w = JList ys"
      by (auto simp: canonical_list)
    have "sum_list (map (\<lambda>x. dump_bound E x + 1) ys) = sum_list (map (\<lambda>x. dump_bound E x + 1) xs)"
      by (rule map_res_bound [OF ys(1)]) (use "1.IH"(1) [OF JList] in simp)
    with ys JList show ?thesis by simp
  next
    case (JObj kvs)
    with "1.prems" obtain ys where ys: "map_res canonical_entry kvs = Inr ys"
      "w = JObj (sort_key fst ys)"
      by (auto simp: canonical_object)
    have "sum_list (map (\<lambda>kv. 6 * length (fst kv) + dump_bound E (snd kv) + 4) ys)
        = sum_list (map (\<lambda>kv. 6 * length (fst kv) + dump_bound E (snd kv) + 4) kvs)"
      by (rule map_res_bound [OF ys(1)]) (use "1.IH"(2) [OF JObj] in \<open>auto simp: canonical_entry_def\<close>)
    with ys JObj show ?thesis by (simp add: sum_list_sort_key)
  qed (use "1.prems" in \<open>auto simp: canonical_value.simps\<close>)
qed

text \<open>A value of strings, integers, booleans and finite numbers has a canonical form.\<close>

function all_finite :: "json \<Rightarrow> bool" where
  "all_finite v =
     (case v of
        JFloat f \<Rightarrow> (case f of Fin r \<Rightarrow> True | _ \<Rightarrow> False)
      | JList xs \<Rightarrow> list_all all_finite xs
      | JObj kvs \<Rightarrow> list_all (\<lambda>kv. all_finite (snd kv)) kvs
      | _ \<Rightarrow> True)"
  by pat_completeness auto
termination
  by (relation "measure size") (auto dest: json_size_entry json_size_item)

declare all_finite.simps [simp del]

lemma all_finite_simps [simp]:
  "all_finite JNull" "all_finite (JBool b)" "all_finite (JInt i)" "all_finite (JFloat (Fin r))"
  "all_finite (JStr s)" "all_finite (JList xs) = list_all all_finite xs"
  "all_finite (JObj kvs) = list_all (\<lambda>kv. all_finite (snd kv)) kvs"
  by (simp_all add: all_finite.simps)

lemma all_finite_canonical: "all_finite v \<Longrightarrow> \<exists>w. canonical_value v = Inr w"
proof (induction v rule: canonical_value.induct)
  case (1 v)
  show ?case
  proof (cases v)
    case (JFloat f)
    with "1.prems" show ?thesis
      by (cases f) (simp_all add: canonical_value.simps all_finite.simps)
  next
    case (JList xs)
    then have "\<exists>ys. map_res canonical_value xs = Inr ys"
      using map_res_cases [of canonical_value xs] "1.IH"(1) [OF JList] "1.prems"
      by (fastforce simp: list_all_iff)
    with JList show ?thesis by (auto simp: canonical_list)
  next
    case (JObj kvs)
    then have "\<exists>ys. map_res canonical_entry kvs = Inr ys"
      using map_res_cases [of canonical_entry kvs] "1.IH"(2) [OF JObj] "1.prems"
      by (fastforce simp: list_all_iff canonical_entry_def bindE_Inl_iff)
    with JObj show ?thesis by (auto simp: canonical_object)
  qed (simp_all add: canonical_value.simps)
qed

lemma check_budget_ok:
  assumes "all_finite v" "dump_bound E v \<le> MAX_EVENT_BYTES"
  shows "check_budget E v what = Inr ()"
proof -
  obtain w where w: "canonical_value v = Inr w"
    using all_finite_canonical [OF assms(1)] by blast
  then have "length (dump_json E w) \<le> MAX_EVENT_BYTES"
    using length_dump_json [of E w] dump_bound_canonical [OF w, of E] assms(2) by linarith
  with w show ?thesis
    by (simp add: check_budget_def canonical_json_def)
qed

end
