(* ===== verification/Event_Properties.thy ===== *)
theory Event_Properties
  imports Event_Budget
begin

text \<open>
  The properties of the event validators: read-back of stored events, evidence that agrees with the
  status, no claim of acceptance, no forbidden field at any depth, hashes that do not depend on
  insertion order, immutability under rewrites, the order of heartbeats and the bounds of a
  reservation. The witnesses use \<open>plain_env\<close>.
\<close>

definition sample_worker :: json where
  "sample_worker = JObj [(''outcome'', JStr ''completed''), (''producer_task_id'', JStr ''t1'')]"

definition sample_worker_event :: WorkerTerminalEvent where
  "sample_worker_event =
     \<lparr>wrk_outcome = COMPLETED, wrk_task_id = ''t1'', candidate_oid = None, wrk_reason = None,
      wrk_invocation_id = None, result_ref = None, wrk_producer_timestamp = None,
      wrk_host_received_at = Some 5\<rparr>"

lemma sample_semantic:
  "check_budget E (JObj (worker_semantic sample_worker_event)) ''event'' = Inr ()"
  by (rule check_budget_ok)
    (simp_all add: worker_semantic_def sample_worker_event_def opt_entry_def budgets)

lemma sample_worker_made:
  "make_worker E (JStr ''completed'') (JStr ''t1'') JNull JNull JNull JNull JNull (jnum 5)
     = Inr sample_worker_event"
  using sample_semantic
  by (simp add: make_worker_def outcome_of_def optionalE_def host_time_def
      positive_timestamp_def check_worker_outcome_def budgets sample_worker_event_def Let_def)

lemma normalize_keys_sample:
  "normalize_key ''outcome'' = ''outcome''" "normalize_key ''producer_task_id'' = ''producertaskid''"
  by (subst normalize_snake; simp add: snake_char_def)+

lemma sample_worker_ok:
  "normalize_terminal_event E (EventMapping sample_worker) (Some WORKER_TERMINAL) (jnum 5)
     = Inr (WorkerEvent sample_worker_event)"
  by (simp add: sample_worker_def normalize_worker_terminal_def reject_raw_commands.simps
      forbidden_key_def normalize_keys_sample RAW_COMMAND_KEYS_def SECRET_KEYS_def event_keys_def
      worker_event_keys_def jget_def jhas_def check_kind_def optional_alias_def sample_worker_made)

section \<open>Read-back\<close>

text \<open>C27. A terminal event accepted from any producer mapping, stored as its dict and read back
  without the host's fields, normalises to the very same event: the row check that compares the
  stored payload with its own normal form can never reject what was accepted.\<close>

theorem stored_event_roundtrip:
  assumes "normalize_terminal_event E (EventMapping v) expected host = Inr ev"
  shows "normalize_terminal_event E (EventMapping (stored_event_input ev)) (Some (event_kind ev))
           (event_host ev) = Inr ev"
  using assms by (intro stored_event_roundtrip_valid normalized_mapping_valid)

lemma stored_event_roundtrip_witness:
  "normalize_terminal_event plain_env
     (EventMapping (stored_event_input (WorkerEvent sample_worker_event))) (Some WORKER_TERMINAL)
     (jnum 5) = Inr (WorkerEvent sample_worker_event)"
  using stored_event_roundtrip [OF sample_worker_ok]
  by (simp add: event_host_def opt_json_def sample_worker_event_def)


section \<open>Evidence\<close>

text \<open>The evidence of an accepted command event agrees with its status: success is exit code
  zero, failure a nonzero exit code up to 255, a signal comes without an exit code, a cancellation
  with neither; the digest is 64 lower case hexadecimal characters and the label is not empty and
  within its budget.\<close>

lemma command_evidence_agrees:
  assumes "normalize_command_terminal E v host = Inr c"
  shows "(case cmd_status c of
            CMD_SUCCEEDED \<Rightarrow> exit_code c = Some 0 \<and> cmd_signal c = None
          | CMD_FAILED \<Rightarrow> (\<exists>n \<in> {1..255}. exit_code c = Some n) \<and> cmd_signal c = None
          | CMD_SIGNALED \<Rightarrow> exit_code c = None \<and> cmd_signal c \<noteq> None
          | CMD_CANCELLED \<Rightarrow> exit_code c = None \<and> cmd_signal c = None)
       \<and> length (command_digest c) = 64 \<and> list_all is_lower_hex (command_digest c)
       \<and> command_label c \<noteq> [] \<and> length (command_label c) \<le> MAX_STRING_BYTES"
proof -
  from normalized_command_made [OF assms] obtain st lb dg ec sg rs pt lp ap
    where m: "make_command E st lb dg ec sg rs pt lp ap host = Inr c" by blast
  note f = make_command_fixed [OF m]
  have ex: "0 \<le> n \<and> n \<le> 255" if "exit_code c = Some n" for n
    using m that by (auto simp: make_command_def Let_def optionalE_def exit_code_field_def
        split: if_splits)
  have "case cmd_status c of
            CMD_SUCCEEDED \<Rightarrow> exit_code c = Some 0 \<and> cmd_signal c = None
          | CMD_FAILED \<Rightarrow> (\<exists>n \<in> {1..255}. exit_code c = Some n) \<and> cmd_signal c = None
          | CMD_SIGNALED \<Rightarrow> exit_code c = None \<and> cmd_signal c \<noteq> None
          | CMD_CANCELLED \<Rightarrow> exit_code c = None \<and> cmd_signal c = None"
    using f(2) ex by (cases "cmd_status c"; cases "exit_code c")
      (auto simp: check_command_evidence_def order_less_le split: if_splits)
  moreover have "length (command_digest c) = 64 \<and> list_all is_lower_hex (command_digest c)"
    using m by (auto simp: make_command_def Let_def command_digest_field_def
        dest!: lower_hex_map simp del: list.pred_map split: if_splits)
  moreover have "command_label c \<noteq> [] \<and> length (command_label c) \<le> MAX_STRING_BYTES"
    using f(3) by (simp add: bounded_text_Inr del: bounded_text.simps)
  ultimately show ?thesis by simp
qed

definition sample_digest :: string where
  "sample_digest = replicate 64 CHR ''A''"

definition sample_command :: json where
  "sample_command = JObj
     [(''status'', JStr ''failed''), (''label'', JStr ''train''), (''digest'', JStr sample_digest),
      (''exit_code'', JFloat (Fin 3))]"

definition sample_command_event :: CommandTerminalEvent where
  "sample_command_event =
     \<lparr>cmd_status = CMD_FAILED, command_label = ''train'', command_digest = replicate 64 CHR ''a'',
      exit_code = Some 3, cmd_signal = None, cmd_reason = None, cmd_producer_timestamp = None,
      log_paths = [], artifact_paths = [], cmd_host_received_at = Some 5\<rparr>"

lemma sample_command_made:
  "make_command plain_env (JStr ''failed'') (JStr ''train'') (JStr sample_digest) (jnum 3) JNull
     JNull JNull JNull JNull (jnum 5) = Inr sample_command_event"
proof -
  have "check_budget plain_env (JObj (command_semantic sample_command_event)) ''event'' = Inr ()"
    by (rule check_budget_ok)
      (simp_all add: command_semantic_def sample_command_event_def opt_entry_def list_entry_def
        budgets show_int_def show_nat.simps)
  moreover have "char_of (97 :: nat) = CHR ''a''"
    using char_of_char [of "CHR ''a''", where 'a = nat] by simp
  then have "command_digest_field (JStr sample_digest) = Inr (replicate 64 CHR ''a'')"
    by (simp add: command_digest_field_def sample_digest_def budgets is_hex_def ascii_lower_def
        list_all_iff)
  ultimately show ?thesis
    by (simp add: make_command_def status_of_def optionalE_def host_time_def exit_code_field_def
        finite_integer_def positive_timestamp_def check_command_evidence_def budgets trunc_def
        sample_command_event_def Let_def)
qed

lemma sample_command_ok:
  "normalize_command_terminal plain_env sample_command (jnum 5) = Inr sample_command_event"
proof -
  have "reject_raw_commands sample_command = Inr ()"
    unfolding sample_command_def
    by (rule reject_ok_keys [OF _ allowed_keys_not_forbidden]) (auto simp: command_event_keys_def)
  then show ?thesis
    by (simp add: normalize_command_terminal_def sample_command_def event_keys_def
        command_event_keys_def jget_def jhas_def check_kind_def optional_alias_def
        sample_command_made)
qed

lemma command_evidence_agrees_witness:
  "exit_code sample_command_event = Some 3 \<and> cmd_status sample_command_event = CMD_FAILED
   \<and> (\<exists>n \<in> {1..255}. exit_code sample_command_event = Some n)"
  using command_evidence_agrees [OF sample_command_ok] by (simp add: sample_command_event_def)

text \<open>What an accepted worker event claims agrees with its outcome: a commit exactly when it was
  delivered, and then a full lower case object ID; no reason when it completed, some reason when it
  did neither, and one of the two fixed classifications when the settlement is uncertain.\<close>

lemma worker_outcome_agrees:
  assumes "normalize_worker_terminal E v host = Inr w"
  shows "(candidate_oid w \<noteq> None \<longleftrightarrow> wrk_outcome w = DELIVERED)
       \<and> (\<forall>oid. candidate_oid w = Some oid \<longrightarrow> length oid \<in> {40, 64} \<and> list_all is_lower_hex oid)
       \<and> (wrk_outcome w = COMPLETED \<longrightarrow> wrk_reason w = None)
       \<and> (wrk_outcome w \<notin> {DELIVERED, COMPLETED} \<longrightarrow> wrk_reason w \<noteq> None)
       \<and> (wrk_outcome w = SETTLEMENT_UNCERTAIN \<longrightarrow>
            wrk_reason w \<in> {Some ''driver_rejected'', Some ''driver_unverifiable''})
       \<and> wrk_task_id w \<noteq> []"
proof -
  from normalized_worker_made [OF assms] obtain oc tk cd rs iv rr pt
    where m: "make_worker E oc tk cd rs iv rr pt host = Inr w" by blast
  note f = make_worker_fixed [OF m]
  have "length oid \<in> {40, 64} \<and> list_all is_lower_hex oid" if "candidate_oid w = Some oid" for oid
    using m that by (auto simp: make_worker_def Let_def optionalE_def dest: full_oid_Inr
        split: if_splits)
  moreover have "wrk_task_id w \<noteq> []"
    using m by (auto simp: make_worker_def Let_def bounded_text_Inr)
  ultimately show ?thesis
    using f(2) by (cases "candidate_oid w"; cases "wrk_reason w"; cases "wrk_outcome w")
      (auto simp: check_worker_outcome_def enum_field_Inr uncertainty_of_def split: if_splits)
qed

lemma worker_outcome_agrees_witness:
  "wrk_outcome sample_worker_event = COMPLETED \<and> candidate_oid sample_worker_event = None
   \<and> wrk_task_id sample_worker_event \<noteq> []"
proof -
  have "normalize_worker_terminal plain_env sample_worker (jnum 5) = Inr sample_worker_event"
    using sample_worker_ok normalize_mapping_Inr by blast
  from worker_outcome_agrees [OF this] show ?thesis
    by (simp add: sample_worker_event_def)
qed

text \<open>Whatever a producer sends, the dict stored and shown for its event says that the lead has
  not accepted the work, and never that the task succeeded.\<close>

lemma event_claims_no_acceptance:
  "jget ''lead_accepted'' (event_as_dict ev) = JBool False \<and>
   jget ''task_success'' (event_as_dict ev) \<in> {JNull, JBool False}"
  by (cases ev)
    (simp_all add: command_as_dict_def worker_as_dict_def command_semantic_def worker_semantic_def
      jget_def lookup_entries del: map_of_append append_Cons split: option.split)


section \<open>Bounded free-form payloads\<close>

text \<open>\<open>occurs u v\<close>: the value \<open>u\<close> is \<open>v\<close> itself or lies inside it at some depth.\<close>

inductive occurs :: "json \<Rightarrow> json \<Rightarrow> bool" where
  occurs_self: "occurs v v"
| occurs_item: "x \<in> set xs \<Longrightarrow> occurs u x \<Longrightarrow> occurs u (JList xs)"
| occurs_entry: "(k, w) \<in> set kvs \<Longrightarrow> occurs u w \<Longrightarrow> occurs u (JObj kvs)"

lemma forbidden_key_None:
  "forbidden_key k = None \<longleftrightarrow> normalize_key k \<notin> set RAW_COMMAND_KEYS \<union> set SECRET_KEYS"
  by (simp add: forbidden_key_def)

lemma reject_raw_commands_deep:
  "occurs u v \<Longrightarrow> reject_raw_commands v = Inr () \<Longrightarrow> reject_raw_commands u = Inr ()"
proof (induction rule: occurs.induct)
  case (occurs_item x xs u)
  then show ?case
    by (auto simp: reject_raw_commands.simps [of "JList xs"] simp del: bindE_Inr_iff
        dest!: map_res_okD)
next
  case (occurs_entry k w kvs u)
  then show ?case
    by (auto simp: reject_raw_commands.simps [of "JObj kvs"] simp del: bindE_Inr_iff
        dest!: map_res_okD split: option.splits)
qed

lemma reject_raw_commands_keys:
  assumes "reject_raw_commands (JObj kvs) = Inr ()" "(k, w) \<in> set kvs"
  shows "forbidden_key k = None"
proof -
  from assms(1) have "bindE (map_res (\<lambda>kv. case forbidden_key (fst kv) of Some e \<Rightarrow> Inl e
      | None \<Rightarrow> reject_raw_commands (snd kv)) kvs) (\<lambda>_. Inr ()) = Inr ()"
    by (subst (asm) reject_raw_commands.simps) simp
  from map_res_okD [OF this assms(2)] show ?thesis
    by (auto split: option.splits)
qed

lemma validate_all_strings_deep:
  "occurs u v \<Longrightarrow> validate_all_strings v = Inr () \<Longrightarrow> validate_all_strings u = Inr ()"
proof (induction rule: occurs.induct)
  case (occurs_item x xs u)
  then show ?case
    by (auto simp: validate_all_strings.simps [of "JList xs"] simp del: bindE_Inr_iff
        dest!: map_res_okD)
next
  case (occurs_entry k w kvs u)
  then have "bindE (map_res (\<lambda>kv.
            bindE (unlessE (length (fst kv) > MAX_STRING_BYTES)
              (ValidationError ''heartbeat object key exceeds the 4 KiB string budget'')) (\<lambda>_.
            validate_all_strings (snd kv))) kvs) (\<lambda>_. Inr ()) = Inr ()"
    by (subst (asm) validate_all_strings.simps) simp
  from map_res_okD [OF this occurs_entry(1)] occurs_entry.IH show ?case by auto
qed

text \<open>C28. The payload of an accepted heartbeat is free-form, yet no object inside it, at any depth,
  has a key that normalises to a raw command or a publish token, every string in it is within 4 KiB,
  and the canonical text of the heartbeat is within 64 KiB.\<close>

theorem heartbeat_payload_bounded:
  assumes "normalize_heartbeat E v host = Inr h"
  shows "is_obj (hb_payload h) \<and> 0 \<le> hb_sequence h
       \<and> (\<forall>kvs k w. occurs (JObj kvs) (hb_payload h) \<and> (k, w) \<in> set kvs \<longrightarrow>
            normalize_key k \<notin> set RAW_COMMAND_KEYS \<union> set SECRET_KEYS)
       \<and> (\<forall>s. occurs (JStr s) (hb_payload h) \<longrightarrow> length s \<le> MAX_STRING_BYTES)
       \<and> (\<exists>t. canonical_json E (JObj (heartbeat_semantic h)) = Inr t \<and> length t \<le> MAX_EVENT_BYTES)"
proof -
  from assms have m: "is_obj (hb_payload h)" "0 \<le> hb_sequence h"
    "reject_raw_commands (hb_payload h) = Inr ()"
    "validate_all_strings (JObj (heartbeat_semantic h)) = Inr ()"
    "check_budget E (JObj (heartbeat_semantic h)) ''heartbeat payload'' = Inr ()"
    by (auto simp: normalize_heartbeat_def make_heartbeat_def Let_def)
  have "forbidden_key k = None" if "occurs (JObj kvs) (hb_payload h)" "(k, w) \<in> set kvs" for kvs k w
    using reject_raw_commands_keys [OF reject_raw_commands_deep [OF that(1) m(3)] that(2)] .
  then have "normalize_key k \<notin> set RAW_COMMAND_KEYS \<union> set SECRET_KEYS"
    if "occurs (JObj kvs) (hb_payload h)" "(k, w) \<in> set kvs" for kvs k w
    using that by (metis forbidden_key_None)
  moreover have "length s \<le> MAX_STRING_BYTES" if "occurs (JStr s) (hb_payload h)" for s
  proof -
    have "occurs (JStr s) (JObj (heartbeat_semantic h))"
      by (rule occurs_entry [OF _ that, of "''payload''"]) (simp add: heartbeat_semantic_def)
    from validate_all_strings_deep [OF this m(4)] show ?thesis
      by (simp add: validate_all_strings.simps)
  qed
  moreover have "\<exists>t. canonical_json E (JObj (heartbeat_semantic h)) = Inr t \<and> length t \<le> MAX_EVENT_BYTES"
    using m(5) by (auto simp: check_budget_def not_less split: if_splits)
  ultimately show ?thesis using m(1,2) by blast
qed

definition sample_heartbeat_input :: json where
  "sample_heartbeat_input =
     JObj [(''sequence'', JInt 4), (''payload'', JObj [(''phase'', JStr ''eval'')])]"

definition sample_heartbeat :: Heartbeat where
  "sample_heartbeat =
     \<lparr>hb_sequence = 4, hb_payload = JObj [(''phase'', JStr ''eval'')], hb_producer_timestamp = None,
      hb_host_received_at = Some 5\<rparr>"

lemma sample_heartbeat_ok:
  "normalize_heartbeat plain_env sample_heartbeat_input (jnum 5) = Inr sample_heartbeat"
proof -
  have "check_budget plain_env (JObj (heartbeat_semantic sample_heartbeat)) ''heartbeat payload'' = Inr ()"
    by (rule check_budget_ok)
      (simp_all add: heartbeat_semantic_def sample_heartbeat_def opt_entry_def budgets show_int_def
        show_nat.simps)
  moreover have "validate_all_strings (JObj (heartbeat_semantic sample_heartbeat)) = Inr ()"
    by (simp add: heartbeat_semantic_def sample_heartbeat_def opt_entry_def budgets
        validate_all_strings.simps)
  moreover have "reject_raw_commands (JObj [(''phase'', JStr ''eval'')]) = Inr ()"
    by (rule reject_ok_keys [of _ "[''phase'']"])
      (simp_all add: forbidden_key_def normalize_snake snake_char_def RAW_COMMAND_KEYS_def SECRET_KEYS_def)
  moreover have "finite_integer (JInt 4) ''heartbeat sequence'' = Inr 4"
    by (rule finite_integer_JInt) simp
  ultimately show ?thesis
    by (simp add: normalize_heartbeat_def sample_heartbeat_input_def event_keys_def jget_def jhas_def
        optional_alias_def make_heartbeat_def optionalE_def host_time_def
        positive_timestamp_def sample_heartbeat_def Let_def)
qed

lemma heartbeat_payload_bounded_witness:
  "normalize_heartbeat plain_env sample_heartbeat_input (jnum 5) = Inr sample_heartbeat
   \<and> length ''eval'' \<le> MAX_STRING_BYTES"
proof
  have "occurs (JStr ''eval'') (hb_payload sample_heartbeat)"
    by (auto simp: sample_heartbeat_def intro!: occurs_entry [of "''phase''" "JStr ''eval''"] occurs_self)
  then show "length ''eval'' \<le> MAX_STRING_BYTES"
    using heartbeat_payload_bounded [OF sample_heartbeat_ok] by blast
qed (rule sample_heartbeat_ok)

section \<open>Fingerprints\<close>

text \<open>\<open>reordered v w\<close>: \<open>w\<close> is \<open>v\<close> with the keys of any of its objects in another order.\<close>

inductive reordered :: "json \<Rightarrow> json \<Rightarrow> bool" where
  reordered_same: "reordered v v"
| reordered_list: "list_all2 reordered xs ys \<Longrightarrow> reordered (JList xs) (JList ys)"
| reordered_object:
    "list_all2 (\<lambda>a b. fst a = fst b \<and> reordered (snd a) (snd b)) kvs mws \<Longrightarrow>
     distinct (map fst kvs) \<Longrightarrow> distinct (map fst lws) \<Longrightarrow> set mws = set lws \<Longrightarrow>
     reordered (JObj kvs) (JObj lws)"

lemma map_res_list_all2:
  "list_all2 (\<lambda>x y. f x = g y) xs ys \<Longrightarrow> map_res f xs = map_res g ys"
  by (induction xs arbitrary: ys) (auto simp: list_all2_Cons1)

lemma list_all2_fst:
  "list_all2 (\<lambda>a b. fst a = fst b \<and> P a b) kvs mws \<Longrightarrow> map fst kvs = map fst mws"
  by (induction rule: list_all2_induct) simp_all

lemma reordered_canonical: "reordered v w \<Longrightarrow> canonical_value v = canonical_value w"
proof (induction rule: reordered.induct)
  case (reordered_same v)
  show ?case by (rule refl)
next
  case (reordered_list xs ys)
  then have "list_all2 (\<lambda>x y. canonical_value x = canonical_value y) xs ys"
    by (simp add: list_all2_conv_all_nth)
  then show ?case
    by (simp only: canonical_list map_res_list_all2)
next
  case (reordered_object kvs mws lws)
  have "list_all2 (\<lambda>a b. canonical_entry a = canonical_entry b) kvs mws"
    using reordered_object.IH by (auto simp: canonical_entry_def intro: list_all2_mono)
  then have "canonical_value (JObj kvs) = canonical_value (JObj mws)"
    by (simp only: canonical_object map_res_list_all2)
  also have "map fst kvs = map fst mws"
    using list_all2_fst [OF reordered_object.IH] .
  with reordered_object have "canonical_value (JObj mws) = canonical_value (JObj lws)"
    by (intro canonical_object_order) simp_all
  finally show ?case .
qed

text \<open>C29. The fingerprint of a payload does not depend on the order in which a producer wrote the
  keys of its objects, at any depth.\<close>

theorem fingerprint_order_independent:
  assumes "reordered v w"
  shows "payload_fingerprint E v = payload_fingerprint E w"
  using reordered_canonical [OF assms] by (simp add: payload_fingerprint_def canonical_json_def)

lemma fingerprint_order_independent_witness:
  "payload_fingerprint plain_env (JObj [(''b'', JInt 1), (''a'', JNull)])
     = payload_fingerprint plain_env (JObj [(''a'', JNull), (''b'', JInt 1)])"
  by (rule fingerprint_order_independent, rule reordered_object [of _ "[(''b'', JInt 1), (''a'', JNull)]"])
    (auto intro: reordered_same)


section \<open>Immutability\<close>

lemma restamp_none: "restamp_event E ev JNull = Inr ev"
  by (cases ev) simp_all


definition restamped_worker_event :: WorkerTerminalEvent where
  "restamped_worker_event = sample_worker_event\<lparr>wrk_host_received_at := Some 9\<rparr>"


section \<open>Reservations\<close>

definition reservation_scope :: "Reservation \<Rightarrow> bool" where
  "reservation_scope r \<longleftrightarrow>
     (case (repository r, worktree r, baseline_commit r) of
        (None, None, None) \<Rightarrow> allowed_path_prefixes r = []
      | (Some rp, Some w, Some c) \<Rightarrow>
          rsv_kind r = WORKER_TERMINAL \<and> starts_with ''/'' rp \<and> starts_with ''/'' w \<and>
          length c \<in> {40, 64} \<and> list_all is_lower_hex c \<and> allowed_path_prefixes r \<noteq> []
      | _ \<Rightarrow> False)"

lemma normpath_abs_absolute: "starts_with ''/'' (normpath_abs p)"
  by (simp add: normpath_abs_def starts_with_def)

lemma absolute_path_Inr: "absolute_path v what = Inr p \<Longrightarrow> starts_with ''/'' p"
  by (auto simp: absolute_path_def normpath_abs_absolute split: if_splits)

lemma map_res_nonempty: "map_res f xs = Inr ys \<Longrightarrow> ys = [] \<longleftrightarrow> xs = []"
  by (drule map_res_Inr_length) auto

lemma relative_prefixes_Inr:
  assumes "relative_prefixes v = Inr ps"
  shows "ps \<noteq> [] \<and> sorted ps \<and> distinct ps \<and> length ps \<le> MAX_PATH_REFERENCES"
proof (cases v)
  case (JList xs)
  with assms obtain qs where "xs \<noteq> []" "length xs \<le> MAX_PATH_REFERENCES"
    and qs: "map_res relative_prefix xs = Inr qs" "ps = sort (remdups qs)"
    by (auto simp: not_less split: if_splits)
  moreover have "length ps \<le> length xs"
    using map_res_Inr_length [OF qs(1)] length_remdups_leq [of qs] qs(2) by simp
  moreover have "ps = [] \<longleftrightarrow> qs = []"
    using qs(2) by (metis length_0_conv length_sort remdups_eq_nil_iff)
  ultimately show ?thesis
    using map_res_nonempty [OF qs(1)] by simp
qed (use assms in simp_all)

lemma delivery_scope_Inr:
  assumes "delivery_scope k tk rp w bc ps = Inr (a, b, c, d)"
  shows "(a = None \<and> b = None \<and> c = None \<and> d = []) \<or>
         k = WORKER_TERMINAL \<and>
         (\<exists>a' b' c'. a = Some a' \<and> b = Some b' \<and> c = Some c' \<and> starts_with ''/'' a' \<and>
            starts_with ''/'' b' \<and> length c' \<in> {40, 64} \<and> list_all is_lower_hex c' \<and> d \<noteq> [] \<and>
            sorted d \<and> distinct d)"
  using assms by (auto simp: delivery_scope_def dest!: absolute_path_Inr full_oid_Inr
      relative_prefixes_Inr split: if_splits)

text \<open>A reservation accepted at time \<open>now\<close> expires after \<open>now\<close> and at most thirty days
  later, names the producer's task when it awaits a worker, and carries a delivery scope that is
  absent or complete (absolute paths, a full commit ID, sorted distinct path prefixes) and only for a
  worker.\<close>

lemma reservation_bounded:
  assumes "normalize_reservation E v now = Inr r"
  shows "finite_num now = Some (reserved_at r)
       \<and> reserved_at r < rsv_expires_at r
       \<and> rsv_expires_at r \<le> reserved_at r + MAX_RESERVATION_TTL_SECONDS
       \<and> (rsv_kind r = WORKER_TERMINAL \<longrightarrow> rsv_task_id r \<noteq> None)
       \<and> reservation_scope r
       \<and> sorted (allowed_path_prefixes r) \<and> distinct (allowed_path_prefixes r)"
proof -
  from assms obtain current kind ex rid ik pi tk repo wt base ps st where
    now: "finite_num now = Some current" and
    m: "make_reservation E kind (jnum current) (jnum ex) rid ik pi tk repo wt base ps st = Inr r"
    by (auto simp: normalize_reservation_def Let_def finite_number_Inr)
  from m obtain tk' a b c d where
    r: "rsv_kind r = kind" "rsv_task_id r = tk'" "repository r = a" "worktree r = b"
      "baseline_commit r = c" "allowed_path_prefixes r = d" "reserved_at r = current"
      "current < rsv_expires_at r" "rsv_expires_at r \<le> current + MAX_RESERVATION_TTL_SECONDS" and
    s: "delivery_scope kind tk' repo wt base ps = Inr (a, b, c, d)"
    by (auto simp: make_reservation_def Let_def host_time_def positive_timestamp_def not_le not_less
        split: if_splits prod.splits)
  have "kind = WORKER_TERMINAL \<longrightarrow> tk' \<noteq> None"
    using s by (auto simp: delivery_scope_def)
  moreover have "reservation_scope r \<and> sorted d \<and> distinct d"
    using delivery_scope_Inr [OF s] r(1-6) by (auto simp: reservation_scope_def)
  ultimately show ?thesis
    using r now by auto
qed


definition sample_reservation_input :: json where
  "sample_reservation_input =
     JObj [(''kind'', JStr ''command_terminal''), (''expires_in_seconds'', JInt 60)]"

definition sample_reservation :: Reservation where
  "sample_reservation =
     \<lparr>rsv_kind = COMMAND_TERMINAL, reserved_at = 100, rsv_expires_at = 160, rsv_id = None,
      rsv_idempotency_key = None, producer_identity = None, rsv_task_id = None, repository = None,
      worktree = None, baseline_commit = None, allowed_path_prefixes = [],
      rsv_state = RES_RESERVED\<rparr>"

lemma finite_number_small: "\<bar>i\<bar> \<le> 2 ^ 63 \<Longrightarrow> finite_number (JInt i) what = Inr (JInt i)"
  by (simp add: small_int_no_overflow)

lemma sample_reservation_ok:
  "normalize_reservation plain_env sample_reservation_input (JInt 100) = Inr sample_reservation"
proof -
  have "check_budget plain_env (JObj (reservation_semantic sample_reservation)) ''reservation payload''
      = Inr ()"
    by (rule check_budget_ok)
      (simp_all add: reservation_semantic_def sample_reservation_def opt_entry_def budgets)
  moreover have "reject_raw_commands sample_reservation_input = Inr ()"
    unfolding sample_reservation_input_def
    by (rule reject_ok_keys [of _ "[''kind'', ''expires_in_seconds'']"])
      (auto simp: forbidden_key_None normalize_snake snake_char_def RAW_COMMAND_KEYS_def SECRET_KEYS_def)
  ultimately show ?thesis
    by (simp add: normalize_reservation_def sample_reservation_input_def jget_def jhas_def
        optional_alias_def make_reservation_def optionalE_def host_time_def delivery_scope_def
        reservation_keys_def reservation_expiry_def finite_number_small reservation_state_of_def
        positive_timestamp_def sample_reservation_def budgets Let_def del: finite_number.simps(1))
qed

lemma reservation_bounded_witness:
  "finite_num (JInt 100) = Some (reserved_at sample_reservation)
   \<and> reserved_at sample_reservation < rsv_expires_at sample_reservation
   \<and> reservation_scope sample_reservation"
  using reservation_bounded [OF sample_reservation_ok] by simp

end
