(* ===== verification/Host.thy ===== *)
theory Host
  imports Models
begin

text \<open>
  The boundary to the machine: clock, file system, processes, tmux, GPU and Git. Every answer is a
  function of the questions asked before it, so two questions with the same text may be answered
  differently, and the history of an operation is the list of what it asked the machine to do.

  An operation is a function from the history to an error or a result and the longer history.
\<close>

section \<open>Questions and answers\<close>

datatype query =
    Clock
  | GitCall "string list" "(string \<times> string) list"
  | GitScan "string list" "(string \<times> string) list"
  | Resolve string
  | PathIdentity string
  | StatFile string
  | ReadFile string nat nat
  | ReadBootId
  | ReadProcStat int
  | ProcExists int
  | TmuxRun "string list"
  | GpuQuery
  | ReadJson string
  | PathExists string

type_synonym history = "query list"

text \<open>A finished process, or \<open>OSError\<close> and a timeout as no answer.\<close>

datatype git_result = GitFailed | GitDone int string

text \<open>What a bounded scan reads from the pipes of Git, in order.\<close>

datatype scan_event = StdoutChunk string | StderrChunk string | ScanTimeout

datatype stat_result = StatMissing | StatFailed string | StatOk bool int int int

datatype proc_result = ProcMissing | ProcFailed | ProcOk string int

record host =
  clock :: "history \<Rightarrow> rat"
  environ :: "(string \<times> string) list"
  git_run :: "history \<Rightarrow> string list \<Rightarrow> (string \<times> string) list \<Rightarrow> git_result"
  git_scan :: "history \<Rightarrow> string list \<Rightarrow> (string \<times> string) list \<Rightarrow> scan_event list \<times> int"
  resolve_path :: "history \<Rightarrow> string \<Rightarrow> string option"
  path_identity :: "history \<Rightarrow> string \<Rightarrow> (int \<times> int) option"
  stat_file :: "history \<Rightarrow> string \<Rightarrow> stat_result"
  read_file :: "history \<Rightarrow> string \<Rightarrow> nat \<Rightarrow> nat \<Rightarrow> string + string"
  boot_id_text :: "history \<Rightarrow> string option"
  proc_stat :: "history \<Rightarrow> int \<Rightarrow> proc_result"
  proc_exists :: "history \<Rightarrow> int \<Rightarrow> bool"
  tmux_run :: "history \<Rightarrow> string list \<Rightarrow> string + (int \<times> string \<times> string)"
  gpu_query :: "history \<Rightarrow> string + (int \<times> pyfloat) list"
  json_file :: "history \<Rightarrow> string \<Rightarrow> json option"
  path_exists :: "history \<Rightarrow> string \<Rightarrow> bool"

section \<open>Operations that ask\<close>

type_synonym ('e, 'a) obs = "history \<Rightarrow> ('e + 'a) \<times> history"

definition retO :: "'a \<Rightarrow> ('e, 'a) obs" where
  "retO x h = (Inr x, h)"

definition failO :: "'e \<Rightarrow> ('e, 'a) obs" where
  "failO e h = (Inl e, h)"

definition askO :: "query \<Rightarrow> (history \<Rightarrow> 'a) \<Rightarrow> ('e, 'a) obs" where
  "askO q answer h = (Inr (answer h), q # h)"

definition bindO :: "('e, 'a) obs \<Rightarrow> ('a \<Rightarrow> ('e, 'b) obs) \<Rightarrow> ('e, 'b) obs" where
  "bindO m f h = (case m h of (Inl e, h') \<Rightarrow> (Inl e, h') | (Inr x, h') \<Rightarrow> f x h')"

text \<open>\<open>try: m except \<dots>: handler\<close>; the handler re-raises what it does not catch.\<close>

definition catchO :: "('e, 'a) obs \<Rightarrow> ('e \<Rightarrow> ('f, 'a) obs) \<Rightarrow> ('f, 'a) obs" where
  "catchO m handler h = (case m h of (Inl e, h') \<Rightarrow> handler e h' | (Inr x, h') \<Rightarrow> (Inr x, h'))"

definition unlessO :: "bool \<Rightarrow> 'e \<Rightarrow> ('e, unit) obs" where
  "unlessO bad e = (if bad then failO e else retO ())"

definition liftO :: "'e + 'a \<Rightarrow> ('e, 'a) obs" where
  "liftO r h = (r, h)"

fun mapO :: "('a \<Rightarrow> ('e, 'b) obs) \<Rightarrow> 'a list \<Rightarrow> ('e, 'b list) obs" where
  "mapO f [] = retO []"
| "mapO f (x # xs) = bindO (f x) (\<lambda>y. bindO (mapO f xs) (\<lambda>ys. retO (y # ys)))"

named_theorems obs_simps \<open>running an operation\<close>

lemma run_simps [obs_simps]:
  "retO x h = (Inr x, h)" "failO e h = (Inl e, h)" "askO q a h = (Inr (a h), q # h)"
  "liftO r h = (r, h)" "unlessO b e h = (if b then (Inl e, h) else (Inr (), h))"
  by (simp_all add: retO_def failO_def askO_def liftO_def unlessO_def)

lemma bindO_Inr:
  "bindO m f h = (Inr y, h2) \<longleftrightarrow> (\<exists>x h1. m h = (Inr x, h1) \<and> f x h1 = (Inr y, h2))"
  by (auto simp: bindO_def split: prod.splits sum.splits)

lemma bindO_run [obs_simps]:
  "m h = (Inr x, h') \<Longrightarrow> bindO m f h = f x h'"
  "m h = (Inl e, h') \<Longrightarrow> bindO m f h = (Inl e, h')"
  by (simp_all add: bindO_def)

lemma catchO_run [obs_simps]:
  "m h = (Inr x, h') \<Longrightarrow> catchO m k h = (Inr x, h')"
  "m h = (Inl e, h') \<Longrightarrow> catchO m k h = k e h'"
  by (simp_all add: catchO_def)

lemma bindO_cong [fundef_cong]:
  "m = m' \<Longrightarrow> (\<And>x. f x = g x) \<Longrightarrow> bindO m f = bindO m' g"
  by (auto simp: bindO_def fun_eq_iff split: prod.splits sum.splits)

lemma mapO_cong [fundef_cong]:
  "xs = ys \<Longrightarrow> (\<And>x. x \<in> set ys \<Longrightarrow> f x = g x) \<Longrightarrow> mapO f xs = mapO g ys"
proof (induction ys arbitrary: xs)
  case (Cons y ys)
  then have "f y = g y" "mapO f ys = mapO g ys" by auto
  with Cons.prems show ?case by simp
qed simp

section \<open>What an operation asks\<close>

text \<open>\<open>asks_only P m\<close>: every question \<open>m\<close> puts to the machine satisfies \<open>P\<close>, and it forgets none.\<close>

definition asks_only :: "(query \<Rightarrow> bool) \<Rightarrow> ('e, 'a) obs \<Rightarrow> bool" where
  "asks_only P m \<longleftrightarrow> (\<forall>h. \<exists>new. snd (m h) = new @ h \<and> list_all P new)"

lemma asks_onlyI: "(\<And>h. \<exists>new. snd (m h) = new @ h \<and> list_all P new) \<Longrightarrow> asks_only P m"
  by (simp add: asks_only_def)

lemma asks_onlyD: "asks_only P m \<Longrightarrow> m h = (r, h') \<Longrightarrow> \<exists>new. h' = new @ h \<and> list_all P new"
  unfolding asks_only_def by (metis snd_conv)

named_theorems asks_intros \<open>composition of operations that ask only permitted questions\<close>

lemma asks_basic [asks_intros]:
  "asks_only P (retO x)" "asks_only P (failO e)" "asks_only P (liftO r)" "asks_only P (unlessO b e)"
  by (auto simp: asks_only_def obs_simps)

lemma asks_ask [asks_intros]: "P q \<Longrightarrow> asks_only P (askO q a)"
  by (auto simp: asks_only_def obs_simps)

lemma asks_bind [asks_intros]:
  assumes "asks_only P m" "\<And>x. asks_only P (f x)"
  shows "asks_only P (bindO m f)"
proof (rule asks_onlyI)
  fix h
  obtain r h1 where m: "m h = (r, h1)" by (cases "m h")
  from asks_onlyD [OF assms(1) m] obtain new1 where n1: "h1 = new1 @ h" "list_all P new1" by blast
  show "\<exists>new. snd (bindO m f h) = new @ h \<and> list_all P new"
  proof (cases r)
    case (Inl e)
    with m n1 show ?thesis by (simp add: obs_simps)
  next
    case (Inr x)
    obtain r2 h2 where f: "f x h1 = (r2, h2)" by (cases "f x h1")
    from asks_onlyD [OF assms(2) f] obtain new2 where "h2 = new2 @ h1" "list_all P new2" by blast
    with m n1 f Inr show ?thesis
      by (intro exI [of _ "new2 @ new1"]) (simp add: bindO_def)
  qed
qed

lemma asks_catch [asks_intros]:
  assumes "asks_only P m" "\<And>e. asks_only P (k e)"
  shows "asks_only P (catchO m k)"
proof (rule asks_onlyI)
  fix h
  obtain r h1 where m: "m h = (r, h1)" by (cases "m h")
  from asks_onlyD [OF assms(1) m] obtain new1 where n1: "h1 = new1 @ h" "list_all P new1" by blast
  show "\<exists>new. snd (catchO m k h) = new @ h \<and> list_all P new"
  proof (cases r)
    case (Inl e)
    obtain r2 h2 where f: "k e h1 = (r2, h2)" by (cases "k e h1")
    from asks_onlyD [OF assms(2) f] obtain new2 where "h2 = new2 @ h1" "list_all P new2" by blast
    with m n1 f Inl show ?thesis
      by (intro exI [of _ "new2 @ new1"]) (simp add: catchO_def)
  next
    case (Inr x)
    with m n1 show ?thesis by (simp add: catchO_def)
  qed
qed

lemma asks_map [asks_intros]: "(\<And>x. asks_only P (f x)) \<Longrightarrow> asks_only P (mapO f xs)"
  by (induction xs) (auto intro!: asks_intros)

lemma asks_if [asks_intros]: "asks_only P a \<Longrightarrow> asks_only P b \<Longrightarrow> asks_only P (if c then a else b)"
  by simp

lemma asks_option [asks_intros]:
  "asks_only P a \<Longrightarrow> (\<And>x. asks_only P (b x)) \<Longrightarrow>
     asks_only P (case v of None \<Rightarrow> a | Some x \<Rightarrow> b x)"
  by (cases v) simp_all

lemma asks_prod [asks_intros]:
  "(\<And>x y. asks_only P (f x y)) \<Longrightarrow> asks_only P (case p of (x, y) \<Rightarrow> f x y)"
  by (cases p) simp

lemma asks_sum [asks_intros]:
  "(\<And>x. asks_only P (a x)) \<Longrightarrow> (\<And>x. asks_only P (b x)) \<Longrightarrow>
     asks_only P (case v of Inl x \<Rightarrow> a x | Inr x \<Rightarrow> b x)"
  by (cases v) simp_all

end
