(* ===== verification/Text.thy ===== *)
theory Text
  imports Prelude
begin

text \<open>
  Python text operations the observers use on the output of other programs, on the bytes of the
  UTF-8 form: decoding with \<open>errors="replace"\<close>, whitespace, stripping and splitting.
\<close>

section \<open>UTF-8\<close>

definition cont_byte :: "char \<Rightarrow> bool" where
  "cont_byte c \<longleftrightarrow> 128 \<le> code c \<and> code c \<le> 191"

text \<open>The bytes a second position admits after the lead byte \<open>b\<close>: no surrogate, nothing overlong.\<close>

definition second_ok :: "nat \<Rightarrow> char \<Rightarrow> bool" where
  "second_ok b c \<longleftrightarrow>
     (if b = 224 then 160 \<le> code c \<and> code c \<le> 191
      else if b = 237 then 128 \<le> code c \<and> code c \<le> 159
      else if b = 240 then 144 \<le> code c \<and> code c \<le> 191
      else if b = 244 then 128 \<le> code c \<and> code c \<le> 143
      else cont_byte c)"

text \<open>The next unit: a well-formed character, or the longest prefix of one, with its length.\<close>

definition utf8_unit :: "string \<Rightarrow> bool \<times> nat" where
  "utf8_unit s =
     (let b = code (hd s); nth_cont = (\<lambda>i. i < length s \<and> cont_byte (s ! i));
          second = (1 < length s \<and> second_ok b (s ! 1)) in
      if b < 128 then (True, 1)
      else if 194 \<le> b \<and> b \<le> 223 then (if second then (True, 2) else (False, 1))
      else if 224 \<le> b \<and> b \<le> 239 then
        (if \<not> second then (False, 1) else if \<not> nth_cont 2 then (False, 2) else (True, 3))
      else if 240 \<le> b \<and> b \<le> 244 then
        (if \<not> second then (False, 1) else if \<not> nth_cont 2 then (False, 2)
         else if \<not> nth_cont 3 then (False, 3) else (True, 4))
      else (False, 1))"

lemma utf8_unit_pos [simp]: "0 < snd (utf8_unit s)"
  by (simp add: utf8_unit_def Let_def)

function utf8_valid :: "string \<Rightarrow> bool" where
  "utf8_valid s =
     (if s = [] then True
      else if fst (utf8_unit s) then utf8_valid (drop (snd (utf8_unit s)) s) else False)"
  by pat_completeness auto
termination
  by (relation "measure length") (auto intro: diff_less)

declare utf8_valid.simps [simp del]

text \<open>\<open>bytes.decode("utf-8", errors="replace")\<close>: each ill-formed unit becomes U+FFFD.\<close>

function decode_replace :: "string \<Rightarrow> string" where
  "decode_replace s =
     (if s = [] then []
      else (if fst (utf8_unit s) then take (snd (utf8_unit s)) s
            else [CHR 0xEF, CHR 0xBF, CHR 0xBD])
           @ decode_replace (drop (snd (utf8_unit s)) s))"
  by pat_completeness auto
termination
  by (relation "measure length") (auto intro: diff_less)

declare decode_replace.simps [simp del]

definition is_ascii :: "string \<Rightarrow> bool" where
  "is_ascii s \<longleftrightarrow> list_all (\<lambda>c. code c < 128) s"

section \<open>Whitespace\<close>

text \<open>The length of the whitespace character a text starts with, zero when it starts with none.\<close>

definition space_len :: "string \<Rightarrow> nat" where
  "space_len s =
     (if s = [] then 0
      else let b = code (hd s); c = (if 1 < length s then code (s ! 1) else 0);
               d = (if 2 < length s then code (s ! 2) else 0) in
        if 9 \<le> b \<and> b \<le> 13 \<or> 28 \<le> b \<and> b \<le> 32 then 1
        else if b = 0xC2 \<and> c \<in> {0x85, 0xA0} then 2
        else if b = 0xE1 \<and> c = 0x9A \<and> d = 0x80 then 3
        else if b = 0xE2 \<and> c = 0x80 \<and> (0x80 \<le> d \<and> d \<le> 0x8A \<or> d \<in> {0xA8, 0xA9, 0xAF}) then 3
        else if b = 0xE2 \<and> c = 0x81 \<and> d = 0x9F then 3
        else if b = 0xE3 \<and> c = 0x80 \<and> d = 0x80 then 3
        else 0)"

lemma space_len_Nil [simp]: "space_len [] = 0"
  by (simp add: space_len_def)

function py_lstrip :: "string \<Rightarrow> string" where
  "py_lstrip s = (if space_len s = 0 then s else py_lstrip (drop (space_len s) s))"
  by pat_completeness auto
termination
proof (relation "measure length")
  fix s :: string
  assume "space_len s \<noteq> 0"
  then show "(drop (space_len s) s, s) \<in> measure length"
    by (cases s) auto
qed simp

declare py_lstrip.simps [simp del]

text \<open>A suffix that is whitespace throughout goes; continuation bytes never start a whitespace.\<close>

fun py_rstrip :: "string \<Rightarrow> string" where
  "py_rstrip [] = []"
| "py_rstrip (c # cs) = (if py_lstrip (c # cs) = [] then [] else c # py_rstrip cs)"

definition py_strip :: "string \<Rightarrow> string" where
  "py_strip s = py_rstrip (py_lstrip s)"

text \<open>\<open>s.split()\<close>: the runs between whitespace.\<close>

fun py_words :: "nat \<Rightarrow> string \<Rightarrow> string \<Rightarrow> string list" where
  "py_words skip acc [] = (if acc = [] then [] else [rev acc])"
| "py_words skip acc (c # cs) =
     (if 0 < skip then py_words (skip - 1) acc cs
      else if 0 < space_len (c # cs) then
        (if acc = [] then [] else [rev acc]) @ py_words (space_len (c # cs) - 1) [] cs
      else py_words 0 (c # acc) cs)"

definition split_words :: "string \<Rightarrow> string list" where
  "split_words s = py_words 0 [] s"

text \<open>\<open>bytes.rstrip(b"\n")\<close> and \<open>text.rstrip("\r\n")\<close>.\<close>

definition rstrip_newlines :: "string \<Rightarrow> string" where
  "rstrip_newlines s = rev (dropWhile (\<lambda>c. c = CHR 0x0A) (rev s))"

definition rstrip_line_end :: "string \<Rightarrow> string" where
  "rstrip_line_end s = rev (dropWhile (\<lambda>c. c = CHR 0x0A \<or> c = CHR 0x0D) (rev s))"

text \<open>\<open>bytes.splitlines(keepends=True)\<close>: a line ends at a newline, at a return, or at both.\<close>

fun byte_lines :: "string \<Rightarrow> string \<Rightarrow> string list" where
  "byte_lines acc [] = (if acc = [] then [] else [rev acc])"
| "byte_lines acc [c] = [rev (c # acc)]"
| "byte_lines acc (c # d # cs) =
     (if c = CHR 0x0A then rev (c # acc) # byte_lines [] (d # cs)
      else if c = CHR 0x0D \<and> d = CHR 0x0A then rev (d # c # acc) # byte_lines [] cs
      else if c = CHR 0x0D then rev (c # acc) # byte_lines [] (d # cs)
      else byte_lines (c # acc) (d # cs))"

text \<open>The prefix up to and including the last newline, if there is one (\<open>rfind\<close>).\<close>

definition through_last_newline :: "string \<Rightarrow> string option" where
  "through_last_newline s =
     (if CHR 0x0A \<in> set s then Some (rev (dropWhile (\<lambda>c. c \<noteq> CHR 0x0A) (rev s))) else None)"

lemma concat_byte_lines: "concat (byte_lines acc s) = rev acc @ s"
  by (induction acc s rule: byte_lines.induct) auto

lemma through_last_newline_prefix:
  assumes "through_last_newline s = Some p"
  shows "\<exists>q. s = p @ q"
proof -
  have "rev s = takeWhile (\<lambda>c. c \<noteq> CHR 0x0A) (rev s) @ dropWhile (\<lambda>c. c \<noteq> CHR 0x0A) (rev s)"
    by simp
  then have "s = rev (dropWhile (\<lambda>c. c \<noteq> CHR 0x0A) (rev s)) @ rev (takeWhile (\<lambda>c. c \<noteq> CHR 0x0A) (rev s))"
    by (metis rev_append rev_rev_ident)
  with assms show ?thesis
    by (auto simp: through_last_newline_def split: if_splits)
qed

end
