(* ===== verification/Git_Attestation.thy ===== *)
theory Git_Attestation
  imports Host Text Terminal_Events
begin

text \<open>
  \<open>git_attestation.py\<close>: capturing and sampling one Git ref, capturing a worker's delivery scope, and
  attesting a candidate commit against it. Git itself, path resolution and \<open>stat\<close> are the machine of
  \<open>Host\<close>; a path is its text, and a file name that is not UTF-8 is its bytes.
\<close>

definition MAX_RETAINED_PATHS :: nat where "MAX_RETAINED_PATHS = 256"
definition MAX_PATH_PAYLOAD_BYTES :: nat where "MAX_PATH_PAYLOAD_BYTES = 64 * 1024"
definition MAX_SCAN_BYTES :: nat where "MAX_SCAN_BYTES = 8 * 1024 * 1024"

text \<open>The exceptions of the module; \<open>GitValueError\<close> keeps the message \<open>str(error)\<close> reports.\<close>

datatype git_error =
    GitValueError string
  | GitOSError
  | GitFailure
  | BindingFailure
  | IdentityFailure
  | MalformedFailure
  | ResolutionFailure
  | RaceFailure

type_synonym 'a git = "(git_error, 'a) obs"

datatype AttestationStatus =
  VALID | INVALID_COMMIT | BASELINE_MISMATCH | OUT_OF_SCOPE | ATTESTATION_ERROR

fun attestation_value :: "AttestationStatus \<Rightarrow> string" where
  "attestation_value VALID = ''valid''"
| "attestation_value INVALID_COMMIT = ''invalid_commit''"
| "attestation_value BASELINE_MISMATCH = ''baseline_mismatch''"
| "attestation_value OUT_OF_SCOPE = ''out_of_scope''"
| "attestation_value ATTESTATION_ERROR = ''attestation_error''"

datatype ref_class =
  UNCHANGED | FAST_FORWARD | REF_REWRITE | REF_DELETED | HEAD_RETARGET | OBSERVER_ERROR

fun ref_class_value :: "ref_class \<Rightarrow> string" where
  "ref_class_value UNCHANGED = ''unchanged''"
| "ref_class_value FAST_FORWARD = ''fast_forward''"
| "ref_class_value REF_REWRITE = ''ref_rewrite''"
| "ref_class_value REF_DELETED = ''ref_deleted''"
| "ref_class_value HEAD_RETARGET = ''head_retarget''"
| "ref_class_value OBSERVER_ERROR = ''observer_error''"

datatype ref_ancestry = SAME | DESCENDANT | DIVERGED | DELETED

fun ancestry_value :: "ref_ancestry \<Rightarrow> string" where
  "ancestry_value SAME = ''same''"
| "ancestry_value DESCENDANT = ''descendant''"
| "ancestry_value DIVERGED = ''diverged''"
| "ancestry_value DELETED = ''deleted''"

record GitDeliveryScope =
  sc_worktree_root :: string
  sc_common_dir :: string
  sc_object_format :: string
  sc_baseline_commit :: string
  sc_producer_task_id :: string
  sc_allowed_prefixes :: "string list"

record GitAttestation =
  at_status :: AttestationStatus
  at_candidate_commit :: "string option"
  at_path_count :: nat
  at_paths :: "string list"
  at_paths_digest :: "string option"
  at_paths_truncated :: bool
  at_path_bytes_truncated :: bool
  at_error :: "string option"

record GitRefBinding =
  gb_worktree_root :: string
  gb_common_dir :: string
  gb_git_dir :: string
  gb_object_format :: string
  gb_ref :: string
  gb_direct_oid :: string
  gb_peeled_commit :: string
  gb_head_target :: "string option"
  gb_worktree_identity :: "int \<times> int"
  gb_common_dir_identity :: "int \<times> int"
  gb_git_dir_identity :: "int \<times> int"

record GitRefSample =
  gs_classification :: ref_class
  gs_changed :: bool
  gs_old_direct_oid :: "string option"
  gs_new_direct_oid :: "string option"
  gs_old_peeled_commit :: "string option"
  gs_new_peeled_commit :: "string option"
  gs_old_head_target :: "string option"
  gs_new_head_target :: "string option"
  gs_ancestry :: "ref_ancestry option"
  gs_coalesced :: bool
  gs_error :: "string option"

record RawGitRef =
  raw_direct_oid :: string
  raw_peeled_commit :: string
  raw_head_target :: "string option"

section \<open>Running Git\<close>

definition git_environment :: "(string \<times> string) list \<Rightarrow> (string \<times> string) list" where
  "git_environment env =
     aupdate (filter (\<lambda>kv. \<not> starts_with ''GIT_'' (fst kv)) env)
       [(''GIT_OPTIONAL_LOCKS'', ''0''), (''LC_ALL'', ''C''), (''LANG'', ''C'')]"

definition git_argv :: "string \<Rightarrow> string list \<Rightarrow> string list" where
  "git_argv root_dir args =
     [''git'', ''--no-replace-objects'', ''-c'', ''core.hooksPath=/dev/null'', ''-C'', root_dir] @ args"

definition git :: "host \<Rightarrow> string \<Rightarrow> string list \<Rightarrow> bool \<Rightarrow> (int \<times> string) git" where
  "git H root_dir args check =
     (let argv = git_argv root_dir args; env = git_environment (environ H) in
      bindO (askO (GitCall argv env) (\<lambda>h. git_run H h argv env)) (\<lambda>r.
        case r of
          GitFailed \<Rightarrow> failO GitFailure
        | GitDone rc out \<Rightarrow>
            if check \<and> rc \<noteq> 0 then failO GitFailure else retO (rc, out)))"

text \<open>The reading loop of a bounded scan: what the pipes deliver, up to the byte ceiling.\<close>

fun bounded_stdout :: "nat \<Rightarrow> string \<Rightarrow> scan_event list \<Rightarrow> string option" where
  "bounded_stdout limit out [] = Some out"
| "bounded_stdout limit out (StdoutChunk c # es) =
     (if length out + length c > limit then None else bounded_stdout limit (out @ c) es)"
| "bounded_stdout limit out (StderrChunk c # es) = bounded_stdout limit out es"
| "bounded_stdout limit out (ScanTimeout # es) = None"

definition run_bounded_git :: "host \<Rightarrow> string \<Rightarrow> string list \<Rightarrow> nat \<Rightarrow> string git" where
  "run_bounded_git H root_dir args limit =
     (let argv = git_argv root_dir args; env = git_environment (environ H) in
      bindO (askO (GitScan argv env) (\<lambda>h. git_scan H h argv env)) (\<lambda>(events, rc).
        case bounded_stdout limit [] events of
          None \<Rightarrow> failO GitFailure
        | Some out \<Rightarrow> if rc \<noteq> 0 then failO GitFailure else retO out))"

definition output_text :: "string \<Rightarrow> string git" where
  "output_text out =
     (let t = rstrip_newlines out in
      if is_ascii t then retO t else failO (GitValueError ''output is not ASCII''))"

definition resolve_strict :: "host \<Rightarrow> string \<Rightarrow> git_error \<Rightarrow> string git" where
  "resolve_strict H p e =
     bindO (askO (Resolve p) (\<lambda>h. resolve_path H h p)) (\<lambda>r.
       case r of None \<Rightarrow> failO e | Some q \<Rightarrow> retO q)"

definition canonical_existing_path :: "host \<Rightarrow> string \<Rightarrow> string git" where
  "canonical_existing_path H p =
     resolve_strict H p (GitValueError ''worktree must be an existing path'')"

definition output_path :: "host \<Rightarrow> string \<Rightarrow> string git" where
  "output_path H out = resolve_strict H (rstrip_newlines out) GitFailure"

text \<open>\<open>root_dir / path\<close> for a path that may be absolute.\<close>

definition join_path :: "string \<Rightarrow> string \<Rightarrow> string" where
  "join_path root_dir p = (if starts_with ''/'' p then p else root_dir @ ''/'' @ p)"

definition oid_length_of :: "string \<Rightarrow> nat option" where
  "oid_length_of fmt =
     (if fmt = ''sha1'' then Some 40 else if fmt = ''sha256'' then Some 64 else None)"

definition oid_length :: "string \<Rightarrow> nat git" where
  "oid_length fmt =
     (case oid_length_of fmt of
        None \<Rightarrow> failO (GitValueError ''unsupported Git object format'') | Some n \<Rightarrow> retO n)"

definition is_full_oid :: "string \<Rightarrow> nat \<Rightarrow> bool" where
  "is_full_oid v n \<longleftrightarrow> length v = n \<and> list_all is_hex v \<and> v \<noteq> []"

definition discover_repository :: "host \<Rightarrow> string \<Rightarrow> (string \<times> string \<times> string) git" where
  "discover_repository H root_dir =
     bindO (git H root_dir [''rev-parse'', ''--show-toplevel''] True) (\<lambda>(_, top).
     bindO (output_path H top) (\<lambda>discovered.
     bindO (git H root_dir [''rev-parse'', ''--git-common-dir''] True) (\<lambda>(_, common_out).
     bindO (output_text common_out) (\<lambda>common_raw.
     bindO (resolve_strict H (join_path root_dir common_raw) GitFailure) (\<lambda>common.
     bindO (git H root_dir [''rev-parse'', ''--show-object-format''] True) (\<lambda>(_, fmt_out).
     bindO (output_text fmt_out) (\<lambda>fmt.
     bindO (oid_length fmt) (\<lambda>_. retO (discovered, common, fmt)))))))))"

definition discover_git_dir :: "host \<Rightarrow> string \<Rightarrow> string git" where
  "discover_git_dir H root_dir =
     bindO (git H root_dir [''rev-parse'', ''--git-dir''] True) (\<lambda>(_, out).
       resolve_strict H (join_path root_dir (rstrip_newlines out)) GitFailure)"

definition identity_of :: "host \<Rightarrow> string \<Rightarrow> (int \<times> int) git" where
  "identity_of H p =
     bindO (askO (PathIdentity p) (\<lambda>h. path_identity H h p)) (\<lambda>r.
       case r of None \<Rightarrow> failO IdentityFailure | Some i \<Rightarrow> retO i)"

section \<open>Ref names and object IDs\<close>

definition ref_shape_ok :: "string \<Rightarrow> bool" where
  "ref_shape_ok ref \<longleftrightarrow>
     ref = ''HEAD'' \<or>
     starts_with ''refs/'' ref \<and> \<not> starts_with ''refs/remotes/'' ref \<and> length ref \<le> 1024 \<and>
     list_all (\<lambda>c. \<not> (code c < 32 \<or> code c = 127)) ref"

definition validate_git_ref_shape :: "string \<Rightarrow> unit git" where
  "validate_git_ref_shape ref =
     unlessO (\<not> ref_shape_ok ref)
       (GitValueError ''ref must be literal HEAD or one bounded local refs/... name'')"

definition require_valid_direct_ref :: "host \<Rightarrow> string \<Rightarrow> string \<Rightarrow> unit git" where
  "require_valid_direct_ref H root_dir ref =
     bindO (git H root_dir [''check-ref-format'', ref] False) (\<lambda>(rc, _).
     bindO (unlessO (rc \<noteq> 0) (GitValueError ''ref must be a valid full direct refs/... name'')) (\<lambda>_.
     bindO (git H root_dir [''symbolic-ref'', ''-q'', ref] False) (\<lambda>(symbolic, _).
     bindO (unlessO (symbolic = 0)
       (GitValueError ''ref must name a direct ref, not a symbolic ref'')) (\<lambda>_.
     unlessO (symbolic \<noteq> 1) GitFailure))))"

definition output_oid :: "string \<Rightarrow> nat \<Rightarrow> string git" where
  "output_oid out n =
     (let t = rstrip_newlines out in
      if \<not> is_ascii t then failO MalformedFailure
      else if \<not> is_full_oid t n then failO MalformedFailure
      else retO (map ascii_lower t))"

definition output_ref_name :: "string \<Rightarrow> string git" where
  "output_ref_name out =
     (let t = rstrip_newlines out in
      if \<not> utf8_valid t then failO MalformedFailure
      else if t = [] \<or> CHR 0x0A \<in> set t \<or> CHR 0x0D \<in> set t \<or> CHR 0x00 \<in> set t then
        failO MalformedFailure
      else retO t)"

definition resolve_head_oid :: "host \<Rightarrow> string \<Rightarrow> nat \<Rightarrow> string option git" where
  "resolve_head_oid H root_dir n =
     bindO (git H root_dir [''rev-parse'', ''--verify'', ''HEAD''] False) (\<lambda>(rc, out).
       if rc = 1 \<or> rc = 128 then retO None
       else if rc \<noteq> 0 then failO GitFailure
       else bindO (output_oid out n) (\<lambda>oid. retO (Some oid)))"

definition peel_commit :: "host \<Rightarrow> string \<Rightarrow> string \<Rightarrow> nat \<Rightarrow> string git" where
  "peel_commit H root_dir oid n =
     bindO (git H root_dir [''rev-parse'', ''--verify'', oid @ ''^{commit}''] False) (\<lambda>(rc, out).
       if rc \<noteq> 0 then failO ResolutionFailure else output_oid out n)"

text \<open>\<open>except ValueError as error: raise \<dots>\<close>.\<close>

definition on_value_error :: "git_error \<Rightarrow> 'a git \<Rightarrow> 'a git" where
  "on_value_error e m =
     catchO m (\<lambda>x. case x of GitValueError _ \<Rightarrow> failO e | _ \<Rightarrow> failO x)"

definition read_direct_oid :: "host \<Rightarrow> string \<Rightarrow> string \<Rightarrow> nat \<Rightarrow> bool \<Rightarrow> (string option \<times> string) option git" where
  "read_direct_oid H root_dir ref n allow_missing =
     (if ref = ''HEAD'' then
        bindO (git H root_dir [''symbolic-ref'', ''-q'', ''HEAD''] False) (\<lambda>(symbolic, out).
        bindO (if symbolic = 0 then
                 bindO (output_ref_name out) (\<lambda>target.
                 bindO (on_value_error ResolutionFailure
                   (bindO (validate_git_ref_shape target) (\<lambda>_.
                    require_valid_direct_ref H root_dir target))) (\<lambda>_. retO (Some target)))
               else if symbolic \<noteq> 1 then failO GitFailure
               else retO None) (\<lambda>head_target.
        bindO (resolve_head_oid H root_dir n) (\<lambda>oid.
          case oid of
            None \<Rightarrow> failO ResolutionFailure
          | Some d \<Rightarrow> retO (Some (head_target, d)))))
      else
        bindO (git H root_dir [''show-ref'', ''--verify'', ''--quiet'', ref] False) (\<lambda>(rc, _).
          if rc = 1 then (if allow_missing then retO None else failO ResolutionFailure)
          else if rc \<noteq> 0 then failO GitFailure
          else
            bindO (git H root_dir [''show-ref'', ''--verify'', ''--hash'', ref] False) (\<lambda>(rc2, out).
              if rc2 \<noteq> 0 then failO GitFailure
              else bindO (output_oid out n) (\<lambda>d. retO (Some (None, d))))))"

definition read_git_ref :: "host \<Rightarrow> string \<Rightarrow> string \<Rightarrow> nat \<Rightarrow> bool \<Rightarrow> RawGitRef option git" where
  "read_git_ref H root_dir ref n allow_missing =
     bindO (read_direct_oid H root_dir ref n allow_missing) (\<lambda>r.
       case r of
         None \<Rightarrow> retO None
       | Some (target, d) \<Rightarrow>
           bindO (peel_commit H root_dir d n) (\<lambda>p.
             retO (Some \<lparr>raw_direct_oid = d, raw_peeled_commit = p, raw_head_target = target\<rparr>)))"

section \<open>Bindings\<close>

definition binding_fields_ok :: "GitRefBinding \<Rightarrow> bool" where
  "binding_fields_ok b \<longleftrightarrow>
     ref_shape_ok (gb_ref b) \<and>
     (gb_ref b \<noteq> ''HEAD'' \<longrightarrow> gb_head_target b = None) \<and>
     (case gb_head_target b of None \<Rightarrow> True | Some t \<Rightarrow> ref_shape_ok t) \<and>
     list_all (\<lambda>(d, i). 0 \<le> d \<and> 0 \<le> i)
       [gb_worktree_identity b, gb_common_dir_identity b, gb_git_dir_identity b] \<and>
     (case oid_length_of (gb_object_format b) of
        None \<Rightarrow> False
      | Some n \<Rightarrow> is_full_oid (gb_direct_oid b) n \<and> is_full_oid (gb_peeled_commit b) n)"

definition check_identities :: "host \<Rightarrow> GitRefBinding \<Rightarrow> string \<Rightarrow> string \<Rightarrow> string \<Rightarrow> unit git" where
  "check_identities H b root_dir common git_dir =
     bindO (identity_of H root_dir) (\<lambda>ri.
     bindO (unlessO (ri \<noteq> gb_worktree_identity b) IdentityFailure) (\<lambda>_.
     bindO (identity_of H common) (\<lambda>ci.
     bindO (unlessO (ci \<noteq> gb_common_dir_identity b) IdentityFailure) (\<lambda>_.
     bindO (identity_of H git_dir) (\<lambda>gi.
     unlessO (gi \<noteq> gb_git_dir_identity b) IdentityFailure)))))"

definition verify_git_ref_binding :: "host \<Rightarrow> GitRefBinding \<Rightarrow> (string \<times> nat) git" where
  "verify_git_ref_binding H b =
     bindO (unlessO (\<not> binding_fields_ok b) BindingFailure) (\<lambda>_.
     bindO (on_value_error IdentityFailure
       (bindO (canonical_existing_path H (gb_worktree_root b)) (\<lambda>r.
        bindO (canonical_existing_path H (gb_common_dir b)) (\<lambda>c.
        bindO (canonical_existing_path H (gb_git_dir b)) (\<lambda>g. retO (r, c, g)))))) (\<lambda>(root_dir, common, git_dir).
     bindO (unlessO (root_dir \<noteq> gb_worktree_root b \<or> common \<noteq> gb_common_dir b \<or> git_dir \<noteq> gb_git_dir b)
       IdentityFailure) (\<lambda>_.
     bindO (check_identities H b root_dir common git_dir) (\<lambda>_.
     bindO (catchO
       (bindO (discover_repository H root_dir) (\<lambda>d.
        bindO (discover_git_dir H root_dir) (\<lambda>g. retO (d, g))))
       (\<lambda>x. case x of GitValueError _ \<Rightarrow> failO IdentityFailure | GitFailure \<Rightarrow> failO IdentityFailure
              | _ \<Rightarrow> failO x)) (\<lambda>((root2, common2, fmt), git_dir2).
     bindO (unlessO (root2 \<noteq> root_dir \<or> common2 \<noteq> common \<or> git_dir2 \<noteq> git_dir \<or> fmt \<noteq> gb_object_format b)
       IdentityFailure) (\<lambda>_.
     bindO (check_identities H b root_dir common git_dir) (\<lambda>_.
     bindO (on_value_error BindingFailure
       (bindO (if gb_ref b \<noteq> ''HEAD'' then require_valid_direct_ref H root_dir (gb_ref b) else retO ()) (\<lambda>_.
        case gb_head_target b of
          None \<Rightarrow> retO () | Some t \<Rightarrow> require_valid_direct_ref H root_dir t))) (\<lambda>_.
     retO (root_dir, the (oid_length_of (gb_object_format b)))))))))))"

definition capture_body :: "host \<Rightarrow> string \<Rightarrow> string \<Rightarrow> GitRefBinding git" where
  "capture_body H root_dir ref =
     bindO (discover_repository H root_dir) (\<lambda>(discovered, common, fmt).
     bindO (unlessO (discovered \<noteq> root_dir)
       (GitValueError ''worktree must be the repository worktree root'')) (\<lambda>_.
     bindO (oid_length fmt) (\<lambda>n.
     bindO (discover_git_dir H root_dir) (\<lambda>git_dir.
     bindO (if ref \<noteq> ''HEAD'' then require_valid_direct_ref H root_dir ref else retO ()) (\<lambda>_.
     bindO (identity_of H root_dir) (\<lambda>ri.
     bindO (identity_of H common) (\<lambda>ci.
     bindO (identity_of H git_dir) (\<lambda>gi.
     bindO (read_git_ref H root_dir ref n False) (\<lambda>observed.
     let raw = the observed;
         b = \<lparr>gb_worktree_root = root_dir, gb_common_dir = common, gb_git_dir = git_dir,
              gb_object_format = fmt, gb_ref = ref, gb_direct_oid = raw_direct_oid raw,
              gb_peeled_commit = raw_peeled_commit raw, gb_head_target = raw_head_target raw,
              gb_worktree_identity = ri, gb_common_dir_identity = ci, gb_git_dir_identity = gi\<rparr> in
     bindO (verify_git_ref_binding H b) (\<lambda>_.
     bindO (read_git_ref H root_dir ref n False) (\<lambda>confirmed.
     bindO (verify_git_ref_binding H b) (\<lambda>_.
     bindO (unlessO (confirmed \<noteq> observed) RaceFailure) (\<lambda>_. retO b)))))))))))))"

definition capture_git_ref :: "host \<Rightarrow> string \<Rightarrow> string \<Rightarrow> GitRefBinding git" where
  "capture_git_ref H worktree ref =
     bindO (unlessO (\<not> starts_with ''/'' worktree)
       (GitValueError ''worktree must be an absolute local path'')) (\<lambda>_.
     bindO (canonical_existing_path H worktree) (\<lambda>root_dir.
     bindO (validate_git_ref_shape ref) (\<lambda>_.
     catchO (capture_body H root_dir ref)
       (\<lambda>e. case e of
              GitValueError m \<Rightarrow> failO e
            | ResolutionFailure \<Rightarrow> failO (GitValueError ''ref must exist and peel to a commit'')
            | GitOSError \<Rightarrow> failO e
            | _ \<Rightarrow> failO (GitValueError ''Git ref binding cannot be proven'')))))"

section \<open>Sampling\<close>

definition is_ancestor :: "host \<Rightarrow> string \<Rightarrow> string \<Rightarrow> string \<Rightarrow> bool git" where
  "is_ancestor H root_dir baseline candidate =
     bindO (git H root_dir [''merge-base'', ''--is-ancestor'', baseline, candidate] False) (\<lambda>(rc, _).
       if rc = 0 then retO True else if rc = 1 then retO False else failO GitFailure)"

definition git_ref_sample ::
    "GitRefBinding \<Rightarrow> RawGitRef option \<Rightarrow> ref_class \<Rightarrow> ref_ancestry \<Rightarrow> GitRefSample" where
  "git_ref_sample b current cls anc =
     \<lparr>gs_classification = cls, gs_changed = (cls \<noteq> UNCHANGED),
      gs_old_direct_oid = Some (gb_direct_oid b),
      gs_new_direct_oid = map_option raw_direct_oid current,
      gs_old_peeled_commit = Some (gb_peeled_commit b),
      gs_new_peeled_commit = map_option raw_peeled_commit current,
      gs_old_head_target = gb_head_target b,
      gs_new_head_target = Option.bind current raw_head_target,
      gs_ancestry = Some anc, gs_coalesced = (cls \<noteq> UNCHANGED), gs_error = None\<rparr>"

definition ref_classification :: "GitRefBinding \<Rightarrow> RawGitRef \<Rightarrow> ref_ancestry \<Rightarrow> ref_class" where
  "ref_classification b current anc =
     (if gb_ref b = ''HEAD'' \<and> raw_head_target current \<noteq> gb_head_target b then HEAD_RETARGET
      else if raw_direct_oid current = gb_direct_oid b then UNCHANGED
      else if raw_peeled_commit current = gb_peeled_commit b then REF_REWRITE
      else if anc = DESCENDANT then FAST_FORWARD
      else REF_REWRITE)"

definition classify_git_ref ::
    "host \<Rightarrow> GitRefBinding \<Rightarrow> string \<Rightarrow> RawGitRef option \<Rightarrow> GitRefSample git" where
  "classify_git_ref H b root_dir current =
     (case current of
        None \<Rightarrow> retO (git_ref_sample b None REF_DELETED DELETED)
      | Some cur \<Rightarrow>
          bindO (if raw_peeled_commit cur = gb_peeled_commit b then retO SAME
                 else bindO (is_ancestor H root_dir (gb_peeled_commit b) (raw_peeled_commit cur)) (\<lambda>anc.
                   retO (if anc then DESCENDANT else DIVERGED))) (\<lambda>anc.
          retO (git_ref_sample b (Some cur) (ref_classification b cur anc) anc)))"

fun git_ref_error_code :: "git_error \<Rightarrow> string" where
  "git_ref_error_code BindingFailure = ''invalid_binding''"
| "git_ref_error_code IdentityFailure = ''repository_identity_changed''"
| "git_ref_error_code MalformedFailure = ''malformed_git_output''"
| "git_ref_error_code ResolutionFailure = ''ref_unresolvable''"
| "git_ref_error_code RaceFailure = ''observation_race''"
| "git_ref_error_code _ = ''git_failed''"

definition git_ref_error_sample :: "string \<Rightarrow> GitRefSample" where
  "git_ref_error_sample e =
     \<lparr>gs_classification = OBSERVER_ERROR, gs_changed = False, gs_old_direct_oid = None,
      gs_new_direct_oid = None, gs_old_peeled_commit = None, gs_new_peeled_commit = None,
      gs_old_head_target = None, gs_new_head_target = None, gs_ancestry = None,
      gs_coalesced = False, gs_error = Some e\<rparr>"

definition sample_body :: "host \<Rightarrow> GitRefBinding \<Rightarrow> GitRefSample git" where
  "sample_body H b =
     bindO (verify_git_ref_binding H b) (\<lambda>(root_dir, n).
     bindO (read_git_ref H root_dir (gb_ref b) n True) (\<lambda>first.
     bindO (verify_git_ref_binding H b) (\<lambda>_.
     bindO (read_git_ref H root_dir (gb_ref b) n True) (\<lambda>second.
     bindO (verify_git_ref_binding H b) (\<lambda>_.
     bindO (unlessO (first \<noteq> second) RaceFailure) (\<lambda>_.
     classify_git_ref H b root_dir first))))))"

text \<open>Every exception of the body is caught: a sample is always returned.\<close>

definition sample_git_ref :: "host \<Rightarrow> GitRefBinding \<Rightarrow> history \<Rightarrow> GitRefSample \<times> history" where
  "sample_git_ref H b h =
     (case sample_body H b h of
        (Inl e, h') \<Rightarrow> (git_ref_error_sample (git_ref_error_code e), h')
      | (Inr s, h') \<Rightarrow> (s, h'))"


section \<open>Delivery scopes\<close>

text \<open>The prefixes of a scope; they arrive as a tuple of strings.\<close>

definition drive_like :: "string \<Rightarrow> bool" where
  "drive_like v \<longleftrightarrow>
     2 \<le> length v \<and> v ! 1 = CHR '':'' \<and>
     (65 \<le> code (v ! 0) \<and> code (v ! 0) \<le> 90 \<or> 97 \<le> code (v ! 0) \<and> code (v ! 0) \<le> 122)"

definition normalize_prefix :: "string \<Rightarrow> git_error + string" where
  "normalize_prefix v =
     (if v = [] \<or> CHR 0x00 \<in> set v \<or> starts_with ''/'' v \<or> starts_with [CHR 0x5C] v
         \<or> starts_with ''-'' v then Inl (GitValueError ''allowed prefix is unsafe'')
      else if CHR 0x5C \<in> set v \<or> drive_like v then
        Inl (GitValueError ''allowed prefix is not repository-relative'')
      else
        let parts = split_on CHR ''/'' v; cleaned = join_with ''/'' (filter (\<lambda>p. p \<noteq> []) parts) in
        if list_ex (\<lambda>p. p \<in> {''.'', ''..'', ''.git''}) parts then
          Inl (GitValueError ''allowed prefix contains a forbidden component'')
        else if cleaned = [] then Inl (GitValueError ''allowed prefix is empty or unrestricted'')
        else Inr cleaned)"

definition normalize_prefixes :: "string list \<Rightarrow> string list git" where
  "normalize_prefixes values =
     bindO (mapO (\<lambda>v. liftO (normalize_prefix v)) values) (\<lambda>ps.
       if ps = [] then failO (GitValueError ''allowed_prefixes must not be empty'')
       else retO (sort (remdups ps)))"

definition object_type :: "host \<Rightarrow> string \<Rightarrow> string \<Rightarrow> string option git" where
  "object_type H root_dir oid =
     bindO (git H root_dir [''cat-file'', ''-t'', oid] False) (\<lambda>(rc, out).
       if rc = 0 then bindO (output_text out) (\<lambda>t. retO (Some t)) else retO None)"

definition capture_worktree_scope ::
    "host \<Rightarrow> string \<Rightarrow> string \<Rightarrow> string \<Rightarrow> string list \<Rightarrow> GitDeliveryScope git" where
  "capture_worktree_scope H worktree baseline task prefixes =
     bindO (canonical_existing_path H worktree) (\<lambda>root_dir.
     bindO (unlessO (py_strip task = [] \<or> CHR 0x00 \<in> set task)
       (GitValueError ''producer_task_id must be a non-empty string'')) (\<lambda>_.
     bindO (normalize_prefixes prefixes) (\<lambda>ps.
     catchO
       (bindO (discover_repository H root_dir) (\<lambda>(discovered, common, fmt).
        bindO (unlessO (discovered \<noteq> root_dir)
          (GitValueError ''worktree must be the repository worktree root'')) (\<lambda>_.
        bindO (oid_length fmt) (\<lambda>n.
        bindO (unlessO (\<not> is_full_oid baseline n)
          (GitValueError ''baseline_commit must be a full object ID'')) (\<lambda>_.
        bindO (object_type H root_dir baseline) (\<lambda>ty.
        bindO (unlessO (ty \<noteq> Some ''commit'')
          (GitValueError ''baseline_commit must resolve to a commit'')) (\<lambda>_.
        retO \<lparr>sc_worktree_root = discovered, sc_common_dir = common, sc_object_format = fmt,
              sc_baseline_commit = map ascii_lower baseline, sc_producer_task_id = task,
              sc_allowed_prefixes = ps\<rparr>)))))))
       (\<lambda>e. case e of
              GitFailure \<Rightarrow> failO (GitValueError ''worktree is not a usable Git repository'')
            | _ \<Rightarrow> failO e))))"

definition verify_captured_scope :: "host \<Rightarrow> GitDeliveryScope \<Rightarrow> (string \<times> nat) git" where
  "verify_captured_scope H sc =
     bindO (canonical_existing_path H (sc_worktree_root sc)) (\<lambda>root_dir.
     bindO (canonical_existing_path H (sc_common_dir sc)) (\<lambda>captured.
     bindO (discover_repository H root_dir) (\<lambda>(discovered, common, fmt).
     bindO (unlessO (discovered \<noteq> root_dir \<or> common \<noteq> captured \<or> fmt \<noteq> sc_object_format sc)
       (GitValueError ''captured repository identity no longer matches'')) (\<lambda>_.
     bindO (oid_length (sc_object_format sc)) (\<lambda>n.
     bindO (unlessO (\<not> is_full_oid (sc_baseline_commit sc) n)
       (GitValueError ''captured baseline is not a full object ID'')) (\<lambda>_.
     bindO (normalize_prefixes (sc_allowed_prefixes sc)) (\<lambda>_. retO (root_dir, n))))))))"

section \<open>Attestation\<close>

text \<open>\<open>output.split(b"\0")[:-1]\<close> of a NUL-terminated list.\<close>

definition parse_path_list :: "string \<Rightarrow> git_error + string list" where
  "parse_path_list out =
     (if out \<noteq> [] \<and> last out \<noteq> CHR 0x00 then Inl GitFailure
      else
        let paths = (if out = [] then [] else butlast (split_on CHR 0x00 out)) in
        if list_ex (\<lambda>p. p = []) paths then Inl GitFailure else Inr (sort (remdups paths)))"

definition changed_paths :: "host \<Rightarrow> string \<Rightarrow> string \<Rightarrow> string \<Rightarrow> string list git" where
  "changed_paths H root_dir baseline candidate =
     bindO (run_bounded_git H root_dir
       [''diff'', ''--name-only'', ''-z'', ''--no-renames'', baseline, candidate] MAX_SCAN_BYTES)
       (\<lambda>out. liftO (parse_path_list out))"

text \<open>The loop that keeps paths within the count and byte budgets.\<close>

fun retain_paths :: "string list \<Rightarrow> nat \<Rightarrow> bool \<Rightarrow> string list \<Rightarrow> string list \<times> bool" where
  "retain_paths kept bytes skipped [] = (kept, skipped)"
| "retain_paths kept bytes skipped (p # ps) =
     (if length kept \<ge> MAX_RETAINED_PATHS then (kept, skipped)
      else if bytes + length p > MAX_PATH_PAYLOAD_BYTES then retain_paths kept bytes True ps
      else retain_paths (kept @ [p]) (bytes + length p) skipped ps)"

definition path_is_allowed :: "string \<Rightarrow> string list \<Rightarrow> bool" where
  "path_is_allowed path prefixes \<longleftrightarrow>
     list_ex (\<lambda>p. path = p \<or> starts_with (p @ ''/'') path) prefixes"

definition path_attestation ::
    "digest_env \<Rightarrow> string list \<Rightarrow> string \<Rightarrow> string list \<Rightarrow> GitAttestation" where
  "path_attestation E prefixes candidate paths =
     (let (retained, skipped) = retain_paths [] 0 False paths in
      \<lparr>at_status = (if list_all (\<lambda>p. path_is_allowed p prefixes) paths then VALID else OUT_OF_SCOPE),
       at_candidate_commit = Some candidate, at_path_count = length paths, at_paths = retained,
       at_paths_digest = Some (sha256 E (join_with [CHR 0x00] paths)),
       at_paths_truncated = (length retained \<noteq> length paths), at_path_bytes_truncated = skipped,
       at_error = None\<rparr>)"

definition empty_attestation :: "AttestationStatus \<Rightarrow> string \<Rightarrow> GitAttestation" where
  "empty_attestation st candidate =
     \<lparr>at_status = st, at_candidate_commit = Some (map ascii_lower candidate), at_path_count = 0,
      at_paths = [], at_paths_digest = None, at_paths_truncated = False,
      at_path_bytes_truncated = False, at_error = None\<rparr>"

definition error_attestation :: "string \<Rightarrow> string \<Rightarrow> GitAttestation" where
  "error_attestation candidate e =
     (empty_attestation ATTESTATION_ERROR candidate)\<lparr>at_error := Some e\<rparr>"

fun error_message :: "git_error \<Rightarrow> string" where
  "error_message (GitValueError m) = m"
| "error_message _ = ''git_adapter_failed''"

definition attest_body ::
    "host \<Rightarrow> digest_env \<Rightarrow> GitDeliveryScope \<Rightarrow> string \<Rightarrow> nat \<Rightarrow> string \<Rightarrow> GitAttestation git" where
  "attest_body H E sc root_dir n candidate =
     bindO (object_type H root_dir candidate) (\<lambda>ty.
     if ty \<noteq> Some ''commit'' then retO (empty_attestation INVALID_COMMIT candidate)
     else
     bindO (object_type H root_dir (sc_baseline_commit sc)) (\<lambda>base_ty.
     if base_ty \<noteq> Some ''commit'' then
       retO (error_attestation candidate ''captured_baseline_unavailable'')
     else
     bindO (is_ancestor H root_dir (sc_baseline_commit sc) candidate) (\<lambda>anc.
     if \<not> anc then retO (empty_attestation BASELINE_MISMATCH candidate)
     else
     bindO (changed_paths H root_dir (sc_baseline_commit sc) candidate) (\<lambda>paths.
     bindO (verify_captured_scope H sc) (\<lambda>(post_root, post_n).
     bindO (unlessO (post_root \<noteq> root_dir \<or> post_n \<noteq> n) GitFailure) (\<lambda>_.
     retO (path_attestation E (sc_allowed_prefixes sc) candidate paths)))))))"

text \<open>\<open>except (ValueError, OSError, _GitFailure)\<close>; the body raises nothing else.\<close>

definition attest_candidate ::
    "host \<Rightarrow> digest_env \<Rightarrow> GitDeliveryScope \<Rightarrow> string \<Rightarrow> history \<Rightarrow> GitAttestation \<times> history" where
  "attest_candidate H E sc candidate h =
     (case verify_captured_scope H sc h of
        (Inl e, h1) \<Rightarrow> (error_attestation candidate (error_message e), h1)
      | (Inr (root_dir, n), h1) \<Rightarrow>
          if \<not> is_full_oid candidate n then (empty_attestation INVALID_COMMIT candidate, h1)
          else
            let c = map ascii_lower candidate in
            (case attest_body H E sc root_dir n c h1 of
               (Inl e, h2) \<Rightarrow> (error_attestation c (error_message e), h2)
             | (Inr a, h2) \<Rightarrow> (a, h2)))"

end
