(* ===== verification/Git_Properties.thy ===== *)
theory Git_Properties
  imports Git_Attestation "HOL-Library.Sublist"
begin

text \<open>
  The properties of the Git observers: they only ever read, an attestation is bounded and its
  verdict covers every changed path, and a ref sample is one that two successive reads agree on.
\<close>

section \<open>Read-only\<close>

text \<open>The commands of Git that change nothing, in the forms the module uses.\<close>

definition read_only_args :: "string list \<Rightarrow> bool" where
  "read_only_args args \<longleftrightarrow>
     (case args of
        [] \<Rightarrow> False
      | c # rest \<Rightarrow>
          c \<in> {''rev-parse'', ''cat-file'', ''merge-base'', ''check-ref-format'', ''show-ref'', ''diff''}
          \<or> c = ''symbolic-ref'' \<and> length rest = 2 \<and> hd rest = ''-q'')"

definition scrubbed :: "(string \<times> string) list \<Rightarrow> bool" where
  "scrubbed env \<longleftrightarrow>
     (\<forall>k \<in> fst ` set env. starts_with ''GIT_'' k \<longrightarrow> k = ''GIT_OPTIONAL_LOCKS'')
     \<and> map_of env ''GIT_OPTIONAL_LOCKS'' = Some ''0''"

definition guarded_argv :: "string list \<Rightarrow> bool" where
  "guarded_argv argv \<longleftrightarrow>
     (\<exists>root_dir args. argv = git_argv root_dir args \<and> read_only_args args)"

fun read_only :: "query \<Rightarrow> bool" where
  "read_only (GitCall argv env) \<longleftrightarrow> guarded_argv argv \<and> scrubbed env"
| "read_only (GitScan argv env) \<longleftrightarrow> guarded_argv argv \<and> scrubbed env"
| "read_only (Resolve p) \<longleftrightarrow> True"
| "read_only (PathIdentity p) \<longleftrightarrow> True"
| "read_only _ \<longleftrightarrow> False"

lemma fst_set_aupdate: "fst ` set (aupdate d e) = fst ` set d \<union> fst ` set e"
  by (induction e arbitrary: d) auto

lemma scrubbed_environment: "scrubbed (git_environment env)"
proof -
  have "map_of (git_environment env) ''GIT_OPTIONAL_LOCKS'' = Some ''0''"
    by (simp add: git_environment_def)
  moreover have "k = ''GIT_OPTIONAL_LOCKS''"
    if "k \<in> fst ` set (git_environment env)" "starts_with ''GIT_'' k" for k
    using that by (auto simp: git_environment_def fst_set_aupdate starts_with_def)
  ultimately show ?thesis by (auto simp: scrubbed_def)
qed

lemma asks_git [asks_intros]: "read_only_args args \<Longrightarrow> asks_only read_only (git H r args ch)"
  unfolding git_def Let_def
  by (intro asks_intros)
    (auto simp: guarded_argv_def scrubbed_environment asks_intros split: git_result.split)

lemma asks_scan [asks_intros]:
  "read_only_args args \<Longrightarrow> asks_only read_only (run_bounded_git H r args n)"
  unfolding run_bounded_git_def Let_def
  by (intro asks_intros) (auto simp: guarded_argv_def scrubbed_environment)

lemma asks_value_error [asks_intros]: "asks_only P m \<Longrightarrow> asks_only P (on_value_error e m)"
  unfolding on_value_error_def by (intro asks_intros) (auto simp: asks_intros split: git_error.split)

lemma asks_small [asks_intros]:
  "asks_only read_only (output_text out)" "asks_only read_only (resolve_strict H p e)"
  "asks_only read_only (canonical_existing_path H p)" "asks_only read_only (output_path H p)"
  "asks_only read_only (oid_length f)" "asks_only read_only (identity_of H p)"
  "asks_only read_only (output_oid out n)" "asks_only read_only (output_ref_name out)"
  "asks_only read_only (validate_git_ref_shape r)" "asks_only read_only (normalize_prefixes ps)"
  by (simp_all add: output_text_def resolve_strict_def canonical_existing_path_def output_path_def
      oid_length_def identity_of_def output_oid_def output_ref_name_def validate_git_ref_shape_def
      normalize_prefixes_def Let_def asks_intros)


lemma asks_repository [asks_intros]:
  "asks_only read_only (discover_repository H r)" "asks_only read_only (discover_git_dir H r)"
  "asks_only read_only (require_valid_direct_ref H r ref)"
  "asks_only read_only (resolve_head_oid H r n)" "asks_only read_only (peel_commit H r oid n)"
  "asks_only read_only (is_ancestor H r b c)" "asks_only read_only (object_type H r oid)"
  "asks_only read_only (changed_paths H r b c)"
  by (simp_all add: discover_repository_def discover_git_dir_def require_valid_direct_ref_def
      resolve_head_oid_def peel_commit_def is_ancestor_def object_type_def changed_paths_def
      asks_intros read_only_args_def split: prod.split)

lemma asks_read_ref [asks_intros]: "asks_only read_only (read_git_ref H r ref n am)"
  unfolding read_git_ref_def read_direct_oid_def
  by (intro asks_intros) (simp_all add: read_only_args_def)

lemma asks_identities [asks_intros]: "asks_only read_only (check_identities H b r c g)"
  unfolding check_identities_def by (intro asks_intros)

lemma asks_error_case [asks_intros]:
  "(\<And>m. asks_only P (a m)) \<Longrightarrow> asks_only P b1 \<Longrightarrow> asks_only P b2 \<Longrightarrow> asks_only P b3 \<Longrightarrow>
     asks_only P b4 \<Longrightarrow> asks_only P b5 \<Longrightarrow> asks_only P b6 \<Longrightarrow> asks_only P b7 \<Longrightarrow>
     asks_only P (case_git_error a b1 b2 b3 b4 b5 b6 b7 e)"
  by (cases e) simp_all

lemma asks_prod_app [asks_intros]:
  "(\<And>x y. asks_only P (f x y z)) \<Longrightarrow> asks_only P ((case p of (x, y) \<Rightarrow> f x y) z)"
  by (cases p) simp

lemma asks_verify [asks_intros]:
  "asks_only read_only (verify_git_ref_binding H b)" "asks_only read_only (verify_captured_scope H sc)"
  unfolding verify_git_ref_binding_def verify_captured_scope_def
  by (intro asks_intros, rule asks_intros, (intro asks_intros)+)

lemma asks_capture: "asks_only read_only (capture_git_ref H w ref)"
  unfolding capture_git_ref_def capture_body_def Let_def by (intro asks_intros)

lemma asks_capture_scope: "asks_only read_only (capture_worktree_scope H w b t ps)"
  unfolding capture_worktree_scope_def by (intro asks_intros)

lemma asks_sample_body: "asks_only read_only (sample_body H b)"
  unfolding sample_body_def classify_git_ref_def by (intro asks_intros)

lemma asks_attest_body: "asks_only read_only (attest_body H E sc r n c)"
  unfolding attest_body_def by (intro asks_intros)

lemma asked_sample: "\<exists>new. snd (sample_git_ref H b h) = new @ h \<and> list_all read_only new"
  using asks_onlyD [OF asks_sample_body]
  by (cases "sample_body H b h"; cases "fst (sample_body H b h)") (auto simp: sample_git_ref_def)

lemma asked_attest: "\<exists>new. snd (attest_candidate H E sc c h) = new @ h \<and> list_all read_only new"
proof -
  obtain v h1 where v: "verify_captured_scope H sc h = (v, h1)" by (cases "verify_captured_scope H sc h")
  from asks_onlyD [OF asks_verify(2) v] obtain new1 where n1: "h1 = new1 @ h" "list_all read_only new1"
    by blast
  show ?thesis
  proof (cases v)
    case (Inl e)
    with v n1 show ?thesis by (simp add: attest_candidate_def)
  next
    case (Inr rn)
    obtain root_dir n where rn: "rn = (root_dir, n)" by (cases rn)
    obtain a h2 where a: "attest_body H E sc root_dir n (map ascii_lower c) h1 = (a, h2)"
      by (cases "attest_body H E sc root_dir n (map ascii_lower c) h1")
    from asks_onlyD [OF asks_attest_body a] obtain new2
      where "h2 = new2 @ h1" "list_all read_only new2" by blast
    with n1 have "h2 = (new2 @ new1) @ h" "list_all read_only (new2 @ new1)" by simp_all
    with v Inr rn a n1 show ?thesis
      by (cases a) (auto simp: attest_candidate_def Let_def)
  qed
qed

text \<open>C31. Capturing or sampling a ref, capturing a delivery scope and attesting a candidate ask the
  machine only read-only questions, whatever it answers: every Git command is a reading one, runs
  without replacement objects and hooks, and in an environment with no \<open>GIT_\<close> variable but the one
  that disables optional locks.\<close>

theorem git_observers_read_only:
  "(\<exists>new. snd (capture_git_ref H w ref h) = new @ h \<and> list_all read_only new)
   \<and> (\<exists>new. snd (capture_worktree_scope H w base task ps h) = new @ h \<and> list_all read_only new)
   \<and> (\<exists>new. snd (sample_git_ref H b h) = new @ h \<and> list_all read_only new)
   \<and> (\<exists>new. snd (attest_candidate H E sc c h) = new @ h \<and> list_all read_only new)"
  using asks_capture [of H w ref] asks_capture_scope [of H w base task ps] asked_sample asked_attest
  by (simp add: asks_only_def)

section \<open>Attestations\<close>

lemma retain_paths_subseq:
  "retain_paths kept n b ps = (r, b') \<Longrightarrow>
     \<exists>more. r = kept @ more \<and> subseq more ps \<and>
       length r \<le> max (length kept) MAX_RETAINED_PATHS \<and>
       sum_list (map length more) + n \<le> max n MAX_PATH_PAYLOAD_BYTES"
proof (induction kept n b ps arbitrary: r b' rule: retain_paths.induct)
  case (1 kept n b)
  then show ?case by auto
next
  case (2 kept n b p ps)
  show ?case
  proof (cases "length kept \<ge> MAX_RETAINED_PATHS")
    case True
    with "2.prems" show ?thesis by auto
  next
    case False
    show ?thesis
    proof (cases "n + length p > MAX_PATH_PAYLOAD_BYTES")
      case True
      with False "2.IH"(1) [OF False True] "2.prems" show ?thesis
        by (fastforce intro: list_emb_Cons)
    next
      case fits: False
      with False "2.prems" have "retain_paths (kept @ [p]) (n + length p) b ps = (r, b')" by simp
      from "2.IH"(2) [OF False fits this] obtain more where
        "r = (kept @ [p]) @ more" "subseq more ps"
        "length r \<le> max (length (kept @ [p])) MAX_RETAINED_PATHS"
        "sum_list (map length more) + (n + length p) \<le> max (n + length p) MAX_PATH_PAYLOAD_BYTES"
        by blast
      with False fits show ?thesis
        by (intro exI [of _ "p # more"]) auto
    qed
  qed
qed

lemma retained_all:
  "retain_paths kept n b ps = (r, b') \<Longrightarrow> length r = length kept + length ps \<Longrightarrow> r = kept @ ps"
  using retain_paths_subseq [of kept n b ps r b'] subseq_same_length by fastforce

lemma path_attestation_cases:
  assumes "path_attestation E allowed c paths = a"
  shows "at_candidate_commit a = Some c \<and> at_path_count a = length paths
     \<and> at_paths_digest a = Some (sha256 E (join_with [CHR 0x00] paths))
     \<and> (at_status a = VALID \<longleftrightarrow> (\<forall>p \<in> set paths. path_is_allowed p allowed))
     \<and> (at_status a \<noteq> VALID \<longleftrightarrow> at_status a = OUT_OF_SCOPE)
     \<and> subseq (at_paths a) paths
     \<and> length (at_paths a) \<le> MAX_RETAINED_PATHS
     \<and> sum_list (map length (at_paths a)) \<le> MAX_PATH_PAYLOAD_BYTES
     \<and> (\<not> at_paths_truncated a \<longrightarrow> at_paths a = paths)"
proof -
  obtain r b where r: "retain_paths [] 0 False paths = (r, b)"
    by (cases "retain_paths [] 0 False paths")
  from retain_paths_subseq [OF r] have "subseq r paths" "length r \<le> MAX_RETAINED_PATHS"
    "sum_list (map length r) \<le> MAX_PATH_PAYLOAD_BYTES"
    by auto
  moreover have "r = paths" if "length r = length paths"
    using retained_all [OF r] that by simp
  ultimately show ?thesis
    using assms r
    by (cases "\<forall>p \<in> set paths. path_is_allowed p allowed") (auto simp: path_attestation_def list_all_iff)
qed

lemma attest_body_Inr:
  assumes "attest_body H E sc r n c h = (Inr a, h')"
  shows "at_status a \<in> {INVALID_COMMIT, BASELINE_MISMATCH, ATTESTATION_ERROR}
       \<and> at_paths a = [] \<and> at_path_count a = 0
     \<or> (\<exists>paths. path_attestation E (sc_allowed_prefixes sc) c paths = a)"
  using assms
  by (auto simp: attest_body_def bindO_Inr obs_simps empty_attestation_def error_attestation_def
      split: if_splits prod.splits) 


text \<open>A host that answers like a repository at \<open>/w\<close> with a good baseline and the changed paths
  \<open>src/a\<close> and \<open>src/b\<close>, for the witnesses.\<close>

definition zero_oid :: string where
  "zero_oid = replicate 40 CHR ''0''"

definition sample_git :: "string list \<Rightarrow> git_result" where
  "sample_git args =
     (case drop 6 args of
        [c, d] \<Rightarrow>
          if c = ''rev-parse'' then
            (if d = ''--show-toplevel'' then GitDone 0 (''/w'' @ [CHR 0x0A])
             else if d = ''--git-common-dir'' then GitDone 0 (''/w/.git'' @ [CHR 0x0A])
             else if d = ''--git-dir'' then GitDone 0 (''/w/.git'' @ [CHR 0x0A])
             else GitDone 0 (''sha1'' @ [CHR 0x0A]))
          else GitDone 0 []
      | [c, d, e] \<Rightarrow>
          if c = ''cat-file'' then GitDone 0 (''commit'' @ [CHR 0x0A])
          else if c = ''symbolic-ref'' then GitDone 1 []
          else GitDone 0 (zero_oid @ [CHR 0x0A])
      | _ \<Rightarrow> GitDone 0 (zero_oid @ [CHR 0x0A]))"

definition sample_host :: host where
  "sample_host =
     \<lparr>clock = (\<lambda>h. of_nat (length h)), environ = [(''GIT_DIR'', ''/evil''), (''PATH'', ''/bin'')],
      git_run = (\<lambda>_ argv _. sample_git argv),
      git_scan = (\<lambda>_ _ _. ([StdoutChunk (''src/b'' @ [CHR 0x00]), StderrChunk ''warning'',
                             StdoutChunk (''src/a'' @ [CHR 0x00])], 0)),
      resolve_path = (\<lambda>_ p. Some p), path_identity = (\<lambda>_ _. Some (1, 2)),
      stat_file = (\<lambda>_ _. StatMissing), read_file = (\<lambda>_ _ _ _. Inl ''no file''),
      boot_id_text = (\<lambda>_. Some ''boot''), proc_stat = (\<lambda>_ _. ProcMissing),
      proc_exists = (\<lambda>_ _. False), tmux_run = (\<lambda>_ _. Inl ''no tmux''),
      gpu_query = (\<lambda>_. Inl ''no gpu''), json_file = (\<lambda>_ _. None), path_exists = (\<lambda>_ _. False)\<rparr>"

definition sample_scope :: GitDeliveryScope where
  "sample_scope =
     \<lparr>sc_worktree_root = ''/w'', sc_common_dir = ''/w/.git'', sc_object_format = ''sha1'',
      sc_baseline_commit = zero_oid, sc_producer_task_id = ''t1'', sc_allowed_prefixes = [''src'']\<rparr>"

lemma attest_candidate_cases:
  assumes "attest_candidate H E sc c h = (a, h')"
  shows "at_status a \<in> {INVALID_COMMIT, BASELINE_MISMATCH, ATTESTATION_ERROR}
       \<and> at_paths a = [] \<and> at_path_count a = 0
     \<or> is_full_oid c (length c) \<and> length c \<in> {40, 64} \<and>
       (\<exists>paths. path_attestation E (sc_allowed_prefixes sc) (map ascii_lower c) paths = a)"
proof -
  obtain v h1 where v: "verify_captured_scope H sc h = (v, h1)" by (cases "verify_captured_scope H sc h")
  show ?thesis
  proof (cases v)
    case (Inl e)
    with assms v show ?thesis
      by (auto simp: attest_candidate_def error_attestation_def empty_attestation_def)
  next
    case (Inr rn)
    obtain r n where rn: "rn = (r, n)" by (cases rn)
    have n: "n \<in> {40, 64}"
      using v Inr rn
      by (auto simp: verify_captured_scope_def bindO_Inr obs_simps oid_length_def oid_length_of_def
          split: if_splits prod.splits option.splits)
    obtain r2 h2 where b: "attest_body H E sc r n (map ascii_lower c) h1 = (r2, h2)"
      by (cases "attest_body H E sc r n (map ascii_lower c) h1")
    show ?thesis
    proof (cases "is_full_oid c n")
      case False
      with assms v Inr rn show ?thesis
        by (auto simp: attest_candidate_def empty_attestation_def)
    next
      case True
      then have len: "length c = n" by (simp add: is_full_oid_def)
      show ?thesis
      proof (cases r2)
        case (Inl e)
        with assms v Inr rn b True show ?thesis
          by (auto simp: attest_candidate_def error_attestation_def empty_attestation_def Let_def)
      next
        case (Inr a2)
        then have "a2 = a"
          using assms v \<open>v = Inr rn\<close> rn b True by (simp add: attest_candidate_def Let_def)
        with attest_body_Inr [of H E sc r n "map ascii_lower c" h1 a2 h2] Inr b len n True
        show ?thesis by auto
      qed
    qed
  qed
qed


text \<open>Running the operations on the concrete host.\<close>

lemmas git_run_simps = bindO_def retO_def failO_def askO_def unlessO_def liftO_def git_def git_argv_def
  sample_git_def resolve_strict_def canonical_existing_path_def output_path_def
  join_path_def oid_length_def oid_length_of_def discover_repository_def Let_def

lemma rstrip_sample [simp]:
  "rstrip_newlines (s @ [CHR 0x0A]) = rstrip_newlines s"
  by (simp add: rstrip_newlines_def)

lemma output_text_sample:
  "rstrip_newlines s = s \<Longrightarrow> is_ascii s \<Longrightarrow> output_text (s @ [CHR 0x0A]) = retO s"
  by (simp add: output_text_def)

lemma sample_host_sel [simp]:
  "git_run sample_host h argv env = sample_git argv" "resolve_path sample_host h p = Some p"
  "path_identity sample_host h p = Some (1, 2)"
  "git_scan sample_host h argv env = ([StdoutChunk (''src/b'' @ [CHR 0x00]), StderrChunk ''warning'',
     StdoutChunk (''src/a'' @ [CHR 0x00])], 0)"
  by (simp_all add: sample_host_def)

definition one_oid :: string where
  "one_oid = replicate 40 CHR ''1''"

lemma ascii_lower_one: "ascii_lower CHR ''1'' = CHR ''1''"
  by (simp add: ascii_lower_def)

lemma sample_oids [simp]:
  "is_full_oid zero_oid 40" "is_full_oid one_oid 40" "map ascii_lower one_oid = one_oid"
  by (simp_all add: is_full_oid_def zero_oid_def one_oid_def is_hex_def is_lower_hex_def is_digit_def
      list_all_iff ascii_lower_one map_replicate)

lemma sample_verify:
  "\<exists>h'. verify_captured_scope sample_host sample_scope h = (Inr (''/w'', 40), h')"
proof -
  have "normalize_prefix ''src'' = Inr ''src''"
    by (simp add: normalize_prefix_def starts_with_def drive_like_def)
  then show ?thesis
    by (simp add: verify_captured_scope_def sample_scope_def git_run_simps output_text_def is_ascii_def
        rstrip_newlines_def starts_with_def normalize_prefixes_def)
qed

lemma sample_paths:
  "bounded_stdout MAX_SCAN_BYTES []
     [StdoutChunk (''src/b'' @ [CHR 0x00]), StderrChunk ''warning'', StdoutChunk (''src/a'' @ [CHR 0x00])]
     = Some (''src/b'' @ [CHR 0x00] @ ''src/a'' @ [CHR 0x00])"
  "parse_path_list (''src/b'' @ [CHR 0x00] @ ''src/a'' @ [CHR 0x00]) = Inr [''src/a'', ''src/b'']"
  by (simp_all add: MAX_SCAN_BYTES_def parse_path_list_def less_eq_char_def)

lemma sample_attest:
  "\<exists>h'. attest_candidate sample_host E sample_scope one_oid []
     = (path_attestation E [''src''] one_oid [''src/a'', ''src/b''], h')"
proof -
  obtain h1 where v: "verify_captured_scope sample_host sample_scope [] = (Inr (''/w'', 40), h1)"
    using sample_verify by blast
  have p: "\<exists>h'. changed_paths sample_host ''/w'' zero_oid one_oid h = (Inr [''src/a'', ''src/b''], h')" for h
    using sample_paths by (simp add: changed_paths_def run_bounded_git_def git_run_simps)
  have t: "\<exists>h'. object_type sample_host ''/w'' oid h = (Inr (Some ''commit''), h')" for oid h
    by (simp add: object_type_def git_run_simps output_text_def is_ascii_def rstrip_newlines_def)
  have a: "\<exists>h'. is_ancestor sample_host ''/w'' zero_oid one_oid h = (Inr True, h')" for h
    by (simp add: is_ancestor_def git_run_simps)
  have "\<exists>h'. attest_body sample_host E sample_scope ''/w'' 40 one_oid h1
      = (Inr (path_attestation E [''src''] one_oid [''src/a'', ''src/b'']), h')"
  proof -
    obtain h2 where h2: "object_type sample_host ''/w'' one_oid h1 = (Inr (Some ''commit''), h2)"
      using t by blast
    obtain h3 where h3: "object_type sample_host ''/w'' zero_oid h2 = (Inr (Some ''commit''), h3)"
      using t by blast
    obtain h4 where h4: "is_ancestor sample_host ''/w'' zero_oid one_oid h3 = (Inr True, h4)"
      using a by blast
    obtain h5 where h5: "changed_paths sample_host ''/w'' zero_oid one_oid h4 = (Inr [''src/a'', ''src/b''], h5)"
      using p by blast
    obtain h6 where h6: "verify_captured_scope sample_host sample_scope h5 = (Inr (''/w'', 40), h6)"
      using sample_verify by blast
    note r = h2 h3 h4 h5 h6
    show ?thesis
      by (simp add: attest_body_def bindO_def sample_scope_def [THEN arg_cong, of sc_baseline_commit]
          sample_scope_def [THEN arg_cong, of sc_allowed_prefixes] r obs_simps)
  qed
  with v show ?thesis
    by (auto simp: attest_candidate_def Let_def)
qed



section \<open>Samples\<close>

definition ref_moved :: "GitRefBinding \<Rightarrow> RawGitRef option \<Rightarrow> bool" where
  "ref_moved b current \<longleftrightarrow>
     (case current of
        None \<Rightarrow> True
      | Some r \<Rightarrow> raw_direct_oid r \<noteq> gb_direct_oid b \<or>
          gb_ref b = ''HEAD'' \<and> raw_head_target r \<noteq> gb_head_target b)"

lemma ref_classification_changed:
  "ref_classification b r anc \<noteq> UNCHANGED \<longleftrightarrow> ref_moved b (Some r)"
  "ref_classification b r anc = FAST_FORWARD \<Longrightarrow> anc = DESCENDANT"
  "ref_classification b r anc \<noteq> OBSERVER_ERROR"
  by (auto simp: ref_classification_def ref_moved_def split: if_splits)

lemma classify_Inr:
  assumes "classify_git_ref H b r cur h = (Inr s, h')"
  shows "gs_classification s \<noteq> OBSERVER_ERROR \<and> gs_error s = None
       \<and> (gs_changed s \<longleftrightarrow> ref_moved b cur)
       \<and> (gs_changed s \<longleftrightarrow> gs_classification s \<noteq> UNCHANGED)
       \<and> (gs_classification s = REF_DELETED \<longrightarrow> cur = None)
       \<and> (gs_classification s = FAST_FORWARD \<longrightarrow> gs_ancestry s = Some DESCENDANT)
       \<and> gs_new_direct_oid s = map_option raw_direct_oid cur"
proof (cases cur)
  case None
  with assms show ?thesis
    by (auto simp: classify_git_ref_def obs_simps git_ref_sample_def ref_moved_def)
next
  case (Some r0)
  with assms obtain anc where s: "s = git_ref_sample b (Some r0) (ref_classification b r0 anc) anc"
    by (auto simp: classify_git_ref_def bindO_Inr obs_simps)
  have "ref_classification b r0 anc \<noteq> REF_DELETED"
    by (auto simp: ref_classification_def)
  then show ?thesis
    using ref_classification_changed [of b r0 anc] unfolding s Some
    by (auto simp: git_ref_sample_def)
qed

lemma history_grows: "asks_only P m \<Longrightarrow> m h = (r, h') \<Longrightarrow> length h \<le> length h'"
  using asks_onlyD by fastforce

text \<open>C33. A ref sample that is not an error rests on two reads of the ref, the second begun after
  the first one ended, that agree on its state; it says the ref changed exactly when that state
  differs from the captured one (another object, another target of HEAD, or no ref at all), and calls
  it a fast-forward only for a descendant. A sample that is an error reports no change.\<close>

theorem ref_sample_sound:
  assumes "sample_git_ref H b h = (s, h')"
  shows "(gs_classification s = OBSERVER_ERROR \<longrightarrow> \<not> gs_changed s \<and> gs_error s \<noteq> None)
       \<and> (gs_classification s \<noteq> OBSERVER_ERROR \<longrightarrow>
            (\<exists>root_dir n cur h1 h2 h3 h4.
               read_git_ref H root_dir (gb_ref b) n True h1 = (Inr cur, h2)
             \<and> read_git_ref H root_dir (gb_ref b) n True h3 = (Inr cur, h4)
             \<and> length h \<le> length h1 \<and> length h2 \<le> length h3
             \<and> (gs_changed s \<longleftrightarrow> ref_moved b cur)
             \<and> (gs_classification s = REF_DELETED \<longrightarrow> cur = None)
             \<and> (gs_classification s = FAST_FORWARD \<longrightarrow> gs_ancestry s = Some DESCENDANT)))"
proof -
  obtain r h0 where body: "sample_body H b h = (r, h0)" by (cases "sample_body H b h")
  show ?thesis
  proof (cases r)
    case (Inl e)
    with assms body show ?thesis by (auto simp: sample_git_ref_def git_ref_error_sample_def)
  next
    case (Inr s0)
    then have "s0 = s" using assms body by (simp add: sample_git_ref_def)
    with body Inr obtain root_dir n h1 cur h2 rn2 h3 h4 h5 rn3 where
      v1: "verify_git_ref_binding H b h = (Inr (root_dir, n), h1)" and
      r1: "read_git_ref H root_dir (gb_ref b) n True h1 = (Inr cur, h2)" and
      v2: "verify_git_ref_binding H b h2 = (rn2, h3)" and
      r2: "read_git_ref H root_dir (gb_ref b) n True h3 = (Inr cur, h4)" and
      c: "classify_git_ref H b root_dir cur h5 = (Inr s, h0)"
      by (auto simp: sample_body_def bindO_Inr obs_simps split: if_splits prod.splits)
    have "length h \<le> length h1" "length h2 \<le> length h3"
      using history_grows [OF asks_verify(1)] v1 v2 by blast+
    with r1 r2 classify_Inr [OF c] show ?thesis by blast
  qed
qed

definition sample_binding :: GitRefBinding where
  "sample_binding =
     \<lparr>gb_worktree_root = ''/w'', gb_common_dir = ''/w/.git'', gb_git_dir = ''/w/.git'',
      gb_object_format = ''sha1'', gb_ref = ''refs/x'', gb_direct_oid = one_oid,
      gb_peeled_commit = one_oid, gb_head_target = None, gb_worktree_identity = (1, 2),
      gb_common_dir_identity = (1, 2), gb_git_dir_identity = (1, 2)\<rparr>"

lemma sample_binding_verified:
  "\<exists>h'. verify_git_ref_binding sample_host sample_binding h = (Inr (''/w'', 40), h')"
  by (simp add: verify_git_ref_binding_def sample_binding_def binding_fields_ok_def ref_shape_ok_def
      starts_with_def on_value_error_def catchO_def check_identities_def identity_of_def
      discover_git_dir_def require_valid_direct_ref_def output_text_def is_ascii_def
      rstrip_newlines_def git_run_simps)


lemma zero_oid_output: "output_oid (zero_oid @ [CHR 0x0A]) 40 = retO zero_oid"
proof -
  have "rstrip_newlines zero_oid = zero_oid"
    by (simp add: rstrip_newlines_def zero_oid_def)
  moreover have "is_ascii zero_oid"
    by (simp add: is_ascii_def zero_oid_def list_all_iff)
  moreover have "map ascii_lower zero_oid = zero_oid"
    by (simp add: zero_oid_def map_replicate ascii_lower_def)
  ultimately show ?thesis by (simp add: output_oid_def)
qed

lemma sample_read:
  "\<exists>h'. read_git_ref sample_host ''/w'' ''refs/x'' 40 True h =
     (Inr (Some \<lparr>raw_direct_oid = zero_oid, raw_peeled_commit = zero_oid, raw_head_target = None\<rparr>), h')"
  by (simp add: read_git_ref_def read_direct_oid_def peel_commit_def zero_oid_output git_run_simps)

lemma sample_binding_changed:
  "\<exists>h'. sample_git_ref sample_host sample_binding [] =
     (git_ref_sample sample_binding
        (Some \<lparr>raw_direct_oid = zero_oid, raw_peeled_commit = zero_oid, raw_head_target = None\<rparr>)
        FAST_FORWARD DESCENDANT, h')"
proof -
  let ?cur = "\<lparr>raw_direct_oid = zero_oid, raw_peeled_commit = zero_oid, raw_head_target = None\<rparr>"
  note v = sample_binding_verified and r = sample_read
  obtain h1 where h1: "verify_git_ref_binding sample_host sample_binding [] = (Inr (''/w'', 40), h1)"
    using v by blast
  obtain h2 where h2: "read_git_ref sample_host ''/w'' ''refs/x'' 40 True h1 = (Inr (Some ?cur), h2)"
    using r by blast
  obtain h3 where h3: "verify_git_ref_binding sample_host sample_binding h2 = (Inr (''/w'', 40), h3)"
    using v by blast
  obtain h4 where h4: "read_git_ref sample_host ''/w'' ''refs/x'' 40 True h3 = (Inr (Some ?cur), h4)"
    using r by blast
  obtain h5 where h5: "verify_git_ref_binding sample_host sample_binding h4 = (Inr (''/w'', 40), h5)"
    using v by blast
  have ref: "gb_ref sample_binding = ''refs/x''" by (simp add: sample_binding_def)
  have "\<exists>h'. classify_git_ref sample_host sample_binding ''/w'' (Some ?cur) h5
      = (Inr (git_ref_sample sample_binding (Some ?cur) FAST_FORWARD DESCENDANT), h')"
    by (simp add: classify_git_ref_def is_ancestor_def ref_classification_def git_run_simps
        sample_binding_def zero_oid_def one_oid_def)
  then show ?thesis
    using h1 h2 h3 h4 h5
    by (auto simp: sample_git_ref_def sample_body_def bindO_def ref obs_simps)
qed

lemma ref_sample_sound_witness:
  "\<exists>cur. ref_moved sample_binding cur \<and>
     (\<exists>root_dir n h1 h2. read_git_ref sample_host root_dir (gb_ref sample_binding) n True h1 = (Inr cur, h2))"
proof -
  obtain h' where "sample_git_ref sample_host sample_binding [] =
     (git_ref_sample sample_binding
        (Some \<lparr>raw_direct_oid = zero_oid, raw_peeled_commit = zero_oid, raw_head_target = None\<rparr>)
        FAST_FORWARD DESCENDANT, h')"
    using sample_binding_changed by blast
  from ref_sample_sound [OF this] show ?thesis
    by (simp add: git_ref_sample_def) blast
qed

end
