(* ===== verification/Conditions.thy ===== *)
theory Conditions
  imports Git_Attestation
begin

text \<open>
  The first half of \<open>conditions.py\<close>: the observer context, the validation of an operator's condition
  and the capture of every identity needed to observe it later (\<open>prepare_condition\<close>), and the
  functions that read the event reservations, children threads and native workers a condition names.

  A condition is a JSON dict. What a capture asks of the machine goes through \<open>Host\<close>.
  \<open>datetime.fromisoformat\<close> and the regular expression engine are parameters of the context.
\<close>

definition MAX_LOG_PATTERNS :: nat where "MAX_LOG_PATTERNS = 8"
definition MAX_LOG_PATTERN_CHARS :: nat where "MAX_LOG_PATTERN_CHARS = 512"
definition LOG_READ_BUDGET_BYTES :: int where "LOG_READ_BUDGET_BYTES = 4 * 1024 * 1024"
definition LOG_LINE_MATCH_CHARS :: nat where "LOG_LINE_MATCH_CHARS = 4096"
definition LOG_EVALUATION_SECONDS :: rat where "LOG_EVALUATION_SECONDS = 1"
definition JOURNAL_MAX_LINES :: nat where "JOURNAL_MAX_LINES = 50"
definition JOURNAL_MAX_CHARS :: nat where "JOURNAL_MAX_CHARS = 16 * 1024"
definition JOURNAL_STORED_LINE_CHARS :: nat where "JOURNAL_STORED_LINE_CHARS = 512"
definition WITNESS_MATCHED_LINES :: nat where "WITNESS_MATCHED_LINES = 5"

type_synonym native_key = "string \<times> string \<times> string option \<times> string option"

record ObserverContext =
  runtime_root :: string
  iso_time :: "string \<Rightarrow> rat option option"
  regex :: "string \<Rightarrow> (string \<Rightarrow> bool) option"
  thread_observations :: "(string \<times> json) list"
  native_root_thread_id :: "string option"
  native_observations :: "(native_key \<times> json) list"

type_synonym 'a py = "(py_error, 'a) obs"

abbreviation invalidO :: "string \<Rightarrow> 'a py" where
  "invalidO m \<equiv> failO (ValidationError m)"

abbreviation requireO :: "bool \<Rightarrow> string \<Rightarrow> unit py" where
  "requireO ok m \<equiv> unlessO (\<not> ok) (ValidationError m)"

section \<open>Field checks\<close>

definition expect_mapping :: "json \<Rightarrow> string \<Rightarrow> json res" where
  "expect_mapping v what =
     (if is_obj v then Inr v else raise_validation (what @ '' must be an object''))"

definition only_keys :: "json \<Rightarrow> string list \<Rightarrow> string \<Rightarrow> unit res" where
  "only_keys raw allowed ty =
     unlessE (\<not> list_all (\<lambda>kv. fst kv \<in> set allowed) (entries raw))
       (ValidationError (ty @ '' contains unsupported fields''))"

text \<open>A number that is not below zero; NaN and infinity pass this check.\<close>

definition expect_number :: "json \<Rightarrow> string \<Rightarrow> pyfloat res" where
  "expect_number v what =
     (if \<not> is_number v then raise_validation (what @ '' must be a number'')
      else bindE (py_float v) (\<lambda>f.
        if f \<noteq> Fin 0 \<and> pf_le f (Fin 0) then raise_validation (what @ '' must be at least 0.0'')
        else Inr f))"

text \<open>\<open>value.replace("Z", "+00:00")\<close>.\<close>

definition zulu :: "string \<Rightarrow> string" where
  "zulu s = concat (map (\<lambda>c. if c = CHR ''Z'' then ''+00:00'' else [c]) s)"

fun parse_deadline :: "ObserverContext \<Rightarrow> json \<Rightarrow> rat res" where
  "parse_deadline C (JStr s) =
     (case iso_time C (zulu s) of
        None \<Rightarrow> raise_validation ''time.at_utc must be an RFC3339 timestamp''
      | Some None \<Rightarrow> raise_validation ''time.at_utc must include a UTC offset''
      | Some (Some t) \<Rightarrow> Inr t)"
| "parse_deadline C _ = raise_validation ''time.at_utc must be an RFC3339 timestamp string''"

definition bounded_id :: "nat \<Rightarrow> json \<Rightarrow> string \<Rightarrow> string res" where
  "bounded_id limit v m =
     (case v of
        JStr s \<Rightarrow>
          if s = [] \<or> length s > limit \<or> CHR 0x00 \<in> set s then raise_validation m else Inr s
      | _ \<Rightarrow> raise_validation m)"

definition event_reservation_id :: "json \<Rightarrow> string res" where
  "event_reservation_id v = bounded_id 256 v ''event reservation_id must be a bounded string''"

definition native_worker_task_name :: "json \<Rightarrow> string res" where
  "native_worker_task_name v =
     (case v of
        JStr s \<Rightarrow>
          if \<not> starts_with ''/'' s \<or> length s > 256 \<or> CHR 0x00 \<in> set s then
            raise_validation ''native_worker_terminal.task_name must be a bounded canonical task name''
          else Inr s
      | _ \<Rightarrow>
          raise_validation ''native_worker_terminal.task_name must be a bounded canonical task name'')"

section \<open>Processes and tmux\<close>

definition read_boot_id :: "host \<Rightarrow> string py" where
  "read_boot_id H =
     bindO (askO ReadBootId (boot_id_text H)) (\<lambda>r.
       case r of
         None \<Rightarrow> invalidO ''cannot read the host boot identity''
       | Some t \<Rightarrow> retO (py_strip t))"

definition TERMINAL_PROCESS_STATES :: "string list" where
  "TERMINAL_PROCESS_STATES = [''Z'', ''X'', ''x'']"

text \<open>\<open>text.rsplit(")", 1)[1]\<close>, when there is a closing parenthesis.\<close>

definition after_last_paren :: "string \<Rightarrow> string option" where
  "after_last_paren s =
     (if CHR '')'' \<in> set s then Some (rev (takeWhile (\<lambda>c. c \<noteq> CHR '')'') (rev s))) else None)"

text \<open>The state letter and the start time of a \<open>/proc/<pid>/stat\<close> line.\<close>

definition parse_proc_stat :: "string \<Rightarrow> (string \<times> int) res" where
  "parse_proc_stat text =
     (case after_last_paren text of
        None \<Rightarrow> raise_validation ''cannot parse process identity''
      | Some rest \<Rightarrow>
          let fields = split_words (py_strip rest) in
          if length fields \<le> 19 then raise_validation ''cannot parse process identity''
          else case parse_int (fields ! 19) of
              Inl _ \<Rightarrow> raise_validation ''cannot parse process identity''
            | Inr start \<Rightarrow>
                if py_len (fields ! 0) \<noteq> 1 then raise_validation ''cannot parse process identity''
                else Inr (fields ! 0, start))"

definition pid_identity :: "int \<Rightarrow> string \<Rightarrow> int \<Rightarrow> int \<Rightarrow> json" where
  "pid_identity pid boot start uid =
     JObj [(''pid'', JInt pid), (''boot_id'', JStr boot), (''start_time'', JInt start),
           (''uid'', JInt uid)]"

definition read_pid_snapshot :: "host \<Rightarrow> int \<Rightarrow> (json \<times> string) py" where
  "read_pid_snapshot H pid =
     bindO (askO (ReadProcStat pid) (\<lambda>h. proc_stat H h pid)) (\<lambda>r.
       case r of
         ProcMissing \<Rightarrow> invalidO ''PID does not exist''
       | ProcFailed \<Rightarrow> invalidO ''cannot inspect PID''
       | ProcOk text uid \<Rightarrow>
           bindO (liftO (parse_proc_stat text)) (\<lambda>(state, start).
           bindO (read_boot_id H) (\<lambda>boot. retO (pid_identity pid boot start uid, state))))"

definition tmux_command :: "string \<Rightarrow> string list \<Rightarrow> string list" where
  "tmux_command sock args = [''tmux'', ''-S'', sock] @ args"

definition ask_tmux :: "host \<Rightarrow> string list \<Rightarrow> ('e, string + (int \<times> string \<times> string)) obs" where
  "ask_tmux H argv = askO (TmuxRun argv) (\<lambda>h. tmux_run H h argv)"

definition default_tmux_socket :: "host \<Rightarrow> string res" where
  "default_tmux_socket H =
     (case map_of (environ H) ''TMUX'' of
        None \<Rightarrow> raise_validation ''tmux_exit requires socket when $TMUX is unavailable''
      | Some raw \<Rightarrow>
          if raw = [] then raise_validation ''tmux_exit requires socket when $TMUX is unavailable''
          else
            let sock = hd (split_on CHR '','' raw) in
            if sock = [] then raise_validation ''$TMUX does not contain a socket path''
            else Inr sock)"

definition all_digits :: "string \<Rightarrow> bool" where
  "all_digits s \<longleftrightarrow> s \<noteq> [] \<and> list_all is_digit s"

definition tmux_fields :: string where
  "tmux_fields = ''#{pid}'' @ [CHR 0x09] @ ''#{session_id}'' @ [CHR 0x09] @ ''#{pane_id}''"

definition capture_tmux_identity :: "host \<Rightarrow> json \<Rightarrow> json py" where
  "capture_tmux_identity H raw =
     bindO (liftO (memE (jget ''target_kind'' raw) [''session'', ''pane''])) (\<lambda>kind_ok.
     bindO (requireO kind_ok ''tmux_exit.target_kind must be session or pane'') (\<lambda>_.
     bindO (requireO (is_str (jget ''target'' raw) \<and> truthy (jget ''target'' raw))
       ''tmux_exit.target must be a non-empty tmux target'') (\<lambda>_.
     bindO (if truthy (jget ''socket'' raw) then retO (jget ''socket'' raw)
            else bindO (liftO (default_tmux_socket H)) (\<lambda>s. retO (JStr s))) (\<lambda>sock.
     bindO (requireO (is_str sock \<and> starts_with ''/'' (py_str sock))
       ''tmux_exit.socket must be an absolute Unix socket path'') (\<lambda>_.
     bindO (ask_tmux H (tmux_command (py_str sock)
       [''display-message'', ''-p'', ''-t'', py_str (jget ''target'' raw), tmux_fields])) (\<lambda>r.
     case r of
       Inl e \<Rightarrow> failO (OSError e)
     | Inr (rc, out, err) \<Rightarrow>
         if rc \<noteq> 0 then
           invalidO (if py_strip err \<noteq> [] then py_strip err else ''cannot resolve the tmux target'')
         else
           let values = split_on CHR 0x09 (py_strip out) in
           if length values \<noteq> 3 \<or> \<not> all_digits (values ! 0) then
             invalidO ''tmux returned an invalid identity''
           else
             bindO (liftO (parse_int (values ! 0))) (\<lambda>server_pid.
             retO (JObj
               [(''type'', JStr ''tmux_exit''), (''target_kind'', jget ''target_kind'' raw),
                (''socket'', sock), (''server_pid'', JInt server_pid),
                (''target_id'', JStr (if jget ''target_kind'' raw = JStr ''session'' then values ! 1
                                     else values ! 2)),
                (''session_id'', JStr (values ! 1))]))))))))"


section \<open>Logs\<close>

text \<open>One entry of the named alternation, given the names seen before it.\<close>

definition compile_pattern :: "ObserverContext \<Rightarrow> string list \<Rightarrow> json \<Rightarrow> (string \<times> string) res" where
  "compile_pattern C seen entry =
     bindE (expect_mapping entry ''log_pattern.patterns entry'') (\<lambda>_.
     bindE (only_keys entry [''name'', ''regex''] ''log_pattern.patterns entry'') (\<lambda>_.
     case jget ''name'' entry of
       JStr name \<Rightarrow>
         if name = [] then raise_validation ''log_pattern.patterns entry requires a non-empty name''
         else if name \<in> set seen then raise_validation ''log_pattern.patterns must not repeat a name''
         else (case jget ''regex'' entry of
             JStr rx \<Rightarrow>
               if rx = [] then raise_validation ''log_pattern.patterns entry requires a non-empty regex''
               else if py_len rx > MAX_LOG_PATTERN_CHARS then
                 raise_validation ''log_pattern regex must be at most 512 characters''
               else if regex C rx = None then raise_validation ''log_pattern regex does not compile''
               else Inr (name, rx)
           | _ \<Rightarrow> raise_validation ''log_pattern.patterns entry requires a non-empty regex'')
     | _ \<Rightarrow> raise_validation ''log_pattern.patterns entry requires a non-empty name''))"

fun compile_patterns :: "ObserverContext \<Rightarrow> string list \<Rightarrow> json list \<Rightarrow> (string \<times> string) list res" where
  "compile_patterns C seen [] = Inr []"
| "compile_patterns C seen (e # es) =
     bindE (compile_pattern C seen e) (\<lambda>p.
     bindE (compile_patterns C (fst p # seen) es) (\<lambda>ps. Inr (p # ps)))"

definition compile_log_patterns :: "ObserverContext \<Rightarrow> json \<Rightarrow> (string \<times> string) list res" where
  "compile_log_patterns C raw =
     (case jget ''patterns'' raw of
        JList xs \<Rightarrow>
          if xs = [] then raise_validation ''log_pattern.patterns must be a non-empty list''
          else if length xs > MAX_LOG_PATTERNS then
            raise_validation ''log_pattern.patterns must contain at most 8 entries''
          else compile_patterns C [] xs
      | _ \<Rightarrow> raise_validation ''log_pattern.patterns must be a non-empty list'')"

definition pattern_json :: "string \<times> string \<Rightarrow> json" where
  "pattern_json p = JObj [(''name'', JStr (fst p)), (''regex'', JStr (snd p))]"

definition log_identity :: "int \<Rightarrow> int \<Rightarrow> json" where
  "log_identity dev ino = JObj [(''device'', JInt dev), (''inode'', JInt ino)]"

definition log_condition :: "string \<Rightarrow> (string \<times> string) list \<Rightarrow> json \<Rightarrow> int \<Rightarrow> json" where
  "log_condition path patterns identity offset = JObj
     [(''type'', JStr ''log_pattern''), (''path'', JStr path),
      (''patterns'', JList (map pattern_json patterns)), (''identity'', identity),
      (''offset'', JInt offset), (''missing_at_arm'', JBool (identity = JNull)),
      (''matched'', JBool False), (''matched_names'', JList []), (''witness_lines'', JList []),
      (''journal'', JObj [(''lines'', JList []), (''dropped'', JInt 0)])]"

definition ask_stat :: "host \<Rightarrow> string \<Rightarrow> ('e, stat_result) obs" where
  "ask_stat H path = askO (StatFile path) (\<lambda>h. stat_file H h path)"

definition capture_log_identity :: "ObserverContext \<Rightarrow> host \<Rightarrow> json \<Rightarrow> json py" where
  "capture_log_identity C H raw =
     (case jget ''path'' raw of
        JStr path \<Rightarrow>
          if \<not> starts_with ''/'' path then invalidO ''log_pattern.path must be an absolute file path''
          else
            bindO (liftO (compile_log_patterns C raw)) (\<lambda>patterns.
            bindO (ask_stat H path) (\<lambda>st.
            case st of
              StatMissing \<Rightarrow> retO (log_condition path patterns JNull 0)
            | StatFailed e \<Rightarrow> invalidO ''cannot inspect log file''
            | StatOk regular dev ino eof \<Rightarrow>
                if \<not> regular then invalidO ''log_pattern.path must name a regular file''
                else retO (log_condition path patterns (log_identity dev ino) eof)))
      | _ \<Rightarrow> invalidO ''log_pattern.path must be an absolute file path'')"

section \<open>Children threads and native workers\<close>

definition thread_snapshot :: "ObserverContext \<Rightarrow> string \<Rightarrow> json" where
  "thread_snapshot C child =
     (case map_of (thread_observations C) child of None \<Rightarrow> JNull | Some v \<Rightarrow> v)"

definition capture_thread_idle :: "ObserverContext \<Rightarrow> json \<Rightarrow> json res" where
  "capture_thread_idle C raw =
     (let accept = (if jhas ''accept_already_idle'' raw then jget ''accept_already_idle'' raw
                    else JBool False) in
      case jget ''thread_id'' raw of
        JStr child \<Rightarrow>
          if child = [] then raise_validation ''thread_idle.thread_id must be a non-empty thread id''
          else (case accept of
              JBool acc \<Rightarrow>
                let snapshot = thread_snapshot C child;
                    status = py_str (jget ''runtime_status'' snapshot) in
                if \<not> truthy (jget ''is_loaded'' snapshot) then
                  raise_validation ''thread_idle child is not locally loaded''
                else if status = ''idle'' \<and> \<not> acc then
                  raise_validation ''thread_idle child is already idle at registration''
                else Inr (JObj
                  [(''type'', JStr ''thread_idle''), (''thread_id'', JStr child),
                   (''accept_already_idle'', JBool acc), (''armed_runtime_status'', JStr status),
                   (''armed_snapshot'', snapshot), (''idle'', JBool False),
                   (''idle_snapshot'', JNull)])
            | _ \<Rightarrow> raise_validation ''thread_idle.accept_already_idle must be boolean'')
      | _ \<Rightarrow> raise_validation ''thread_idle.thread_id must be a non-empty thread id'')"

definition native_worker_settlement :: "json \<Rightarrow> string \<Rightarrow> json res" where
  "native_worker_settlement snapshot root_id =
     bindE (jindex ''task_name'' snapshot) (\<lambda>t.
     bindE (jindex ''child_thread_id'' snapshot) (\<lambda>c.
     bindE (jindex ''invocation_id'' snapshot) (\<lambda>i.
     bindE (jindex ''status'' snapshot) (\<lambda>s.
     Inr (JObj
       ([(''task_name'', t), (''root_thread_id'', JStr root_id), (''child_thread_id'', c),
         (''invocation_id'', i), (''status'', s)]
        @ (if jget ''error'' snapshot = JNull then [] else [(''error'', jget ''error'' snapshot)])))))))"

definition native_snapshot :: "ObserverContext \<Rightarrow> native_key \<Rightarrow> json" where
  "native_snapshot C key = (case map_of (native_observations C) key of None \<Rightarrow> JNull | Some v \<Rightarrow> v)"

definition settled_statuses :: "string list" where
  "settled_statuses = [''interrupted'', ''completed'', ''failed'']"

definition nonempty_str :: "json \<Rightarrow> bool" where
  "nonempty_str v \<longleftrightarrow> is_str v \<and> truthy v"

definition capture_native_worker :: "ObserverContext \<Rightarrow> json \<Rightarrow> json res" where
  "capture_native_worker C raw =
     bindE (native_worker_task_name (jget ''task_name'' raw)) (\<lambda>task.
     case native_root_thread_id C of
       None \<Rightarrow> raise_validation ''native_worker_terminal requires trusted root-bound thread delivery''
     | Some root_id \<Rightarrow>
         if root_id = [] then
           raise_validation ''native_worker_terminal requires trusted root-bound thread delivery''
         else
           let snapshot = native_snapshot C (root_id, task, None, None);
               status = jget ''status'' snapshot in
           bindE (unlessE (\<not> is_obj snapshot)
             (ValidationError ''native worker binding is unavailable'')) (\<lambda>_.
           bindE (unlessE (status = JStr ''bindPending'')
             (ValidationError ''native worker has no exact invocation yet'')) (\<lambda>_.
           bindE (memE status [''unavailable'', ''mismatch'']) (\<lambda>bad.
           bindE (unlessE bad (ValidationError ''native worker binding failed'')) (\<lambda>_.
           bindE (unlessE (jget ''task_name'' snapshot \<noteq> JStr task
               \<or> \<not> nonempty_str (jget ''child_thread_id'' snapshot)
               \<or> \<not> nonempty_str (jget ''invocation_id'' snapshot)
               \<or> status \<notin> JStr ` set (''running'' # settled_statuses))
             (ValidationError ''native worker binding returned malformed identity'')) (\<lambda>_.
           bindE (if status \<in> JStr ` set settled_statuses then native_worker_settlement snapshot root_id
                  else Inr JNull) (\<lambda>settlement.
           Inr (JObj
             [(''type'', JStr ''native_worker_terminal''), (''task_name'', JStr task),
              (''root_thread_id'', JStr root_id),
              (''child_thread_id'', jget ''child_thread_id'' snapshot),
              (''invocation_id'', jget ''invocation_id'' snapshot), (''armed_status'', status),
              (''settlement'', settlement)]))))))))"

section \<open>Preparing a condition\<close>

text \<open>\<open>devices\<close>: distinct non-negative indices.\<close>

fun device_index :: "json \<Rightarrow> int option" where
  "device_index (JInt i) = (if 0 \<le> i then Some i else None)"
| "device_index _ = None"

definition prepare_gpu :: "json \<Rightarrow> json res" where
  "prepare_gpu raw =
     bindE (only_keys raw [''type'', ''devices'', ''max_utilization_percent'', ''stable_for_seconds'']
       ''gpu_stable'') (\<lambda>_.
     case jget ''devices'' raw of
       JList xs \<Rightarrow>
         if xs = [] then raise_validation ''gpu_stable.devices must be a non-empty list''
         else if list_ex (\<lambda>d. device_index d = None) xs then
           raise_validation ''gpu_stable.devices must contain non-negative integer indices''
         else
           let devices = map (\<lambda>d. the (device_index d)) xs in
           if \<not> distinct devices then raise_validation ''gpu_stable.devices must not repeat an index''
           else
             bindE (expect_number (jget ''max_utilization_percent'' raw)
               ''gpu_stable.max_utilization_percent'') (\<lambda>threshold.
             bindE (unlessE (threshold \<noteq> Fin 100 \<and> pf_le (Fin 100) threshold)
               (ValidationError ''gpu_stable.max_utilization_percent must be at most 100'')) (\<lambda>_.
             bindE (expect_number (jget ''stable_for_seconds'' raw) ''gpu_stable.stable_for_seconds'') (\<lambda>stable.
             Inr (JObj
               [(''type'', JStr ''gpu_stable''), (''devices'', JList (map JInt (sort devices))),
                (''max_utilization_percent'', JFloat threshold),
                (''stable_for_seconds'', JFloat stable), (''stable_since'', JNull)]))))
     | _ \<Rightarrow> raise_validation ''gpu_stable.devices must be a non-empty list'')"

definition prepare_stale :: "json \<Rightarrow> json res" where
  "prepare_stale raw =
     bindE (only_keys raw [''type'', ''reservation_id'', ''stale_after_seconds''] ''heartbeat_stale'') (\<lambda>_.
     bindE (expect_number (jget ''stale_after_seconds'' raw) ''heartbeat_stale.stale_after_seconds'') (\<lambda>f.
     bindE (unlessE (pf_le f (Fin 0))
       (ValidationError ''heartbeat_stale.stale_after_seconds must be positive'')) (\<lambda>_.
     bindE (event_reservation_id (jget ''reservation_id'' raw)) (\<lambda>rid.
     Inr (JObj [(''type'', JStr ''heartbeat_stale''), (''reservation_id'', JStr rid),
                (''stale_after_seconds'', JFloat f)])))))"

definition prepare_time :: "ObserverContext \<Rightarrow> host \<Rightarrow> json \<Rightarrow> json py" where
  "prepare_time C H raw =
     bindO (liftO (only_keys raw [''type'', ''after_seconds'', ''at_utc''] ''time'')) (\<lambda>_.
     bindO (requireO (jhas ''after_seconds'' raw \<noteq> jhas ''at_utc'' raw)
       ''time must contain exactly one of after_seconds or at_utc'') (\<lambda>_.
     bindO (if jhas ''after_seconds'' raw then
              bindO (askO Clock (clock H)) (\<lambda>now.
              bindO (liftO (expect_number (jget ''after_seconds'' raw) ''time.after_seconds'')) (\<lambda>d.
              retO (pf_add (Fin now) d)))
            else bindO (liftO (parse_deadline C (jget ''at_utc'' raw))) (\<lambda>t. retO (Fin t))) (\<lambda>deadline.
     retO (JObj [(''type'', JStr ''time''), (''deadline_utc'', JFloat deadline)]))))"

definition prepare_pid :: "host \<Rightarrow> json \<Rightarrow> json py" where
  "prepare_pid H raw =
     bindO (liftO (only_keys raw [''type'', ''pid''] ''pid_exit'')) (\<lambda>_.
     case jget ''pid'' raw of
       JInt pid \<Rightarrow>
         bindO (requireO (0 < pid) ''pid_exit.pid must be a positive integer'') (\<lambda>_.
         bindO (read_pid_snapshot H pid) (\<lambda>(identity, state).
         bindO (requireO (state \<notin> set TERMINAL_PROCESS_STATES) ''PID has already terminated'') (\<lambda>_.
         retO (JObj [(''type'', JStr ''pid_exit''), (''identity'', identity)]))))
     | _ \<Rightarrow> invalidO ''pid_exit.pid must be a positive integer'')"

definition opt_str :: "string option \<Rightarrow> json" where
  "opt_str x = (case x of None \<Rightarrow> JNull | Some s \<Rightarrow> JStr s)"

text \<open>\<open>asdict(binding)\<close>.\<close>

definition binding_json :: "GitRefBinding \<Rightarrow> json" where
  "binding_json b = JObj
     [(''worktree_root'', JStr (gb_worktree_root b)), (''common_dir'', JStr (gb_common_dir b)),
      (''git_dir'', JStr (gb_git_dir b)), (''object_format'', JStr (gb_object_format b)),
      (''ref'', JStr (gb_ref b)), (''direct_oid'', JStr (gb_direct_oid b)),
      (''peeled_commit'', JStr (gb_peeled_commit b)),
      (''head_target'', opt_str (gb_head_target b)),
      (''worktree_device'', JInt (fst (gb_worktree_identity b))),
      (''worktree_inode'', JInt (snd (gb_worktree_identity b))),
      (''common_dir_device'', JInt (fst (gb_common_dir_identity b))),
      (''common_dir_inode'', JInt (snd (gb_common_dir_identity b))),
      (''git_dir_device'', JInt (fst (gb_git_dir_identity b))),
      (''git_dir_inode'', JInt (snd (gb_git_dir_identity b)))]"

text \<open>\<open>except (TypeError, ValueError)\<close> around the capture; nothing else comes out of it.\<close>

definition prepare_git :: "host \<Rightarrow> json \<Rightarrow> json py" where
  "prepare_git H raw =
     bindO (liftO (only_keys raw [''type'', ''worktree'', ''ref''] ''git_ref_change'')) (\<lambda>_.
     case (jget ''worktree'' raw, jget ''ref'' raw) of
       (JStr worktree, JStr ref) \<Rightarrow>
         bindO (catchO (capture_git_ref H worktree ref)
                  (\<lambda>e. case e of
                         GitValueError _ \<Rightarrow> invalidO ''Git ref binding cannot be proven''
                       | _ \<Rightarrow> failO (OSError ''Git''))) (\<lambda>b.
         retO (JObj [(''type'', JStr ''git_ref_change''), (''binding'', binding_json b)]))
     | _ \<Rightarrow> invalidO ''Git ref binding cannot be proven'')"


definition unsupported_condition :: string where
  "unsupported_condition =
     ''unsupported condition type; use time, gpu_stable, pid_exit, tmux_exit, log_pattern, '' @
     ''thread_idle, native_worker_terminal, receipt_success, command_terminal, worker_terminal, '' @
     ''heartbeat_stale, git_ref_change, all, or any''"

text \<open>The leaves, by their type.\<close>

definition prepare_leaf :: "ObserverContext \<Rightarrow> host \<Rightarrow> string \<Rightarrow> string \<Rightarrow> json \<Rightarrow> json py" where
  "prepare_leaf C H monitor_id token raw =
     (let ty = jget ''type'' raw in
      if ty \<in> {JStr ''command_terminal'', JStr ''worker_terminal''} then
        bindO (liftO (only_keys raw [''type'', ''reservation_id''] (py_str ty))) (\<lambda>_.
        bindO (liftO (event_reservation_id (jget ''reservation_id'' raw))) (\<lambda>rid.
        retO (JObj [(''type'', ty), (''reservation_id'', JStr rid)])))
      else if ty = JStr ''heartbeat_stale'' then liftO (prepare_stale raw)
      else if ty = JStr ''time'' then prepare_time C H raw
      else if ty = JStr ''gpu_stable'' then liftO (prepare_gpu raw)
      else if ty = JStr ''pid_exit'' then prepare_pid H raw
      else if ty = JStr ''tmux_exit'' then
        bindO (liftO (only_keys raw [''type'', ''target_kind'', ''target'', ''socket''] ''tmux_exit''))
          (\<lambda>_. capture_tmux_identity H raw)
      else if ty = JStr ''receipt_success'' then
        bindO (liftO (only_keys raw [''type''] ''receipt_success'')) (\<lambda>_.
        retO (JObj
          [(''type'', JStr ''receipt_success''), (''monitor_id'', JStr monitor_id),
           (''token'', JStr token),
           (''path'', JStr (runtime_root C @ ''/receipts/'' @ monitor_id @ ''.json''))]))
      else if ty = JStr ''log_pattern'' then
        bindO (liftO (only_keys raw [''type'', ''path'', ''patterns''] ''log_pattern''))
          (\<lambda>_. capture_log_identity C H raw)
      else if ty = JStr ''thread_idle'' then
        bindO (liftO (only_keys raw [''type'', ''thread_id'', ''accept_already_idle''] ''thread_idle''))
          (\<lambda>_. liftO (capture_thread_idle C raw))
      else if ty = JStr ''native_worker_terminal'' then
        bindO (liftO (only_keys raw [''type'', ''task_name''] ''native_worker_terminal''))
          (\<lambda>_. liftO (capture_native_worker C raw))
      else if ty = JStr ''git_ref_change'' then prepare_git H raw
      else invalidO unsupported_condition)"

text \<open>\<open>_validate_children\<close> before the recursion: the children are a non-empty list.\<close>

definition children_list :: "json \<Rightarrow> json list res" where
  "children_list raw =
     (case jget ''children'' raw of
        JList xs \<Rightarrow>
          if xs = [] then raise_validation (py_str (jget ''type'' raw) @ ''.children must be a non-empty list'')
          else Inr xs
      | _ \<Rightarrow> raise_validation (py_str (jget ''type'' raw) @ ''.children must be a non-empty list''))"

definition combinator_type :: "json \<Rightarrow> bool" where
  "combinator_type ty \<longleftrightarrow> ty = JStr ''all'' \<or> ty = JStr ''any''"

function prepare_condition :: "ObserverContext \<Rightarrow> host \<Rightarrow> string \<Rightarrow> string \<Rightarrow> json \<Rightarrow> json py" where
  "prepare_condition C H monitor_id token raw =
     (if \<not> hashable (jget ''type'' raw) then failO TypeError
      else if combinator_type (jget ''type'' raw) then
        bindO (liftO (only_keys raw [''type'', ''children''] (py_str (jget ''type'' raw)))) (\<lambda>_.
        bindO (liftO (children_list raw)) (\<lambda>_.
        bindO (mapO (\<lambda>child.
                 bindO (liftO (expect_mapping child ''condition child'')) (\<lambda>_.
                 prepare_condition C H monitor_id token child)) (list_items (jget ''children'' raw)))
          (\<lambda>children. retO (JObj [(''type'', jget ''type'' raw), (''children'', JList children)]))))
      else prepare_leaf C H monitor_id token raw)"
  by pat_completeness auto
termination
  by (relation "measure (\<lambda>(C, H, m, t, raw). size raw)") (auto intro: jget_items_size)

declare prepare_condition.simps [simp del]

section \<open>What a condition names\<close>

text \<open>The event reservations, in the order of the source's recursive visit.\<close>

definition event_type :: "json \<Rightarrow> bool" where
  "event_type ty \<longleftrightarrow> ty \<in> {JStr ''command_terminal'', JStr ''worker_terminal'', JStr ''heartbeat_stale''}"

definition terminal_type :: "json \<Rightarrow> bool" where
  "terminal_type ty \<longleftrightarrow> ty \<in> {JStr ''command_terminal'', JStr ''worker_terminal''}"

text \<open>The two collections the visit fills: the reservations, and the terminal leaf of each.\<close>

type_synonym binding_acc = "string list \<times> (string \<times> string) list"

definition visit_leaf :: "json \<Rightarrow> binding_acc \<Rightarrow> binding_acc res" where
  "visit_leaf node acc =
     (let ty = jget ''type'' node in
      if event_type ty then
        bindE (event_reservation_id (jget ''reservation_id'' node)) (\<lambda>rid.
          if terminal_type ty then
            (if rid \<in> fst ` set (snd acc) then
               raise_validation ''event monitor contains a duplicate terminal leaf''
             else Inr (List.insert rid (fst acc), snd acc @ [(rid, py_str ty)]))
          else Inr (List.insert rid (fst acc), snd acc))
      else Inr acc)"

text \<open>A loop that may raise, over a list.\<close>

fun foldE :: "('a \<Rightarrow> 's \<Rightarrow> 's res) \<Rightarrow> 'a list \<Rightarrow> 's \<Rightarrow> 's res" where
  "foldE f [] s = Inr s"
| "foldE f (x # xs) s = bindE (f x s) (foldE f xs)"

lemma foldE_cong [fundef_cong]:
  "xs = ys \<Longrightarrow> (\<And>x s. x \<in> set ys \<Longrightarrow> f x s = g x s) \<Longrightarrow> s = t \<Longrightarrow> foldE f xs s = foldE g ys t"
proof (induction ys arbitrary: xs s t)
  case (Cons y ys)
  then have "f y t = g y t" "foldE f ys = foldE g ys"
    by (auto simp: fun_eq_iff)
  with Cons.prems show ?case by simp
qed simp

function visit_events :: "json \<Rightarrow> binding_acc \<Rightarrow> binding_acc res" where
  "visit_events node acc =
     (if \<not> hashable (jget ''type'' node) then Inl TypeError
      else if combinator_type (jget ''type'' node) then
        (case jget ''children'' node of
           JList xs \<Rightarrow>
             foldE (\<lambda>child a.
               if \<not> is_obj child then raise_validation ''event condition child must be an object''
               else visit_events child a) (list_items (jget ''children'' node)) acc
         | _ \<Rightarrow> raise_validation ''event condition children must be a list'')
      else visit_leaf node acc)"
  by pat_completeness auto
termination
  by (relation "measure (size \<circ> fst)") (auto dest!: arg_cong [of _ _ list_items] intro: jget_items_size)

declare visit_events.simps [simp del]

definition event_condition_bindings :: "json \<Rightarrow> (string \<times> string) list res" where
  "event_condition_bindings condition =
     bindE (visit_events condition ([], [])) (\<lambda>(reservations, terminal_leaves).
       if reservations = [] then Inr []
       else if \<not> set reservations \<subseteq> fst ` set terminal_leaves then
         raise_validation ''every event reservation requires exactly one matching terminal leaf''
       else Inr (sort_key fst terminal_leaves))"

function contains_event_condition :: "json \<Rightarrow> bool res" where
  "contains_event_condition condition =
     (if \<not> hashable (jget ''type'' condition) then Inl TypeError
      else if event_type (jget ''type'' condition) then Inr True
      else foldE (\<lambda>child found.
             if found \<or> \<not> is_obj child then Inr found else contains_event_condition child)
           (list_items (jget ''children'' condition)) False)"
  by pat_completeness auto
termination
  by (relation "measure size") (auto intro: jget_items_size)

declare contains_event_condition.simps [simp del]

text \<open>The children threads to read before an evaluation, each once, in order.\<close>

definition add_new :: "'a list \<Rightarrow> 'a list \<Rightarrow> 'a list" where
  "add_new found items = found @ filter (\<lambda>x. x \<notin> set found) (remdups items)"

function thread_idle_targets :: "json \<Rightarrow> string list" where
  "thread_idle_targets condition =
     (if jget ''type'' condition = JStr ''thread_idle'' then
        (if nonempty_str (jget ''thread_id'' condition) then [py_str (jget ''thread_id'' condition)] else [])
      else foldl (\<lambda>found child. add_new found (thread_idle_targets child)) []
             (list_items (jget ''children'' condition)))"
  by pat_completeness auto
termination
  by (relation "measure size") (auto intro: jget_items_size)

declare thread_idle_targets.simps [simp del]

fun str_of :: "json \<Rightarrow> string option" where
  "str_of (JStr s) = Some s"
| "str_of _ = None"

definition native_request :: "string option \<Rightarrow> json \<Rightarrow> native_key list res" where
  "native_request root_id node =
     (if is_obj (jget ''settlement'' node) then Inr []
      else case native_worker_task_name (jget ''task_name'' node) of
          Inl _ \<Rightarrow> Inr []
        | Inr task \<Rightarrow>
            (case (if jhas ''root_thread_id'' node then str_of (jget ''root_thread_id'' node) else root_id) of
               None \<Rightarrow> Inr []
             | Some rt \<Rightarrow>
                 let child = jget ''child_thread_id'' node; inv = jget ''invocation_id'' node in
                 if (child = JNull) \<noteq> (inv = JNull)
                    \<or> child \<noteq> JNull \<and> \<not> (nonempty_str child \<and> nonempty_str inv) then
                   raise_validation ''stored native worker binding is malformed''
                 else Inr [(rt, task, str_of child, str_of inv)]))"

function native_worker_observation_requests :: "string option \<Rightarrow> json \<Rightarrow> native_key list res" where
  "native_worker_observation_requests root_id condition =
     (if jget ''type'' condition = JStr ''native_worker_terminal'' then native_request root_id condition
      else foldE (\<lambda>child found.
             bindE (native_worker_observation_requests root_id child) (\<lambda>items. Inr (add_new found items)))
           (list_items (jget ''children'' condition)) [])"
  by pat_completeness auto
termination
  by (relation "measure (size \<circ> snd)") (auto intro: jget_items_size)

declare native_worker_observation_requests.simps [simp del]

end
