(* ===== verification/Observers.thy ===== *)
theory Observers
  imports Conditions
begin

text \<open>
  The leaf evaluators of \<open>conditions.py\<close>. An evaluator may change the stored leaf (the latches:
  a GPU interval, a log offset and journal, an idle edge, a settlement), so it returns the leaf with
  the evaluation, and an exception carries the leaf as it was when the exception was raised.
\<close>

type_synonym leaf_obs = "json \<Rightarrow> (py_error \<times> json, Evaluation \<times> json) obs"

text \<open>Python code that raises leaves the node as it is at that point.\<close>

definition withN :: "json \<Rightarrow> 'a res \<Rightarrow> (py_error \<times> json, 'a) obs" where
  "withN node r = (case r of Inl e \<Rightarrow> failO (e, node) | Inr x \<Rightarrow> retO x)"

section \<open>Rendering\<close>

definition classification_of :: "string \<Rightarrow> string" where
  "classification_of ty =
     (if ty = ''time'' then ''heuristic_time''
      else if ty = ''gpu_stable'' then ''heuristic_resource_state''
      else if ty \<in> {''pid_exit'', ''tmux_exit''} then ''liveness''
      else if ty = ''receipt_success'' then ''task_success''
      else if ty = ''log_pattern'' then ''heuristic_log_content''
      else if ty = ''thread_idle'' then ''heuristic_thread_lifecycle''
      else if ty = ''native_worker_terminal'' then ''native_worker_settlement''
      else ''derived'')"

definition leaf_eval :: "TriState \<Rightarrow> string \<Rightarrow> (string \<times> json) list \<Rightarrow> bool \<Rightarrow> Evaluation" where
  "leaf_eval v ty evidence fatal =
     (let rendered = JObj (evidence @
            (if ''classification'' \<in> fst ` set evidence then []
             else [(''classification'', JStr (classification_of ty))])) in
      mk_eval v rendered
        (if v = TRUE then [JObj [(''type'', JStr ty), (''evidence'', rendered)]] else []) fatal)"

lemma leaf_eval_sel [simp]:
  "ev_value (leaf_eval v ty e f) = v" "ev_fatal (leaf_eval v ty e f) = f"
  "ev_witness (leaf_eval v ty e f) \<noteq> [] \<longleftrightarrow> v = TRUE"
  by (simp_all add: leaf_eval_def Let_def)

section \<open>Time and GPU\<close>

definition evaluate_time :: "host \<Rightarrow> leaf_obs" where
  "evaluate_time H node =
     bindO (withN node (bindE (jindex ''deadline_utc'' node) py_float)) (\<lambda>deadline.
     bindO (askO Clock (clock H)) (\<lambda>now.
     bindO (askO Clock (clock H)) (\<lambda>now2.
     retO (leaf_eval (if pf_le deadline (Fin now) then TRUE else FALSE) ''time''
             [(''deadline_utc'', JFloat deadline), (''now'', jnum now2)] False, node))))"

text \<open>
  \<open>samples[device]\<close>: a key equal as a Python number. A missing device is the text of its \<open>KeyError\<close>.
\<close>

definition sample_of :: "(int \<times> pyfloat) list \<Rightarrow> json \<Rightarrow> (string + pyfloat) res" where
  "sample_of samples device =
     (if \<not> hashable device then Inl TypeError
      else case py_num device of
          None \<Rightarrow> Inr (Inl (py_str device))
        | Some r \<Rightarrow>
            (case find (\<lambda>kv. of_int (fst kv) = r) samples of
               None \<Rightarrow> Inr (Inl (py_str device)) | Some kv \<Rightarrow> Inr (Inr (snd kv))))"

fun select_samples ::
    "(int \<times> pyfloat) list \<Rightarrow> json list \<Rightarrow> (string + (json \<times> pyfloat) list) res" where
  "select_samples samples [] = Inr (Inr [])"
| "select_samples samples (d # ds) =
     bindE (sample_of samples d) (\<lambda>r.
       case r of
         Inl e \<Rightarrow> Inr (Inl e)
       | Inr v \<Rightarrow> bindE (select_samples samples ds) (\<lambda>rest.
           Inr (case rest of Inl e \<Rightarrow> Inl e | Inr vs \<Rightarrow> Inr ((d, v) # vs))))"

text \<open>The \<open>try\<close> block: the query or a missing sample makes the leaf unknown.\<close>

definition gpu_selection ::
    "json \<Rightarrow> string + (int \<times> pyfloat) list \<Rightarrow> (string + (json \<times> pyfloat) list) res" where
  "gpu_selection node answer =
     (case answer of
        Inl e \<Rightarrow> Inr (Inl e)
      | Inr samples \<Rightarrow>
          (case map_of (entries node) ''devices'' of
             None \<Rightarrow> Inr (Inl (CHR 0x27 # ''devices'' @ [CHR 0x27]))
           | Some v \<Rightarrow>
               (case v of JList ds \<Rightarrow> select_samples samples ds | _ \<Rightarrow> Inl TypeError)))"

definition samples_json :: "(json \<times> pyfloat) list \<Rightarrow> json" where
  "samples_json vs = JObj (map (\<lambda>(d, v). (py_str d, JFloat v)) vs)"

definition gpu_interval :: "host \<Rightarrow> json \<Rightarrow> (json \<times> pyfloat) list \<Rightarrow> (py_error \<times> json, Evaluation \<times> json) obs" where
  "gpu_interval H node vs =
     bindO (askO Clock (clock H)) (\<lambda>now.
     bindO (withN node (bindE (jindex ''max_utilization_percent'' node) py_float)) (\<lambda>threshold.
     if \<not> list_all (\<lambda>(_, v). pf_le v threshold) vs then
       retO (leaf_eval FALSE ''gpu_stable''
               [(''samples'', samples_json vs), (''threshold'', JFloat threshold),
                (''stable_since'', JNull)] False, jset ''stable_since'' JNull node)
     else
       let since = (if jget ''stable_since'' node = JNull then jnum now else jget ''stable_since'' node);
           node' = (if jget ''stable_since'' node = JNull then jset ''stable_since'' since node else node) in
       bindO (withN node' (py_float since)) (\<lambda>s.
       bindO (withN node' (bindE (jindex ''stable_for_seconds'' node') py_float)) (\<lambda>required.
       let stable_for = pf_sub (Fin now) s in
       retO (leaf_eval (if pf_le required stable_for then TRUE else FALSE) ''gpu_stable''
               [(''samples'', samples_json vs), (''threshold'', JFloat threshold),
                (''stable_since'', since), (''stable_for_seconds'', JFloat stable_for)] False, node')))))"

definition evaluate_gpu :: "host \<Rightarrow> leaf_obs" where
  "evaluate_gpu H node =
     bindO (askO GpuQuery (gpu_query H)) (\<lambda>answer.
     bindO (withN node (gpu_selection node answer)) (\<lambda>sel.
     case sel of
       Inl e \<Rightarrow>
         retO (leaf_eval UNKNOWN ''gpu_stable''
                 [(''kind'', JStr ''gpu_sample_unavailable''), (''error'', JStr e)] False,
               jset ''stable_since'' JNull node)
     | Inr vs \<Rightarrow> gpu_interval H node vs))"

section \<open>Processes and tmux\<close>

text \<open>\<open>except ValidationError as exc\<close> around a host reading: its message, or the answer.\<close>

definition tryV :: "'a py \<Rightarrow> json \<Rightarrow> (py_error \<times> json, string + 'a) obs" where
  "tryV m node =
     catchO (\<lambda>h. case m h of (Inl e, h') \<Rightarrow> (Inl e, h') | (Inr x, h') \<Rightarrow> (Inr (Inr x), h'))
       (\<lambda>e. case e of ValidationError msg \<Rightarrow> retO (Inl msg) | _ \<Rightarrow> failO (e, node))"

definition pid_unknown :: "(string \<times> json) list \<Rightarrow> bool \<Rightarrow> Evaluation" where
  "pid_unknown evidence fatal = leaf_eval UNKNOWN ''pid_exit'' evidence fatal"

definition evaluate_pid :: "host \<Rightarrow> leaf_obs" where
  "evaluate_pid H node =
     bindO (withN node (expect_mapping (jget ''identity'' node) ''stored pid identity'')) (\<lambda>identity.
     bindO (tryV (read_boot_id H) node) (\<lambda>boot.
     case boot of
       Inl msg \<Rightarrow> retO (pid_unknown [(''error'', JStr msg)] False, node)
     | Inr b \<Rightarrow>
         if JStr b \<noteq> jget ''boot_id'' identity then
           retO (pid_unknown [(''kind'', JStr ''boot_identity_changed'')] True, node)
         else
         bindO (withN node (bindE (jindex ''pid'' identity) py_int)) (\<lambda>pid.
         bindO (askO (ProcExists pid) (\<lambda>h. proc_exists H h pid)) (\<lambda>present.
         if \<not> present then
           retO (leaf_eval TRUE ''pid_exit''
                   [(''pid'', JInt pid), (''kind'', JStr ''process_absent'')] False, node)
         else
         bindO (tryV (read_pid_snapshot H pid) node) (\<lambda>snap.
         case snap of
           Inl msg \<Rightarrow> retO (pid_unknown [(''error'', JStr msg)] False, node)
         | Inr (current, state) \<Rightarrow>
             if \<not> json_eq current identity then
               retO (pid_unknown
                 [(''kind'', JStr ''pid_identity_changed''), (''current'', current)] True, node)
             else if state \<in> set TERMINAL_PROCESS_STATES then
               retO (leaf_eval TRUE ''pid_exit''
                 [(''pid'', JInt pid), (''state'', JStr state), (''kind'', JStr ''process_terminated'')]
                 False, node)
             else
               retO (leaf_eval FALSE ''pid_exit''
                 [(''pid'', JInt pid), (''state'', JStr state), (''kind'', JStr ''process_alive'')]
                 False, node))))))"

text \<open>The server's PID: absent when the server does not answer, or the text of a failed query.\<close>

definition tmux_server_pid :: "host \<Rightarrow> json \<Rightarrow> (py_error \<times> json, string + int option) obs" where
  "tmux_server_pid H node =
     bindO (withN node (jindex ''socket'' node)) (\<lambda>sock.
     bindO (ask_tmux H (tmux_command (py_str sock) [''display-message'', ''-p'', ''#{pid}''])) (\<lambda>r.
     case r of
       Inl e \<Rightarrow> retO (Inl e)
     | Inr (rc, out, err) \<Rightarrow>
         if rc \<noteq> 0 \<or> \<not> all_digits (py_strip out) then retO (Inr None)
         else bindO (withN node (parse_int (py_strip out))) (\<lambda>pid. retO (Inr (Some pid)))))"

definition tmux_unknown :: "(string \<times> json) list \<Rightarrow> bool \<Rightarrow> Evaluation" where
  "tmux_unknown evidence fatal = leaf_eval UNKNOWN ''tmux_exit'' evidence fatal"

definition tmux_target :: "host \<Rightarrow> json \<Rightarrow> (py_error \<times> json, Evaluation \<times> json) obs" where
  "tmux_target H node =
     bindO (withN node (jindex ''target_id'' node)) (\<lambda>target.
     bindO (withN node (jindex ''socket'' node)) (\<lambda>sock.
     bindO (ask_tmux H (tmux_command (py_str sock)
       [''display-message'', ''-p'', ''-t'', py_str target, ''#{pane_id}''])) (\<lambda>r.
     let id_entry = (''target_id'', JStr (py_str target)) in
     case r of
       Inl e \<Rightarrow>
         retO (tmux_unknown [(''kind'', JStr ''tmux_query_failed''), (''error'', JStr e)] False, node)
     | Inr (rc, out, err) \<Rightarrow>
         if rc = 0 then
           retO (leaf_eval FALSE ''tmux_exit'' [id_entry, (''kind'', JStr ''target_alive'')] False, node)
         else if rc = 1 then
           retO (leaf_eval TRUE ''tmux_exit'' [id_entry, (''kind'', JStr ''target_absent'')] False, node)
         else
           retO (tmux_unknown
             [(''kind'', JStr ''tmux_target_error''), (''error'', JStr (py_strip err))] False, node))))"

definition evaluate_tmux :: "host \<Rightarrow> leaf_obs" where
  "evaluate_tmux H node =
     bindO (tmux_server_pid H node) (\<lambda>server.
     case server of
       Inl e \<Rightarrow>
         retO (tmux_unknown [(''kind'', JStr ''tmux_query_failed''), (''error'', JStr e)] False, node)
     | Inr None \<Rightarrow>
         retO (tmux_unknown [(''kind'', JStr ''tmux_server_unavailable'')] True, node)
     | Inr (Some pid) \<Rightarrow>
         bindO (withN node (bindE (jindex ''server_pid'' node) py_int)) (\<lambda>captured.
         if pid \<noteq> captured then
           retO (tmux_unknown
             [(''kind'', JStr ''tmux_server_restarted''), (''current_server_pid'', JInt pid)] True, node)
         else tmux_target H node))"


section \<open>The journal of a log leaf\<close>

text \<open>\<open>condition.get("journal") or {}\<close>; its lines are a list in every stored condition.\<close>

definition journal_lines :: "json \<Rightarrow> string list" where
  "journal_lines node = map py_str (list_items (jget ''lines'' (jget ''journal'' node)))"

definition journal_dropped :: "json \<Rightarrow> int res" where
  "journal_dropped node =
     (let d = jget ''dropped'' (jget ''journal'' node) in if truthy d then py_int d else Inr 0)"

definition journal_json :: "string list \<Rightarrow> int \<Rightarrow> json" where
  "journal_json ls dropped = JObj [(''lines'', JList (map JStr ls)), (''dropped'', JInt dropped)]"

definition journal_counters :: "json \<Rightarrow> json res" where
  "journal_counters node =
     bindE (journal_dropped node) (\<lambda>d.
     Inr (JObj [(''lines_stored'', JInt (int (length (journal_lines node)))), (''dropped'', JInt d)]))"

definition journal_fits :: "string list \<Rightarrow> bool" where
  "journal_fits ls \<longleftrightarrow> length ls \<le> JOURNAL_MAX_LINES \<and> sum_list (map py_len ls) \<le> JOURNAL_MAX_CHARS"

fun trim_journal :: "string list \<Rightarrow> int \<Rightarrow> string list \<times> int" where
  "trim_journal [] dropped = ([], dropped)"
| "trim_journal (l # ls) dropped =
     (if journal_fits (l # ls) then (l # ls, dropped) else trim_journal ls (dropped + 1))"

definition append_journal :: "json \<Rightarrow> string list \<Rightarrow> json res" where
  "append_journal node ls =
     bindE (journal_dropped node) (\<lambda>d.
       let (kept, dropped) =
         trim_journal (journal_lines node @ map (py_take JOURNAL_STORED_LINE_CHARS) ls) d in
       Inr (jset ''journal'' (journal_json kept dropped) node))"

section \<open>Logs\<close>

text \<open>The scan of complete lines: names hit so far, matched lines, bytes consumed, and the flags.\<close>

record scan_state =
  hit_names :: "string list"
  hit_lines :: "string list"
  scan_consumed :: nat
  scan_truncated :: bool
  scan_timed_out :: bool

definition scan_start :: scan_state where
  "scan_start = \<lparr>hit_names = [], hit_lines = [], scan_consumed = 0, scan_truncated = False,
                 scan_timed_out = False\<rparr>"

definition scan_line :: "(string \<times> (string \<Rightarrow> bool)) list \<Rightarrow> string \<Rightarrow> scan_state \<Rightarrow> scan_state" where
  "scan_line patterns raw_line s =
     (let whole = rstrip_line_end (decode_replace raw_line);
          long = py_len whole > LOG_LINE_MATCH_CHARS;
          line = (if long then py_take LOG_LINE_MATCH_CHARS whole else whole);
          hits = map fst (filter (\<lambda>p. snd p line) patterns) in
      s\<lparr>scan_consumed := scan_consumed s + length raw_line,
        scan_truncated := scan_truncated s \<or> long,
        hit_names := add_new (hit_names s) hits,
        hit_lines := (if hits = [] then hit_lines s else hit_lines s @ [line])\<rparr>)"

fun scan_lines ::
    "host \<Rightarrow> rat \<Rightarrow> (string \<times> (string \<Rightarrow> bool)) list \<Rightarrow> string list \<Rightarrow> scan_state
     \<Rightarrow> (py_error \<times> json, scan_state) obs" where
  "scan_lines H deadline patterns [] s = retO s"
| "scan_lines H deadline patterns (l # ls) s =
     bindO (askO Clock (clock H)) (\<lambda>now.
       if now > deadline then retO (s\<lparr>scan_timed_out := True\<rparr>)
       else scan_lines H deadline patterns ls (scan_line patterns l s))"

text \<open>\<open>[(str(entry["name"]), re.compile(str(entry["regex"]))) \<dots>]\<close>.\<close>

definition stored_pattern :: "ObserverContext \<Rightarrow> json \<Rightarrow> (string \<times> (string \<Rightarrow> bool)) res" where
  "stored_pattern C entry =
     bindE (jindex ''name'' entry) (\<lambda>n.
     bindE (jindex ''regex'' entry) (\<lambda>r.
     case regex C (py_str r) of None \<Rightarrow> Inl RegexError | Some p \<Rightarrow> Inr (py_str n, p)))"

definition stored_patterns :: "ObserverContext \<Rightarrow> json \<Rightarrow> (string \<times> (string \<Rightarrow> bool)) list res" where
  "stored_patterns C node =
     bindE (jindex ''patterns'' node) (\<lambda>ps. map_res (stored_pattern C) (list_items ps))"

definition log_unknown :: "string \<Rightarrow> (string \<times> json) list \<Rightarrow> bool \<Rightarrow> Evaluation" where
  "log_unknown kind evidence fatal =
     leaf_eval UNKNOWN ''log_pattern'' ((''kind'', JStr kind) # evidence) fatal"

definition matched_eval :: "json \<Rightarrow> json \<Rightarrow> json \<Rightarrow> (string \<times> json) list \<Rightarrow> Evaluation" where
  "matched_eval names ls counters extra =
     leaf_eval TRUE ''log_pattern''
       ([(''kind'', JStr ''pattern_matched''), (''matched'', names), (''matched_lines'', ls),
         (''journal'', counters)] @ extra) False"

text \<open>After the scan: the latch, or the verdict on an interrupted or a fruitless scan.\<close>

definition log_verdict ::
    "json \<Rightarrow> int \<Rightarrow> bool \<Rightarrow> scan_state \<Rightarrow> (py_error \<times> json, Evaluation \<times> json) obs" where
  "log_verdict node offset over_budget s =
     (let read_offset = offset + int (scan_consumed s);
          node1 = jset ''offset'' (JInt read_offset) node in
      if hit_names s \<noteq> [] then
        bindO (withN node1 (append_journal node1 (hit_lines s))) (\<lambda>node2.
        let ls = JList (map (JStr \<circ> py_take JOURNAL_STORED_LINE_CHARS)
                   (take WITNESS_MATCHED_LINES (hit_lines s)));
            names = JList (map JStr (hit_names s));
            node3 = jset ''witness_lines'' ls
                      (jset ''matched_names'' names (jset ''matched'' (JBool True) node2)) in
        bindO (withN node3 (journal_counters node3)) (\<lambda>counters.
        retO (matched_eval names ls counters
                (if scan_truncated s then [(''line_truncated'', JBool True)] else []), node3)))
      else if scan_timed_out s \<or> over_budget then
        retO (log_unknown ''pattern_budget_exceeded''
          [(''wall_clock_exceeded'', JBool (scan_timed_out s)),
           (''read_budget_exceeded'', JBool over_budget),
           (''read_budget_bytes'', JInt LOG_READ_BUDGET_BYTES), (''offset'', JInt read_offset),
           (''line_truncated'', JBool (scan_truncated s))] False, node1)
      else
        retO (leaf_eval FALSE ''log_pattern''
          [(''kind'', JStr ''no_pattern_match''), (''offset'', JInt read_offset),
           (''line_truncated'', JBool (scan_truncated s))] False, node1))"

text \<open>The chunk read at the offset, within the read budget, and its complete lines.\<close>

definition scan_log ::
    "ObserverContext \<Rightarrow> host \<Rightarrow> json \<Rightarrow> string \<Rightarrow> int \<Rightarrow> int \<Rightarrow> (py_error \<times> json, Evaluation \<times> json) obs" where
  "scan_log C H node path offset pending =
     (let over_budget = pending > LOG_READ_BUDGET_BYTES;
          count = nat (min pending LOG_READ_BUDGET_BYTES) in
      bindO (askO (ReadFile path (nat offset) count) (\<lambda>h. read_file H h path (nat offset) count)) (\<lambda>r.
      case r of
        Inl e \<Rightarrow> retO (log_unknown ''log_read_failed'' [(''error'', JStr e)] False, node)
      | Inr data \<Rightarrow>
          let chunk = take count data in
          (case through_last_newline chunk of
             None \<Rightarrow>
               if \<not> over_budget then
                 retO (leaf_eval FALSE ''log_pattern''
                   [(''kind'', JStr ''partial_line_pending''), (''offset'', JInt offset)] False, node)
               else
                 let after = offset + int (length chunk) in
                 retO (log_unknown ''pattern_budget_exceeded''
                   [(''reason'', JStr ''no_line_end_within_read_budget''),
                    (''read_budget_bytes'', JInt LOG_READ_BUDGET_BYTES), (''offset'', JInt after)] False,
                   jset ''offset'' (JInt after) node)
           | Some lines_text \<Rightarrow>
               bindO (withN node (stored_patterns C node)) (\<lambda>patterns.
               bindO (askO Clock (clock H)) (\<lambda>now.
               bindO (scan_lines H (now + LOG_EVALUATION_SECONDS) patterns (byte_lines [] lines_text) scan_start)
                 (log_verdict node offset over_budget))))))"

definition log_offset :: "json \<Rightarrow> int res" where
  "log_offset node = (let off = jget ''offset'' node in if truthy off then py_int off else Inr 0)"

definition evaluate_log_pattern :: "ObserverContext \<Rightarrow> host \<Rightarrow> leaf_obs" where
  "evaluate_log_pattern C H node =
     (if truthy (jget ''matched'' node) then
        bindO (withN node (journal_counters node)) (\<lambda>counters.
        retO (matched_eval (JList (list_items (jget ''matched_names'' node)))
                (JList (list_items (jget ''witness_lines'' node))) counters [], node))
      else
      bindO (withN node (jindex ''path'' node)) (\<lambda>path_value.
      let path = py_str path_value; captured = jget ''identity'' node in
      bindO (ask_stat H path) (\<lambda>st.
      case st of
        StatMissing \<Rightarrow>
          if captured = JNull then
            retO (leaf_eval FALSE ''log_pattern''
              [(''kind'', JStr ''log_absent_since_arm''), (''path'', JStr path)] False, node)
          else
            retO (log_unknown ''log_identity_lost''
              [(''path'', JStr path), (''captured'', captured)] True, node)
      | StatFailed e \<Rightarrow> retO (log_unknown ''log_stat_failed'' [(''error'', JStr e)] False, node)
      | StatOk regular dev ino eof \<Rightarrow>
          let current = log_identity dev ino;
              node1 = (if captured = JNull then jset ''offset'' (JInt 0) (jset ''identity'' current node)
                       else node) in
          if captured \<noteq> JNull \<and> \<not> json_eq captured current then
            retO (log_unknown ''log_identity_changed''
              [(''captured'', captured), (''current'', current)] True, node)
          else
          bindO (withN node1 (log_offset node1)) (\<lambda>offset.
          if eof < offset then
            retO (log_unknown ''log_truncated''
              [(''offset'', JInt offset), (''size'', JInt eof)] True, node1)
          else if eof - offset \<le> 0 then
            retO (leaf_eval FALSE ''log_pattern''
              [(''kind'', JStr ''no_new_bytes''), (''offset'', JInt offset)] False, node1)
          else scan_log C H node1 path offset (eof - offset)))))"

section \<open>Threads and native workers\<close>

definition dict_of :: "json \<Rightarrow> json" where
  "dict_of v = JObj (entries v)"

definition evaluate_thread_idle :: "ObserverContext \<Rightarrow> leaf_obs" where
  "evaluate_thread_idle C node =
     bindO (withN node (jindex ''thread_id'' node)) (\<lambda>child_value.
     let child = py_str child_value; id_entry = (''thread_id'', JStr child) in
     if truthy (jget ''idle'' node) then
       retO (leaf_eval TRUE ''thread_idle''
         [(''kind'', JStr ''thread_idle''), id_entry, (''child'', dict_of (jget ''idle_snapshot'' node))]
         False, node)
     else if child \<notin> fst ` set (thread_observations C) then
       retO (leaf_eval UNKNOWN ''thread_idle''
         [(''kind'', JStr ''thread_observation_missing''), id_entry] False, node)
     else
     let snapshot = thread_snapshot C child in
     if \<not> truthy (jget ''is_loaded'' snapshot) then
       retO (leaf_eval UNKNOWN ''thread_idle''
         [(''kind'', JStr ''thread_unloaded''), id_entry, (''child'', snapshot)] False, node)
     else if py_str (jget ''runtime_status'' snapshot) = ''idle'' then
       retO (leaf_eval TRUE ''thread_idle''
         [(''kind'', JStr ''thread_idle''), id_entry, (''child'', snapshot)] False,
         jset ''idle_snapshot'' snapshot (jset ''idle'' (JBool True) node))
     else
       retO (leaf_eval FALSE ''thread_idle''
         [(''kind'', JStr ''thread_active''), id_entry, (''child'', snapshot)] False, node))"

text \<open>\<open>str(condition.get(key, ""))\<close>.\<close>

definition str_field :: "string \<Rightarrow> json \<Rightarrow> string" where
  "str_field k node = (if jhas k node then py_str (jget k node) else [])"

definition no_acceptance :: "(string \<times> json) list" where
  "no_acceptance = [(''task_success'', JBool False), (''lead_accepted'', JBool False)]"

text \<open>\<open>{**settlement, "kind": \<dots>, "task_success": False, "lead_accepted": False}\<close>.\<close>

definition settled_evidence :: "json \<Rightarrow> (string \<times> json) list" where
  "settled_evidence settlement =
     aupdate (entries settlement) ((''kind'', JStr ''native_worker_settled'') # no_acceptance)"

definition evaluate_native_worker :: "ObserverContext \<Rightarrow> leaf_obs" where
  "evaluate_native_worker C node =
     (let root_id = str_field ''root_thread_id'' node; task = str_field ''task_name'' node;
          child = str_field ''child_thread_id'' node; inv = str_field ''invocation_id'' node;
          identity = [(''task_name'', JStr task), (''child_thread_id'', JStr child),
                      (''invocation_id'', JStr inv)] @ no_acceptance;
          settlement = jget ''settlement'' node in
      if is_obj settlement then
        (if jget ''root_thread_id'' settlement = JStr root_id \<and> jget ''task_name'' settlement = JStr task
            \<and> jget ''child_thread_id'' settlement = JStr child
            \<and> jget ''invocation_id'' settlement = JStr inv then
           bindO (withN node (memE (jget ''status'' settlement) settled_statuses)) (\<lambda>valid.
             if valid then
               retO (leaf_eval TRUE ''native_worker_terminal'' (settled_evidence settlement) False, node)
             else
               retO (leaf_eval UNKNOWN ''native_worker_terminal''
                 (identity @ [(''kind'', JStr ''mismatch'')]) True, node))
         else
           retO (leaf_eval UNKNOWN ''native_worker_terminal''
             (identity @ [(''kind'', JStr ''mismatch'')]) True, node))
      else
        let snapshot = native_snapshot C (root_id, task, Some child, Some inv);
            status0 = (if is_obj snapshot then jget ''status'' snapshot else JStr ''unavailable'') in
        bindO (withN node (memE status0 [''unavailable'', ''mismatch''])) (\<lambda>bad.
        let other = (is_obj snapshot \<and> \<not> bad \<and>
              (jget ''task_name'' snapshot \<noteq> JStr task
               \<or> jget ''child_thread_id'' snapshot \<noteq> JStr child
               \<or> jget ''invocation_id'' snapshot \<noteq> JStr inv));
            status = (if other then JStr ''mismatch'' else status0) in
        if status = JStr ''running'' then
          retO (leaf_eval FALSE ''native_worker_terminal''
            (identity @ [(''kind'', JStr ''native_worker_running'')]) False, node)
        else if status \<in> JStr ` set settled_statuses then
          bindO (withN node (native_worker_settlement snapshot root_id)) (\<lambda>settled.
          retO (leaf_eval TRUE ''native_worker_terminal'' (settled_evidence settled) False,
                jset ''settlement'' settled node))
        else
          retO (leaf_eval UNKNOWN ''native_worker_terminal''
            (identity @
             [(''kind'', if status \<in> {JStr ''unavailable'', JStr ''mismatch''} then status
                         else JStr ''invalid_status''),
              (''error'', jget ''error'' snapshot)]) True, node)))"

section \<open>Receipts\<close>

text \<open>\<open>read_json\<close>: a JSON object, or nothing for a missing, malformed or other document.\<close>

definition read_json :: "host \<Rightarrow> string \<Rightarrow> ('e, json option) obs" where
  "read_json H path =
     bindO (askO (ReadJson path) (\<lambda>h. json_file H h path)) (\<lambda>r.
       retO (case r of None \<Rightarrow> None | Some v \<Rightarrow> if is_obj v then Some v else None))"

definition evaluate_receipt :: "host \<Rightarrow> leaf_obs" where
  "evaluate_receipt H node =
     bindO (withN node (jindex ''path'' node)) (\<lambda>path_value.
     let path = py_str path_value in
     bindO (read_json H path) (\<lambda>receipt.
     case receipt of
       None \<Rightarrow>
         bindO (askO (PathExists path) (\<lambda>h. path_exists H h path)) (\<lambda>present.
         if present then
           retO (leaf_eval UNKNOWN ''receipt_success''
             [(''kind'', JStr ''receipt_malformed_or_unreadable'')] False, node)
         else
           retO (leaf_eval FALSE ''receipt_success'' [(''kind'', JStr ''receipt_absent'')] False, node))
     | Some r \<Rightarrow>
         if \<not> json_eq (jget ''monitor_id'' r) (jget ''monitor_id'' node)
            \<or> \<not> json_eq (jget ''token'' r) (jget ''token'' node) then
           retO (leaf_eval UNKNOWN ''receipt_success''
             [(''kind'', JStr ''receipt_identity_mismatch'')] False, node)
         else if jget ''status'' r = JStr ''success'' then
           retO (leaf_eval TRUE ''receipt_success''
             [(''kind'', JStr ''receipt_success''), (''published_at'', jget ''published_at'' r)]
             False, node)
         else
           retO (leaf_eval FALSE ''receipt_success''
             [(''kind'', JStr ''receipt_not_success''), (''status'', jget ''status'' r)] False, node)))"

end
