(* ===== verification/Condition_Trees.thy ===== *)
theory Condition_Trees
  imports Observers Events
begin

text \<open>
  The second half of \<open>conditions.py\<close>: the Git ref leaf, the three-valued combination of children,
  the evaluation of a stored condition, the observation of the external leaves of an event
  condition, the evaluation of event leaves from reservation snapshots, and the journal reports.
\<close>

section \<open>The Git ref leaf\<close>

definition binding_keys :: "string list" where
  "binding_keys =
     [''worktree_root'', ''common_dir'', ''git_dir'', ''object_format'', ''ref'', ''direct_oid'',
      ''peeled_commit'', ''head_target'', ''worktree_device'', ''worktree_inode'',
      ''common_dir_device'', ''common_dir_inode'', ''git_dir_device'', ''git_dir_inode'']"

text \<open>A path identity: an \<open>int\<close>, of which \<open>bool\<close> is a subclass.\<close>

fun int_of :: "json \<Rightarrow> int option" where
  "int_of (JInt i) = Some i"
| "int_of (JBool b) = Some (if b then 1 else 0)"
| "int_of _ = None"

text \<open>
  \<open>GitRefBinding(**raw)\<close> with the type checks that \<open>_verify_git_ref_binding\<close> makes first: a field
  of another type is a malformed binding, except for the three paths, where it fails to resolve.
\<close>

definition stored_binding :: "json \<Rightarrow> git_error + GitRefBinding" where
  "stored_binding v =
     (let text = (\<lambda>k. str_of (jget k v)); num = (\<lambda>k. int_of (jget k v));
          ok = list_all (\<lambda>k. text k \<noteq> None) [''object_format'', ''ref'', ''direct_oid'', ''peeled_commit'']
             \<and> list_all (\<lambda>k. num k \<noteq> None)
                 [''worktree_device'', ''worktree_inode'', ''common_dir_device'', ''common_dir_inode'',
                  ''git_dir_device'', ''git_dir_inode'']
             \<and> (jget ''head_target'' v = JNull \<or> is_str (jget ''head_target'' v));
          path = (\<lambda>k. case text k of None \<Rightarrow> [] | Some p \<Rightarrow> p);
          b = \<lparr>gb_worktree_root = path ''worktree_root'', gb_common_dir = path ''common_dir'',
               gb_git_dir = path ''git_dir'', gb_object_format = path ''object_format'',
               gb_ref = path ''ref'', gb_direct_oid = path ''direct_oid'',
               gb_peeled_commit = path ''peeled_commit'', gb_head_target = text ''head_target'',
               gb_worktree_identity = (the (num ''worktree_device''), the (num ''worktree_inode'')),
               gb_common_dir_identity = (the (num ''common_dir_device''), the (num ''common_dir_inode'')),
               gb_git_dir_identity = (the (num ''git_dir_device''), the (num ''git_dir_inode''))\<rparr> in
      if \<not> ok then Inl BindingFailure
      else if \<not> binding_fields_ok b then Inl BindingFailure
      else if \<not> list_all (\<lambda>k. text k \<noteq> None) [''worktree_root'', ''common_dir'', ''git_dir''] then
        Inl IdentityFailure
      else Inr b)"

definition git_ref_failed :: "string \<Rightarrow> Evaluation" where
  "git_ref_failed e =
     mk_eval UNKNOWN (JObj [(''type'', JStr ''git_ref_change''), (''kind'', JStr ''git_ref_observer_failed''),
       (''error'', JStr e)]) [] True"

definition git_ref_evidence :: "GitRefBinding \<Rightarrow> GitRefSample \<Rightarrow> (string \<times> json) list" where
  "git_ref_evidence b s =
     [(''type'', JStr ''git_ref_change''),
      (''classification'', JStr (ref_class_value (gs_classification s))),
      (''worktree_root'', JStr (gb_worktree_root b)), (''common_dir'', JStr (gb_common_dir b)),
      (''ref'', JStr (gb_ref b)), (''object_format'', JStr (gb_object_format b)),
      (''coalesced'', JBool (gs_coalesced s))]
     @ opt_entry ''old_direct_oid'' JStr (gs_old_direct_oid s)
     @ opt_entry ''new_direct_oid'' JStr (gs_new_direct_oid s)
     @ opt_entry ''old_peeled_commit'' JStr (gs_old_peeled_commit s)
     @ opt_entry ''new_peeled_commit'' JStr (gs_new_peeled_commit s)
     @ opt_entry ''old_head_target'' JStr (gs_old_head_target s)
     @ opt_entry ''new_head_target'' JStr (gs_new_head_target s)
     @ opt_entry ''ancestry'' (JStr \<circ> ancestry_value) (gs_ancestry s)"

definition git_ref_eval :: "GitRefBinding \<Rightarrow> GitRefSample \<Rightarrow> Evaluation" where
  "git_ref_eval b s =
     (if gs_classification s = OBSERVER_ERROR then
        git_ref_failed (case gs_error s of None \<Rightarrow> ''None'' | Some e \<Rightarrow> e)
      else
        let evidence = git_ref_evidence b s in
        if \<not> gs_changed s then mk_eval FALSE (JObj evidence) [] False
        else mk_eval TRUE (JObj evidence) [JObj (evidence @ no_acceptance)] False)"

definition evaluate_git_ref :: "host \<Rightarrow> leaf_obs" where
  "evaluate_git_ref H node =
     bindO (withN node (expect_mapping (jget ''binding'' node) ''stored Git ref binding'')) (\<lambda>raw.
     if fst ` set (entries raw) \<noteq> set binding_keys then
       retO (git_ref_failed ''invalid_binding'', node)
     else
       case stored_binding raw of
         Inl e \<Rightarrow> retO (git_ref_failed (git_ref_error_code e), node)
       | Inr b \<Rightarrow> (\<lambda>h. let (s, h') = sample_git_ref H b h in (Inr (git_ref_eval b s, node), h')))"

section \<open>Combining children\<close>

definition combined :: "TriState \<Rightarrow> string \<Rightarrow> Evaluation list \<Rightarrow> json list \<Rightarrow> bool \<Rightarrow> Evaluation" where
  "combined v ty children witness fatal =
     mk_eval v (JObj [(''type'', JStr ty), (''children'', JList (map ev_evidence children))])
       witness fatal"

definition witnesses :: "Evaluation list \<Rightarrow> json list" where
  "witnesses children = concat (map ev_witness children)"

definition combine :: "string \<Rightarrow> Evaluation list \<Rightarrow> Evaluation" where
  "combine ty children =
     (let some = (\<lambda>v. list_ex (\<lambda>c. ev_value c = v) children);
          any_fatal = list_ex ev_fatal children; all_fatal = list_all ev_fatal children in
      if ty = ''all'' then
        (if some FALSE then combined FALSE ''all'' children [] any_fatal
         else if some UNKNOWN then combined UNKNOWN ''all'' children [] any_fatal
         else combined TRUE ''all'' children (witnesses children) False)
      else if some TRUE then
        combined TRUE ''any'' children (witnesses (filter (\<lambda>c. ev_value c = TRUE) children)) False
      else if some UNKNOWN then combined UNKNOWN ''any'' children [] all_fatal
      else combined FALSE ''any'' children [] all_fatal)"

section \<open>Evaluating a stored condition\<close>

text \<open>A list comprehension over mutable children: an exception keeps what earlier ones changed.\<close>

fun evalE ::
    "(json \<Rightarrow> (py_error \<times> json, Evaluation \<times> json) obs) \<Rightarrow> json list
     \<Rightarrow> (py_error \<times> json list, Evaluation list \<times> json list) obs" where
  "evalE f [] = retO ([], [])"
| "evalE f (x # xs) =
     bindO (catchO (f x) (\<lambda>(e, x'). failO (e, x' # xs))) (\<lambda>(v, x').
     bindO (catchO (evalE f xs) (\<lambda>(e, xs'). failO (e, x' # xs'))) (\<lambda>(vs, xs').
     retO (v # vs, x' # xs')))"

lemma catchO_cong [fundef_cong]:
  "m = m' \<Longrightarrow> (\<And>e. k e = l e) \<Longrightarrow> catchO m k = catchO m' l"
  by (auto simp: catchO_def fun_eq_iff split: prod.splits sum.splits)

lemma evalE_cong [fundef_cong]:
  "xs = ys \<Longrightarrow> (\<And>x. x \<in> set ys \<Longrightarrow> f x = g x) \<Longrightarrow> evalE f xs = evalE g ys"
proof (induction ys arbitrary: xs)
  case (Cons y ys)
  then have "f y = g y" "evalE f ys = evalE g ys" by auto
  with Cons.prems show ?case by simp
qed simp

definition evaluate_leaf :: "ObserverContext \<Rightarrow> host \<Rightarrow> leaf_obs" where
  "evaluate_leaf C H node =
     (let ty = jget ''type'' node in
      if ty = JStr ''time'' then evaluate_time H node
      else if ty = JStr ''gpu_stable'' then evaluate_gpu H node
      else if ty = JStr ''pid_exit'' then evaluate_pid H node
      else if ty = JStr ''tmux_exit'' then evaluate_tmux H node
      else if ty = JStr ''log_pattern'' then evaluate_log_pattern C H node
      else if ty = JStr ''thread_idle'' then evaluate_thread_idle C node
      else if ty = JStr ''native_worker_terminal'' then evaluate_native_worker C node
      else if ty = JStr ''receipt_success'' then evaluate_receipt H node
      else if ty = JStr ''git_ref_change'' then evaluate_git_ref H node
      else if \<not> hashable ty then failO (TypeError, node)
      else retO (leaf_eval UNKNOWN (py_str ty)
             [(''kind'', JStr ''unsupported_stored_condition'')] True, node))"

definition invalid_children :: "json \<Rightarrow> Evaluation" where
  "invalid_children ty =
     leaf_eval UNKNOWN (py_str ty) [(''kind'', JStr ''invalid_stored_children'')] True"

function evaluate_condition :: "ObserverContext \<Rightarrow> host \<Rightarrow> leaf_obs" where
  "evaluate_condition C H node =
     (if combinator_type (jget ''type'' node) then
        (case jget ''children'' node of
           JList xs \<Rightarrow>
             if \<not> list_all is_obj xs then retO (invalid_children (jget ''type'' node), node)
             else
               bindO (catchO (evalE (evaluate_condition C H) (list_items (jget ''children'' node)))
                        (\<lambda>(e, xs'). failO (e, jset ''children'' (JList xs') node))) (\<lambda>(vs, xs').
               retO (combine (py_str (jget ''type'' node)) vs, jset ''children'' (JList xs') node))
         | _ \<Rightarrow> retO (invalid_children (jget ''type'' node), node))
      else evaluate_leaf C H node)"
  by pat_completeness auto
termination
  by (relation "measure (\<lambda>(C, H, node). size node)")
    (auto dest!: arg_cong [of _ _ list_items] intro: jget_items_size)

declare evaluate_condition.simps [simp del]

section \<open>Event conditions\<close>

definition event_unknown :: "json \<Rightarrow> string \<Rightarrow> Evaluation" where
  "event_unknown ty kind =
     mk_eval UNKNOWN (JObj [(''type'', JStr (py_str ty)), (''kind'', JStr kind)]) [] True"

text \<open>The exceptions that the observation of the external leaves turns into an unknown leaf.\<close>

fun leaf_exception :: "py_error \<Rightarrow> bool" where
  "leaf_exception KeyError = True"
| "leaf_exception TypeError = True"
| "leaf_exception ValueError = True"
| "leaf_exception (ValidationError _) = True"
| "leaf_exception _ = False"

type_synonym path_evals = "(nat list \<times> Evaluation) list"

definition observe_leaf ::
    "ObserverContext \<Rightarrow> host \<Rightarrow> json \<Rightarrow> nat list \<Rightarrow> (py_error, json \<times> path_evals) obs" where
  "observe_leaf C H node path =
     (if \<not> hashable (jget ''type'' node) then failO TypeError
      else if event_type (jget ''type'' node) then retO (node, [])
      else
        catchO
          (\<lambda>h. case evaluate_condition C H node h of
                 (Inl e, h') \<Rightarrow> (Inl e, h')
               | (Inr (v, node'), h') \<Rightarrow> (Inr (node', [(path, v)]), h'))
          (\<lambda>(e, node').
             if leaf_exception e then
               retO (node', [(path, event_unknown (jget ''type'' node) ''invalid_stored_external_leaf'')])
             else failO e))"

definition collect :: "json \<Rightarrow> (json \<times> path_evals) list \<Rightarrow> json \<times> path_evals" where
  "collect node parts =
     (jset ''children'' (JList (map fst parts)) node, concat (map snd parts))"

lemma enumerate_snd: "ix \<in> set (enumerate n xs) \<Longrightarrow> snd ix \<in> set xs"
  by (metis in_set_zip enumerate_eq_zip in_set_conv_nth)

function observe_visit ::
    "ObserverContext \<Rightarrow> host \<Rightarrow> json \<Rightarrow> nat list \<Rightarrow> (py_error, json \<times> path_evals) obs" where
  "observe_visit C H node path =
     (if \<not> combinator_type (jget ''type'' node) then observe_leaf C H node path
      else case jget ''children'' node of
        JList xs \<Rightarrow>
          bindO (mapO (\<lambda>ix.
                   if is_obj (snd ix) then observe_visit C H (snd ix) (path @ [fst ix])
                   else retO (snd ix,
                     [(path @ [fst ix], event_unknown (jget ''type'' node) ''invalid_stored_child'')]))
                 (enumerate 0 (list_items (jget ''children'' node))))
            (\<lambda>parts. retO (collect node parts))
      | _ \<Rightarrow> retO (node, [(path, event_unknown (jget ''type'' node) ''invalid_stored_children'')]))"
  by pat_completeness auto
termination
  by (relation "measure (\<lambda>(C, H, node, path). size node)")
    (simp, drule enumerate_snd, drule jget_items_size, simp)

declare observe_visit.simps [simp del]

definition observe_external_condition_leaves ::
    "ObserverContext \<Rightarrow> host \<Rightarrow> json \<Rightarrow> (py_error, json \<times> path_evals) obs" where
  "observe_external_condition_leaves C H condition = observe_visit C H (dict_of condition) []"


text \<open>\<open>event_statuses.get(str(reservation_id))\<close>, a mapping from reservation IDs.\<close>

definition status_entry :: "json \<Rightarrow> json \<Rightarrow> json" where
  "status_entry statuses rid = jget (py_str rid) statuses"

definition stale_eval :: "json \<Rightarrow> json \<Rightarrow> json \<Rightarrow> rat \<Rightarrow> Evaluation" where
  "stale_eval node status heartbeat now =
     (let received = bindE (jindex ''host_received_at'' heartbeat) py_float;
          seq = bindE (jindex ''sequence'' heartbeat) py_int;
          after = bindE (jindex ''stale_after_seconds'' node) py_float in
      case (received, seq, after) of
        (Inr r, Inr n, Inr a) \<Rightarrow>
          let age = pf_max0 (pf_sub (Fin now) r);
              evidence = JObj
                ([(''type'', JStr ''heartbeat_stale''), (''reservation_id'', jget ''reservation_id'' node),
                  (''producer_id'', jget ''producer_id'' status), (''last_sequence'', JInt n),
                  (''host_received_at'', JFloat r), (''age_seconds'', JFloat age),
                  (''stale_after_seconds'', JFloat a), (''classification'', JStr ''heuristic_stall'')]
                 @ no_acceptance) in
          if pf_le a age then mk_eval TRUE evidence [evidence] False
          else mk_eval FALSE evidence [] False
      | _ \<Rightarrow> event_unknown (JStr ''heartbeat_stale'') ''corrupt_heartbeat'')"

definition event_pending :: "TriState \<Rightarrow> json \<Rightarrow> string \<Rightarrow> Evaluation" where
  "event_pending v node kind =
     mk_eval v (JObj [(''type'', jget ''type'' node), (''reservation_id'', jget ''reservation_id'' node),
       (''kind'', JStr kind)]) [] False"

definition delivery_classification :: "json \<Rightarrow> json \<Rightarrow> json \<Rightarrow> string" where
  "delivery_classification ty terminal attestation =
     (if ty \<noteq> JStr ''worker_terminal'' then ''command_termination''
      else if jget ''outcome'' terminal = JStr ''completed'' then ''worker_completed''
      else if jget ''outcome'' terminal \<noteq> JStr ''delivered'' then ''worker_terminal_failure''
      else if jget ''status'' attestation = JStr ''valid'' then ''valid_delivery_candidate''
      else ''invalid_delivery'')"

definition terminal_eval :: "json \<Rightarrow> json \<Rightarrow> json \<Rightarrow> Evaluation" where
  "terminal_eval node status terminal =
     (let ty = jget ''type'' node; attestation = jget ''git_attestation'' status;
          witness = JObj
            ([(''type'', ty), (''reservation_id'', jget ''reservation_id'' node),
              (''producer_id'', jget ''producer_id'' status),
              (''classification'', JStr (delivery_classification ty terminal attestation))]
             @ no_acceptance
             @ [(''terminal_event'', terminal), (''last_heartbeat'', jget ''last_heartbeat'' status)]
             @ (if attestation = JNull then [] else [(''git_attestation'', attestation)])) in
      mk_eval TRUE witness [witness] False)"

text \<open>One event leaf against the current snapshot of its reservation.\<close>

definition evaluate_event_leaf :: "json \<Rightarrow> json \<Rightarrow> rat \<Rightarrow> Evaluation res" where
  "evaluate_event_leaf statuses node now =
     (let ty = jget ''type'' node; rid = jget ''reservation_id'' node;
          status = status_entry statuses rid;
          unknown = (\<lambda>kind. Inr (event_unknown ty kind)) in
      if \<not> is_obj status then unknown ''missing_bound_reservation''
      else if \<not> json_eq (jget ''reservation_id'' status) rid then unknown ''reservation_identity_mismatch''
      else if \<not> hashable (jget ''bound_monitor_id'' status) then Inl TypeError
      else if jget ''bound_monitor_id'' status \<in> {JNull, JStr []} then
        unknown ''reservation_identity_mismatch''
      else if terminal_type ty \<and> jget ''kind'' status \<noteq> ty then unknown ''reservation_kind_mismatch''
      else if jget ''cancelled_at'' status \<noteq> JNull \<or> jget ''expired_at'' status \<noteq> JNull then
        unknown ''bound_reservation_terminality_corrupt''
      else
        let terminal = jget ''terminal_event'' status; heartbeat = jget ''last_heartbeat'' status in
        if ty = JStr ''heartbeat_stale'' then
          (if terminal \<noteq> JNull then Inr (event_pending FALSE node ''terminal_event_present'')
           else if \<not> is_obj heartbeat then Inr (event_pending UNKNOWN node ''heartbeat_unavailable'')
           else Inr (stale_eval node status heartbeat now))
        else if terminal = JNull then
          (if jget ''state'' status = JStr ''terminal'' then unknown ''terminal_payload_missing''
           else Inr (event_pending FALSE node ''awaiting_terminal_event''))
        else if \<not> is_obj terminal \<or> jget ''kind'' terminal \<noteq> ty then
          unknown ''terminal_payload_kind_mismatch''
        else Inr (terminal_eval node status terminal))"

function evaluate_event_condition_tree ::
    "json \<Rightarrow> json \<Rightarrow> rat \<Rightarrow> path_evals option \<Rightarrow> nat list \<Rightarrow> Evaluation res" where
  "evaluate_event_condition_tree node statuses now external path =
     (let ty = jget ''type'' node in
      if \<not> hashable ty then Inl TypeError
      else if combinator_type ty then
        (case jget ''children'' node of
           JList xs \<Rightarrow>
             if \<not> list_all is_obj xs then Inr (event_unknown ty ''invalid_stored_children'')
             else
               bindE (map_res (\<lambda>ix. evaluate_event_condition_tree (snd ix) statuses now external
                                      (path @ [fst ix]))
                        (enumerate 0 (list_items (jget ''children'' node)))) (\<lambda>vs.
               Inr (combine (py_str ty) vs))
         | _ \<Rightarrow> Inr (event_unknown ty ''invalid_stored_children''))
      else if \<not> event_type ty then
        (case external of
           None \<Rightarrow> Inr (event_unknown ty ''external_leaf_not_observed'')
         | Some evals \<Rightarrow>
             (case map_of evals path of
                Some v \<Rightarrow> Inr v
              | None \<Rightarrow> Inr (event_unknown ty ''external_leaf_not_observed'')))
      else evaluate_event_leaf statuses node now)"
  by pat_completeness auto
termination
  by (relation "measure (\<lambda>(node, statuses, now, external, path). size node)")
    (simp, drule enumerate_snd, drule jget_items_size, simp)

declare evaluate_event_condition_tree.simps [simp del]

section \<open>Authorization, receipts and journal reports\<close>

definition witness_authorizes_continuation :: "json list \<Rightarrow> bool \<Rightarrow> bool" where
  "witness_authorizes_continuation witness allow_heuristic \<longleftrightarrow>
     allow_heuristic \<or>
     list_ex (\<lambda>item. jget ''type'' item \<in>
       {JStr ''receipt_success'', JStr ''command_terminal'', JStr ''worker_terminal''}) witness"

definition receipt_payload :: "string \<Rightarrow> string \<Rightarrow> string \<Rightarrow> json \<Rightarrow> rat \<Rightarrow> json res" where
  "receipt_payload monitor_id token status published_at now =
     (if status \<notin> {''success'', ''failed''} then
        raise_validation ''receipt status must be success or failed''
      else Inr (JObj
        [(''monitor_id'', JStr monitor_id), (''token'', JStr token), (''status'', JStr status),
         (''published_at'', if published_at = JNull then jnum now else published_at)]))"

text \<open>\<open>xs[-n:]\<close> for a positive \<open>n\<close>; \<open>xs[-0:]\<close> is the whole list.\<close>

definition py_last :: "nat \<Rightarrow> 'a list \<Rightarrow> 'a list" where
  "py_last n xs = (if n = 0 then xs else drop (length xs - n) xs)"

function journal_tail :: "json \<Rightarrow> nat \<Rightarrow> string list" where
  "journal_tail condition limit =
     (if jget ''type'' condition = JStr ''log_pattern'' then py_last limit (journal_lines condition)
      else py_last limit (concat (map (\<lambda>c. journal_tail c limit)
             (list_items (jget ''children'' condition)))))"
  by pat_completeness auto
termination
  by (relation "measure (size \<circ> fst)") (auto intro: jget_items_size)

declare journal_tail.simps [simp del]

text \<open>The lines and the dropped count of every log leaf, in order.\<close>

function collect_journal :: "json \<Rightarrow> (string list \<times> int) res" where
  "collect_journal node =
     (if jget ''type'' node = JStr ''log_pattern'' then
        bindE (journal_dropped node) (\<lambda>d. Inr (journal_lines node, d))
      else
        bindE (map_res (\<lambda>c. if is_obj c then collect_journal c else Inr ([], 0))
                 (list_items (jget ''children'' node))) (\<lambda>parts.
        Inr (concat (map fst parts), sum_list (map snd parts))))"
  by pat_completeness auto
termination
  by (relation "measure size") (auto intro: jget_items_size)

declare collect_journal.simps [simp del]

fun add_run :: "(string \<times> nat) list \<Rightarrow> string \<Rightarrow> (string \<times> nat) list" where
  "add_run [] line = [(line, 1)]"
| "add_run [(l, n)] line = (if l = line then [(l, n + 1)] else [(l, n), (line, 1)])"
| "add_run (r # rs) line = r # add_run rs line"

definition compact_journal_tail :: "json \<Rightarrow> nat \<Rightarrow> ((string \<times> nat) list \<times> int) res" where
  "compact_journal_tail condition limit =
     bindE (collect_journal condition) (\<lambda>(ls, dropped).
       let runs = foldl add_run [] ls in
       if length runs > limit then
         Inr (py_last limit runs,
              dropped + (if limit = 0 then 0
                         else int (sum_list (map snd (take (length runs - limit) runs)))))
       else Inr (runs, dropped))"

function elide_condition_journals :: "json \<Rightarrow> json res" where
  "elide_condition_journals condition =
     (if \<not> is_obj condition then Inr condition
      else
        bindE (if jget ''type'' condition = JStr ''log_pattern'' then
                 bindE (journal_counters condition) (\<lambda>c. Inr (jset ''journal'' c condition))
               else Inr condition) (\<lambda>value.
        case jget ''children'' condition of
          JList xs \<Rightarrow>
            bindE (map_res elide_condition_journals (list_items (jget ''children'' condition))) (\<lambda>cs.
            Inr (jset ''children'' (JList cs) value))
        | _ \<Rightarrow> Inr value))"
  by pat_completeness auto
termination
  by (relation "measure size") (auto intro!: jget_items_size [of _ "''children''"])

declare elide_condition_journals.simps [simp del]

end
