(* ===== verification/Condition_Facts.thy ===== *)
theory Condition_Facts
  imports Condition_Trees
begin

text \<open>
  The invariants of stored conditions. \<open>wf_condition\<close> says that every field an evaluator reads is
  there with its type; preparing a condition establishes it, evaluating one keeps it and never raises
  on it. Two judgements carry the proofs: \<open>returns\<close> (the operation returns, with a postcondition)
  and \<open>post\<close> (whenever it returns, the postcondition holds).
\<close>

section \<open>Judgements\<close>

definition returns :: "('e, 'a) obs \<Rightarrow> ('a \<Rightarrow> bool) \<Rightarrow> bool" where
  "returns m Q \<longleftrightarrow> (\<forall>h. \<exists>x h'. m h = (Inr x, h') \<and> Q x)"

definition post :: "('e, 'a) obs \<Rightarrow> ('a \<Rightarrow> bool) \<Rightarrow> bool" where
  "post m Q \<longleftrightarrow> (\<forall>h x h'. m h = (Inr x, h') \<longrightarrow> Q x)"

named_theorems returns_intros \<open>rules of the judgement that an operation returns\<close>
named_theorems post_intros \<open>rules of the judgement on returned values\<close>

lemma returns_basic [returns_intros]:
  "Q x \<Longrightarrow> returns (retO x) Q" "(\<And>a. Q a) \<Longrightarrow> returns (askO q f) Q"
  by (simp_all add: returns_def obs_simps)

lemma returns_bind: "returns m R \<Longrightarrow> (\<And>x. R x \<Longrightarrow> returns (f x) Q) \<Longrightarrow> returns (bindO m f) Q"
  unfolding returns_def by (metis bindO_run(1))

lemma returns_bind_any: "returns m (\<lambda>_. True) \<Longrightarrow> (\<And>x. returns (f x) Q) \<Longrightarrow> returns (bindO m f) Q"
  by (rule returns_bind)

lemma returns_ask_bind [returns_intros]: "(\<And>x. returns (f x) Q) \<Longrightarrow> returns (bindO (askO q a) f) Q"
  by (rule returns_bind_any) (simp_all add: returns_intros)

lemma returns_withN_bind [returns_intros]:
  "\<exists>x. r = Inr x \<Longrightarrow> (\<And>x. r = Inr x \<Longrightarrow> returns (f x) Q) \<Longrightarrow> returns (bindO (withN n r) f) Q"
  by (rule returns_bind [of _ "\<lambda>y. r = Inr y"]) (auto simp: withN_def returns_def obs_simps)

lemma returns_catch: "returns m Q \<Longrightarrow> returns (catchO m k) Q"
  unfolding returns_def by (metis catchO_run(1))

lemma returns_if [returns_intros]:
  "(c \<Longrightarrow> returns a Q) \<Longrightarrow> (\<not> c \<Longrightarrow> returns b Q) \<Longrightarrow> returns (if c then a else b) Q"
  by simp

lemma returns_cases [returns_intros]:
  "(\<And>x. v = Inl x \<Longrightarrow> returns (a x) Q) \<Longrightarrow> (\<And>x. v = Inr x \<Longrightarrow> returns (b x) Q) \<Longrightarrow>
     returns (case v of Inl x \<Rightarrow> a x | Inr x \<Rightarrow> b x) Q"
  "(w = None \<Longrightarrow> returns c Q) \<Longrightarrow> (\<And>x. w = Some x \<Longrightarrow> returns (d x) Q) \<Longrightarrow>
     returns (case w of None \<Rightarrow> c | Some x \<Rightarrow> d x) Q"
  "(\<And>x y. p = (x, y) \<Longrightarrow> returns (f x y) Q) \<Longrightarrow> returns (case p of (x, y) \<Rightarrow> f x y) Q"
  "(s = StatMissing \<Longrightarrow> returns g Q) \<Longrightarrow> (\<And>e. s = StatFailed e \<Longrightarrow> returns (k e) Q) \<Longrightarrow>
     (\<And>r d i n. s = StatOk r d i n \<Longrightarrow> returns (l r d i n) Q) \<Longrightarrow> returns (case_stat_result g k l s) Q"
  apply (cases v; simp)
  apply (cases w; simp)
  apply (cases p; simp)
  by (cases s; simp)

lemma returns_weaken: "returns m R \<Longrightarrow> (\<And>x. R x \<Longrightarrow> Q x) \<Longrightarrow> returns m Q"
  unfolding returns_def by metis

lemma post_basic [post_intros]:
  "Q x \<Longrightarrow> post (retO x) Q" "post (failO e) Q"
  by (simp_all add: post_def obs_simps)

lemma post_bind [post_intros]: "(\<And>x. post (f x) Q) \<Longrightarrow> post (bindO m f) Q"
  by (auto simp: post_def bindO_Inr)

lemma post_bind_using: "post m R \<Longrightarrow> (\<And>x. R x \<Longrightarrow> post (f x) Q) \<Longrightarrow> post (bindO m f) Q"
  by (auto simp: post_def bindO_Inr) blast

lemma post_if [post_intros]:
  "(c \<Longrightarrow> post a Q) \<Longrightarrow> (\<not> c \<Longrightarrow> post b Q) \<Longrightarrow> post (if c then a else b) Q"
  by simp

lemma post_catch: "post m Q \<Longrightarrow> (\<And>e. post (k e) Q) \<Longrightarrow> post (catchO m k) Q"
  by (auto simp: post_def catchO_def split: prod.splits sum.splits)

lemma post_sum [post_intros]:
  "(\<And>x. v = Inl x \<Longrightarrow> post (a x) Q) \<Longrightarrow> (\<And>x. v = Inr x \<Longrightarrow> post (b x) Q) \<Longrightarrow>
     post (case v of Inl x \<Rightarrow> a x | Inr x \<Rightarrow> b x) Q"
  by (cases v) simp_all

lemma post_option [post_intros]:
  "(v = None \<Longrightarrow> post a Q) \<Longrightarrow> (\<And>x. v = Some x \<Longrightarrow> post (b x) Q) \<Longrightarrow>
     post (case v of None \<Rightarrow> a | Some x \<Rightarrow> b x) Q"
  by (cases v) simp_all

lemma post_prod [post_intros]:
  "(\<And>x y. p = (x, y) \<Longrightarrow> post (f x y) Q) \<Longrightarrow> post (case p of (x, y) \<Rightarrow> f x y) Q"
  by (cases p) simp

lemma post_stat [post_intros]:
  "(s = StatMissing \<Longrightarrow> post a Q) \<Longrightarrow> (\<And>e. s = StatFailed e \<Longrightarrow> post (b e) Q) \<Longrightarrow>
     (\<And>r d i n. s = StatOk r d i n \<Longrightarrow> post (c r d i n) Q) \<Longrightarrow> post (case_stat_result a b c s) Q"
  by (cases s) simp_all

lemma postD: "post m Q \<Longrightarrow> m h = (Inr x, h') \<Longrightarrow> Q x"
  unfolding post_def by blast

section \<open>Well-formed stored conditions\<close>

fun is_float :: "json \<Rightarrow> bool" where
  "is_float (JFloat _) = True"
| "is_float _ = False"

fun is_int :: "json \<Rightarrow> bool" where
  "is_int (JInt _) = True"
| "is_int _ = False"

text \<open>The fields of a leaf, by its type; \<open>rx\<close> is the regular expression engine.\<close>

definition wf_leaf :: "(string \<Rightarrow> (string \<Rightarrow> bool) option) \<Rightarrow> json \<Rightarrow> bool" where
  "wf_leaf rx node \<longleftrightarrow>
     (let ty = jget ''type'' node; f = (\<lambda>k. jget k node) in
      hashable ty \<and>
      (ty = JStr ''time'' \<longrightarrow> is_float (f ''deadline_utc'')) \<and>
      (ty = JStr ''gpu_stable'' \<longrightarrow>
         is_float (f ''max_utilization_percent'') \<and> is_float (f ''stable_for_seconds'') \<and>
         (f ''stable_since'' = JNull \<or> is_float (f ''stable_since'')) \<and>
         (case f ''devices'' of JList ds \<Rightarrow> list_all is_int ds | _ \<Rightarrow> False)) \<and>
      (ty = JStr ''pid_exit'' \<longrightarrow> is_obj (f ''identity'') \<and> is_int (jget ''pid'' (f ''identity''))) \<and>
      (ty = JStr ''tmux_exit'' \<longrightarrow> is_str (f ''socket'') \<and> is_str (f ''target_id'') \<and> is_int (f ''server_pid'')) \<and>
      (ty = JStr ''log_pattern'' \<longrightarrow>
         is_str (f ''path'') \<and> is_int (f ''offset'') \<and>
         is_int (jget ''dropped'' (f ''journal'')) \<and>
         (case f ''patterns'' of
            JList ps \<Rightarrow> list_all (\<lambda>p. is_str (jget ''name'' p) \<and> is_str (jget ''regex'' p) \<and>
                          rx (py_str (jget ''regex'' p)) \<noteq> None) ps
          | _ \<Rightarrow> False)) \<and>
      (ty = JStr ''thread_idle'' \<longrightarrow> is_str (f ''thread_id'')) \<and>
      (ty = JStr ''native_worker_terminal'' \<longrightarrow>
         f ''settlement'' = JNull \<or> is_obj (f ''settlement'') \<and> hashable (jget ''status'' (f ''settlement''))) \<and>
      (ty = JStr ''receipt_success'' \<longrightarrow> is_str (f ''path'')) \<and>
      (ty = JStr ''git_ref_change'' \<longrightarrow> is_obj (f ''binding'')))"

function wf_condition :: "(string \<Rightarrow> (string \<Rightarrow> bool) option) \<Rightarrow> json \<Rightarrow> bool" where
  "wf_condition rx node =
     (if combinator_type (jget ''type'' node) then
        (case jget ''children'' node of
           JList xs \<Rightarrow> xs \<noteq> [] \<and>
             list_all (\<lambda>c. is_obj c \<and> wf_condition rx c) (list_items (jget ''children'' node))
         | _ \<Rightarrow> False)
      else wf_leaf rx node)"
  by pat_completeness auto
termination
  by (relation "measure (size \<circ> snd)")
    (auto dest!: arg_cong [of _ _ list_items] intro: jget_items_size)

declare wf_condition.simps [simp del]

lemma jindex_jget: "jget k v \<noteq> JNull \<Longrightarrow> jindex k v = Inr (jget k v)"
  by (auto simp: jget_def jindex_def split: option.splits)

lemma shape_not_null [simp]:
  "is_float v \<Longrightarrow> v \<noteq> JNull" "is_int v \<Longrightarrow> v \<noteq> JNull" "is_str v \<Longrightarrow> v \<noteq> JNull" "is_obj v \<Longrightarrow> v \<noteq> JNull"
  by (cases v; simp)+

lemma is_float_iff: "is_float v \<longleftrightarrow> (\<exists>f. v = JFloat f)"
  by (cases v) auto

lemma is_int_iff: "is_int v \<longleftrightarrow> (\<exists>i. v = JInt i)"
  by (cases v) auto

lemma is_str_iff: "is_str v \<longleftrightarrow> (\<exists>s. v = JStr s)"
  by (cases v) auto

lemma read_float: "is_float (jget k v) \<Longrightarrow> \<exists>f. bindE (jindex k v) py_float = Inr f"
  by (auto simp: jindex_jget is_float_iff)

lemma read_int: "is_int (jget k v) \<Longrightarrow> \<exists>i. bindE (jindex k v) py_int = Inr i"
  by (auto simp: jindex_jget is_int_iff)


section \<open>Every leaf evaluator returns on a well-formed leaf\<close>

definition keeps :: "(string \<Rightarrow> (string \<Rightarrow> bool) option) \<Rightarrow> json \<Rightarrow> Evaluation \<times> json \<Rightarrow> bool" where
  "keeps rx node r \<longleftrightarrow>
     wf_leaf rx (snd r) \<and> jget ''type'' (snd r) = jget ''type'' node \<and> (is_obj node \<longrightarrow> is_obj (snd r))"

lemma keeps_same: "wf_leaf rx node \<Longrightarrow> keeps rx node (v, node)"
  by (simp add: keeps_def)

lemma returns_time:
  assumes "wf_leaf rx node" "jget ''type'' node = JStr ''time''"
  shows "returns (evaluate_time H node) (keeps rx node)"
  unfolding evaluate_time_def using assms
  by (intro returns_intros keeps_same read_float) (simp_all add: wf_leaf_def Let_def)

lemma select_samples_total: "list_all is_int ds \<Longrightarrow> \<exists>r. select_samples samples ds = Inr r"
proof (induction ds)
  case (Cons d ds)
  then obtain i r where i: "d = JInt i" and r: "select_samples samples ds = Inr r"
    by (auto simp: is_int_iff)
  then have "\<exists>q. sample_of samples d = Inr q"
    by (simp add: sample_of_def split: option.split)
  then obtain q where "sample_of samples d = Inr q" by blast
  with r show ?case by (cases q; cases r) simp_all
qed simp

lemma wf_gpu_set:
  "wf_leaf rx node \<Longrightarrow> v = JNull \<or> is_float v \<Longrightarrow> jget ''type'' node = JStr ''gpu_stable'' \<Longrightarrow>
     keeps rx node (e, jset ''stable_since'' v node)"
  by (auto simp: keeps_def wf_leaf_def Let_def)

lemma returns_gpu_interval:
  assumes "wf_leaf rx node" "jget ''type'' node = JStr ''gpu_stable''"
  shows "returns (gpu_interval H node vs) (keeps rx node)"
proof -
  from assms have f: "is_float (jget ''max_utilization_percent'' node)"
    "is_float (jget ''stable_for_seconds'' node)"
    "jget ''stable_since'' node = JNull \<or> is_float (jget ''stable_since'' node)"
    by (auto simp: wf_leaf_def Let_def)
  have "\<exists>g. py_float (if jget ''stable_since'' node = JNull then jnum now else jget ''stable_since'' node) = Inr g" for now
    using f(3) by (auto simp: is_float_iff)
  moreover have "keeps rx node (v, if jget ''stable_since'' node = JNull
        then jset ''stable_since'' (jnum now) node else node)" for v now
    using wf_gpu_set [OF assms(1) _ assms(2)] keeps_same [OF assms(1)] by simp
  ultimately show ?thesis
    using f(1,2) unfolding gpu_interval_def Let_def
    by (intro returns_intros read_float) (auto intro: wf_gpu_set [OF assms(1) _ assms(2)])
qed

lemma returns_gpu:
  assumes "wf_leaf rx node" "jget ''type'' node = JStr ''gpu_stable''"
  shows "returns (evaluate_gpu H node) (keeps rx node)"
proof -
  obtain ds where ds: "jget ''devices'' node = JList ds" "list_all is_int ds"
    using assms by (auto simp: wf_leaf_def Let_def split: json.splits)
  then have "map_of (entries node) ''devices'' = Some (JList ds)"
    by (auto simp: jget_def split: option.splits)
  then have "\<exists>r. gpu_selection node a = Inr r" for a
    using select_samples_total [OF ds(2)] by (cases a) (auto simp: gpu_selection_def)
  then show ?thesis
    unfolding evaluate_gpu_def
    by (intro returns_intros)
      (auto split: sum.split intro: returns_intros wf_gpu_set assms returns_gpu_interval)
qed

lemma returns_tryV:
  assumes "\<And>h e h'. m h = (Inl e, h') \<Longrightarrow> \<exists>msg. e = ValidationError msg"
  shows "returns (tryV m node) (\<lambda>_. True)"
  unfolding returns_def
proof
  fix h
  obtain r h' where "m h = (r, h')" by (cases "m h")
  with assms show "\<exists>x h'. tryV m node h = (Inr x, h') \<and> True"
    by (cases r) (fastforce simp: tryV_def catchO_def obs_simps)+
qed

lemma boot_id_errors: "read_boot_id H h = (Inl e, h') \<Longrightarrow> \<exists>msg. e = ValidationError msg"
  by (auto simp: read_boot_id_def bindO_def obs_simps split: option.splits)

lemma parse_proc_stat_errors: "parse_proc_stat t = Inl e \<Longrightarrow> \<exists>msg. e = ValidationError msg"
  by (auto simp: parse_proc_stat_def raise_validation_def Let_def split: option.splits sum.splits if_splits)

lemma snapshot_errors: "read_pid_snapshot H pid h = (Inl e, h') \<Longrightarrow> \<exists>msg. e = ValidationError msg"
  by (auto simp: read_pid_snapshot_def bindO_def obs_simps
      split: proc_result.splits sum.splits prod.splits dest: boot_id_errors parse_proc_stat_errors)

lemma returns_boot_bind [returns_intros]:
  "(\<And>x. returns (f x) Q) \<Longrightarrow> returns (bindO (tryV (read_boot_id H) node) f) Q"
  by (rule returns_bind_any [OF returns_tryV [OF boot_id_errors]])

lemma returns_snapshot_bind [returns_intros]:
  "(\<And>x. returns (f x) Q) \<Longrightarrow> returns (bindO (tryV (read_pid_snapshot H pid) node) f) Q"
  by (rule returns_bind_any [OF returns_tryV [OF snapshot_errors]])

lemma returns_pid:
  assumes "wf_leaf rx node" "jget ''type'' node = JStr ''pid_exit''"
  shows "returns (evaluate_pid H node) (keeps rx node)"
proof -
  from assms have f: "is_obj (jget ''identity'' node)" "is_int (jget ''pid'' (jget ''identity'' node))"
    by (auto simp: wf_leaf_def Let_def)
  note k = keeps_same [OF assms(1)]
  show ?thesis
    unfolding evaluate_pid_def
    by (intro returns_intros k read_int) (auto simp: expect_mapping_def f)
qed

lemma returns_tmux:
  assumes "wf_leaf rx node" "jget ''type'' node = JStr ''tmux_exit''"
  shows "returns (evaluate_tmux H node) (keeps rx node)"
proof -
  from assms have f: "is_str (jget ''socket'' node)" "is_str (jget ''target_id'' node)"
    "is_int (jget ''server_pid'' node)"
    by (auto simp: wf_leaf_def Let_def)
  note k = keeps_same [OF assms(1)]
  have digits: "\<exists>n. parse_int s = Inr n" if "all_digits s" for s
  proof -
    have d: "\<exists>n. digits_value acc t = Some n" if "list_all is_digit t" for acc t
      using that by (induction t arbitrary: acc) auto
    from that d [of s 0] obtain c cs n where "s = c # cs" "is_digit c" "digits_value 0 (c # cs) = Some n"
      by (cases s) (auto simp: all_digits_def simp del: digits_value.simps)
    moreover from this have "c \<noteq> CHR ''-''" "c \<noteq> CHR ''+''"
      by (auto simp: is_digit_def code_def)
    ultimately show ?thesis by (simp del: digits_value.simps)
  qed
  have "returns (tmux_server_pid H node) (\<lambda>_. True)"
    unfolding tmux_server_pid_def ask_tmux_def
    by (intro returns_intros) (use f in \<open>auto simp: jindex_jget intro: digits\<close>)
  moreover have "returns (tmux_target H node) (keeps rx node)"
    unfolding tmux_target_def ask_tmux_def Let_def
    by (intro returns_intros k) (use f in \<open>auto simp: jindex_jget\<close>)
  ultimately show ?thesis
    unfolding evaluate_tmux_def
    by (intro returns_bind_any returns_intros k read_int) (use f in auto)
qed

lemma returns_receipt:
  assumes "wf_leaf rx node" "jget ''type'' node = JStr ''receipt_success''"
  shows "returns (evaluate_receipt H node) (keeps rx node)"
proof -
  from assms have f: "is_str (jget ''path'' node)" by (auto simp: wf_leaf_def Let_def)
  have "returns (read_json H p) (\<lambda>_. True)" for p
    unfolding read_json_def by (intro returns_intros) simp
  then show ?thesis
    unfolding evaluate_receipt_def Let_def
    by (intro returns_intros returns_bind_any [of "read_json H p" for p] keeps_same assms(1))
      (use f in \<open>auto simp: jindex_jget\<close>)
qed

lemma returns_git:
  assumes "wf_leaf rx node" "jget ''type'' node = JStr ''git_ref_change''"
  shows "returns (evaluate_git_ref H node) (keeps rx node)"
proof -
  from assms have f: "is_obj (jget ''binding'' node)" by (auto simp: wf_leaf_def Let_def)
  have "returns (\<lambda>h. let (s, h') = sample_git_ref H b h in (Inr (git_ref_eval b s, node), h')) (keeps rx node)" for b
    by (simp add: returns_def keeps_same [OF assms(1)] split: prod.split)
  then show ?thesis
    unfolding evaluate_git_ref_def
    by (intro returns_intros keeps_same assms(1)) (use f in \<open>auto simp: expect_mapping_def\<close>)
qed

lemma returns_thread:
  assumes "wf_leaf rx node" "jget ''type'' node = JStr ''thread_idle''"
  shows "returns (evaluate_thread_idle C node) (keeps rx node)"
proof -
  from assms have f: "is_str (jget ''thread_id'' node)" by (auto simp: wf_leaf_def Let_def)
  have "keeps rx node (v, jset ''idle_snapshot'' s (jset ''idle'' (JBool True) node))" for v s
    using assms by (simp add: keeps_def wf_leaf_def Let_def)
  then show ?thesis
    unfolding evaluate_thread_idle_def Let_def
    by (intro returns_intros keeps_same assms(1)) (use f in \<open>auto simp: jindex_jget\<close>)
qed


text \<open>What the app-server reports of a native worker has a status that is not a list or a dict.\<close>

definition native_ok :: "ObserverContext \<Rightarrow> bool" where
  "native_ok C \<longleftrightarrow> list_all (\<lambda>kv. hashable (jget ''status'' (snd kv))) (native_observations C)"

lemma native_snapshot_ok: "native_ok C \<Longrightarrow> hashable (jget ''status'' (native_snapshot C key))"
  by (cases "map_of (native_observations C) key")
    (fastforce simp: native_ok_def native_snapshot_def list_all_iff jget_def [of _ JNull]
      dest: map_of_SomeD)+

lemma settlement_fields:
  assumes "jget ''task_name'' s = JStr t" "jget ''child_thread_id'' s = JStr c"
    "jget ''invocation_id'' s = JStr i" "jget ''status'' s \<in> JStr ` set settled_statuses"
  shows "\<exists>r. native_worker_settlement s root_id = Inr r \<and> is_obj r
    \<and> jget ''root_thread_id'' r = JStr root_id \<and> jget ''task_name'' r = JStr t
    \<and> jget ''child_thread_id'' r = JStr c \<and> jget ''invocation_id'' r = JStr i
    \<and> jget ''status'' r = jget ''status'' s"
proof -
  have "jget ''status'' s \<noteq> JNull" using assms(4) by auto
  then show ?thesis
    using assms(1-3) by (simp add: native_worker_settlement_def jindex_jget) (simp add: jget_def)
qed

lemma returns_native:
  assumes "wf_leaf rx node" "jget ''type'' node = JStr ''native_worker_terminal''" "native_ok C"
  shows "returns (evaluate_native_worker C node) (keeps rx node)"
proof -
  let ?s = "jget ''settlement'' node"
  note k = keeps_same [OF assms(1)]
  from assms(1,2) have f: "?s = JNull \<or> is_obj ?s \<and> hashable (jget ''status'' ?s)"
    by (auto simp: wf_leaf_def Let_def)
  have m: "\<exists>b. memE v names = Inr b" if "hashable v" for v names
    using that by (simp add: memE_def)
  have set: "keeps rx node (v, jset ''settlement'' r node)"
    if "is_obj r" "hashable (jget ''status'' r)" for v r
    using assms(1,2) that by (auto simp: keeps_def wf_leaf_def Let_def)
  show ?thesis
  proof (cases "is_obj ?s")
    case True
    with f have h: "hashable (jget ''status'' ?s)" by auto
    show ?thesis
      unfolding evaluate_native_worker_def Let_def using True
      by (simp only: if_True) (intro returns_intros k m h)
  next
    case False
    let ?snap = "native_snapshot C (str_field ''root_thread_id'' node, str_field ''task_name'' node,
        Some (str_field ''child_thread_id'' node), Some (str_field ''invocation_id'' node))"
    have h: "hashable (if is_obj ?snap then jget ''status'' ?snap else JStr ''unavailable'')"
      using native_snapshot_ok [OF assms(3)] by simp
    show ?thesis
      unfolding evaluate_native_worker_def Let_def using False
      apply (simp only: if_False)
      apply (intro returns_intros k m h)
      subgoal for bad
        using settlement_fields [of ?snap "str_field ''task_name'' node"
          "str_field ''child_thread_id'' node" "str_field ''invocation_id'' node" "str_field ''root_thread_id'' node"]
        by (auto simp: memE_def settled_statuses_def split: if_splits)
      subgoal for bad settled
        using settlement_fields [of ?snap "str_field ''task_name'' node"
          "str_field ''child_thread_id'' node" "str_field ''invocation_id'' node" "str_field ''root_thread_id'' node"]
        by (intro set) (auto simp: memE_def settled_statuses_def split: if_splits)
      done
  qed
qed

lemma wf_log_update:
  assumes "wf_leaf rx node" "jget ''type'' node = JStr ''log_pattern''"
  shows "wf_leaf rx (jset ''offset'' (JInt i) node)"
    "wf_leaf rx (jset ''identity'' v node)"
    "wf_leaf rx (jset ''journal'' (journal_json ls d) node)"
    "wf_leaf rx (jset ''matched'' v node)" "wf_leaf rx (jset ''matched_names'' v node)"
    "wf_leaf rx (jset ''witness_lines'' v node)"
  using assms by (auto simp: wf_leaf_def Let_def journal_json_def jget_def [of "''dropped''"])

lemma journal_total:
  "is_int (jget ''dropped'' (jget ''journal'' node)) \<Longrightarrow> \<exists>d. journal_dropped node = Inr d"
  by (auto simp: journal_dropped_def Let_def is_int_iff)

lemma wf_log_fields:
  assumes "wf_leaf rx node" "jget ''type'' node = JStr ''log_pattern''"
  shows "is_str (jget ''path'' node)" "is_int (jget ''offset'' node)"
    "is_int (jget ''dropped'' (jget ''journal'' node))"
  using assms by (simp_all add: wf_leaf_def Let_def)

lemma append_journal_eq:
  "append_journal node ls = bindE (journal_dropped node) (\<lambda>d.
     let t = trim_journal (journal_lines node @ map (py_take JOURNAL_STORED_LINE_CHARS) ls) d in
     Inr (jset ''journal'' (journal_json (fst t) (snd t)) node))"
  by (simp add: append_journal_def case_prod_beta Let_def)

lemma append_journal_Inr:
  "append_journal node ls = Inr node' \<Longrightarrow> \<exists>kept d. node' = jset ''journal'' (journal_json kept d) node"
  by (auto simp: append_journal_eq Let_def)

lemma append_journal_total:
  "is_int (jget ''dropped'' (jget ''journal'' node)) \<Longrightarrow> \<exists>n. append_journal node ls = Inr n"
  using journal_total [of node] by (auto simp: append_journal_eq Let_def)

lemma returns_scan_lines: "returns (scan_lines H d ps ls s) (\<lambda>_. True)"
proof (induction ls arbitrary: s)
  case Nil
  show ?case by (simp add: returns_basic)
next
  case (Cons l ls)
  show ?case by (simp only: scan_lines.simps, intro returns_intros Cons) simp
qed

lemma returns_log_verdict:
  assumes "wf_leaf rx node" "jget ''type'' node = JStr ''log_pattern''"
  shows "returns (log_verdict node offset ob s) (keeps rx node)"
proof -
  note u = wf_log_update and f = wf_log_fields [OF assms]
  have j: "\<exists>n. append_journal (jset ''offset'' (JInt i) node) ls = Inr n" for i ls
    by (rule append_journal_total) (use f in simp)
  have c: "\<exists>q. journal_counters (jset ''witness_lines'' a (jset ''matched_names'' b (jset ''matched'' c
      (jset ''journal'' (journal_json kept d) node')))) = Inr q" for a b c kept d node'
    by (simp add: journal_counters_def journal_dropped_def journal_json_def jget_def [of "''dropped''"] Let_def)
  show ?thesis
    unfolding log_verdict_def Let_def
    apply (intro returns_intros j)
       apply (drule append_journal_Inr, elim exE, simp only: c simp_thms)
      apply (drule append_journal_Inr, elim exE)
      apply (simp add: keeps_def assms u)
     apply (simp_all add: keeps_def assms u)
    done
qed

lemma stored_patterns_total:
  assumes "wf_leaf (regex C) node" "jget ''type'' node = JStr ''log_pattern''"
  shows "\<exists>ps. stored_patterns C node = Inr ps"
proof -
  obtain es where es: "jget ''patterns'' node = JList es"
    "list_all (\<lambda>p. is_str (jget ''name'' p) \<and> is_str (jget ''regex'' p) \<and>
        regex C (py_str (jget ''regex'' p)) \<noteq> None) es"
    using assms by (auto simp: wf_leaf_def Let_def split: json.splits)
  from es(2) have "\<exists>ps. map_res (stored_pattern C) es = Inr ps"
    by (induction es) (auto simp: stored_pattern_def jindex_jget split: option.split)
  with es(1) show ?thesis
    by (simp add: stored_patterns_def jindex_jget)
qed

lemma returns_scan_log:
  assumes "wf_leaf (regex C) node" "jget ''type'' node = JStr ''log_pattern''"
  shows "returns (scan_log C H node path offset pending) (keeps (regex C) node)"
  unfolding scan_log_def Let_def
  apply (intro returns_intros stored_patterns_total assms keeps_same)
   apply (simp add: keeps_def assms wf_log_update)
  apply (rule returns_bind_any [OF returns_scan_lines returns_log_verdict [OF assms]])
  done

lemma returns_log:
  assumes "wf_leaf (regex C) node" "jget ''type'' node = JStr ''log_pattern''"
  shows "returns (evaluate_log_pattern C H node) (keeps (regex C) node)"
proof -
  note f = wf_log_fields [OF assms] and k = keeps_same [OF assms(1)]
  have off: "\<exists>i. log_offset n = Inr i" if "is_int (jget ''offset'' n)" for n
    using that by (auto simp: log_offset_def Let_def is_int_iff)
  let ?n = "\<lambda>cur. jset ''offset'' (JInt 0) (jset ''identity'' cur node)"
  have w: "wf_leaf (regex C) (?n cur)" "jget ''type'' (?n cur) = JStr ''log_pattern''" for cur
    using assms by (simp_all add: wf_log_update)
  have k2: "keeps (regex C) node (v, ?n cur)" for v cur
    using w [of cur] assms by (simp add: keeps_def)
  have s2: "returns (scan_log C H (?n cur) p off pend) (keeps (regex C) node)" for cur p off pend
    by (rule returns_weaken [OF returns_scan_log [OF w]]) (use assms in \<open>auto simp: keeps_def\<close>)
  have c: "\<exists>d. journal_counters node = Inr d"
    using journal_total [OF f(3)] by (auto simp: journal_counters_def)
  show ?thesis
    unfolding evaluate_log_pattern_def Let_def ask_stat_def
    apply (intro returns_intros k c)
          apply (simp add: f jindex_jget)
         apply (rule off, use f in simp)
        apply (simp_all add: k k2 s2 returns_scan_log assms)
    done
qed


section \<open>Every stored condition\<close>

lemma returns_leaf:
  assumes "wf_leaf (regex C) node" "native_ok C"
  shows "returns (evaluate_leaf C H node) (keeps (regex C) node)"
proof -
  have "hashable (jget ''type'' node)"
    using assms(1) by (simp add: wf_leaf_def Let_def)
  then show ?thesis
    unfolding evaluate_leaf_def Let_def
    by (intro returns_intros returns_time returns_gpu returns_pid returns_tmux returns_log
        returns_thread returns_native returns_receipt returns_git keeps_same assms) simp_all
qed

definition tree_keeps :: "(string \<Rightarrow> (string \<Rightarrow> bool) option) \<Rightarrow> json \<Rightarrow> Evaluation \<times> json \<Rightarrow> bool" where
  "tree_keeps rx node r \<longleftrightarrow>
     wf_condition rx (snd r) \<and> jget ''type'' (snd r) = jget ''type'' node \<and> (is_obj node \<longrightarrow> is_obj (snd r))"

lemma returns_evalE:
  assumes "\<And>x. x \<in> set xs \<Longrightarrow> returns (f x) (tree_keeps rx x)" "list_all is_obj xs"
  shows "returns (evalE f xs) (\<lambda>(vs, xs'). length vs = length xs \<and> length xs' = length xs
           \<and> list_all (\<lambda>c. is_obj c \<and> wf_condition rx c) xs')"
  using assms
proof (induction xs)
  case Nil
  show ?case by (simp add: returns_basic)
next
  case (Cons x xs)
  have x: "returns (catchO (f x) k) (tree_keeps rx x)" for k
    by (rule returns_catch) (use Cons.prems in simp)
  have xs: "returns (catchO (evalE f xs) k) (\<lambda>(vs, xs'). length vs = length xs \<and> length xs' = length xs
           \<and> list_all (\<lambda>c. is_obj c \<and> wf_condition rx c) xs')" for k
    by (rule returns_catch, rule Cons.IH) (use Cons.prems in simp_all)
  show ?case
    apply (simp only: evalE.simps)
    apply (rule returns_bind [OF x])
    apply (clarsimp simp only: tree_keeps_def split: prod.split)
    apply (rule returns_bind [OF xs])
    apply (use Cons.prems in \<open>auto intro!: returns_intros\<close>)
    done
qed

lemma combinator_hashable: "combinator_type ty \<Longrightarrow> hashable ty"
  by (auto simp: combinator_type_def)

lemma returns_condition:
  assumes "wf_condition (regex C) node" "native_ok C"
  shows "returns (evaluate_condition C H node) (tree_keeps (regex C) node)"
  using assms
proof (induction C H node rule: evaluate_condition.induct)
  case (1 C H node)
  show ?case
  proof (cases "combinator_type (jget ''type'' node)")
    case False
    then have "wf_leaf (regex C) node"
      using "1.prems"(1) by (simp add: wf_condition.simps)
    with False have "returns (evaluate_condition C H node) (keeps (regex C) node)"
      using returns_leaf "1.prems"(2) by (simp add: evaluate_condition.simps [of C H node])
    then show ?thesis
      by (rule returns_weaken) (use False in \<open>auto simp: keeps_def tree_keeps_def wf_condition.simps\<close>)
  next
    case True
    then obtain xs where xs: "jget ''children'' node = JList xs" "xs \<noteq> []"
      "list_all (\<lambda>c. is_obj c \<and> wf_condition (regex C) c) xs"
      using "1.prems"(1) by (subst (asm) wf_condition.simps) (auto split: json.splits)
    have o: "list_all is_obj xs" using xs(3) by (auto simp: list_all_iff)
    have "returns (evaluate_condition C H x) (tree_keeps (regex C) x)" if "x \<in> set xs" for x
      by (rule "1.IH" [OF True xs(1)]) (use o that xs "1.prems"(2) in \<open>auto simp: list_all_iff\<close>)
    note e = returns_catch [OF returns_evalE [OF this o]]
    show ?thesis
      apply (subst evaluate_condition.simps)
      apply (simp add: True xs(1) o)
      apply (rule returns_bind [OF e], assumption)
      apply (clarsimp intro!: returns_intros simp: tree_keeps_def)
      apply (subst wf_condition.simps)
      using True xs(2) apply auto
      done
  qed
qed

end
