(* ===== verification/Condition_Truth.thy ===== *)
theory Condition_Truth
  imports Condition_Facts Git_Properties
begin

text \<open>
  What an evaluation means: a witness comes with truth and only with truth, a fatal verdict is never
  true, children combine as in strong Kleene logic, and a prepared condition is well-formed, so that
  it can be evaluated any number of times.
\<close>

section \<open>Coherent evaluations\<close>

definition coherent :: "Evaluation \<Rightarrow> bool" where
  "coherent v \<longleftrightarrow> (ev_witness v \<noteq> [] \<longleftrightarrow> ev_value v = TRUE) \<and> (ev_fatal v \<longrightarrow> ev_value v \<noteq> TRUE)"

lemma coherent_leaf [intro, simp]:
  "coherent (leaf_eval v ty e False)" "v \<noteq> TRUE \<Longrightarrow> coherent (leaf_eval v ty e True)"
  using leaf_eval_sel(3) [of v ty e] by (auto simp: coherent_def)

lemma coherent_mk [simp]:
  "coherent (mk_eval v e w f) \<longleftrightarrow> (w \<noteq> [] \<longleftrightarrow> v = TRUE) \<and> (f \<longrightarrow> v \<noteq> TRUE)"
  by (simp add: coherent_def)

lemma post_time: "post (evaluate_time H node) (\<lambda>r. coherent (fst r))"
  unfolding evaluate_time_def by (intro post_intros) simp

lemma post_gpu: "post (evaluate_gpu H node) (\<lambda>r. coherent (fst r))"
  unfolding evaluate_gpu_def gpu_interval_def Let_def by (intro post_intros) simp_all

lemma post_pid: "post (evaluate_pid H node) (\<lambda>r. coherent (fst r))"
  unfolding evaluate_pid_def pid_unknown_def by (intro post_intros) simp_all

lemma post_tmux: "post (evaluate_tmux H node) (\<lambda>r. coherent (fst r))"
  unfolding evaluate_tmux_def tmux_target_def tmux_unknown_def Let_def
  by (intro post_intros) simp_all

lemma post_log: "post (evaluate_log_pattern C H node) (\<lambda>r. coherent (fst r))"
  unfolding evaluate_log_pattern_def scan_log_def log_verdict_def [abs_def] matched_eval_def
    log_unknown_def Let_def
  by (intro post_intros) simp_all

lemma post_thread: "post (evaluate_thread_idle C node) (\<lambda>r. coherent (fst r))"
  unfolding evaluate_thread_idle_def Let_def by (intro post_intros) simp_all

lemma post_native: "post (evaluate_native_worker C node) (\<lambda>r. coherent (fst r))"
  unfolding evaluate_native_worker_def Let_def by (intro post_intros) simp_all

lemma post_receipt: "post (evaluate_receipt H node) (\<lambda>r. coherent (fst r))"
  unfolding evaluate_receipt_def Let_def by (intro post_intros) simp_all

lemma coherent_git_ref: "coherent (git_ref_eval b s)" "coherent (git_ref_failed e)"
  by (auto simp: git_ref_eval_def git_ref_failed_def Let_def)

lemma post_git: "post (evaluate_git_ref H node) (\<lambda>r. coherent (fst r))"
  unfolding evaluate_git_ref_def
  by (intro post_intros)
    (auto simp: coherent_git_ref post_basic split: sum.split, auto simp: post_def coherent_git_ref
      split: prod.splits)

lemma post_leaf: "post (evaluate_leaf C H node) (\<lambda>r. coherent (fst r))"
  unfolding evaluate_leaf_def Let_def
  by (intro post_intros post_time post_gpu post_pid post_tmux post_log post_thread post_native
      post_receipt post_git) simp_all

section \<open>Combining children\<close>

lemma combine_sel:
  "ev_value (combine ty cs) =
     (let has = (\<lambda>v. \<exists>c \<in> set cs. ev_value c = v) in
      if ty = ''all'' then (if has FALSE then FALSE else if has UNKNOWN then UNKNOWN else TRUE)
      else (if has TRUE then TRUE else if has UNKNOWN then UNKNOWN else FALSE))"
  by (simp add: combine_def combined_def Let_def list_ex_iff)

lemma tri_exhaust: "ev_value c = TRUE \<or> ev_value c = UNKNOWN \<or> ev_value c = FALSE"
  by (cases "ev_value c") simp_all

lemma coherent_combine:
  assumes "cs \<noteq> []" "\<forall>c \<in> set cs. coherent c"
  shows "coherent (combine ty cs)"
proof -
  have w: "concat (map ev_witness ds) \<noteq> []"
    if "\<forall>c \<in> set ds. coherent c" "c \<in> set ds" "ev_value c = TRUE" for c ds
    using that by (auto simp: coherent_def)
  have true: "\<exists>c \<in> set cs. ev_value c = TRUE"
    if "\<not> (\<exists>c \<in> set cs. ev_value c = FALSE)" "\<not> (\<exists>c \<in> set cs. ev_value c = UNKNOWN)"
    using that assms(1) tri_exhaust by (metis last_in_set)
  have w2: "concat (map ev_witness (filter (\<lambda>c. ev_value c = TRUE) cs)) \<noteq> []"
    if "c \<in> set cs" "ev_value c = TRUE" for c
    using w [of "filter (\<lambda>c. ev_value c = TRUE) cs" c] that assms(2) by simp
  show ?thesis
    using w [OF assms(2)] w2 true
    by (simp add: combine_def combined_def witnesses_def Let_def list_ex_iff) blast
qed

lemma tri_ge_UNKNOWN: "x \<noteq> FALSE \<Longrightarrow> UNKNOWN \<le> x" "x \<noteq> TRUE \<Longrightarrow> x \<le> UNKNOWN"
  by (cases x; simp add: less_eq_TriState_def)+

lemma tri_singleton:
  "(V :: TriState set) \<noteq> {} \<Longrightarrow> UNKNOWN \<notin> V \<Longrightarrow> FALSE \<notin> V \<Longrightarrow> V = {TRUE}"
  "(V :: TriState set) \<noteq> {} \<Longrightarrow> UNKNOWN \<notin> V \<Longrightarrow> TRUE \<notin> V \<Longrightarrow> V = {FALSE}"
  by (metis (full_types) TriState.exhaust ex_in_conv is_singletonI' is_singleton_the_elem singletonI)+

lemma tri_finite: "finite (V :: TriState set)"
proof (rule finite_subset)
  show "V \<subseteq> {TRUE, UNKNOWN, FALSE}" by (auto, metis TriState.exhaust)
qed simp

lemma tri_Min:
  assumes "(V :: TriState set) \<noteq> {}"
  shows "Min V = (if FALSE \<in> V then FALSE else if UNKNOWN \<in> V then UNKNOWN else TRUE)"
proof (cases "FALSE \<in> V \<or> UNKNOWN \<in> V")
  case True
  then show ?thesis
    using tri_finite by (auto intro!: Min_eqI tri_ge_UNKNOWN)
next
  case False
  then show ?thesis using tri_singleton(1) [OF assms] by simp
qed

lemma tri_Max:
  assumes "(V :: TriState set) \<noteq> {}"
  shows "Max V = (if TRUE \<in> V then TRUE else if UNKNOWN \<in> V then UNKNOWN else FALSE)"
proof (cases "TRUE \<in> V \<or> UNKNOWN \<in> V")
  case True
  then show ?thesis
    using tri_finite by (auto intro!: Max_eqI tri_ge_UNKNOWN)
next
  case False
  then show ?thesis using tri_singleton(2) [OF assms] by simp
qed

text \<open>Children combine as in strong Kleene logic, with false below unknown below true: the value
  of \<open>all\<close> is the least and the value of \<open>any\<close> the greatest value of the children; and when every
  child's witness goes with its truth, so does the combination's, which is then made of the
  witnesses of children that are true.\<close>

lemma combine_is_kleene:
  assumes "cs \<noteq> []"
  shows "ev_value (combine ''all'' cs) = Min (ev_value ` set cs)
       \<and> ev_value (combine ''any'' cs) = Max (ev_value ` set cs)
       \<and> ((\<forall>c \<in> set cs. coherent c) \<longrightarrow>
            coherent (combine ''all'' cs) \<and> coherent (combine ''any'' cs)
          \<and> (\<forall>w \<in> set (ev_witness (combine ''all'' cs)) \<union> set (ev_witness (combine ''any'' cs)).
               \<exists>c \<in> set cs. ev_value c = TRUE \<and> w \<in> set (ev_witness c)))"
proof -
  let ?V = "ev_value ` set cs"
  have V: "finite ?V" "?V \<noteq> {}" using assms by auto
  note mn = tri_Min [OF V(2)] and mx = tri_Max [OF V(2)]
  have "ev_value (combine ''all'' cs) = Min ?V" "ev_value (combine ''any'' cs) = Max ?V"
    by (simp_all add: combine_sel mn mx Let_def image_iff eq_commute [of _ "ev_value _"])
  moreover have "\<exists>c \<in> set cs. ev_value c = TRUE \<and> w \<in> set (ev_witness c)"
    if "\<forall>c \<in> set cs. coherent c" "w \<in> set (ev_witness (combine ty cs))" for w ty
    using that by (auto simp: combine_def combined_def witnesses_def coherent_def Let_def list_ex_iff
        split: if_splits)
  ultimately show ?thesis
    using coherent_combine [OF assms] by blast
qed

lemma combine_is_kleene_witness:
  "ev_value (combine ''all'' [leaf_eval TRUE ''time'' [] False, leaf_eval UNKNOWN ''pid_exit'' [] True])
     = UNKNOWN
   \<and> ev_value (combine ''any'' [leaf_eval TRUE ''time'' [] False, leaf_eval UNKNOWN ''pid_exit'' [] True])
     = Max {TRUE, UNKNOWN}"
  using combine_is_kleene [of "[leaf_eval TRUE ''time'' [] False, leaf_eval UNKNOWN ''pid_exit'' [] True]"]
  by (simp add: min_def less_eq_TriState_def)


section \<open>Whole conditions\<close>

lemma post_evalE:
  assumes "\<And>x. x \<in> set xs \<Longrightarrow> post (f x) (\<lambda>r. coherent (fst r))"
  shows "post (evalE f xs) (\<lambda>r. length (fst r) = length xs \<and> (\<forall>v \<in> set (fst r). coherent v))"
  using assms
proof (induction xs)
  case Nil
  show ?case by (simp add: post_basic)
next
  case (Cons x xs)
  have x: "post (catchO (f x) (\<lambda>(e, x'). failO (k e x'))) (\<lambda>r. coherent (fst r))" for k
    by (rule post_catch) (auto intro: Cons.prems post_basic)
  have xs: "post (catchO (evalE f xs) (\<lambda>(e, x'). failO (k e x')))
      (\<lambda>r. length (fst r) = length xs \<and> (\<forall>v \<in> set (fst r). coherent v))" for k
    by (rule post_catch [OF Cons.IH [OF Cons.prems]]) (auto intro: post_basic)
  show ?case
    apply (simp only: evalE.simps)
    apply (rule post_bind_using [OF x])
    apply (intro post_prod)
    apply (rule post_bind_using [OF xs])
    apply (auto intro!: post_basic)
    done
qed

lemma post_condition: "wf_condition rx node \<Longrightarrow> post (evaluate_condition C H node) (\<lambda>r. coherent (fst r))"
proof (induction C H node rule: evaluate_condition.induct)
  case (1 C H node)
  show ?case
  proof (cases "combinator_type (jget ''type'' node)")
    case False
    then show ?thesis
      using post_leaf by (simp add: evaluate_condition.simps [of C H node])
  next
    case True
    then obtain xs where xs: "jget ''children'' node = JList xs" "xs \<noteq> []"
      "list_all (\<lambda>c. is_obj c \<and> wf_condition rx c) xs"
      using "1.prems" by (subst (asm) wf_condition.simps) (auto split: json.splits)
    have o: "list_all is_obj xs" using xs(3) by (auto simp: list_all_iff)
    have "post (evaluate_condition C H x) (\<lambda>r. coherent (fst r))" if "x \<in> set xs" for x
      by (rule "1.IH" [OF True xs(1)]) (use o that xs in \<open>auto simp: list_all_iff\<close>)
    note e = post_evalE [of xs "evaluate_condition C H", OF this]
    have e2: "post (catchO (evalE (evaluate_condition C H) xs) (\<lambda>(e, x'). failO (k e x')))
        (\<lambda>r. length (fst r) = length xs \<and> (\<forall>v \<in> set (fst r). coherent v))"
      for k :: "py_error \<Rightarrow> json list \<Rightarrow> py_error \<times> json"
      by (rule post_catch) (auto intro: e post_basic)
    show ?thesis
      apply (subst evaluate_condition.simps)
      apply (simp add: True xs(1) o)
      apply (rule post_bind_using [OF e2])
      apply (intro post_prod)
      apply (rule post_basic)
      using xs(2) apply (auto intro!: coherent_combine)
      done
  qed
qed

section \<open>Prepared conditions\<close>

abbreviation good :: "(string \<Rightarrow> (string \<Rightarrow> bool) option) \<Rightarrow> json \<Rightarrow> bool" where
  "good rx c \<equiv> is_obj c \<and> wf_condition rx c"

lemma jget_cons: "jget k (JObj ((k', v) # kvs)) = (if k = k' then v else jget k (JObj kvs))"
  by (simp add: jget_def)

lemma jget_nil: "jget k (JObj []) = JNull"
  by (simp add: jget_def)

lemma wf_condition_leaf:
  "\<not> combinator_type (jget ''type'' c) \<Longrightarrow> wf_condition rx c = wf_leaf rx c"
  by (subst wf_condition.simps) simp

lemmas good_simps = jget_cons jget_nil wf_condition_leaf wf_leaf_def combinator_type_def Let_def

lemma post_liftO [post_intros]: "(\<And>x. r = Inr x \<Longrightarrow> Q x) \<Longrightarrow> post (liftO r) Q"
  by (simp add: post_def obs_simps)

lemma post_lift_bind [post_intros]:
  "(\<And>x. r = Inr x \<Longrightarrow> post (f x) Q) \<Longrightarrow> post (bindO (liftO r) f) Q"
  by (auto simp: post_def bindO_Inr obs_simps)

lemma post_unless_bind [post_intros]:
  "(\<not> b \<Longrightarrow> post (f ()) Q) \<Longrightarrow> post (bindO (unlessO b e) f) Q"
  by (auto simp: post_def bindO_Inr obs_simps)

lemma compile_patterns_wf:
  "compile_patterns C seen es = Inr ps \<Longrightarrow> list_all (\<lambda>p. regex C (snd p) \<noteq> None) ps"
  by (induction es arbitrary: seen ps)
    (auto simp: compile_pattern_def split: json.splits if_splits)

lemma compile_log_patterns_wf:
  "compile_log_patterns C raw = Inr ps \<Longrightarrow> list_all (\<lambda>p. regex C (snd p) \<noteq> None) ps"
  by (auto simp: compile_log_patterns_def dest: compile_patterns_wf split: json.splits if_splits)

lemma good_log:
  "list_all (\<lambda>p. rx (snd p) \<noteq> None) ps \<Longrightarrow> good rx (log_condition path ps identity off)"
  by (auto simp: good_simps log_condition_def pattern_json_def list_all_iff)

lemma good_stale: "prepare_stale raw = Inr c \<Longrightarrow> good rx c"
  by (auto simp: prepare_stale_def good_simps)

lemma good_gpu: "prepare_gpu raw = Inr c \<Longrightarrow> good rx c"
  by (auto simp: prepare_gpu_def good_simps list_all_iff split: json.splits if_splits)

lemma good_thread: "capture_thread_idle C raw = Inr c \<Longrightarrow> good rx c"
  by (auto simp: capture_thread_idle_def good_simps split: json.splits if_splits)

lemma good_native: 
  assumes "capture_native_worker C raw = Inr c"
  shows "good rx c"
proof -
  from assms obtain root_id where r: "native_root_thread_id C = Some root_id" "root_id \<noteq> []"
    by (auto simp: capture_native_worker_def split: option.splits if_splits)
  with assms obtain t r ch iv st s where
    c: "c = JObj
             [(''type'', JStr ''native_worker_terminal''), (''task_name'', t),
              (''root_thread_id'', r), (''child_thread_id'', ch),
              (''invocation_id'', iv), (''armed_status'', st), (''settlement'', s)]"
    and s: "s = JNull \<or> (\<exists>snap root_id. st \<in> JStr ` set settled_statuses \<and> jget ''status'' snap = st
              \<and> native_worker_settlement snap root_id = Inr s)"
    by (auto simp: capture_native_worker_def Let_def memE_def split: if_splits) blast+
  have "is_obj s \<and> hashable (jget ''status'' s)" if "s \<noteq> JNull"
  proof -
    from s that obtain snap root_id where "native_worker_settlement snap root_id = Inr s"
      "jget ''status'' snap \<in> JStr ` set settled_statuses" by auto
    then show ?thesis
      by (auto simp: native_worker_settlement_def jget_cons jindex_jget) (metis hashable.simps)
  qed
  then show ?thesis by (auto simp: c good_simps)
qed

lemma post_proc_snapshot: "post (read_pid_snapshot H pid) (\<lambda>(i, s). \<exists>b st u. i = pid_identity pid b st u)"
  unfolding read_pid_snapshot_def
  by (intro post_bind) (auto split: proc_result.split intro!: post_intros)

lemma post_json_cases:
  "(\<And>t. v = JStr t \<Longrightarrow> post (f t) Q) \<Longrightarrow> post b Q \<Longrightarrow>
     post (case v of JStr t \<Rightarrow> f t | _ \<Rightarrow> b) Q"
  "(\<And>i. v = JInt i \<Longrightarrow> post (g i) Q) \<Longrightarrow> post b Q \<Longrightarrow>
     post (case v of JInt i \<Rightarrow> g i | _ \<Rightarrow> b) Q"
  by (cases v; simp)+

lemma post_pid_capture: "post (prepare_pid H raw) (good rx)"
  unfolding prepare_pid_def
  apply (intro post_lift_bind post_json_cases post_unless_bind post_basic)
  apply (rule post_bind_using [OF post_proc_snapshot])
  apply (intro post_intros)
  apply (auto simp: good_simps pid_identity_def)
  done

lemma post_tmux_capture: "post (capture_tmux_identity H raw) (good rx)"
  unfolding capture_tmux_identity_def Let_def
  by (intro post_intros) (auto simp: good_simps is_str_iff)

lemma post_log_capture: "post (capture_log_identity C H raw) (good (regex C))"
  unfolding capture_log_identity_def ask_stat_def
  by (intro post_json_cases post_intros good_log compile_log_patterns_wf)

lemma post_time_capture: "post (prepare_time C H raw) (good rx)"
  unfolding prepare_time_def by (intro post_intros) (simp_all add: good_simps)

lemma good_git: "good rx (JObj [(''type'', JStr ''git_ref_change''), (''binding'', binding_json b)])"
  by (simp add: good_simps binding_json_def)

lemma post_git_capture: "post (prepare_git H raw) (good rx)"
  unfolding prepare_git_def
  by (auto split: json.split intro!: post_intros good_git)

lemma good_simple_leaves:
  "good rx (JObj [(''type'', JStr ''receipt_success''), a, b, (''path'', JStr p)])"
  if "fst a \<notin> {''type'', ''path''}" "fst b \<notin> {''type'', ''path''}"
  using that by (cases a; cases b) (auto simp: good_simps)

lemma good_event_leaf:
  "ty \<in> {JStr ''command_terminal'', JStr ''worker_terminal''} \<Longrightarrow>
     good rx (JObj [(''type'', ty), (''reservation_id'', JStr r)])"
  by (auto simp: good_simps)

lemma post_prepare_leaf: "post (prepare_leaf C H mid tok raw) (good (regex C))"
  unfolding prepare_leaf_def Let_def
  by (intro post_if post_lift_bind post_liftO post_basic post_pid_capture post_tmux_capture
      post_log_capture post_time_capture post_git_capture good_event_leaf good_simple_leaves)
    (auto dest: good_stale [where rx = "regex C"] good_gpu [where rx = "regex C"]
      good_thread [where rx = "regex C"] good_native [where rx = "regex C"])


lemma post_mapO:
  assumes "\<And>x. x \<in> set xs \<Longrightarrow> post (f x) Q"
  shows "post (mapO f xs) (\<lambda>ys. length ys = length xs \<and> list_all Q ys)"
  using assms
proof (induction xs)
  case Nil
  show ?case by (simp add: post_basic)
next
  case (Cons x xs)
  show ?case
    apply (simp only: mapO.simps)
    apply (rule post_bind_using [OF Cons.prems [of x]], simp)
    apply (rule post_bind_using [OF Cons.IH [OF Cons.prems]], simp)
    apply (auto intro!: post_basic)
    done
qed

lemma post_prepare: "post (prepare_condition C H mid tok raw) (good (regex C))"
proof (induction C H mid tok raw rule: prepare_condition.induct)
  case (1 C H mid tok raw)
  show ?case
  proof (cases "hashable (jget ''type'' raw) \<and> combinator_type (jget ''type'' raw)")
    case False
    then show ?thesis
      by (subst prepare_condition.simps) (auto intro: post_basic post_prepare_leaf)
  next
    case True
    let ?cs = "list_items (jget ''children'' raw)"
    let ?f = "\<lambda>child. bindO (liftO (expect_mapping child ''condition child'')) (\<lambda>_.
                 prepare_condition C H mid tok child)"
    have "post (?f x) (good (regex C))" if "x \<in> set ?cs" for x
      by (rule post_bind) (use "1.IH" that True in blast)
    note m = post_mapO [of ?cs ?f, OF this]
    have ne: "?cs \<noteq> []" if "children_list raw = Inr xs" for xs
      using that by (auto simp: children_list_def split: json.splits if_splits)
    show ?thesis
      apply (subst prepare_condition.simps)
      using True apply (simp only: simp_thms if_False if_True)
      apply (intro post_lift_bind)
      apply (rule post_bind_using [OF m], assumption)
      apply (rule post_basic)
      apply (frule ne)
      apply (subst wf_condition.simps)
      apply (auto simp: jget_cons list_all_iff)
      done
  qed
qed

text \<open>Evaluating a condition again and again, as the daemon does: one context and one machine per
  poll, the stored condition threaded through.\<close>

fun polls :: "(ObserverContext \<times> host) list \<Rightarrow> json \<Rightarrow> (py_error \<times> json, Evaluation list \<times> json) obs" where
  "polls [] node = retO ([], node)"
| "polls (ch # chs) node =
     bindO (evaluate_condition (fst ch) (snd ch) node) (\<lambda>(v, node').
     bindO (polls chs node') (\<lambda>(vs, last). retO (v # vs, last)))"

lemma returns_polls:
  assumes "wf_condition rx node" "\<forall>ch \<in> set chs. regex (fst ch) = rx \<and> native_ok (fst ch)"
  shows "returns (polls chs node) (\<lambda>r. length (fst r) = length chs \<and> (\<forall>v \<in> set (fst r). coherent v)
           \<and> wf_condition rx (snd r))"
  using assms
proof (induction chs arbitrary: node)
  case Nil
  then show ?case by (simp add: returns_basic)
next
  case (Cons ch chs)
  have "returns (evaluate_condition (fst ch) (snd ch) node)
      (\<lambda>r. coherent (fst r) \<and> wf_condition rx (snd r))"
    using returns_condition [of "fst ch" node "snd ch"] post_condition [OF Cons.prems(1)] Cons.prems
    unfolding returns_def post_def by (simp add: tree_keeps_def) metis
  then show ?case
    apply (simp only: polls.simps)
    apply (rule returns_bind, assumption)
    apply (intro returns_intros)
    apply (rule returns_bind [OF Cons.IH])
    using Cons.prems(2) apply (auto intro!: returns_intros)
    done
qed



definition sample_context :: ObserverContext where
  "sample_context =
     \<lparr>runtime_root = ''/r'', iso_time = (\<lambda>_. None),
      regex = (\<lambda>s. if s = ''('' then None else Some (\<lambda>line. line = s)),
      thread_observations = [], native_root_thread_id = None, native_observations = []\<rparr>"

lemma sample_time_prepared:
  "prepare_condition sample_context sample_host ''m'' ''k''
     (JObj [(''type'', JStr ''any''), (''children'', JList [JObj [(''type'', JStr ''time''), (''after_seconds'', JInt 5)]])]) []
   = (Inr (JObj [(''type'', JStr ''any''),
                 (''children'', JList [JObj [(''type'', JStr ''time''), (''deadline_utc'', jnum 5)]])]), [Clock])"
  by (simp add: prepare_condition.simps combinator_type_def only_keys_def children_list_def
      expect_mapping_def prepare_leaf_def prepare_time_def jget_def jhas_def expect_number_def
      float_overflow_def obs_simps bindO_def sample_host_def)


end
