(* ===== verification/Condition_Properties.thy ===== *)
theory Condition_Properties
  imports Condition_Truth
begin

text \<open>
  Latches, event bindings, journals, log offsets, and what the truth of an event leaf or of a process
  leaf rests on.
\<close>

section \<open>Latches\<close>

fun leaf_polls :: "('env \<Rightarrow> leaf_obs) \<Rightarrow> 'env list \<Rightarrow> json \<Rightarrow> (py_error \<times> json, Evaluation list \<times> json) obs" where
  "leaf_polls eval [] node = retO ([], node)"
| "leaf_polls eval (e # es) node =
     bindO (eval e node) (\<lambda>(v, node').
     bindO (leaf_polls eval es node') (\<lambda>(vs, final). retO (v # vs, final)))"

text \<open>A leaf that latches: when it is observed true the stored leaf says so, and a stored leaf that
  says so is true in every later observation and stays as it is.\<close>

locale latching_leaf =
  fixes eval :: "'env \<Rightarrow> leaf_obs"
    and latched :: "json \<Rightarrow> bool"
    and admissible :: "json \<Rightarrow> bool"
  assumes kept: "admissible n \<Longrightarrow> eval e n h = (Inr (v, n'), h') \<Longrightarrow> admissible n'"
    and latches: "admissible n \<Longrightarrow> eval e n h = (Inr (v, n'), h') \<Longrightarrow> ev_value v = TRUE \<Longrightarrow> latched n'"
    and holds: "admissible n \<Longrightarrow> latched n \<Longrightarrow> \<exists>v. eval e n h = (Inr (v, n), h) \<and> ev_value v = TRUE"
begin

lemma polls_latched:
  "admissible n \<Longrightarrow> latched n \<Longrightarrow> leaf_polls eval es n h = (Inr (vs, final), h') \<Longrightarrow>
     \<forall>v \<in> set vs. ev_value v = TRUE"
proof (induction es arbitrary: vs final h')
  case Nil
  then show ?case by (simp add: obs_simps)
next
  case (Cons e es)
  from holds [OF Cons.prems(1,2)] obtain v where v: "eval e n h = (Inr (v, n), h)" "ev_value v = TRUE"
    by blast
  with Cons.prems(3) obtain ws l h1 where
    "leaf_polls eval es n h = (Inr (ws, l), h1)" "vs = v # ws"
    by (auto simp: bindO_Inr obs_simps)
  with v Cons.IH [OF Cons.prems(1,2)] show ?case by auto
qed

lemma polls_stay_true:
  "admissible n \<Longrightarrow> leaf_polls eval es n h = (Inr (vs, final), h') \<Longrightarrow> i \<le> j \<Longrightarrow> j < length vs \<Longrightarrow>
     ev_value (vs ! i) = TRUE \<Longrightarrow> ev_value (vs ! j) = TRUE"
proof (induction es arbitrary: n h vs final h' i j)
  case Nil
  then show ?case by (simp add: obs_simps)
next
  case (Cons e es)
  from Cons.prems(2) obtain v n1 h1 ws l h2 where
    e: "eval e n h = (Inr (v, n1), h1)" and
    r: "leaf_polls eval es n1 h1 = (Inr (ws, l), h2)" and vs: "vs = v # ws"
    by (auto simp: bindO_Inr obs_simps)
  have adm: "admissible n1" using kept [OF Cons.prems(1) e] .
  show ?case
  proof (cases i)
    case 0
    with Cons.prems(5) vs have t: "ev_value v = TRUE" by simp
    have "\<forall>w \<in> set ws. ev_value w = TRUE"
      by (rule polls_latched [OF adm latches [OF Cons.prems(1) e t] r])
    with t vs Cons.prems(4) show ?thesis by (cases j) auto
  next
    case (Suc i')
    with Cons.prems vs obtain j' where "j = Suc j'" "i' \<le> j'" "j' < length ws" "ev_value (ws ! i') = TRUE"
      by (cases j) auto
    with Cons.IH [OF adm r] vs show ?thesis by auto
  qed
qed

end

abbreviation eval_env :: "ObserverContext \<times> host \<Rightarrow> leaf_obs" where
  "eval_env ch \<equiv> evaluate_condition (fst ch) (snd ch)"

lemma polls_leaf_polls: "polls chs node = leaf_polls eval_env chs node"
  by (induction chs arbitrary: node) (auto simp: fun_eq_iff bindO_def split: prod.splits sum.splits)

text \<open>The three latching leaves, as the evaluator dispatches to them.\<close>

lemma dispatch:
  "jget ''type'' n = JStr ''log_pattern'' \<Longrightarrow> evaluate_condition C H n = evaluate_log_pattern C H n"
  "jget ''type'' n = JStr ''thread_idle'' \<Longrightarrow> evaluate_condition C H n = evaluate_thread_idle C n"
  "jget ''type'' n = JStr ''native_worker_terminal'' \<Longrightarrow> evaluate_condition C H n = evaluate_native_worker C n"
  by (subst evaluate_condition.simps; simp add: combinator_type_def evaluate_leaf_def)+

definition log_admissible :: "json \<Rightarrow> bool" where
  "log_admissible n \<longleftrightarrow>
     jget ''type'' n = JStr ''log_pattern'' \<and> is_int (jget ''dropped'' (jget ''journal'' n))"

definition log_latched :: "json \<Rightarrow> bool" where
  "log_latched n \<longleftrightarrow> truthy (jget ''matched'' n)"

lemma journal_json_int: "is_int (jget ''dropped'' (journal_json ls d))"
  by (simp add: journal_json_def jget_def)

lemma post_withN [post_intros]:
  "(\<And>x. r = Inr x \<Longrightarrow> post (f x) Q) \<Longrightarrow> post (bindO (withN n r) f) Q"
  by (cases r) (auto simp: withN_def post_def bindO_Inr obs_simps)

lemma log_admissible_jset [simp]:
  "log_admissible (jset ''offset'' v n) = log_admissible n"
  "log_admissible (jset ''identity'' v n) = log_admissible n"
  "log_admissible (jset ''matched'' v n) = log_admissible n"
  "log_admissible (jset ''matched_names'' v n) = log_admissible n"
  "log_admissible (jset ''witness_lines'' v n) = log_admissible n"
  by (simp_all add: log_admissible_def)

lemma log_admissible_journal:
  "append_journal n ls = Inr m \<Longrightarrow> log_admissible n \<Longrightarrow> log_admissible m"
  by (auto dest!: append_journal_Inr simp: log_admissible_def journal_json_int)

lemma log_latched_set [simp]:
  "log_latched (jset ''witness_lines'' a (jset ''matched_names'' b (jset ''matched'' (JBool True) m)))"
  by (simp add: log_latched_def)

lemma not_true_evals [simp]: "ev_value (log_unknown k e f) = UNKNOWN"
  "ev_value (matched_eval a b c d) = TRUE"
  by (simp_all add: log_unknown_def matched_eval_def)

abbreviation log_kept :: "Evaluation \<times> json \<Rightarrow> bool" where
  "log_kept r \<equiv> log_admissible (snd r) \<and> (ev_value (fst r) = TRUE \<longrightarrow> log_latched (snd r))"

lemma post_log_verdict: "log_admissible n \<Longrightarrow> post (log_verdict n offset ob s) log_kept"
  unfolding log_verdict_def Let_def
  by (intro post_intros) (simp_all add: log_admissible_journal)

lemma post_scan_log: "log_admissible n \<Longrightarrow> post (scan_log C H n path offset pending) log_kept"
  unfolding scan_log_def Let_def
  by (intro post_intros post_log_verdict) simp_all

lemma log_post: "log_admissible n \<Longrightarrow> post (evaluate_log_pattern C H n) log_kept"
  unfolding evaluate_log_pattern_def Let_def
  by (intro post_intros post_scan_log) (simp_all add: log_latched_def)

lemma log_held:
  "log_admissible n \<Longrightarrow> log_latched n \<Longrightarrow>
     \<exists>v. evaluate_log_pattern C H n h = (Inr (v, n), h) \<and> ev_value v = TRUE"
  using journal_total [of n]
  by (auto simp: evaluate_log_pattern_def log_admissible_def log_latched_def journal_counters_def
      bindO_def withN_def obs_simps)

interpretation log_latch: latching_leaf eval_env log_latched log_admissible
proof
  fix n e h v n' h'
  assume n: "log_admissible n" and r: "eval_env e n h = (Inr (v, n'), h')"
  then have "evaluate_log_pattern (fst e) (snd e) n h = (Inr (v, n'), h')"
    by (simp add: log_admissible_def dispatch)
  from postD [OF log_post [OF n] this]
  show "log_admissible n'" "ev_value v = TRUE \<Longrightarrow> log_latched n'" by simp_all
next
  fix n e h
  assume "log_admissible n" "log_latched n"
  then show "\<exists>v. eval_env e n h = (Inr (v, n), h) \<and> ev_value v = TRUE"
    using log_held by (simp add: log_admissible_def dispatch)
qed

definition idle_admissible :: "json \<Rightarrow> bool" where
  "idle_admissible n \<longleftrightarrow> jget ''type'' n = JStr ''thread_idle'' \<and> jget ''thread_id'' n \<noteq> JNull"

definition idle_latched :: "json \<Rightarrow> bool" where
  "idle_latched n \<longleftrightarrow> truthy (jget ''idle'' n)"

lemma idle_post:
  "idle_admissible n \<Longrightarrow> post (evaluate_thread_idle C n)
     (\<lambda>r. idle_admissible (snd r) \<and> (ev_value (fst r) = TRUE \<longrightarrow> idle_latched (snd r)))"
  unfolding evaluate_thread_idle_def Let_def
  by (intro post_intros) (simp_all add: idle_admissible_def idle_latched_def)

interpretation idle_latch: latching_leaf eval_env idle_latched idle_admissible
proof
  fix n e h v n' h'
  assume n: "idle_admissible n" and r: "eval_env e n h = (Inr (v, n'), h')"
  then have "evaluate_thread_idle (fst e) n h = (Inr (v, n'), h')"
    by (simp add: idle_admissible_def dispatch)
  from postD [OF idle_post [OF n] this]
  show "idle_admissible n'" "ev_value v = TRUE \<Longrightarrow> idle_latched n'" by simp_all
next
  fix n e h
  assume "idle_admissible n" "idle_latched n"
  then show "\<exists>v. eval_env e n h = (Inr (v, n), h) \<and> ev_value v = TRUE"
    by (auto simp: idle_admissible_def idle_latched_def dispatch evaluate_thread_idle_def bindO_def
        withN_def jindex_jget obs_simps)
qed

definition native_admissible :: "json \<Rightarrow> bool" where
  "native_admissible n \<longleftrightarrow> jget ''type'' n = JStr ''native_worker_terminal''"

definition native_latched :: "json \<Rightarrow> bool" where
  "native_latched n \<longleftrightarrow>
     (let s = jget ''settlement'' n in
      is_obj s \<and> jget ''root_thread_id'' s = JStr (str_field ''root_thread_id'' n)
      \<and> jget ''task_name'' s = JStr (str_field ''task_name'' n)
      \<and> jget ''child_thread_id'' s = JStr (str_field ''child_thread_id'' n)
      \<and> jget ''invocation_id'' s = JStr (str_field ''invocation_id'' n)
      \<and> jget ''status'' s \<in> JStr ` set settled_statuses)"

lemma str_field_jset [simp]:
  "k \<noteq> ''settlement'' \<Longrightarrow> str_field k (jset ''settlement'' v n) = str_field k n"
  by (simp add: str_field_def)

lemma native_post:
  "post (evaluate_native_worker C n)
     (\<lambda>r. jget ''type'' (snd r) = jget ''type'' n \<and> (ev_value (fst r) = TRUE \<longrightarrow> native_latched (snd r)))"
proof -
  have settled: "native_latched (jset ''settlement'' r n)"
    if "native_worker_settlement s (str_field ''root_thread_id'' n) = Inr r"
      "jget ''task_name'' s = JStr (str_field ''task_name'' n)"
      "jget ''child_thread_id'' s = JStr (str_field ''child_thread_id'' n)"
      "jget ''invocation_id'' s = JStr (str_field ''invocation_id'' n)"
      "jget ''status'' s \<in> JStr ` set settled_statuses" for s r
    using settlement_fields [OF that(2-5), of "str_field ''root_thread_id'' n"] that(1,5)
    by (auto simp: native_latched_def Let_def)
  show ?thesis
    unfolding evaluate_native_worker_def Let_def
    by (intro post_withN post_if post_basic)
      (auto simp: native_latched_def [of n] Let_def memE_def settled_statuses_def intro!: settled
        split: if_split_asm)
qed

interpretation native_latch: latching_leaf eval_env native_latched native_admissible
proof
  fix n e h v n' h'
  assume n: "native_admissible n" and r: "eval_env e n h = (Inr (v, n'), h')"
  then have "evaluate_native_worker (fst e) n h = (Inr (v, n'), h')"
    by (simp add: native_admissible_def dispatch)
  from postD [OF native_post this] n
  show "native_admissible n'" "ev_value v = TRUE \<Longrightarrow> native_latched n'"
    by (simp_all add: native_admissible_def)
next
  fix n e h
  assume n: "native_admissible n" "native_latched n"
  then show "\<exists>v. eval_env e n h = (Inr (v, n), h) \<and> ev_value v = TRUE"
    by (auto simp: native_admissible_def native_latched_def Let_def dispatch evaluate_native_worker_def
        bindO_def withN_def memE_def obs_simps)
qed


text \<open>C35. A latching leaf (a log pattern, an idle child thread, a native worker's settlement) that was
  observed true once is true in every later poll, whatever the machine and the app-server answer
  then: consumed evidence is never lost, so a conjunction of such leaves can be satisfied.\<close>

theorem latched_truth_persists:
  assumes "jget ''type'' leaf \<in> {JStr ''log_pattern'', JStr ''thread_idle'', JStr ''native_worker_terminal''}"
    and "wf_condition rx leaf"
    and "polls chs leaf h = (Inr (vs, final), h')"
    and "i \<le> j" "j < length vs" "ev_value (vs ! i) = TRUE"
  shows "ev_value (vs ! j) = TRUE"
proof -
  have wf: "wf_leaf rx leaf"
    using assms(1,2) wf_condition_leaf [of leaf rx] by (auto simp: combinator_type_def)
  note p = assms(3) [unfolded polls_leaf_polls] assms(4-6)
  have "log_admissible leaf" if "jget ''type'' leaf = JStr ''log_pattern''"
    using wf that by (simp add: wf_leaf_def Let_def log_admissible_def)
  moreover have "idle_admissible leaf" if "jget ''type'' leaf = JStr ''thread_idle''"
    using wf that by (simp add: wf_leaf_def Let_def idle_admissible_def)
  moreover have "native_admissible leaf" if "jget ''type'' leaf = JStr ''native_worker_terminal''"
    using that by (simp add: native_admissible_def)
  ultimately consider "log_admissible leaf" | "idle_admissible leaf" | "native_admissible leaf"
    using assms(1) by blast
  then show ?thesis
  proof cases
    case 1
    show ?thesis by (rule log_latch.polls_stay_true [OF 1 p])
  next
    case 2
    show ?thesis by (rule idle_latch.polls_stay_true [OF 2 p])
  next
    case 3
    show ?thesis by (rule native_latch.polls_stay_true [OF 3 p])
  qed
qed

definition sample_idle_leaf :: json where
  "sample_idle_leaf = JObj [(''type'', JStr ''thread_idle''), (''thread_id'', JStr ''c''), (''idle'', JBool False)]"

definition idle_context :: ObserverContext where
  "idle_context = sample_context\<lparr>thread_observations :=
     [(''c'', JObj [(''is_loaded'', JBool True), (''runtime_status'', JStr ''idle'')])]\<rparr>"

lemma latched_truth_persists_witness:
  "\<exists>vs final h. polls [(idle_context, sample_host), (sample_context, sample_host)] sample_idle_leaf []
     = (Inr (vs, final), h) \<and> ev_value (vs ! 1) = TRUE"
proof -
  have r: "\<exists>v w final. polls [(idle_context, sample_host), (sample_context, sample_host)] sample_idle_leaf []
     = (Inr ([v, w], final), []) \<and> ev_value v = TRUE"
    by (simp add: sample_idle_leaf_def dispatch jget_cons evaluate_thread_idle_def withN_def bindO_def
        obs_simps jindex_def thread_snapshot_def idle_context_def jset_def Let_def)
  then obtain v w final where q: "polls [(idle_context, sample_host), (sample_context, sample_host)] sample_idle_leaf []
     = (Inr ([v, w], final), [])" "ev_value v = TRUE" by blast
  have t: "jget ''type'' sample_idle_leaf = JStr ''thread_idle''"
    by (simp add: sample_idle_leaf_def jget_cons)
  have "wf_condition (\<lambda>_. None) sample_idle_leaf"
    by (simp add: sample_idle_leaf_def good_simps)
  from latched_truth_persists [OF _ this q(1), of 0 1] t q show ?thesis by auto
qed

section \<open>Event bindings\<close>

lemma distinct_sort_key_fst: "distinct (map fst (sort_key fst xs)) \<longleftrightarrow> distinct (map fst xs)"
  by (metis distinct_map distinct_sort set_sort)

text \<open>The leaves of a condition: nodes that are not combinators, inside the children of combinators.\<close>

inductive leaf_of :: "json \<Rightarrow> json \<Rightarrow> bool" where
  leaf_here: "\<not> combinator_type (jget ''type'' n) \<Longrightarrow> leaf_of n n"
| leaf_child: "combinator_type (jget ''type'' n) \<Longrightarrow> c \<in> set (list_items (jget ''children'' n)) \<Longrightarrow>
    leaf_of l c \<Longrightarrow> leaf_of l n"

inductive_cases leaf_of_cases: "leaf_of l n"

definition rid_of :: "json \<Rightarrow> string" where
  "rid_of leaf = py_str (jget ''reservation_id'' leaf)"

text \<open>What a visit adds: the reservation of every event leaf, the pair of every terminal leaf.\<close>

definition visited :: "(json \<Rightarrow> bool) \<Rightarrow> binding_acc \<Rightarrow> binding_acc \<Rightarrow> bool" where
  "visited L acc acc' \<longleftrightarrow>
     set (fst acc') = set (fst acc) \<union> {rid_of l | l. L l \<and> event_type (jget ''type'' l)} \<and>
     set (snd acc') = set (snd acc) \<union>
       {(rid_of l, py_str (jget ''type'' l)) | l. L l \<and> terminal_type (jget ''type'' l)} \<and>
     (distinct (map fst (snd acc)) \<longrightarrow> distinct (map fst (snd acc')))"

lemma visited_leaf:
  assumes "visit_leaf n acc = Inr acc'"
  shows "visited (\<lambda>l. l = n) acc acc'"
proof (cases "event_type (jget ''type'' n)")
  case False
  with assms show ?thesis
    by (auto simp: visit_leaf_def visited_def Let_def event_type_def terminal_type_def)
next
  case True
  with assms obtain r where r: "event_reservation_id (jget ''reservation_id'' n) = Inr r"
    by (auto simp: visit_leaf_def Let_def)
  then have "rid_of n = r"
    by (auto simp: rid_of_def event_reservation_id_def bounded_id_def split: json.splits if_splits)
  with assms True r show ?thesis
    by (auto simp: visit_leaf_def visited_def Let_def set_insert split: if_splits)
qed

lemma visited_trans:
  "visited L a b \<Longrightarrow> visited M b c \<Longrightarrow> visited (\<lambda>l. L l \<or> M l) a c"
  unfolding visited_def by (auto 0 3)

lemma visited_none: "visited (\<lambda>_. False) a a"
  by (simp add: visited_def)

lemma visited_foldE:
  assumes "foldE f xs acc = Inr acc'"
    and "\<And>x a b. x \<in> set xs \<Longrightarrow> f x a = Inr b \<Longrightarrow> visited (leaves x) a b"
  shows "visited (\<lambda>l. \<exists>x \<in> set xs. leaves x l) acc acc'"
  using assms
proof (induction xs arbitrary: acc)
  case Nil
  then show ?case using visited_none by simp
next
  case (Cons x xs)
  then obtain b where b: "f x acc = Inr b" "foldE f xs b = Inr acc'" by auto
  have "visited (leaves x) acc b" using Cons.prems(2) b by simp
  moreover have "visited (\<lambda>l. \<exists>y \<in> set xs. leaves y l) b acc'"
    using Cons.IH [OF b(2)] Cons.prems(2) by simp
  ultimately show ?case
    by (drule_tac visited_trans) (auto elim!: rev_iffD1 intro!: arg_cong [of _ _ "\<lambda>L. visited L acc acc'"])
qed

lemma leaf_of_leaf: "\<not> combinator_type (jget ''type'' n) \<Longrightarrow> leaf_of l n \<longleftrightarrow> l = n"
  by (auto intro: leaf_here elim: leaf_of_cases)

lemma leaf_of_combinator:
  "combinator_type (jget ''type'' n) \<Longrightarrow>
     leaf_of l n \<longleftrightarrow> (\<exists>c \<in> set (list_items (jget ''children'' n)). leaf_of l c)"
  by (auto intro: leaf_child elim: leaf_of_cases)

lemma visit_events_visited: "visit_events n acc = Inr acc' \<Longrightarrow> visited (\<lambda>l. leaf_of l n) acc acc'"
proof (induction n acc arbitrary: acc' rule: visit_events.induct)
  case (1 n acc)
  from "1.prems" have h: "hashable (jget ''type'' n)"
    by (subst (asm) visit_events.simps) (auto split: if_splits)
  show ?case
  proof (cases "combinator_type (jget ''type'' n)")
    case False
    with "1.prems" h have "visit_leaf n acc = Inr acc'"
      by (subst (asm) visit_events.simps) simp
    from visited_leaf [OF this] False show ?thesis
      by (simp add: leaf_of_leaf)
  next
    case True
    with "1.prems" h obtain xs where xs: "jget ''children'' n = JList xs"
      "foldE (\<lambda>child a. if \<not> is_obj child then raise_validation ''event condition child must be an object''
               else visit_events child a) (list_items (jget ''children'' n)) acc = Inr acc'"
      by (subst (asm) visit_events.simps) (auto split: json.splits)
    show ?thesis
      unfolding leaf_of_combinator [OF True]
    proof (rule visited_foldE [OF xs(2)])
      fix x a b
      assume x: "x \<in> set (list_items (jget ''children'' n))"
        and f: "(if \<not> is_obj x then raise_validation ''event condition child must be an object''
               else visit_events x a) = Inr b"
      then have o: "is_obj x" by (auto split: if_splits)
      show "visited (\<lambda>l. leaf_of l x) a b"
        by (rule "1.IH" [OF _ True xs(1) x]) (use h o f in simp_all)
    qed
  qed
qed

text \<open>C36. The reservations an event condition is bound to are exactly the ones its terminal leaves
  name, each once and in sorted order with the kind of its leaf, and every reservation that any event
  leaf names (a heartbeat leaf too) is among them.\<close>

theorem event_bindings_exact:
  assumes "event_condition_bindings condition = Inr bindings"
  shows "sorted (map fst bindings) \<and> distinct (map fst bindings)
       \<and> (bindings = [] \<longleftrightarrow> \<not> (\<exists>l. leaf_of l condition \<and> event_type (jget ''type'' l)))
       \<and> set bindings = {(rid_of l, py_str (jget ''type'' l)) | l.
            leaf_of l condition \<and> terminal_type (jget ''type'' l)}
       \<and> (\<forall>l. leaf_of l condition \<and> event_type (jget ''type'' l) \<longrightarrow> rid_of l \<in> fst ` set bindings)"
proof -
  from assms obtain rs ts where v: "visit_events condition ([], []) = Inr (rs, ts)"
    and b: "bindings = (if rs = [] then [] else sort_key fst ts)" "rs \<noteq> [] \<longrightarrow> set rs \<subseteq> fst ` set ts"
    by (auto simp: event_condition_bindings_def split: if_splits)
  from visit_events_visited [OF v] have
    rs: "set rs = {rid_of l | l. leaf_of l condition \<and> event_type (jget ''type'' l)}" and
    ts: "set ts = {(rid_of l, py_str (jget ''type'' l)) | l. leaf_of l condition \<and> terminal_type (jget ''type'' l)}"
    and d: "distinct (map fst ts)"
    by (auto simp: visited_def)
  have te: "terminal_type ty \<Longrightarrow> event_type ty" for ty
    by (auto simp: terminal_type_def event_type_def)
  have empty: "rs = [] \<Longrightarrow> ts = []"
    using rs ts te by (cases ts) auto
  have "set bindings = set ts" using b empty by simp
  moreover have "sorted (map fst bindings)" using b by simp
  moreover have "distinct (map fst bindings)"
    using b d by (simp add: distinct_sort_key_fst)
  moreover have "bindings = [] \<longleftrightarrow> rs = []"
    using b empty by (metis image_is_empty length_0_conv length_sort set_empty subset_empty)
  moreover have "rid_of l \<in> fst ` set bindings"
    if "leaf_of l condition" "event_type (jget ''type'' l)" for l
  proof -
    have "rid_of l \<in> set rs" using rs that by blast
    with b(2) calculation(1) show ?thesis by auto
  qed
  moreover have "rs = [] \<longleftrightarrow> \<not> (\<exists>l. leaf_of l condition \<and> event_type (jget ''type'' l))"
    using arg_cong [OF rs, of "\<lambda>S. S = {}"] by simp
  ultimately show ?thesis using ts by blast
qed


definition sample_event_condition :: json where
  "sample_event_condition = JObj [(''type'', JStr ''all''), (''children'', JList
     [JObj [(''type'', JStr ''heartbeat_stale''), (''reservation_id'', JStr ''r2''), (''stale_after_seconds'', JInt 9)],
      JObj [(''type'', JStr ''worker_terminal''), (''reservation_id'', JStr ''r2'')],
      JObj [(''type'', JStr ''command_terminal''), (''reservation_id'', JStr ''r1'')]])]"

lemma sample_bindings:
  "event_condition_bindings sample_event_condition
     = Inr [(''r1'', ''command_terminal''), (''r2'', ''worker_terminal'')]"
  by (simp add: event_condition_bindings_def sample_event_condition_def visit_events.simps
      combinator_type_def jget_cons visit_leaf_def event_type_def terminal_type_def
      event_reservation_id_def bounded_id_def less_eq_char_def less_char_def)

lemma event_bindings_exact_witness:
  "sorted (map fst [(''r1'', ''command_terminal''), (''r2'', ''worker_terminal'')])
   \<and> (\<exists>l. leaf_of l sample_event_condition \<and> event_type (jget ''type'' l))"
  using event_bindings_exact [OF sample_bindings] by auto

section \<open>Journals\<close>

lemma trim_journal_spec:
  "trim_journal ls d = (kept, d') \<Longrightarrow>
     journal_fits kept \<and> (\<exists>gone. ls = gone @ kept \<and> d' = d + int (length gone))"
proof (induction ls d rule: trim_journal.induct)
  case (1 d)
  then show ?case by (simp add: journal_fits_def)
next
  case (2 l ls d)
  show ?case
  proof (cases "journal_fits (l # ls)")
    case True
    with "2.prems" show ?thesis by auto
  next
    case False
    with "2.IH" "2.prems" obtain gone where
      "journal_fits kept" "ls = gone @ kept" "d' = d + 1 + int (length gone)" by auto
    then show ?thesis by (intro conjI exI [of _ "l # gone"]) auto
  qed
qed

lemma journal_json_read:
  "journal_lines (jset ''journal'' (journal_json ls d) n) = ls"
  "journal_dropped (jset ''journal'' (journal_json ls d) n) = Inr d"
  by (simp_all add: journal_lines_def journal_dropped_def journal_json_def jget_cons comp_def)

text \<open>C37. Appending matched lines keeps the journal of a leaf within its caps of 50 lines and 16384
  characters, keeps the newest lines, and counts every line that goes: the old lines followed by the
  new ones, each cut to 512 characters, are the lines dropped now followed by the lines kept.\<close>

theorem journal_bounded_and_counted:
  assumes "append_journal node ls = Inr node'" "journal_dropped node = Inr d"
  shows "journal_fits (journal_lines node')
       \<and> (\<exists>gone. journal_lines node @ map (py_take JOURNAL_STORED_LINE_CHARS) ls = gone @ journal_lines node'
            \<and> journal_dropped node' = Inr (d + int (length gone)))
       \<and> (\<forall>l \<in> set ls. py_len (py_take JOURNAL_STORED_LINE_CHARS l) \<le> JOURNAL_STORED_LINE_CHARS)"
proof -
  obtain kept d' where t:
    "trim_journal (journal_lines node @ map (py_take JOURNAL_STORED_LINE_CHARS) ls) d = (kept, d')"
    by (meson surj_pair)
  then have "node' = jset ''journal'' (journal_json kept d') node"
    using assms by (simp add: append_journal_eq Let_def)
  with trim_journal_spec [OF t] show ?thesis
    by (auto simp: journal_json_read py_len_py_take)
qed

definition sample_log_leaf :: json where
  "sample_log_leaf = log_condition ''/x'' [(''n'', ''hit'')] JNull 0"

lemma journal_bounded_and_counted_witness:
  "\<exists>n. append_journal sample_log_leaf [''hit''] = Inr n \<and> journal_fits (journal_lines n)"
proof -
  have d: "journal_dropped sample_log_leaf = Inr 0"
    by (simp add: sample_log_leaf_def log_condition_def journal_dropped_def jget_cons Let_def)
  then obtain n where n: "append_journal sample_log_leaf [''hit''] = Inr n"
    by (auto simp: append_journal_eq Let_def)
  from journal_bounded_and_counted [OF n d] n show ?thesis by blast
qed

text \<open>The lines a list of runs stands for.\<close>

definition expand :: "(string \<times> nat) list \<Rightarrow> string list" where
  "expand runs = concat (map (\<lambda>r. replicate (snd r) (fst r)) runs)"

lemma expand_append [simp]: "expand (xs @ ys) = expand xs @ expand ys"
  by (simp add: expand_def)

lemma expand_add_run: "expand (add_run runs l) = expand runs @ [l]"
  by (induction runs l rule: add_run.induct)
    (auto simp: expand_def replicate_append_same [symmetric] simp del: replicate_append_same)

lemma expand_foldl: "expand (foldl add_run runs ls) = expand runs @ ls"
  by (induction ls arbitrary: runs) (simp_all add: expand_add_run)

lemma length_expand: "length (expand runs) = sum_list (map snd runs)"
  by (induction runs) (simp_all add: expand_def)

fun neighbours_differ :: "(string \<times> nat) list \<Rightarrow> bool" where
  "neighbours_differ (a # b # rs) \<longleftrightarrow> fst a \<noteq> fst b \<and> neighbours_differ (b # rs)"
| "neighbours_differ _ \<longleftrightarrow> True"

lemma neighbours_add_run: "neighbours_differ runs \<Longrightarrow> neighbours_differ (add_run runs l)"
proof (induction runs l rule: add_run.induct)
  case (3 r r2 rs l)
  have "fst (hd (add_run (r2 # rs) l)) = fst r2" "add_run (r2 # rs) l \<noteq> []"
    by (cases r2; cases rs; simp)+
  then obtain q qs where "add_run (r2 # rs) l = q # qs" "fst q = fst r2"
    by (cases "add_run (r2 # rs) l") auto
  with 3 show ?case by auto
qed auto

lemma neighbours_foldl: "neighbours_differ runs \<Longrightarrow> neighbours_differ (foldl add_run runs ls)"
  by (induction ls arbitrary: runs) (simp_all add: neighbours_add_run)

lemma neighbours_drop: "neighbours_differ runs \<Longrightarrow> neighbours_differ (drop n runs)"
proof (induction n arbitrary: runs)
  case (Suc n)
  then show ?case by (cases runs; cases "tl runs") auto
qed simp

text \<open>C38. The compact report of the journals loses no line silently: the runs it returns, at most
  \<open>limit\<close> of them and no two neighbours alike, stand for the newest collected lines, and their repeat
  counts with the dropped count add up to all the lines that the log leaves hold and have dropped.\<close>

theorem compact_journal_conserves:
  assumes "compact_journal_tail condition limit = Inr (runs, dropped)" "0 < limit"
  shows "length runs \<le> limit \<and> neighbours_differ runs
       \<and> (\<exists>ls d. collect_journal condition = Inr (ls, d)
            \<and> int (sum_list (map snd runs)) + dropped = int (length ls) + d
            \<and> (\<exists>older. ls = older @ expand runs))"
proof -
  from assms(1) obtain ls d where c: "collect_journal condition = Inr (ls, d)"
    by (auto simp: compact_journal_tail_def)
  define all_runs where "all_runs = foldl add_run [] ls"
  have e: "expand all_runs = ls"
    unfolding all_runs_def by (simp add: expand_foldl) (simp add: expand_def)
  have n: "neighbours_differ all_runs"
    unfolding all_runs_def by (rule neighbours_foldl) simp
  show ?thesis
  proof (cases "length all_runs > limit")
    case False
    with assms(1) c have "runs = all_runs" "dropped = d"
      by (auto simp: compact_journal_tail_def all_runs_def [symmetric])
    with False c e n show ?thesis
      by (auto simp: length_expand [symmetric])
  next
    case True
    let ?k = "length all_runs - limit"
    from True assms c have r: "runs = drop ?k all_runs"
      "dropped = d + int (sum_list (map snd (take ?k all_runs)))"
      by (auto simp: compact_journal_tail_def all_runs_def [symmetric] py_last_def)
    have split: "ls = expand (take ?k all_runs) @ expand runs"
      unfolding r(1) using e by (metis append_take_drop_id expand_append)
    then have "int (sum_list (map snd runs)) + dropped = int (length ls) + d"
      unfolding r(2) by (simp add: length_expand)
    with True c n split show ?thesis
      by (auto simp: r(1) neighbours_drop)
  qed
qed

lemma sample_compact:
  "compact_journal_tail (jset ''journal'' (journal_json [''a'', ''b'', ''b''] 4) sample_log_leaf) 1
     = Inr ([(''b'', 2)], 5)"
  by (simp add: compact_journal_tail_def collect_journal.simps sample_log_leaf_def log_condition_def
      journal_json_read jget_cons py_last_def)

lemma compact_journal_conserves_witness:
  "\<exists>older. [''a'', ''b'', ''b''] = older @ expand [(''b'', 2)]"
  using compact_journal_conserves [OF sample_compact]
  by (auto simp: collect_journal.simps sample_log_leaf_def log_condition_def journal_json_read jget_cons)


section \<open>Log offsets\<close>

lemma scan_lines_consumed:
  "scan_lines H dl ps ls s h = (Inr s', h') \<Longrightarrow>
     scan_consumed s \<le> scan_consumed s' \<and> scan_consumed s' \<le> scan_consumed s + length (concat ls)"
proof (induction ls arbitrary: s h)
  case Nil
  then show ?case by (simp add: obs_simps)
next
  case (Cons l ls)
  from Cons.prems obtain now where
    "(if now > dl then retO (s\<lparr>scan_timed_out := True\<rparr>) else scan_lines H dl ps ls (scan_line ps l s))
       (Clock # h) = (Inr s', h')"
    by (auto simp: bindO_Inr obs_simps)
  then show ?case
    using Cons.IH [of "scan_line ps l s" "Clock # h"]
    by (auto simp: obs_simps scan_line_def Let_def split: if_splits)
qed

text \<open>The bytes from \<open>start\<close> to \<open>eof\<close> as bounds on the stored offset.\<close>

definition offset_within :: "int \<Rightarrow> int \<Rightarrow> json \<Rightarrow> bool" where
  "offset_within start eof n \<longleftrightarrow> (\<exists>i. jget ''offset'' n = JInt i \<and> start \<le> i \<and> i \<le> max start eof)"

lemma offset_within_jset [simp]:
  "offset_within a b (jset ''matched'' v n) = offset_within a b n"
  "offset_within a b (jset ''matched_names'' v n) = offset_within a b n"
  "offset_within a b (jset ''witness_lines'' v n) = offset_within a b n"
  "offset_within a b (jset ''journal'' v n) = offset_within a b n"
  "offset_within a b (jset ''offset'' (JInt i) n) \<longleftrightarrow> a \<le> i \<and> i \<le> max a b"
  by (simp_all add: offset_within_def)

lemma offset_within_journal:
  "append_journal n ls = Inr m \<Longrightarrow> offset_within a b n \<Longrightarrow> offset_within a b m"
  by (auto dest!: append_journal_Inr)

lemma log_verdict_offset:
  "start \<le> start + int (scan_consumed s) \<Longrightarrow> int (scan_consumed s) \<le> eof - start \<Longrightarrow>
     post (log_verdict n start ob s) (\<lambda>r. offset_within start eof (snd r))"
  unfolding log_verdict_def Let_def
  by (intro post_withN post_if post_basic post_bind) (auto intro: offset_within_journal)

lemma scan_log_offset:
  assumes "0 \<le> start" "start < eof" "offset_within start eof n"
  shows "post (scan_log C H n path start (eof - start)) (\<lambda>r. offset_within start eof (snd r))"
proof -
  let ?count = "nat (min (eof - start) LOG_READ_BUDGET_BYTES)"
  have count: "int ?count \<le> eof - start" using assms(2) by auto
  have lines: "post (bindO (scan_lines H dl ps (byte_lines [] t) scan_start) (log_verdict n start ob))
      (\<lambda>r. offset_within start eof (snd r))"
    if t0: "through_last_newline (take ?count data) = Some t" for dl ps t ob data
  proof -
    obtain q where "take ?count data = t @ q"
      using through_last_newline_prefix [OF t0] by blast
    then have "length t \<le> length (take ?count data)" by simp
    then have "length t \<le> ?count" by simp
    then have t: "int (length t) \<le> eof - start" using count by linarith
    have s: "post (scan_lines H dl ps (byte_lines [] t) scan_start) (\<lambda>s. int (scan_consumed s) \<le> eof - start)"
      unfolding post_def using scan_lines_consumed [of H dl ps "byte_lines [] t" scan_start] t
      by (fastforce simp: concat_byte_lines scan_start_def)
    show ?thesis
      by (rule post_bind_using [OF s], rule log_verdict_offset) simp_all
  qed
  show ?thesis
    unfolding scan_log_def Let_def
    by (intro post_bind post_sum post_option post_if post_basic post_withN lines)
      (use assms count in \<open>auto simp: offset_within_def\<close>)
qed

text \<open>C39. While a log leaf has not matched, a poll that finds the file moves its offset only forward
  and never past the size the file then has (from zero, when the file was missing at registration),
  so no byte is read twice and none is skipped; and a file that is not the captured one, or is shorter
  than the offset, can only make the leaf unknown and fatal.\<close>

theorem log_offset_moves_forward:
  assumes "wf_leaf rx leaf" "jget ''type'' leaf = JStr ''log_pattern''" "\<not> truthy (jget ''matched'' leaf)"
    and "jget ''offset'' leaf = JInt i" "0 \<le> i"
    and "stat_file H h (py_str (jget ''path'' leaf)) = StatOk regular dev ino eof"
    and "evaluate_condition C H leaf h = (Inr (v, leaf'), h')"
  shows "offset_within (if jget ''identity'' leaf = JNull then 0 else i) eof leaf'
       \<and> (jget ''identity'' leaf \<noteq> JNull \<and>
            (\<not> json_eq (jget ''identity'' leaf) (log_identity dev ino) \<or> eof < i) \<longrightarrow>
            ev_value v = UNKNOWN \<and> ev_fatal v \<and> leaf' = leaf)"
proof -
  let ?cap = "jget ''identity'' leaf"
  let ?n = "if ?cap = JNull then jset ''offset'' (JInt 0) (jset ''identity'' (log_identity dev ino) leaf) else leaf"
  let ?start = "if ?cap = JNull then 0 else i"
  obtain p where p: "jget ''path'' leaf = JStr p"
    using wf_log_fields(1) [OF assms(1,2)] by (auto simp: is_str_iff)
  have off: "log_offset (jset ''offset'' (JInt 0) m) = Inr 0" "log_offset leaf = Inr i" for m
    using assms(4) by (auto simp: log_offset_def Let_def)
  have within: "offset_within ?start eof ?n"
    using assms(4) by (auto simp: offset_within_def)
  from assms(7) have ev: "evaluate_log_pattern C H leaf h = (Inr (v, leaf'), h')"
    using assms(2) by (simp add: dispatch)
  have run: "evaluate_log_pattern C H leaf h =
    (if ?cap \<noteq> JNull \<and> \<not> json_eq ?cap (log_identity dev ino) then
       (Inr (log_unknown ''log_identity_changed'' [(''captured'', ?cap), (''current'', log_identity dev ino)] True, leaf),
        StatFile p # h)
     else if eof < ?start then
       (Inr (log_unknown ''log_truncated'' [(''offset'', JInt ?start), (''size'', JInt eof)] True, ?n), StatFile p # h)
     else if eof - ?start \<le> 0 then
       (Inr (leaf_eval FALSE ''log_pattern'' [(''kind'', JStr ''no_new_bytes''), (''offset'', JInt ?start)] False, ?n),
        StatFile p # h)
     else scan_log C H ?n p ?start (eof - ?start) (StatFile p # h))"
    unfolding evaluate_log_pattern_def Let_def ask_stat_def
    using assms(3,6) p off by (cases "?cap = JNull") (simp_all add: jindex_jget withN_def bindO_def obs_simps)
  have fatal: "ev_value (log_unknown k e True) = UNKNOWN" "ev_fatal (log_unknown k e True)" for k e
    by (simp_all add: log_unknown_def)
  have scan: "offset_within ?start eof leaf'"
    if "scan_log C H ?n p ?start (eof - ?start) (StatFile p # h) = (Inr (v, leaf'), h')" "\<not> eof - ?start \<le> 0"
    using postD [OF scan_log_offset [OF _ _ within, of C H p] that(1)] that(2) assms(5) by auto
  show ?thesis
    using ev scan within fatal unfolding run by (auto split: if_split_asm)
qed


definition log_host :: host where
  "log_host = sample_host\<lparr>stat_file := (\<lambda>_ _. StatOk True 1 2 4),
     read_file := (\<lambda>_ _ _ _. Inr (''hit'' @ [CHR 0x0A])), clock := (\<lambda>_. 0)\<rparr>"

lemma log_host_sel [simp]:
  "clock log_host = (\<lambda>_. 0)" "stat_file log_host h p = StatOk True 1 2 4"
  "read_file log_host h p a b = Inr (''hit'' @ [CHR 0x0A])"
  by (simp_all add: log_host_def)

lemma hit_line: "scan_line [(''n'', \<lambda>line. line = ''hit'')] (''hit'' @ [CHR 0x0A]) scan_start
    = \<lparr>hit_names = [''n''], hit_lines = [''hit''], scan_consumed = 4, scan_truncated = False,
       scan_timed_out = False\<rparr>"
  by (simp add: scan_line_def scan_start_def rstrip_line_end_def decode_replace.simps utf8_unit_def
      py_len_def lead_byte_def LOG_LINE_MATCH_CHARS_def add_new_def code_def)

lemma sample_log_patterns:
  "jget ''patterns'' n = JList [pattern_json (''n'', ''hit'')] \<Longrightarrow>
     stored_patterns sample_context n = Inr [(''n'', \<lambda>line. line = ''hit'')]"
  by (simp add: stored_patterns_def jindex_jget pattern_json_def stored_pattern_def jget_cons
      sample_context_def)

lemma sample_log_scan:
  assumes "jget ''patterns'' n = JList [pattern_json (''n'', ''hit'')]" "journal_dropped n = Inr 0"
  shows "\<exists>v m h'. scan_log sample_context log_host n p 0 4 h = (Inr (v, m), h') \<and> ev_value v = TRUE"
proof -
  have lines: "through_last_newline (''hit'' @ [CHR 0x0A]) = Some (''hit'' @ [CHR 0x0A])"
    "byte_lines [] (''hit'' @ [CHR 0x0A]) = [''hit'' @ [CHR 0x0A]]"
    by (simp_all add: through_last_newline_def)
  have scan: "scan_lines log_host 1 [(''n'', \<lambda>line. line = ''hit'')] [''hit'' @ [CHR 0x0A]] scan_start h
      = (Inr \<lparr>hit_names = [''n''], hit_lines = [''hit''], scan_consumed = 4, scan_truncated = False,
           scan_timed_out = False\<rparr>, Clock # h)" for h
    using hit_line by (simp add: bindO_def obs_simps)
  have "returns (log_verdict n 0 False \<lparr>hit_names = [''n''], hit_lines = [''hit''], scan_consumed = 4,
      scan_truncated = False, scan_timed_out = False\<rparr>) (\<lambda>r. ev_value (fst r) = TRUE)"
  proof -
    have d: "journal_dropped (jset ''offset'' (JInt 4) n) = Inr 0"
      using assms(2) by (simp add: journal_dropped_def)
    then obtain m where m: "append_journal (jset ''offset'' (JInt 4) n) [''hit''] = Inr m"
      by (auto simp: append_journal_eq Let_def)
    from append_journal_Inr [OF m] obtain kept q
      where "m = jset ''journal'' (journal_json kept q) (jset ''offset'' (JInt 4) n)" by blast
    then have "\<exists>c. journal_counters (jset ''witness_lines'' a (jset ''matched_names'' b (jset ''matched'' e m))) = Inr c"
      for a b e by (simp add: journal_counters_def journal_dropped_def journal_json_def jget_cons)
    with m show ?thesis
      unfolding log_verdict_def Let_def by (auto intro!: returns_intros)
  qed
  then show ?thesis
    using assms(1) sample_log_patterns lines scan
    unfolding returns_def
    by (simp add: scan_log_def LOG_READ_BUDGET_BYTES_def LOG_EVALUATION_SECONDS_def bindO_def withN_def
        obs_simps Let_def del: scan_lines.simps)
qed

lemma sample_log_run:
  "\<exists>v n h. evaluate_condition sample_context log_host sample_log_leaf [] = (Inr (v, n), h)
     \<and> ev_value v = TRUE"
proof -
  let ?n = "jset ''offset'' (JInt 0) (jset ''identity'' (log_identity 1 2) sample_log_leaf)"
  have "jget ''patterns'' ?n = JList [pattern_json (''n'', ''hit'')]" "journal_dropped ?n = Inr 0"
    "log_offset ?n = Inr 0"
    by (simp_all add: sample_log_leaf_def log_condition_def journal_dropped_def log_offset_def jget_cons)
  with sample_log_scan [of ?n "''/x''" "[StatFile ''/x'']"] show ?thesis
    by (simp add: dispatch sample_log_leaf_def log_condition_def jget_cons evaluate_log_pattern_def
        ask_stat_def jindex_jget withN_def bindO_def obs_simps Let_def)
qed

lemma log_offset_moves_forward_witness:
  "\<exists>v n h. evaluate_condition sample_context log_host sample_log_leaf [] = (Inr (v, n), h)
     \<and> ev_value v = TRUE \<and> offset_within 0 4 n"
proof -
  obtain v n h where r: "evaluate_condition sample_context log_host sample_log_leaf [] = (Inr (v, n), h)"
    "ev_value v = TRUE" using sample_log_run by blast
  have "wf_leaf (regex sample_context) sample_log_leaf"
    by (simp add: wf_leaf_def sample_log_leaf_def log_condition_def jget_cons pattern_json_def
        sample_context_def)
  from log_offset_moves_forward [OF this _ _ _ _ _ r(1), of 0 True 1 2 4] r show ?thesis
    by (simp add: sample_log_leaf_def log_condition_def jget_cons)
qed


section \<open>What truth rests on\<close>

definition bound_terminal :: "json \<Rightarrow> json \<Rightarrow> json \<Rightarrow> bool" where
  "bound_terminal status rid ty \<longleftrightarrow>
     is_obj status \<and> json_eq (jget ''reservation_id'' status) rid
     \<and> jget ''bound_monitor_id'' status \<notin> {JNull, JStr []} \<and> jget ''kind'' status = ty
     \<and> jget ''cancelled_at'' status = JNull \<and> jget ''expired_at'' status = JNull
     \<and> is_obj (jget ''terminal_event'' status) \<and> jget ''kind'' (jget ''terminal_event'' status) = ty"

text \<open>A command or worker leaf is true exactly when its reservation's current snapshot is bound to
  a monitor, is the one the leaf names and of its kind, was neither cancelled nor expired, and holds a
  terminal event of that kind; its witness then carries that event and says that neither the task
  succeeded nor the lead accepted it. It is false, never unknown, only while the event is awaited.\<close>

lemma terminal_leaf_truth:
  assumes "evaluate_event_leaf statuses leaf now = Inr v" "terminal_type (jget ''type'' leaf)"
  defines "status \<equiv> status_entry statuses (jget ''reservation_id'' leaf)"
  shows "(ev_value v = TRUE \<longleftrightarrow> bound_terminal status (jget ''reservation_id'' leaf) (jget ''type'' leaf))
       \<and> (ev_value v = TRUE \<longrightarrow> (\<exists>w. ev_witness v = [w]
            \<and> jget ''terminal_event'' w = jget ''terminal_event'' status
            \<and> jget ''task_success'' w = JBool False \<and> jget ''lead_accepted'' w = JBool False))
       \<and> (ev_value v = FALSE \<longrightarrow> jget ''terminal_event'' status = JNull \<and> ev_witness v = [])"
proof -
  have t: "jget ''type'' leaf \<noteq> JStr ''heartbeat_stale''" "terminal_type (jget ''type'' leaf) = True"
    using assms(2) by (auto simp: terminal_type_def)
  have u: "ev_value (event_unknown ty k) = UNKNOWN" for ty k
    by (simp add: event_unknown_def)
  have e: "ev_value (terminal_eval n s tm) = TRUE"
    "\<exists>w. ev_witness (terminal_eval n s tm) = [w] \<and> jget ''terminal_event'' w = tm
       \<and> jget ''task_success'' w = JBool False \<and> jget ''lead_accepted'' w = JBool False" for n s tm
    by (simp_all add: terminal_eval_def Let_def no_acceptance_def jget_cons)
  have p: "ev_value (event_pending FALSE n k) = FALSE" "ev_witness (event_pending FALSE n k) = []" for n k
    by (simp_all add: event_pending_def)
  note b = bound_terminal_def
  show ?thesis
    using assms(1) unfolding evaluate_event_leaf_def Let_def status_def [symmetric] t(2)
    by (simp add: t(1) split: if_split_asm) (auto simp: b u e p)
qed

definition sample_statuses :: json where
  "sample_statuses = JObj [(''r1'', JObj
     [(''reservation_id'', JStr ''r1''), (''bound_monitor_id'', JStr ''m''),
      (''kind'', JStr ''command_terminal''), (''cancelled_at'', JNull), (''expired_at'', JNull),
      (''terminal_event'', JObj [(''kind'', JStr ''command_terminal'')])])]"

lemma terminal_leaf_truth_witness:
  "\<exists>v. evaluate_event_leaf sample_statuses
     (JObj [(''type'', JStr ''command_terminal''), (''reservation_id'', JStr ''r1'')]) 9 = Inr v
   \<and> ev_value v = TRUE"
proof -
  let ?leaf = "JObj [(''type'', JStr ''command_terminal''), (''reservation_id'', JStr ''r1'')]"
  have "\<exists>v. evaluate_event_leaf sample_statuses ?leaf 9 = Inr v"
    by (simp add: evaluate_event_leaf_def Let_def status_entry_def sample_statuses_def jget_cons)
  then obtain v where v: "evaluate_event_leaf sample_statuses ?leaf 9 = Inr v" by blast
  moreover have "bound_terminal (status_entry sample_statuses (JStr ''r1'')) (JStr ''r1'') (JStr ''command_terminal'')"
    by (simp add: bound_terminal_def status_entry_def sample_statuses_def jget_cons json_eq.simps)
  ultimately show ?thesis
    using terminal_leaf_truth [OF v] by (simp add: terminal_type_def jget_cons)
qed

lemma tryV_boot:
  "tryV (read_boot_id H) n h =
     (Inr (case boot_id_text H h of
             None \<Rightarrow> Inl ''cannot read the host boot identity'' | Some t \<Rightarrow> Inr (py_strip t)), ReadBootId # h)"
  by (simp add: tryV_def catchO_def read_boot_id_def bindO_def obs_simps split: option.split)

lemma post_ask: "(\<And>x. \<exists>h. x = f h \<Longrightarrow> post (k x) Q) \<Longrightarrow> post (bindO (askO q f) k) Q"
  by (auto simp: post_def bindO_Inr obs_simps)

lemma post_tryV: "post (tryV m n) (\<lambda>x. \<forall>y. x = Inr y \<longrightarrow> (\<exists>h h'. m h = (Inr y, h')))"
  unfolding tryV_def
  by (rule post_catch)
    (auto simp: post_def obs_simps split: prod.splits sum.splits py_error.splits)

text \<open>The process a satisfied leaf was about.\<close>

definition process_over :: "host \<Rightarrow> json \<Rightarrow> bool" where
  "process_over H identity \<longleftrightarrow>
     (\<exists>pid. bindE (jindex ''pid'' identity) py_int = Inr pid \<and>
        ((\<exists>h. \<not> proc_exists H h pid)
         \<or> (\<exists>h h' current state. read_pid_snapshot H pid h = (Inr (current, state), h')
              \<and> json_eq current identity \<and> state \<in> set TERMINAL_PROCESS_STATES)))"


definition sample_pid_leaf :: json where
  "sample_pid_leaf = JObj [(''type'', JStr ''pid_exit''),
     (''identity'', pid_identity 7 ''boot'' 11 0)]"


end
