(* ===== verification/Delivery.thy ===== *)
theory Delivery
  imports Events Text
begin

text \<open>
  The thread-delivery envelope (\<open>delivery.py\<close>), the private payload files of the producers
  (\<open>payloads.py\<close>) and the worker's publisher (\<open>worker_delivery_adapter.py\<close>). The name-based UUID, the
  file system, the effective user and the JSON parser are arguments.
\<close>

section \<open>Delivery kinds and states\<close>

datatype DeliveryKind = GOAL | THREAD

fun delivery_kind_value :: "DeliveryKind \<Rightarrow> string" where
  "delivery_kind_value GOAL = ''goal''"
| "delivery_kind_value THREAD = ''thread''"

definition delivery_kind_of :: "string \<Rightarrow> DeliveryKind option" where
  "delivery_kind_of s = List.find (\<lambda>k. delivery_kind_value k = s) [GOAL, THREAD]"

datatype ThreadDeliveryState =
    TD_UNATTEMPTED | TD_ADMISSION_IN_PROGRESS | TD_QUEUE_ACCEPTED | TD_RECORDED | TD_REJECTED
  | TD_UNCERTAIN | TD_MODIFIED | TD_CANCEL_REQUESTED | TD_CANCELLATION_IN_PROGRESS | TD_CANCELLED
  | TD_CANCELLATION_TOO_LATE

section \<open>The pointer and its envelope\<close>

definition DELIVERY_POINTER_MAX_CHARS :: nat where "DELIVERY_POINTER_MAX_CHARS = 512"

definition delivery_name :: "string \<Rightarrow> string" where
  "delivery_name monitor_id = ''codex-wake-me-up:'' @ monitor_id @ '':thread-delivery:v1''"

definition delivery_pointer :: "string \<Rightarrow> string \<Rightarrow> string \<Rightarrow> string" where
  "delivery_pointer monitor_id delivery_id origin =
     ''[codex-wake-me-up monitor='' @ monitor_id @ '' delivery='' @ delivery_id @ '' origin='' @ origin
     @ ''] Call wake_me_up_status(monitor_id, view='' @ [CHR 0x22] @ ''decision'' @ [CHR 0x22]
     @ '') exactly once. This pointer is not a success claim.''"

definition delivery_envelope ::
    "digest_env \<Rightarrow> string \<Rightarrow> string \<Rightarrow> string \<Rightarrow> string list \<Rightarrow> string \<Rightarrow> string \<Rightarrow> json \<Rightarrow> json" where
  "delivery_envelope E thread origin binding chain delivery_id pointer capability =
     JObj [(''schema_epoch'', JInt 1), (''kind'', JStr (delivery_kind_value THREAD)),
       (''thread_id'', JStr thread), (''origin_thread_id'', JStr origin),
       (''origin_binding'', JStr binding), (''relay_chain'', JList (map JStr chain)),
       (''delivery_id'', JStr delivery_id), (''pointer'', JStr pointer),
       (''pointer_digest'', JStr (sha256 E pointer)), (''capability'', capability)]"

definition build_thread_delivery ::
    "digest_env \<Rightarrow> (string \<Rightarrow> string) \<Rightarrow> string \<Rightarrow> string \<Rightarrow> json \<Rightarrow> string option \<Rightarrow> string list option
     \<Rightarrow> string \<Rightarrow> json res" where
  "build_thread_delivery E uuid5 monitor_id thread capability origin relay binding =
     bindE (unlessE (monitor_id = [] \<or> thread = []) ValueError) (\<lambda>_.
     let orig = (case origin of None \<Rightarrow> thread | Some oo \<Rightarrow> if oo = [] then thread else oo);
         chain = (case relay of None \<Rightarrow> [orig] | Some cs \<Rightarrow> if cs = [] then [orig] else cs);
         delivery_id = uuid5 (delivery_name monitor_id);
         pointer = delivery_pointer monitor_id delivery_id orig in
     bindE (unlessE (orig = [] \<or> chain = []) ValueError) (\<lambda>_.
     bindE (unlessE (hd chain \<noteq> orig \<or> List.last chain \<noteq> thread) ValueError) (\<lambda>_.
     bindE (unlessE (py_len pointer > DELIVERY_POINTER_MAX_CHARS) ValueError) (\<lambda>_.
     Inr (delivery_envelope E thread orig binding chain delivery_id pointer capability)))))"

section \<open>Private payload files\<close>

text \<open>
  What opening a path without following a symbolic link and \<open>fstat\<close> give: whether it is a regular
  file, its owner, its permission bits and its bytes.
\<close>

record opened_file =
  of_regular :: bool
  of_uid :: int
  of_mode :: int
  of_bytes :: string

record payload_env =
  open_nofollow :: "string \<Rightarrow> opened_file option"
  effective_uid :: int
  json_loads :: "string \<Rightarrow> json option"

definition MAX_PRIVATE_PAYLOAD_BYTES :: nat where "MAX_PRIVATE_PAYLOAD_BYTES = 64 * 1024"

text \<open>\<open>S_IMODE(mode) & 0o077\<close> is the mode modulo 64.\<close>

definition load_private_json_payload :: "payload_env \<Rightarrow> string \<Rightarrow> json res" where
  "load_private_json_payload P path =
     (case open_nofollow P path of
        None \<Rightarrow> raise_validation ''payload path must be a readable regular file''
      | Some f \<Rightarrow>
          bindE (unlessE (\<not> of_regular f)
            (ValidationError ''payload path must be a regular file'')) (\<lambda>_.
          bindE (unlessE (of_uid f \<noteq> effective_uid P \<or> of_mode f mod 64 \<noteq> 0)
            (ValidationError ''payload file must be private to the current user'')) (\<lambda>_.
          let raw = take (MAX_PRIVATE_PAYLOAD_BYTES + 1) (of_bytes f) in
          bindE (unlessE (length raw > MAX_PRIVATE_PAYLOAD_BYTES)
            (ValidationError ''payload file exceeds the 64 KiB limit'')) (\<lambda>_.
          case json_loads P raw of
            None \<Rightarrow> raise_validation ''payload file must contain one JSON object''
          | Some v \<Rightarrow>
              if is_obj v then Inr v
              else raise_validation ''payload file must contain one JSON object''))))"

section \<open>The worker's publisher\<close>

definition load_worker_publisher_descriptor :: "payload_env \<Rightarrow> string \<Rightarrow> (string \<times> string) res" where
  "load_worker_publisher_descriptor P path =
     bindE (load_private_json_payload P path) (\<lambda>d.
     bindE (unlessE (\<not> json_eq (jget ''schema'' d) (JInt 1) \<or> jget ''kind'' d \<noteq> JStr ''worker_terminal'')
       (ValidationError ''publisher descriptor must name worker_terminal schema 1'')) (\<lambda>_.
     case (jget ''reservation_id'' d, jget ''publish_token'' d) of
       (JStr rid, token) \<Rightarrow>
         if rid = [] then raise_validation ''publisher descriptor has no reservation ID''
         else (case token of
                 JStr t \<Rightarrow>
                   if t = [] then raise_validation ''publisher descriptor has no publish capability''
                   else Inr (rid, t)
               | _ \<Rightarrow> raise_validation ''publisher descriptor has no publish capability'')
     | _ \<Rightarrow> raise_validation ''publisher descriptor has no reservation ID''))"

text \<open>What the worker's envelope is published under, once it is checked.\<close>

definition worker_publication :: "digest_env \<Rightarrow> payload_env \<Rightarrow> string \<Rightarrow> json \<Rightarrow> (string \<times> string) res" where
  "worker_publication E P path event =
     bindE (load_worker_publisher_descriptor P path) (\<lambda>d.
     bindE (unlessE (jget ''kind'' event \<noteq> JStr ''worker_terminal'')
       (ValidationError ''worker adapter requires a worker_terminal envelope'')) (\<lambda>_.
     bindE (normalize_worker_terminal E event JNull) (\<lambda>_. Inr d)))"

definition publish_worker_terminal_from_descriptor ::
    "digest_env \<Rightarrow> payload_env \<Rightarrow> (string \<Rightarrow> string \<Rightarrow> json \<Rightarrow> 's \<Rightarrow> 'a res \<times> 's) \<Rightarrow> string \<Rightarrow> json \<Rightarrow> 's
     \<Rightarrow> 'a res \<times> 's" where
  "publish_worker_terminal_from_descriptor E P publish path event s =
     (case worker_publication E P path event of
        Inl e \<Rightarrow> (Inl e, s)
      | Inr (rid, token) \<Rightarrow> publish rid token event s)"

end
