(* ===== verification/Ledger_Rows.thy ===== *)
theory Ledger_Rows
  imports Delivery Condition_Trees
begin

text \<open>
  The two tables of the ledger and how their rows are decoded (\<open>ledger.py\<close>, lines 39 to 492).

  An event reservation row keeps what SQLite returns: a scalar column is a JSON scalar (\<open>JNull\<close> is
  SQL's NULL) and a JSON column is absent, unparsable, or the value its text parses to. A monitor row
  is kept decoded, except that its guard is still the stored JSON: the ledger is the only writer of
  those columns, while \<open>EventReservationRecord.from_row\<close> re-validates everything it reads.
\<close>

section \<open>Stored texts\<close>

datatype stored = Absent | Garbled | Stored json

text \<open>\<open>_load\<close>; the error is the JSON parser's.\<close>

fun load_json :: "stored \<Rightarrow> json \<Rightarrow> json res" where
  "load_json Absent fallback = Inr fallback"
| "load_json Garbled fallback = Inl ValueError"
| "load_json (Stored v) fallback = Inr v"

text \<open>
  The ledger's own \<open>canonical_json\<close> keeps the default \<open>ensure_ascii\<close>: every character outside the
  printable ASCII range is escaped, the ones beyond the basic plane as two surrogates. Only its
  length is used, by the size check of a decoded row; what a stored text parses back to is \<open>canon\<close>.
\<close>

definition u_escape :: "nat \<Rightarrow> string" where
  "u_escape n = CHR 0x5C # CHR ''u'' #
     [hex_digit (n div 4096 mod 16), hex_digit (n div 256 mod 16), hex_digit (n div 16 mod 16),
      hex_digit (n mod 16)]"

fun ascii_escape :: "string \<Rightarrow> string" where
  "ascii_escape [] = []"
| "ascii_escape (c # s) =
     (let b = (\<lambda>i. if i < length s then code (s ! i) mod 64 else 0) in
      if code c < 127 then c # ascii_escape s
      else if code c = 127 then u_escape 127 @ ascii_escape s
      else if code c < 192 then ascii_escape s
      else if code c < 224 then u_escape ((code c - 192) * 64 + b 0) @ ascii_escape s
      else if code c < 240 then
        u_escape ((code c - 224) * 4096 + b 0 * 64 + b 1) @ ascii_escape s
      else
        let n = (code c - 240) * 262144 + b 0 * 4096 + b 1 * 64 + b 2 - 65536 in
        u_escape (55296 + n div 1024) @ u_escape (56320 + n mod 1024) @ ascii_escape s)"

definition ledger_json :: "digest_env \<Rightarrow> json \<Rightarrow> string" where
  "ledger_json E v = ascii_escape (dump_json E (canon v))"

definition publish_token_digest :: "digest_env \<Rightarrow> string \<Rightarrow> string \<Rightarrow> string" where
  "publish_token_digest E token salt = sha256 E (salt @ token)"

section \<open>Event reservations\<close>

record event_row =
  row_id :: json
  row_ikey :: json
  row_kind :: json
  row_producer :: json
  row_semantic :: stored
  row_state :: string
  row_salt :: string
  row_digest :: json
  row_expires_at :: json
  row_bound :: json
  row_heartbeat :: stored
  row_hb_sequence :: json
  row_hb_fingerprint :: json
  row_terminal :: stored
  row_fingerprint :: json
  row_attestation :: stored
  row_cancelled_at :: json
  row_expired_at :: json
  row_created_at :: json
  row_updated_at :: json

record EventReservationRecord =
  er_id :: string
  er_ikey :: "string option"
  er_kind :: EventKind
  er_producer :: string
  er_semantic :: json
  er_state :: ReservationState
  er_salt :: string
  er_digest :: string
  er_expires_at :: rat
  er_bound :: "string option"
  er_heartbeat :: json
  er_hb_sequence :: "int option"
  er_hb_fingerprint :: "string option"
  er_terminal :: json
  er_fingerprint :: "string option"
  er_attestation :: json
  er_cancelled_at :: "rat option"
  er_expired_at :: "rat option"
  er_created_at :: rat
  er_updated_at :: rat

text \<open>\<open>except (TypeError, ValueError, OverflowError) as exc: raise ValidationError(\<dots>)\<close>.\<close>

definition recast :: "string \<Rightarrow> 'a res \<Rightarrow> 'a res" where
  "recast msg r = (case r of
     Inr x \<Rightarrow> Inr x
   | Inl e \<Rightarrow> if e \<in> {TypeError, ValueError, OverflowError} then raise_validation msg else Inl e)"

definition identity_text :: "json \<Rightarrow> string \<Rightarrow> string res" where
  "identity_text v msg =
     (case v of
        JStr s \<Rightarrow> if s = [] \<or> CHR 0x00 \<in> set s \<or> length s > 4096 then raise_validation msg else Inr s
      | _ \<Rightarrow> raise_validation msg)"

definition finite_time :: "json \<Rightarrow> string \<Rightarrow> rat res" where
  "finite_time v msg =
     bindE (recast msg (py_float v)) (\<lambda>f. case f of Fin r \<Rightarrow> Inr r | _ \<Rightarrow> raise_validation msg)"

definition optional_time :: "json \<Rightarrow> string \<Rightarrow> rat option res" where
  "optional_time v msg =
     (if v = JNull then Inr None else bindE (finite_time v msg) (\<lambda>r. Inr (Some r)))"

definition token_digest_text :: "json \<Rightarrow> string \<Rightarrow> string res" where
  "token_digest_text v salt =
     (let digest = py_str v in
      if length salt \<noteq> 32 \<or> py_len digest \<noteq> 64 \<or> \<not> list_all is_lower_hex digest then
        raise_validation ''event reservation publish identity is corrupt''
      else Inr digest)"

definition optional_text :: "json \<Rightarrow> string option" where
  "optional_text v = (case v of JStr s \<Rightarrow> Some s | _ \<Rightarrow> None)"

text \<open>The stored heartbeat against the columns that summarise it.\<close>

definition check_stored_heartbeat :: "digest_env \<Rightarrow> json \<Rightarrow> int option \<Rightarrow> json \<Rightarrow> unit res" where
  "check_stored_heartbeat E hb sequence fingerprint =
     (if hb = JNull then
        unlessE (sequence \<noteq> None \<or> fingerprint \<noteq> JNull)
          (ValidationError ''event reservation heartbeat facts conflict'')
      else if \<not> is_obj hb then raise_validation ''event reservation heartbeat is corrupt''
      else
        bindE (recast ''event reservation heartbeat is corrupt''
          (normalize_heartbeat E (JObj (apop ''host_received_at'' (entries hb)))
             (jget ''host_received_at'' hb))) (\<lambda>n.
        bindE (heartbeat_fingerprint E n) (\<lambda>f.
        unlessE (\<not> json_eq (JObj (heartbeat_as_dict n)) hb \<or> sequence \<noteq> Some (hb_sequence n)
                 \<or> fingerprint \<noteq> JStr f)
          (ValidationError ''event reservation heartbeat facts conflict''))))"

definition popped_false :: "string \<Rightarrow> (string \<times> json) list \<Rightarrow> bool" where
  "popped_false k kvs \<longleftrightarrow> map_of kvs k \<in> {None, Some (JBool False)}"

text \<open>The stored terminal event: what \<open>normalized_terminal\<close> is, or the error.\<close>

definition check_stored_terminal ::
    "digest_env \<Rightarrow> EventKind \<Rightarrow> json \<Rightarrow> json \<Rightarrow> json \<Rightarrow> TerminalEvent option res" where
  "check_stored_terminal E kind terminal fingerprint attestation =
     (if terminal = JNull then
        bindE (unlessE (fingerprint \<noteq> JNull \<or> attestation \<noteq> JNull)
          (ValidationError ''event reservation terminal facts conflict'')) (\<lambda>_. Inr None)
      else if \<not> is_obj terminal then raise_validation ''event reservation terminal payload is corrupt''
      else
        let kvs = apop ''host_received_at'' (entries terminal) in
        bindE (unlessE (\<not> popped_false ''lead_accepted'' kvs)
          (ValidationError ''event reservation terminal acceptance is corrupt'')) (\<lambda>_.
        bindE (unlessE (\<not> popped_false ''task_success'' (apop ''lead_accepted'' kvs))
          (ValidationError ''event reservation terminal success is corrupt'')) (\<lambda>_.
        bindE (recast ''event reservation terminal payload is corrupt''
          (normalize_terminal_event E
             (EventMapping (JObj (apop ''task_success'' (apop ''lead_accepted'' kvs)))) (Some kind)
             (jget ''host_received_at'' terminal))) (\<lambda>n.
        bindE (event_fingerprint E n) (\<lambda>f.
        bindE (unlessE (\<not> json_eq (event_as_dict n) terminal \<or> fingerprint \<noteq> JStr f)
          (ValidationError ''event reservation terminal facts conflict'')) (\<lambda>_. Inr (Some n)))))))"

definition delivered_oid :: "TerminalEvent option \<Rightarrow> string option option" where
  "delivered_oid terminal = (case terminal of
     Some (WorkerEvent w) \<Rightarrow> if wrk_outcome w = DELIVERED then Some (candidate_oid w) else None
   | _ \<Rightarrow> None)"

definition attestation_keys :: "string list" where
  "attestation_keys =
     [''status'', ''candidate_commit'', ''path_count'', ''paths'', ''paths_digest'', ''paths_truncated'',
      ''path_bytes_truncated'', ''error'', ''lead_accepted'']"

definition attestation_statuses :: "string list" where
  "attestation_statuses =
     [''valid'', ''invalid_commit'', ''baseline_mismatch'', ''out_of_scope'', ''attestation_error'']"

fun is_bool :: "json \<Rightarrow> bool" where
  "is_bool (JBool _) = True"
| "is_bool _ = False"

definition attestation_paths_ok :: "json \<Rightarrow> json \<Rightarrow> unit res" where
  "attestation_paths_ok path_count paths =
     bindE (unlessE
       (\<not> (case (path_count, paths) of
             (JInt n, JList ps) \<Rightarrow>
               0 \<le> n \<and> n \<le> 8 * 1024 * 1024 \<and> length ps \<le> 256 \<and> int (length ps) \<le> n
           | _ \<Rightarrow> False))
       (ValidationError ''event reservation attestation path facts are corrupt'')) (\<lambda>_.
     bindE (unlessE
       (\<not> list_all (\<lambda>p. case p of JStr s \<Rightarrow> CHR 0x00 \<notin> set s | _ \<Rightarrow> False) (list_items paths))
       (ValidationError ''event reservation attestation path is corrupt'')) (\<lambda>_.
     unlessE (sum_list (map (\<lambda>p. length (py_str p)) (list_items paths)) > 64 * 1024)
       (ValidationError ''event reservation attestation paths are oversized'')))"

definition attestation_digest_ok :: "json \<Rightarrow> bool" where
  "attestation_digest_ok d = (case d of
     JNull \<Rightarrow> True | JStr s \<Rightarrow> py_len s = 64 \<and> list_all is_lower_hex s | _ \<Rightarrow> False)"

definition validate_stored_attestation :: "json \<Rightarrow> TerminalEvent option \<Rightarrow> unit res" where
  "validate_stored_attestation v terminal =
     (if v = JNull then Inr ()
      else case delivered_oid terminal of
        None \<Rightarrow> raise_validation ''event reservation attestation has no delivery''
      | Some oid \<Rightarrow>
          if \<not> is_obj v then raise_validation ''event reservation attestation is corrupt''
          else
            let status = jget ''status'' v; digest = jget ''paths_digest'' v in
            bindE (unlessE (fst ` set (entries v) \<noteq> set attestation_keys
                            \<or> jget ''lead_accepted'' v \<noteq> JBool False)
              (ValidationError ''event reservation attestation shape is corrupt'')) (\<lambda>_.
            bindE (memE status attestation_statuses) (\<lambda>known.
            bindE (unlessE (\<not> known)
              (ValidationError ''event reservation attestation status is corrupt'')) (\<lambda>_.
            bindE (unlessE (jget ''candidate_commit'' v \<noteq> opt_json JStr oid)
              (ValidationError ''event reservation attestation candidate is corrupt'')) (\<lambda>_.
            bindE (attestation_paths_ok (jget ''path_count'' v) (jget ''paths'' v)) (\<lambda>_.
            bindE (unlessE (\<not> is_bool (jget ''paths_truncated'' v)
                            \<or> \<not> is_bool (jget ''path_bytes_truncated'' v))
              (ValidationError ''event reservation attestation truncation is corrupt'')) (\<lambda>_.
            bindE (unlessE (\<not> attestation_digest_ok digest)
              (ValidationError ''event reservation attestation digest is corrupt'')) (\<lambda>_.
            bindE (unlessE (status \<in> {JStr ''valid'', JStr ''out_of_scope''} \<and> digest = JNull)
              (ValidationError ''event reservation attestation digest is missing'')) (\<lambda>_.
            unlessE (\<not> (case jget ''error'' v of
                          JNull \<Rightarrow> True | JStr s \<Rightarrow> length s \<le> 4096 | _ \<Rightarrow> False))
              (ValidationError ''event reservation attestation error is corrupt''))))))))))"

definition bound_monitor_text :: "json \<Rightarrow> string option res" where
  "bound_monitor_text v = (case v of
     JNull \<Rightarrow> Inr None
   | JStr s \<Rightarrow>
       if s = [] then raise_validation ''event reservation binding is corrupt'' else Inr (Some s)
   | _ \<Rightarrow> raise_validation ''event reservation binding is corrupt'')"

definition optional_sequence :: "json \<Rightarrow> int option res" where
  "optional_sequence v =
     (if v = JNull then Inr None
      else bindE (recast ''event reservation heartbeat sequence is corrupt'' (py_int v))
             (\<lambda>i. Inr (Some i)))"

text \<open>The lifecycle is derived from the durable facts, not from the cached \<open>state\<close> column.\<close>

definition derived_state :: "event_row \<Rightarrow> ReservationState" where
  "derived_state r =
     (if row_cancelled_at r \<noteq> JNull then RES_CANCELLED
      else if row_expired_at r \<noteq> JNull then RES_EXPIRED
      else if row_terminal r \<noteq> Absent then RES_TERMINAL
      else if row_bound r \<noteq> JNull then RES_BOUND
      else RES_RESERVED)"

text \<open>The five columns decoded first: kind, semantic, heartbeat, terminal event, attestation.\<close>

definition load_row_texts :: "event_row \<Rightarrow> (EventKind \<times> json \<times> json \<times> json \<times> json) res" where
  "load_row_texts r =
     (case (kind_of (py_str (row_kind r)), load_json (row_semantic r) (JObj []),
            load_json (row_heartbeat r) JNull, load_json (row_terminal r) JNull,
            load_json (row_attestation r) JNull) of
        (Some k, Inr s, Inr h, Inr t, Inr a) \<Rightarrow> Inr (k, s, h, t, a)
      | _ \<Rightarrow> raise_validation ''event reservation contains invalid stored JSON'')"

definition row_identities :: "digest_env \<Rightarrow> event_row \<Rightarrow> json \<Rightarrow> (string \<times> string \<times> string option \<times> string) res" where
  "row_identities E r semantic =
     bindE (unlessE (\<not> is_obj semantic)
       (ValidationError ''event reservation semantic payload is corrupt'')) (\<lambda>_.
     bindE (identity_text (row_id r) ''event reservation identity is corrupt'') (\<lambda>rid.
     bindE (identity_text (row_producer r) ''event reservation producer identity is corrupt'') (\<lambda>producer.
     bindE (if row_ikey r = JNull then Inr None
            else bindE (identity_text (row_ikey r) ''event reservation idempotency identity is corrupt'')
                   (\<lambda>k. Inr (Some k))) (\<lambda>ikey.
     bindE (unlessE (length (ledger_json E semantic) > 64 * 1024)
       (ValidationError ''event reservation semantic payload is oversized'')) (\<lambda>_.
     bindE (token_digest_text (row_digest r) (row_salt r)) (\<lambda>digest.
     Inr (rid, producer, ikey, digest)))))))"

definition row_times :: "event_row \<Rightarrow> json \<Rightarrow> (rat \<times> rat \<times> rat \<times> string option \<times> rat option \<times> rat option) res" where
  "row_times r terminal =
     bindE (finite_time (row_expires_at r) ''event reservation timestamps are corrupt'') (\<lambda>ex.
     bindE (finite_time (row_created_at r) ''event reservation timestamps are corrupt'') (\<lambda>cr.
     bindE (finite_time (row_updated_at r) ''event reservation timestamps are corrupt'') (\<lambda>up.
     bindE (bound_monitor_text (row_bound r)) (\<lambda>bound.
     bindE (optional_time (row_cancelled_at r) ''event reservation terminal timestamps are corrupt'') (\<lambda>ca.
     bindE (optional_time (row_expired_at r) ''event reservation terminal timestamps are corrupt'') (\<lambda>xa.
     bindE (unlessE (ca \<noteq> None \<and> xa \<noteq> None)
       (ValidationError ''event reservation has conflicting terminal facts'')) (\<lambda>_.
     bindE (unlessE ((ca \<noteq> None \<or> xa \<noteq> None) \<and> (bound \<noteq> None \<or> terminal \<noteq> JNull))
       (ValidationError ''event reservation lifecycle facts conflict'')) (\<lambda>_.
     Inr (ex, cr, up, bound, ca, xa)))))))))"

definition event_from_row :: "digest_env \<Rightarrow> event_row \<Rightarrow> EventReservationRecord res" where
  "event_from_row E r =
     bindE (load_row_texts r) (\<lambda>(kind, semantic, hb, terminal, attestation).
     bindE (row_identities E r semantic) (\<lambda>(rid, producer, ikey, digest).
     bindE (row_times r terminal) (\<lambda>(ex, cr, up, bound, ca, xa).
     bindE (optional_sequence (row_hb_sequence r)) (\<lambda>sequence.
     bindE (check_stored_heartbeat E hb sequence (row_hb_fingerprint r)) (\<lambda>_.
     bindE (check_stored_terminal E kind terminal (row_fingerprint r) attestation) (\<lambda>event.
     bindE (validate_stored_attestation attestation event) (\<lambda>_.
     Inr \<lparr>er_id = rid, er_ikey = ikey, er_kind = kind, er_producer = producer,
          er_semantic = semantic, er_state = derived_state r, er_salt = row_salt r,
          er_digest = digest, er_expires_at = ex, er_bound = bound, er_heartbeat = hb,
          er_hb_sequence = sequence, er_hb_fingerprint = optional_text (row_hb_fingerprint r),
          er_terminal = terminal, er_fingerprint = optional_text (row_fingerprint r),
          er_attestation = attestation, er_cancelled_at = ca, er_expired_at = xa,
          er_created_at = cr, er_updated_at = up\<rparr>)))))))"

definition event_status_dict :: "EventReservationRecord \<Rightarrow> json" where
  "event_status_dict r = JObj
     [(''reservation_id'', JStr (er_id r)), (''idempotency_key'', opt_json JStr (er_ikey r)),
      (''kind'', JStr (kind_value (er_kind r))), (''producer_id'', JStr (er_producer r)),
      (''semantic'', er_semantic r), (''state'', JStr (reservation_state_value (er_state r))),
      (''token_fingerprint'', JStr (take 12 (er_digest r))), (''expires_at'', jnum (er_expires_at r)),
      (''bound_monitor_id'', opt_json JStr (er_bound r)), (''last_heartbeat'', er_heartbeat r),
      (''terminal_event'', er_terminal r), (''git_attestation'', er_attestation r),
      (''cancelled_at'', opt_json jnum (er_cancelled_at r)),
      (''expired_at'', opt_json jnum (er_expired_at r)), (''created_at'', jnum (er_created_at r)),
      (''updated_at'', jnum (er_updated_at r))]"

section \<open>Monitors\<close>

record monitor_row =
  mon_id :: string
  mon_ikey :: "string option"
  mon_semantic :: json
  mon_target :: json
  mon_condition :: json
  mon_state :: MonitorState
  mon_mode :: MonitorMode
  mon_idle_barrier :: bool
  mon_heuristic :: bool
  mon_expires_at :: rat
  mon_evidence :: json
  mon_witness :: "json list"
  mon_outcome :: json
  mon_activation :: json
  mon_created_at :: rat
  mon_updated_at :: rat
  mon_wake_reason :: "WakeReason option"
  mon_rearm_of :: "string option"
  mon_evaluations :: int
  mon_armed_at :: "rat option"
  mon_delivery :: json
  mon_delivery_state :: "ThreadDeliveryState option"
  mon_admission_at :: "rat option"
  mon_receipt :: json
  mon_reconciliation :: json
  mon_delivery_outcome :: json
  mon_status_seen_at :: "rat option"

record MonitorRecord = monitor_row +
  mon_guard :: "TargetGuard option"

definition is_thread_delivery :: "json \<Rightarrow> bool" where
  "is_thread_delivery d \<longleftrightarrow> is_obj d \<and> jget ''kind'' d = JStr (delivery_kind_value THREAD)"

definition monitor_from_row :: "monitor_row \<Rightarrow> MonitorRecord res" where
  "monitor_from_row r =
     bindE (if is_thread_delivery (mon_delivery r) then Inr None
            else bindE (guard_from_dict (mon_target r)) (\<lambda>g. Inr (Some g))) (\<lambda>g.
     Inr (monitor_row.extend r (MonitorRecord.fields g)))"

definition delivery_kind :: "MonitorRecord \<Rightarrow> DeliveryKind res" where
  "delivery_kind r =
     (if is_obj (mon_delivery r) then
        (case delivery_kind_of (py_str (jget ''kind'' (mon_delivery r))) of
           Some k \<Rightarrow> Inr k | None \<Rightarrow> Inl ValueError)
      else Inr GOAL)"

definition thread_delivery_state :: "MonitorRecord \<Rightarrow> ThreadDeliveryState option res" where
  "thread_delivery_state r =
     bindE (delivery_kind r) (\<lambda>k.
     Inr (if k \<noteq> THREAD then None
          else Some (case mon_delivery_state r of None \<Rightarrow> TD_UNATTEMPTED | Some s \<Rightarrow> s)))"

section \<open>The database\<close>

record ledger =
  reservations :: "event_row list"
  monitors :: "monitor_row list"

text \<open>An operation of the ledger: its result, and the tables it leaves.\<close>

type_synonym 'a ledger_op = "ledger \<Rightarrow> 'a res \<times> ledger"

text \<open>\<open>SELECT \<dots> WHERE p\<close> and \<open>fetchone\<close>, \<open>UPDATE \<dots> WHERE p\<close>, and its \<open>rowcount\<close>.\<close>

definition sql_first :: "('r \<Rightarrow> bool) \<Rightarrow> 'r list \<Rightarrow> 'r option" where
  "sql_first p rows = List.find p rows"

definition sql_update :: "('r \<Rightarrow> bool) \<Rightarrow> ('r \<Rightarrow> 'r) \<Rightarrow> 'r list \<Rightarrow> 'r list" where
  "sql_update p f rows = map (\<lambda>r. if p r then f r else r) rows"

definition sql_count :: "('r \<Rightarrow> bool) \<Rightarrow> 'r list \<Rightarrow> nat" where
  "sql_count p rows = length (filter p rows)"

text \<open>
  A transaction that raises before its COMMIT is rolled back. One that raises after it has nothing to
  roll back: the ROLLBACK fails and the lock is released a second time, which raises in turn.
\<close>

definition rolled_back :: "ledger \<Rightarrow> ('a \<times> ledger) res \<Rightarrow> 'a res \<times> ledger" where
  "rolled_back L r = (case r of Inl e \<Rightarrow> (Inl e, L) | Inr (x, L') \<Rightarrow> (Inr x, L'))"

definition after_commit :: "'a res \<Rightarrow> 'a res" where
  "after_commit r = (case r of
     Inl e \<Rightarrow> Inl (RuntimeError ''cannot release un-acquired lock'') | Inr x \<Rightarrow> Inr x)"

definition get_event_row :: "string \<Rightarrow> ledger \<Rightarrow> event_row option" where
  "get_event_row rid L = sql_first (\<lambda>r. row_id r = JStr rid) (reservations L)"

definition get_monitor_row :: "string \<Rightarrow> ledger \<Rightarrow> monitor_row option" where
  "get_monitor_row mid L = sql_first (\<lambda>r. mon_id r = mid) (monitors L)"

end
