(* ===== verification/Ledger_Events.thy ===== *)
theory Ledger_Events
  imports Ledger_Rows
begin

text \<open>
  The operations on event reservations (\<open>ledger.py\<close>, lines 785 to 1185 and the binding helpers at
  1507). Each is one SQL transaction on the two tables; the clock reading and the random salt are
  arguments. \<open>IS NULL\<close> is a column that is \<open>JNull\<close> or \<open>Absent\<close>.
\<close>

section \<open>Reading\<close>

definition get_event :: "digest_env \<Rightarrow> string \<Rightarrow> ledger \<Rightarrow> EventReservationRecord option res" where
  "get_event E rid L = (case get_event_row rid L of
     None \<Rightarrow> Inr None
   | Some r \<Rightarrow> bindE (event_from_row E r) (\<lambda>rec. Inr (Some rec)))"

definition verify_event_publish_token ::
    "digest_env \<Rightarrow> string \<Rightarrow> string \<Rightarrow> ledger \<Rightarrow> EventReservationRecord res" where
  "verify_event_publish_token E rid token L =
     bindE (get_event E rid L) (\<lambda>found. case found of
       None \<Rightarrow> raise_validation ''unknown event reservation''
     | Some rec \<Rightarrow>
         if publish_token_digest E token (er_salt rec) = er_digest rec then Inr rec
         else raise_validation ''event publish capability is invalid'')"

definition bound_rows :: "string \<Rightarrow> ledger \<Rightarrow> event_row list" where
  "bound_rows mid L = filter (\<lambda>r. row_bound r = JStr mid) (reservations L)"

definition events_for_monitor :: "digest_env \<Rightarrow> string \<Rightarrow> ledger \<Rightarrow> EventReservationRecord list res" where
  "events_for_monitor E mid L =
     bindE (map_res (event_from_row E) (bound_rows mid L)) (\<lambda>rs. Inr (sort_key er_id rs))"

section \<open>Reserving\<close>

definition fresh_row ::
    "string \<Rightarrow> string option \<Rightarrow> EventKind \<Rightarrow> string \<Rightarrow> json \<Rightarrow> string \<Rightarrow> string \<Rightarrow> rat \<Rightarrow> rat \<Rightarrow> event_row" where
  "fresh_row rid ikey kind producer semantic salt digest expires now =
     \<lparr>row_id = JStr rid, row_ikey = opt_json JStr ikey, row_kind = JStr (kind_value kind),
      row_producer = JStr producer, row_semantic = Stored (canon semantic),
      row_state = reservation_state_value RES_RESERVED, row_salt = salt, row_digest = JStr digest,
      row_expires_at = jnum expires, row_bound = JNull, row_heartbeat = Absent,
      row_hb_sequence = JNull, row_hb_fingerprint = JNull, row_terminal = Absent,
      row_fingerprint = JNull, row_attestation = Absent, row_cancelled_at = JNull,
      row_expired_at = JNull, row_created_at = jnum now, row_updated_at = jnum now\<rparr>"

definition same_reservation ::
    "EventReservationRecord \<Rightarrow> EventKind \<Rightarrow> string \<Rightarrow> json \<Rightarrow> rat \<Rightarrow> bool" where
  "same_reservation rec kind producer semantic expires \<longleftrightarrow>
     er_kind rec = kind \<and> er_producer rec = producer \<and> json_eq (er_semantic rec) semantic
     \<and> er_expires_at rec = expires"

definition reserve_event ::
    "digest_env \<Rightarrow> string \<Rightarrow> string \<Rightarrow> string option \<Rightarrow> EventKind \<Rightarrow> string \<Rightarrow> json \<Rightarrow> string \<Rightarrow> rat \<Rightarrow> rat
     \<Rightarrow> (EventReservationRecord \<times> bool) ledger_op" where
  "reserve_event E salt rid ikey kind producer semantic token expires now L =
     (let row = fresh_row rid ikey kind producer semantic salt (publish_token_digest E token salt)
                  expires now;
          insert_row =
            (if sql_count (\<lambda>r. row_id r = JStr rid) (reservations L) \<noteq> 0
             then (Inl (DatabaseError ''UNIQUE constraint failed''), L)
             else (bindE (after_commit (event_from_row E row)) (\<lambda>rec. Inr (rec, True)),
                   L\<lparr>reservations := reservations L @ [row]\<rparr>)) in
      case ikey of
        None \<Rightarrow> insert_row
      | Some k \<Rightarrow>
          (case sql_first (\<lambda>r. row_ikey r = JStr k) (reservations L) of
             None \<Rightarrow> insert_row
           | Some existing \<Rightarrow>
               (bindE (event_from_row E existing) (\<lambda>rec.
                  if same_reservation rec kind producer semantic expires then Inr (rec, False)
                  else raise_conflict ''idempotency key already belongs to an event reservation with different semantics''),
                L)))"

section \<open>Ending a reservation that nobody bound\<close>

definition unsettled :: "event_row \<Rightarrow> bool" where
  "unsettled r \<longleftrightarrow>
     row_bound r = JNull \<and> row_terminal r = Absent \<and> row_cancelled_at r = JNull
     \<and> row_expired_at r = JNull"

definition end_row :: "ReservationState \<Rightarrow> rat \<Rightarrow> event_row \<Rightarrow> event_row" where
  "end_row st now r =
     (let r' = r\<lparr>row_state := reservation_state_value st, row_updated_at := jnum now\<rparr> in
      if st = RES_EXPIRED then r'\<lparr>row_expired_at := jnum now\<rparr> else r'\<lparr>row_cancelled_at := jnum now\<rparr>)"

definition cancel_event :: "digest_env \<Rightarrow> string \<Rightarrow> rat \<Rightarrow> EventReservationRecord ledger_op" where
  "cancel_event E rid now L =
     (case get_event_row rid L of
        None \<Rightarrow> (raise_conflict ''unknown event reservation'', L)
      | Some r \<Rightarrow>
          (case event_from_row E r of
             Inl e \<Rightarrow> (Inl e, L)
           | Inr current \<Rightarrow>
               if er_state current \<in> {RES_CANCELLED, RES_EXPIRED} then (Inr current, L)
               else if er_state current \<noteq> RES_RESERVED then
                 (raise_conflict ''only an unbound live reservation can be cancelled'', L)
               else
                 let fact = (if er_expires_at current \<le> now then RES_EXPIRED else RES_CANCELLED);
                     hit = (\<lambda>r. row_id r = JStr rid \<and> unsettled r) in
                 if sql_count hit (reservations L) \<noteq> 1 then
                   (raise_conflict ''event cancellation lost its lifecycle race'', L)
                 else
                   (after_commit (event_from_row E (end_row fact now r)),
                    L\<lparr>reservations := sql_update hit (end_row fact now) (reservations L)\<rparr>)))"

text \<open>\<open>expires_at <= now\<close> in SQL: NULL and text are never at most a number.\<close>

fun sql_le :: "json \<Rightarrow> rat \<Rightarrow> bool" where
  "sql_le (JInt i) now = (of_int i \<le> now)"
| "sql_le (JFloat f) now = pf_le f (Fin now)"
| "sql_le _ now = False"

definition expired_row :: "rat \<Rightarrow> event_row \<Rightarrow> bool" where
  "expired_row now r \<longleftrightarrow> unsettled r \<and> sql_le (row_expires_at r) now"

definition expire_events :: "rat \<Rightarrow> nat ledger_op" where
  "expire_events now L =
     (Inr (sql_count (expired_row now) (reservations L)),
      L\<lparr>reservations := sql_update (expired_row now) (end_row RES_EXPIRED now) (reservations L)\<rparr>)"

section \<open>Publishing\<close>

definition authenticated_event_row :: "digest_env \<Rightarrow> string \<Rightarrow> string \<Rightarrow> ledger \<Rightarrow> event_row res" where
  "authenticated_event_row E rid token L =
     (case get_event_row rid L of
        None \<Rightarrow> raise_conflict ''unknown event reservation''
      | Some r \<Rightarrow>
          bindE (unlessE (\<not> is_ascii (py_str (row_digest r))) TypeError) (\<lambda>_.
          if py_str (row_digest r) = publish_token_digest E token (row_salt r) then Inr r
          else raise_conflict ''invalid event publish capability''))"

definition writable_monitor_states :: "MonitorState set" where
  "writable_monitor_states = {REGISTERING, DEFER_INTENT, PAUSING, ARMED}"

definition ensure_event_writable :: "EventReservationRecord \<Rightarrow> rat \<Rightarrow> ledger \<Rightarrow> unit res" where
  "ensure_event_writable rec now L =
     bindE (unlessE (er_cancelled_at rec \<noteq> None \<or> er_expired_at rec \<noteq> None)
       (ConflictError ''event reservation is no longer writable'')) (\<lambda>_.
     case er_bound rec of
       None \<Rightarrow>
         unlessE (er_expires_at rec \<le> now) (ConflictError ''unbound event reservation has expired'')
     | Some mid \<Rightarrow>
         (case get_monitor_row mid L of
            None \<Rightarrow> raise_conflict ''bound event monitor is missing''
          | Some m \<Rightarrow>
              unlessE (mon_state m \<notin> writable_monitor_states)
                (ConflictError ''bound event monitor has consumed its event window'')))"

definition heartbeat_row :: "Heartbeat \<Rightarrow> string \<Rightarrow> rat \<Rightarrow> event_row \<Rightarrow> event_row" where
  "heartbeat_row hb f now r =
     r\<lparr>row_heartbeat := Stored (canon (JObj (heartbeat_as_dict hb))),
       row_hb_sequence := JInt (hb_sequence hb), row_hb_fingerprint := JStr f,
       row_updated_at := jnum now\<rparr>"

text \<open>What a heartbeat does to the row it names: nothing (a retry), a new heartbeat, or an error.\<close>

definition heartbeat_decision ::
    "Heartbeat \<Rightarrow> string \<Rightarrow> EventReservationRecord \<Rightarrow> bool res" where
  "heartbeat_decision hb f current =
     bindE (unlessE (er_terminal current \<noteq> JNull)
       (ConflictError ''terminal event already published'')) (\<lambda>_.
     case er_hb_sequence current of
       None \<Rightarrow> Inr True
     | Some n \<Rightarrow>
         if hb_sequence hb < n then raise_conflict ''heartbeat sequence moved backwards''
         else if hb_sequence hb = n then
           (if er_hb_fingerprint current \<noteq> Some f then
              raise_conflict ''heartbeat sequence was reused with different evidence''
            else Inr False)
         else Inr True)"

definition publish_event_heartbeat ::
    "digest_env \<Rightarrow> string \<Rightarrow> string \<Rightarrow> json \<Rightarrow> rat \<Rightarrow> EventReservationRecord ledger_op" where
  "publish_event_heartbeat E rid token heartbeat now L =
     (case bindE (normalize_heartbeat E heartbeat (jnum now)) (\<lambda>hb.
           bindE (authenticated_event_row E rid token L) (\<lambda>r.
           bindE (event_from_row E r) (\<lambda>current.
           bindE (ensure_event_writable current now L) (\<lambda>_.
           bindE (heartbeat_fingerprint E hb) (\<lambda>f.
           bindE (heartbeat_decision hb f current) (\<lambda>fresh. Inr (hb, f, r, current, fresh))))))) of
        Inl e \<Rightarrow> (Inl e, L)
      | Inr (hb, f, r, current, fresh) \<Rightarrow>
          if \<not> fresh then (Inr current, L)
          else
            (after_commit (event_from_row E (heartbeat_row hb f now r)),
             L\<lparr>reservations := sql_update (\<lambda>r. row_id r = JStr rid) (heartbeat_row hb f now)
                               (reservations L)\<rparr>))"

definition terminal_row :: "TerminalEvent \<Rightarrow> string \<Rightarrow> json \<Rightarrow> rat \<Rightarrow> event_row \<Rightarrow> event_row" where
  "terminal_row ev f attestation now r =
     r\<lparr>row_state := reservation_state_value RES_TERMINAL,
       row_terminal := Stored (canon (event_as_dict ev)), row_fingerprint := JStr f,
       row_attestation := (if attestation = JNull then Absent else Stored (canon attestation)),
       row_updated_at := jnum now\<rparr>"

text \<open>The new row is decoded before the COMMIT: an attestation that does not validate is rolled back.\<close>

definition publish_terminal_event ::
    "digest_env \<Rightarrow> string \<Rightarrow> string \<Rightarrow> event_input \<Rightarrow> json \<Rightarrow> rat \<Rightarrow> EventReservationRecord ledger_op" where
  "publish_terminal_event E rid token event attestation now L =
     rolled_back L
       (bindE (authenticated_event_row E rid token L) (\<lambda>r.
        bindE (event_from_row E r) (\<lambda>current.
        bindE (normalize_terminal_event E event (Some (er_kind current)) (jnum now)) (\<lambda>ev.
        bindE (event_fingerprint E ev) (\<lambda>f.
        if er_terminal current \<noteq> JNull then
          (if er_fingerprint current \<noteq> Some f then
             raise_conflict ''terminal event is immutable after first publication''
           else Inr (current, L))
        else
          bindE (ensure_event_writable current now L) (\<lambda>_.
          bindE (event_from_row E (if row_terminal r = Absent then terminal_row ev f attestation now r
                                   else r)) (\<lambda>persisted.
          Inr (persisted,
               L\<lparr>reservations :=
                   sql_update (\<lambda>r. row_id r = JStr rid \<and> row_terminal r = Absent)
                     (terminal_row ev f attestation now) (reservations L)\<rparr>))))))))"

section \<open>Binding reservations to a monitor\<close>

definition bound_event_bindings :: "digest_env \<Rightarrow> string \<Rightarrow> ledger \<Rightarrow> (string \<times> string) list res" where
  "bound_event_bindings E mid L =
     bindE (map_res (event_from_row E) (bound_rows mid L)) (\<lambda>rs.
     Inr (sort_key fst (map (\<lambda>rec. (er_id rec, kind_value (er_kind rec))) rs)))"

definition bound_row :: "string \<Rightarrow> ReservationState \<Rightarrow> rat \<Rightarrow> event_row \<Rightarrow> event_row" where
  "bound_row mid st now r =
     r\<lparr>row_bound := JStr mid, row_state := reservation_state_value st, row_updated_at := jnum now\<rparr>"

definition bind_event :: "digest_env \<Rightarrow> string \<Rightarrow> rat \<Rightarrow> string \<times> string \<Rightarrow> ledger \<Rightarrow> ledger res" where
  "bind_event E mid now binding L =
     (case get_event_row (fst binding) L of
        None \<Rightarrow> raise_conflict ''unknown event reservation''
      | Some r \<Rightarrow>
          bindE (event_from_row E r) (\<lambda>event.
          bindE (unlessE (kind_value (er_kind event) \<noteq> snd binding)
            (ConflictError ''event reservation kind does not match condition'')) (\<lambda>_.
          if er_bound event = Some mid then Inr L
          else
            bindE (unlessE (er_bound event \<noteq> None)
              (ConflictError ''event reservation is already bound to another monitor'')) (\<lambda>_.
            bindE (unlessE (er_cancelled_at event \<noteq> None \<or> er_expired_at event \<noteq> None)
              (ConflictError ''event reservation cannot be bound in its terminal state'')) (\<lambda>_.
            bindE (unlessE (er_expires_at event \<le> now)
              (ConflictError ''event reservation bind deadline has expired'')) (\<lambda>_.
            let st = (if er_terminal event \<noteq> JNull then RES_TERMINAL else RES_BOUND);
                hit = (\<lambda>r. row_id r = JStr (fst binding) \<and> row_bound r = JNull) in
            bindE (unlessE (sql_count hit (reservations L) \<noteq> 1)
              (ConflictError ''event reservation binding lost its lifecycle race'')) (\<lambda>_.
            Inr (L\<lparr>reservations := sql_update hit (bound_row mid st now) (reservations L)\<rparr>))))))))"

fun bind_events :: "digest_env \<Rightarrow> string \<Rightarrow> rat \<Rightarrow> (string \<times> string) list \<Rightarrow> ledger \<Rightarrow> ledger res" where
  "bind_events E mid now [] L = Inr L"
| "bind_events E mid now (b # bs) L = bindE (bind_event E mid now b L) (bind_events E mid now bs)"

end
