(* ===== verification/Ledger_Monitors.thy ===== *)
theory Ledger_Monitors
  imports Ledger_Events
begin

text \<open>
  The operations on monitors (\<open>ledger.py\<close>, lines 785 to 863 and 1187 to 2093). Every write is a
  compare-and-set: an UPDATE whose WHERE clause names the states it may leave. Clock readings are
  arguments; where the source reads the clock twice (the outcome's \<open>at\<close>, then \<open>updated_at\<close>) there are
  two.
\<close>

section \<open>Reading\<close>

definition get_monitor :: "string \<Rightarrow> ledger \<Rightarrow> MonitorRecord option res" where
  "get_monitor mid L = (case get_monitor_row mid L of
     None \<Rightarrow> Inr None
   | Some r \<Rightarrow> bindE (monitor_from_row r) (\<lambda>rec. Inr (Some rec)))"

definition get_by_idempotency_key :: "string \<Rightarrow> ledger \<Rightarrow> MonitorRecord option res" where
  "get_by_idempotency_key key L = (case sql_first (\<lambda>r. mon_ikey r = Some key) (monitors L) of
     None \<Rightarrow> Inr None
   | Some r \<Rightarrow> bindE (monitor_from_row r) (\<lambda>rec. Inr (Some rec)))"

definition list_monitors :: "bool \<Rightarrow> ledger \<Rightarrow> MonitorRecord list res" where
  "list_monitors include_terminal L =
     map_res monitor_from_row
       (sort_key mon_created_at
         (filter (\<lambda>r. include_terminal \<or> \<not> is_terminal (mon_state r)) (monitors L)))"

definition event_capability_required :: "ledger \<Rightarrow> bool res" where
  "event_capability_required L =
     foldE (\<lambda>m found.
       if found \<or> is_terminal (mon_state m) then Inr found
       else if bound_rows (mon_id m) L \<noteq> [] then Inr True
       else if \<not> is_obj (mon_condition m) then Inr True
       else contains_event_condition (mon_condition m)) (monitors L) False"

definition delivery_capability_required :: "ledger \<Rightarrow> bool res" where
  "delivery_capability_required L =
     bindE (list_monitors False L) (\<lambda>rs.
     foldE (\<lambda>rec found. if found then Inr True
                        else bindE (delivery_kind rec) (\<lambda>k. Inr (k = THREAD))) rs False)"

section \<open>Compare-and-set\<close>

text \<open>The SELECT, COMMIT and decoding that follow an UPDATE whose \<open>rowcount\<close> is one.\<close>

definition read_back :: "string \<Rightarrow> ledger \<Rightarrow> MonitorRecord option res" where
  "read_back mid L =
     after_commit (case get_monitor_row mid L of
       None \<Rightarrow> Inl (RuntimeError ''assertion failed'')
     | Some r \<Rightarrow> bindE (monitor_from_row r) (\<lambda>rec. Inr (Some rec)))"

definition update_monitor ::
    "string \<Rightarrow> (monitor_row \<Rightarrow> bool) \<Rightarrow> (monitor_row \<Rightarrow> monitor_row) \<Rightarrow> MonitorRecord option ledger_op" where
  "update_monitor mid guard f L =
     (let hit = (\<lambda>r. mon_id r = mid \<and> guard r);
          L' = L\<lparr>monitors := sql_update hit f (monitors L)\<rparr> in
      if sql_count hit (monitors L) \<noteq> 1 then (Inr None, L') else (read_back mid L', L'))"

record updates =
  up_outcome :: "json option"
  up_evidence :: "json option"
  up_witness :: "json list option"
  up_condition :: "json option"
  up_activation :: "json option"
  up_wake_reason :: "WakeReason option"
  up_armed :: bool
  up_evaluated :: bool

definition no_updates :: updates where
  "no_updates = \<lparr>up_outcome = None, up_evidence = None, up_witness = None, up_condition = None,
     up_activation = None, up_wake_reason = None, up_armed = False, up_evaluated = False\<rparr>"

text \<open>A column that is assigned only when the argument is given.\<close>

definition assigned :: "json option \<Rightarrow> json \<Rightarrow> json" where
  "assigned new old = (case new of None \<Rightarrow> old | Some v \<Rightarrow> canon v)"

definition transition_row :: "MonitorState \<Rightarrow> updates \<Rightarrow> rat \<Rightarrow> monitor_row \<Rightarrow> monitor_row" where
  "transition_row st u now r =
     r\<lparr>mon_state := st, mon_updated_at := now,
       mon_wake_reason := (case up_wake_reason u of None \<Rightarrow> mon_wake_reason r | Some w \<Rightarrow> Some w),
       mon_armed_at := (if up_armed u then Some now else mon_armed_at r),
       mon_evaluations := (if up_evaluated u then mon_evaluations r + 1 else mon_evaluations r),
       mon_outcome := assigned (up_outcome u) (mon_outcome r),
       mon_evidence := assigned (up_evidence u) (mon_evidence r),
       mon_witness := (case up_witness u of None \<Rightarrow> mon_witness r | Some ws \<Rightarrow> map canon ws),
       mon_condition := assigned (up_condition u) (mon_condition r),
       mon_activation := assigned (up_activation u) (mon_activation r)\<rparr>"

definition transition ::
    "string \<Rightarrow> MonitorState list \<Rightarrow> MonitorState \<Rightarrow> updates \<Rightarrow> rat \<Rightarrow> MonitorRecord option ledger_op" where
  "transition mid expected st u now L =
     (if expected = [] then (Inl ValueError, L)
      else update_monitor mid (\<lambda>r. mon_state r \<in> set expected) (transition_row st u now) L)"

section \<open>Arming, claiming, activating\<close>

definition update_evaluation ::
    "string \<Rightarrow> json \<Rightarrow> json \<Rightarrow> json list \<Rightarrow> rat \<Rightarrow> MonitorRecord option ledger_op" where
  "update_evaluation mid condition evidence witness now =
     transition mid [ARMED] ARMED
       (no_updates\<lparr>up_condition := Some condition, up_evidence := Some evidence,
          up_witness := Some witness, up_evaluated := True\<rparr>) now"

definition arm :: "string \<Rightarrow> rat \<Rightarrow> MonitorRecord option ledger_op" where
  "arm mid now = transition mid [REGISTERING] ARMED (no_updates\<lparr>up_armed := True\<rparr>) now"

definition begin_pause :: "string \<Rightarrow> json \<Rightarrow> rat \<Rightarrow> rat \<Rightarrow> MonitorRecord option ledger_op" where
  "begin_pause mid pre_pause t0 now =
     transition mid [DEFER_INTENT] PAUSING
       (no_updates\<lparr>up_outcome := Some (JObj [(''kind'', JStr ''pause_attempt_recorded''),
          (''pre_pause'', pre_pause), (''at'', jnum t0)])\<rparr>) now"

definition arm_deferred :: "string \<Rightarrow> json \<Rightarrow> rat \<Rightarrow> rat \<Rightarrow> MonitorRecord option ledger_op" where
  "arm_deferred mid confirmation t0 now =
     transition mid [PAUSING] ARMED
       (no_updates\<lparr>up_armed := True,
          up_outcome := Some (JObj [(''kind'', JStr ''pause_confirmed''),
            (''confirmation'', confirmation), (''at'', jnum t0)])\<rparr>) now"

definition arm_paused_deferred :: "string \<Rightarrow> json \<Rightarrow> rat \<Rightarrow> rat \<Rightarrow> MonitorRecord option ledger_op" where
  "arm_paused_deferred mid confirmation t0 now =
     transition mid [DEFER_INTENT] ARMED
       (no_updates\<lparr>up_armed := True,
          up_outcome := Some (JObj [(''kind'', JStr ''paused_guard_confirmed''),
            (''confirmation'', confirmation), (''at'', jnum t0)])\<rparr>) now"

definition trigger_claimed :: "WakeReason option \<Rightarrow> rat \<Rightarrow> json" where
  "trigger_claimed reason t0 = JObj
     [(''kind'', JStr ''trigger_claimed''),
      (''wake_reason'', opt_json (\<lambda>w. JStr (wake_reason_value w)) reason), (''at'', jnum t0)]"

definition claim ::
    "string \<Rightarrow> json \<Rightarrow> json \<Rightarrow> json list \<Rightarrow> WakeReason option \<Rightarrow> rat \<Rightarrow> rat
     \<Rightarrow> MonitorRecord option ledger_op" where
  "claim mid condition evidence witness reason t0 now =
     transition mid [ARMED] CLAIMED
       (no_updates\<lparr>up_condition := Some condition, up_evidence := Some evidence,
          up_witness := Some witness, up_wake_reason := reason,
          up_outcome := Some (trigger_claimed reason t0)\<rparr>) now"

definition begin_activation :: "string \<Rightarrow> json \<Rightarrow> rat \<Rightarrow> rat \<Rightarrow> MonitorRecord option ledger_op" where
  "begin_activation mid snapshot t0 now =
     transition mid [CLAIMED] ACTIVATING
       (no_updates\<lparr>up_activation := Some snapshot,
          up_outcome := Some (JObj [(''kind'', JStr ''activation_attempt_recorded''),
            (''at'', jnum t0)])\<rparr>) now"

text \<open>The four recoveries: one UPDATE of every row in the given state.\<close>

definition recover_row :: "MonitorState \<Rightarrow> string \<Rightarrow> rat \<Rightarrow> rat \<Rightarrow> monitor_row \<Rightarrow> monitor_row" where
  "recover_row st kind t0 now r =
     r\<lparr>mon_state := st, mon_updated_at := now,
       mon_outcome := canon (JObj [(''kind'', JStr kind), (''at'', jnum t0)])\<rparr>"

definition recover :: "MonitorState \<Rightarrow> MonitorState \<Rightarrow> string \<Rightarrow> rat \<Rightarrow> rat \<Rightarrow> nat ledger_op" where
  "recover old st kind t0 now L =
     (Inr (sql_count (\<lambda>r. mon_state r = old) (monitors L)),
      L\<lparr>monitors := sql_update (\<lambda>r. mon_state r = old) (recover_row st kind t0 now) (monitors L)\<rparr>)"

definition recover_activating :: "rat \<Rightarrow> rat \<Rightarrow> nat ledger_op" where
  "recover_activating = recover ACTIVATING ACTIVATION_UNCERTAIN ''activation_uncertain_after_restart''"

definition recover_registering :: "rat \<Rightarrow> rat \<Rightarrow> nat ledger_op" where
  "recover_registering = recover REGISTERING SUPERSEDED ''registration_interrupted_by_restart''"

definition recover_defer_intent :: "rat \<Rightarrow> rat \<Rightarrow> nat ledger_op" where
  "recover_defer_intent = recover DEFER_INTENT DEFER_ABANDONED ''defer_intent_abandoned_after_restart''"

definition recover_pausing :: "rat \<Rightarrow> rat \<Rightarrow> nat ledger_op" where
  "recover_pausing = recover PAUSING PAUSE_UNCERTAIN ''pause_uncertain_after_restart''"

section \<open>Thread delivery\<close>

definition delivery_row ::
    "MonitorState \<Rightarrow> ThreadDeliveryState \<Rightarrow> json option \<Rightarrow> json option \<Rightarrow> json option \<Rightarrow> rat
     \<Rightarrow> monitor_row \<Rightarrow> monitor_row" where
  "delivery_row st ds receipt reconciliation outcome now r =
     r\<lparr>mon_state := st, mon_delivery_state := Some ds, mon_updated_at := now,
       mon_receipt := assigned receipt (mon_receipt r),
       mon_reconciliation := assigned reconciliation (mon_reconciliation r),
       mon_delivery_outcome := assigned outcome (mon_delivery_outcome r),
       mon_outcome := assigned outcome (mon_outcome r)\<rparr>"

definition update_thread_delivery ::
    "string \<Rightarrow> MonitorState list \<Rightarrow> MonitorState \<Rightarrow> ThreadDeliveryState \<Rightarrow> json option \<Rightarrow> json option
     \<Rightarrow> json option \<Rightarrow> rat \<Rightarrow> MonitorRecord option ledger_op" where
  "update_thread_delivery mid expected st ds receipt reconciliation outcome now L =
     (if expected = [] then (Inl ValueError, L)
      else update_monitor mid (\<lambda>r. mon_state r \<in> set expected \<and> mon_delivery r \<noteq> JNull)
             (delivery_row st ds receipt reconciliation outcome now) L)"

definition record_thread_queue_ack :: "string \<Rightarrow> json \<Rightarrow> rat \<Rightarrow> MonitorRecord option ledger_op" where
  "record_thread_queue_ack mid receipt now =
     update_thread_delivery mid [ADMISSION_IN_PROGRESS] QUEUE_ACCEPTED TD_QUEUE_ACCEPTED
       (Some receipt) None None now"

definition begin_thread_cancellation :: "string \<Rightarrow> json \<Rightarrow> rat \<Rightarrow> MonitorRecord option ledger_op" where
  "begin_thread_cancellation mid reconciliation now =
     update_thread_delivery mid [CANCEL_REQUESTED] CANCELLATION_IN_PROGRESS
       TD_CANCELLATION_IN_PROGRESS None (Some reconciliation) None now"

definition admission_row :: "json \<Rightarrow> rat \<Rightarrow> monitor_row \<Rightarrow> monitor_row" where
  "admission_row delivery now r =
     r\<lparr>mon_state := ADMISSION_IN_PROGRESS, mon_delivery := canon delivery,
       mon_delivery_state := Some TD_ADMISSION_IN_PROGRESS, mon_admission_at := Some now,
       mon_updated_at := now\<rparr>"

text \<open>Consume the sole queue-add attempt of a claimed thread delivery.\<close>

definition begin_thread_admission :: "string \<Rightarrow> json \<Rightarrow> rat \<Rightarrow> MonitorRecord option ledger_op" where
  "begin_thread_admission mid capability now L =
     (case get_monitor_row mid L of
        None \<Rightarrow> (Inr None, L)
      | Some r \<Rightarrow>
          (case bindE (monitor_from_row r) (\<lambda>rec.
                bindE (delivery_kind rec) (\<lambda>k.
                bindE (thread_delivery_state rec) (\<lambda>ds.
                Inr (mon_state rec = CLAIMED \<and> k = THREAD \<and> ds = Some TD_UNATTEMPTED
                     \<and> mon_admission_at rec = None)))) of
             Inl e \<Rightarrow> (Inl e, L)
           | Inr admissible \<Rightarrow>
               if \<not> admissible then (Inr None, L)
               else
                 let L' = L\<lparr>monitors := sql_update
                       (\<lambda>r. mon_id r = mid \<and> mon_state r = CLAIMED \<and> mon_admission_at r = None)
                       (admission_row (jset ''capability_at_admission'' capability (mon_delivery r)) now)
                       (monitors L)\<rparr> in
                 (read_back mid L', L')))"

definition record_target_status_observed :: "string \<Rightarrow> string \<Rightarrow> rat \<Rightarrow> MonitorRecord option ledger_op" where
  "record_target_status_observed mid thread now L =
     (case get_monitor_row mid L of
        None \<Rightarrow> (Inr None, L)
      | Some r \<Rightarrow>
          (case bindE (monitor_from_row r) (\<lambda>rec. bindE (delivery_kind rec) (\<lambda>k. Inr (rec, k))) of
             Inl e \<Rightarrow> (Inl e, L)
           | Inr (rec, k) \<Rightarrow>
               if k \<noteq> THREAD \<or> jget ''thread_id'' (mon_delivery rec) \<noteq> JStr thread
                  \<or> mon_receipt rec = JNull then (Inr (Some rec), L)
               else if mon_status_seen_at rec \<noteq> None then (Inr (Some rec), L)
               else
                 let L' = L\<lparr>monitors := sql_update (\<lambda>r. mon_id r = mid)
                       (\<lambda>r. r\<lparr>mon_status_seen_at := Some now, mon_updated_at := now\<rparr>) (monitors L)\<rparr> in
                 (read_back mid L', L')))"

text \<open>
  \<open>cancel\<close> reads the row in one transaction and writes it in another; \<open>current\<close> is what it read,
  which may be stale when it writes.
\<close>

definition cancel_from :: "MonitorRecord option \<Rightarrow> string \<Rightarrow> rat \<Rightarrow> rat \<Rightarrow> MonitorRecord option ledger_op" where
  "cancel_from current mid t0 now L =
     (let plain = transition mid [REGISTERING, DEFER_INTENT, ARMED, CLAIMED] CANCELLED
            (no_updates\<lparr>up_outcome := Some (JObj [(''kind'', JStr ''cancelled''), (''at'', jnum t0)])\<rparr>)
            now L in
      case current of
        None \<Rightarrow> plain
      | Some rec \<Rightarrow>
          (case delivery_kind rec of
             Inl e \<Rightarrow> (Inl e, L)
           | Inr k \<Rightarrow>
               if k = THREAD \<and> mon_state rec \<in> {ADMISSION_IN_PROGRESS, QUEUE_ACCEPTED} then
                 update_thread_delivery mid [mon_state rec] CANCEL_REQUESTED TD_CANCEL_REQUESTED None
                   None (Some (JObj [(''kind'', JStr ''cancellation_requested''), (''at'', jnum t0)]))
                   now L
               else plain))"

definition cancel :: "string \<Rightarrow> rat \<Rightarrow> rat \<Rightarrow> MonitorRecord option ledger_op" where
  "cancel mid t0 now L =
     (case get_monitor mid L of
        Inl e \<Rightarrow> (Inl e, L)
      | Inr current \<Rightarrow> cancel_from current mid t0 now L)"

end
