(* ===== verification/Ledger_Claims.thy ===== *)
theory Ledger_Claims
  imports Ledger_Monitors
begin

text \<open>
  Registration and the event claim (\<open>ledger.py\<close>, lines 1246 to 1358 and 1565 to 1777): the two
  transactions that touch both tables. \<open>decide_claim\<close> is the decision of an evaluation, which the
  observer path of the service takes as well.
\<close>

section \<open>Registering a monitor\<close>

record registration =
  reg_id :: string
  reg_ikey :: "string option"
  reg_semantic :: json
  reg_target :: "TargetGuard option"
  reg_condition :: json
  reg_heuristic :: bool
  reg_expires_at :: rat
  reg_delivery :: json
  reg_mode :: MonitorMode
  reg_idle_barrier :: bool
  reg_state :: MonitorState
  reg_rearm_of :: "string option"
  reg_bindings :: "(string \<times> string) list"

text \<open>The stored target; a goal guard and a thread delivery exclude each other.\<close>

definition stored_target :: "registration \<Rightarrow> json res" where
  "stored_target g = (case reg_target g of
     None \<Rightarrow>
       if \<not> is_thread_delivery (reg_delivery g) then
         raise_conflict ''a monitor without a goal guard must be ThreadDelivery''
       else Inr (canon (JObj [(''thread_id'', jget ''thread_id'' (reg_delivery g))]))
   | Some t \<Rightarrow>
       if reg_delivery g \<noteq> JNull then raise_conflict ''a monitor must select exactly one delivery kind''
       else Inr (canon (guard_as_dict t)))"

definition registered_row :: "registration \<Rightarrow> json \<Rightarrow> rat \<Rightarrow> monitor_row" where
  "registered_row g target now =
     \<lparr>mon_id = reg_id g, mon_ikey = reg_ikey g, mon_semantic = canon (reg_semantic g),
      mon_target = target, mon_condition = canon (reg_condition g), mon_state = reg_state g,
      mon_mode = reg_mode g, mon_idle_barrier = reg_idle_barrier g, mon_heuristic = reg_heuristic g,
      mon_expires_at = reg_expires_at g, mon_evidence = JObj [], mon_witness = [], mon_outcome = JNull,
      mon_activation = JNull, mon_created_at = now, mon_updated_at = now, mon_wake_reason = None,
      mon_rearm_of = reg_rearm_of g, mon_evaluations = 0, mon_armed_at = None,
      mon_delivery = canon (reg_delivery g),
      mon_delivery_state = (if is_thread_delivery (reg_delivery g) then Some TD_UNATTEMPTED else None),
      mon_admission_at = None, mon_receipt = JNull, mon_reconciliation = JNull,
      mon_delivery_outcome = JNull, mon_status_seen_at = None\<rparr>"

text \<open>A keyed replay: the stored monitor, if it is the same registration with the same bindings.\<close>

definition replay :: "digest_env \<Rightarrow> registration \<Rightarrow> (string \<times> string) list \<Rightarrow> monitor_row \<Rightarrow> ledger \<Rightarrow> MonitorRecord res" where
  "replay E g bindings row L =
     bindE (monitor_from_row row) (\<lambda>existing.
     bindE (unlessE (mon_mode existing \<noteq> reg_mode g
                     \<or> \<not> json_eq (mon_semantic existing) (reg_semantic g))
       (ConflictError ''idempotency key already belongs to a monitor with different semantics'')) (\<lambda>_.
     bindE (event_condition_bindings (mon_condition existing)) (\<lambda>stored.
     bindE (unlessE (stored \<noteq> bindings)
       (ConflictError ''idempotent replay requires the exact event binding set'')) (\<lambda>_.
     bindE (bound_event_bindings E (mon_id existing) L) (\<lambda>actual.
     bindE (unlessE (actual \<noteq> bindings)
       (ConflictError ''idempotent replay requires the exact event binding set'')) (\<lambda>_.
     Inr existing))))))"

definition insert_monitor :: "digest_env \<Rightarrow> registration \<Rightarrow> (string \<times> string) list \<Rightarrow> rat \<Rightarrow> ledger \<Rightarrow> ledger res" where
  "insert_monitor E g bindings now L =
     bindE (stored_target g) (\<lambda>target.
     bindE (unlessE (sql_count (\<lambda>r. mon_id r = reg_id g) (monitors L) \<noteq> 0)
       (DatabaseError ''UNIQUE constraint failed'')) (\<lambda>_.
     bind_events E (reg_id g) now bindings
       (L\<lparr>monitors := monitors L @ [registered_row g target now]\<rparr>)))"

definition create_or_get :: "digest_env \<Rightarrow> registration \<Rightarrow> rat \<Rightarrow> (MonitorRecord \<times> bool) ledger_op" where
  "create_or_get E g now L =
     (case event_condition_bindings (reg_condition g) of
        Inl e \<Rightarrow> (Inl e, L)
      | Inr bindings \<Rightarrow>
          if reg_bindings g \<noteq> bindings then
            (raise_conflict ''monitor condition and exact event binding set must match'', L)
          else
            (case (case reg_ikey g of
                     None \<Rightarrow> None | Some k \<Rightarrow> sql_first (\<lambda>r. mon_ikey r = Some k) (monitors L)) of
               Some row \<Rightarrow> (bindE (replay E g bindings row L) (\<lambda>rec. Inr (rec, False)), L)
             | None \<Rightarrow>
                 (case insert_monitor E g bindings now L of
                    Inl e \<Rightarrow> (Inl e, L)
                  | Inr L' \<Rightarrow>
                      (bindE (read_back (reg_id g) L') (\<lambda>found. case found of
                         None \<Rightarrow> Inl (RuntimeError ''assertion failed'') | Some rec \<Rightarrow> Inr (rec, True)),
                       L'))))"

section \<open>Deciding a claim\<close>

text \<open>
  What an evaluation makes of an armed monitor: a claim with its reason, a terminal state for a
  legacy goal monitor, or nothing. \<open>waking\<close> is a deferred monitor or a thread delivery.
\<close>

datatype claim_decision =
    StayArmed
  | Claimed "WakeReason option"
  | ObserverFailed
  | Expired

definition decide_claim :: "MonitorRecord \<Rightarrow> bool \<Rightarrow> Evaluation \<Rightarrow> rat \<Rightarrow> claim_decision" where
  "decide_claim rec thread ev now =
     (let waking = (mon_mode rec = DEFERRED \<or> thread) in
      if ev_value ev = TRUE then
        Claimed (Some (if thread \<or> witness_authorizes_continuation (ev_witness ev) (mon_heuristic rec)
                       then CONDITION else UNAUTHORIZED_EVIDENCE))
      else if ev_fatal ev then
        (if waking then Claimed (Some WAKE_OBSERVER_FAILED) else ObserverFailed)
      else if mon_expires_at rec \<le> now then (if waking then Claimed (Some WAKE_EXPIRED) else Expired)
      else StayArmed)"

fun decision_state :: "claim_decision \<Rightarrow> MonitorState" where
  "decision_state StayArmed = ARMED"
| "decision_state (Claimed _) = CLAIMED"
| "decision_state ObserverFailed = OBSERVER_FAILED"
| "decision_state Expired = EXPIRED"

fun decision_reason :: "claim_decision \<Rightarrow> WakeReason option \<Rightarrow> WakeReason option" where
  "decision_reason (Claimed w) old = w"
| "decision_reason _ old = old"

fun decision_outcome :: "claim_decision \<Rightarrow> rat \<Rightarrow> json \<Rightarrow> json" where
  "decision_outcome StayArmed t0 old = old"
| "decision_outcome (Claimed w) t0 old = canon (trigger_claimed w t0)"
| "decision_outcome ObserverFailed t0 old =
     canon (JObj [(''kind'', JStr ''observer_identity_failed''), (''at'', jnum t0)])"
| "decision_outcome Expired t0 old = canon (JObj [(''kind'', JStr ''expired''), (''at'', jnum t0)])"

section \<open>The snapshot of the bound reservations\<close>

text \<open>\<open>str(exc)\<close>, up to the interpolated parts; the text of the other exceptions is their name.\<close>

fun error_text :: "py_error \<Rightarrow> string" where
  "error_text (ValidationError m) = m"
| "error_text (ConflictError m) = m"
| "error_text (OSError m) = m"
| "error_text (RuntimeError m) = m"
| "error_text (DatabaseError m) = m"
| "error_text KeyError = ''KeyError''"
| "error_text TypeError = ''TypeError''"
| "error_text ValueError = ''ValueError''"
| "error_text OverflowError = ''OverflowError''"
| "error_text RegexError = ''error''"

record snapshot =
  snap_error :: "(string \<times> string) option"
  snap_statuses :: json
  snap_expected :: "(string \<times> string) list"
  snap_actual :: "(string \<times> string) list"

definition text_bindings :: "event_row list \<Rightarrow> (string \<times> string) list" where
  "text_bindings rows =
     sort_key fst (concat (map (\<lambda>r. case (row_id r, row_kind r) of
        (JStr i, JStr k) \<Rightarrow> [(i, k)] | _ \<Rightarrow> []) rows))"

definition decoded_snapshot :: "(string \<times> string) list \<Rightarrow> (string \<times> string) list \<Rightarrow> EventReservationRecord list \<Rightarrow> snapshot" where
  "decoded_snapshot raw expected events =
     (let statuses = foldl (\<lambda>d e. aset (er_id e) (event_status_dict e) d) [] events;
          actual = sort_key fst (map (\<lambda>e. (er_id e, kind_value (er_kind e))) events);
          ids = (\<lambda>bs. fst ` set bs);
          result = (\<lambda>err act. \<lparr>snap_error = err, snap_statuses = JObj statuses,
                                snap_expected = expected, snap_actual = act\<rparr>) in
      if length statuses \<noteq> length events then
        result (Some (''duplicate_bound_reservation'', ''bound event reservation identity is duplicated'')) raw
      else if \<not> ids expected \<subseteq> ids actual then
        result (Some (''missing_bound_reservation'', ''bound event reservation is missing'')) actual
      else if \<not> ids actual \<subseteq> ids expected then
        result (Some (''extra_bound_reservation'', ''unexpected bound event reservation'')) actual
      else if actual \<noteq> expected then
        result (Some (''reservation_kind_mismatch'', ''bound event reservation kind differs'')) actual
      else result None actual)"

text \<open>\<open>except ValidationError\<close>: the contract of the condition is broken; other errors propagate.\<close>

definition event_snapshot :: "digest_env \<Rightarrow> json \<Rightarrow> json \<Rightarrow> event_row list \<Rightarrow> snapshot res" where
  "event_snapshot E stored observed rows =
     (let raw = text_bindings rows;
          failed = (\<lambda>kind msg expected. \<lparr>snap_error = Some (kind, msg), snap_statuses = JObj [],
                      snap_expected = expected, snap_actual = raw\<rparr>) in
      case bindE (event_condition_bindings stored) (\<lambda>a.
           bindE (event_condition_bindings observed) (\<lambda>b. Inr (a, b))) of
        Inl (ValidationError m) \<Rightarrow> Inr (failed ''invalid_event_condition_contract'' m [])
      | Inl e \<Rightarrow> Inl e
      | Inr (expected, seen) \<Rightarrow>
          if seen \<noteq> expected then
            Inr (failed ''reservation_identity_mismatch''
                   ''observed event binding set differs from stored condition'' expected)
          else
            (case map_res (event_from_row E) rows of
               Inl e \<Rightarrow> Inr (failed ''corrupt_bound_reservation'' (error_text e) expected)
             | Inr events \<Rightarrow> Inr (decoded_snapshot raw expected events)))"

section \<open>Evaluating and claiming an event monitor\<close>

definition snapshot_failure :: "snapshot \<Rightarrow> string \<times> string \<Rightarrow> Evaluation" where
  "snapshot_failure s err =
     mk_eval UNKNOWN (JObj
       [(''type'', JStr ''event_reservation''), (''kind'', JStr (fst err)), (''error'', JStr (snd err)),
        (''expected_reservation_ids'', JList (map (JStr \<circ> fst) (snap_expected s))),
        (''observed_reservation_ids'', JList (map (JStr \<circ> fst) (snap_actual s)))]) [] True"

definition contract_failure :: "string \<Rightarrow> Evaluation" where
  "contract_failure msg =
     mk_eval UNKNOWN (JObj
       [(''type'', JStr ''event_condition''), (''kind'', JStr ''invalid_event_condition_contract''),
        (''error'', JStr msg)]) [] True"

definition event_evaluation :: "snapshot \<Rightarrow> string option \<Rightarrow> json \<Rightarrow> path_evals \<Rightarrow> rat \<Rightarrow> Evaluation res" where
  "event_evaluation s contract condition external now =
     (case snap_error s of
        Some err \<Rightarrow> Inr (snapshot_failure s err)
      | None \<Rightarrow>
          (case contract of
             Some msg \<Rightarrow> Inr (contract_failure msg)
           | None \<Rightarrow> evaluate_event_condition_tree condition (snap_statuses s) now (Some external) []))"

definition evaluated_row :: "json \<Rightarrow> Evaluation \<Rightarrow> claim_decision \<Rightarrow> rat \<Rightarrow> monitor_row \<Rightarrow> monitor_row" where
  "evaluated_row condition ev d now r =
     r\<lparr>mon_condition := canon condition, mon_evidence := canon (ev_evidence ev),
       mon_witness := map canon (ev_witness ev), mon_state := decision_state d,
       mon_wake_reason := decision_reason d (mon_wake_reason r),
       mon_outcome := decision_outcome d now (mon_outcome r),
       mon_evaluations := mon_evaluations r + 1, mon_updated_at := now\<rparr>"

definition evaluate_and_claim_event_monitor ::
    "digest_env \<Rightarrow> string \<Rightarrow> int \<Rightarrow> json \<Rightarrow> path_evals \<Rightarrow> string option \<Rightarrow> rat \<Rightarrow> MonitorRecord option ledger_op" where
  "evaluate_and_claim_event_monitor E mid expected_count observed external contract now L =
     (case get_monitor_row mid L of
        None \<Rightarrow> (Inr None, L)
      | Some r \<Rightarrow>
          (case monitor_from_row r of
             Inl e \<Rightarrow> (Inl e, L)
           | Inr current \<Rightarrow>
               if mon_state current \<noteq> ARMED \<or> mon_evaluations current \<noteq> expected_count then (Inr None, L)
               else
                 (case bindE (event_snapshot E (mon_condition current) observed (bound_rows mid L)) (\<lambda>s.
                       bindE (event_evaluation s contract (canon observed) external now) (\<lambda>ev.
                       bindE (delivery_kind current) (\<lambda>k.
                       Inr (ev, decide_claim current (k = THREAD) ev now)))) of
                    Inl e \<Rightarrow> (Inl e, L)
                  | Inr (ev, d) \<Rightarrow>
                      let L' = L\<lparr>monitors := sql_update
                            (\<lambda>r. mon_id r = mid \<and> mon_state r = ARMED \<and> mon_evaluations r = expected_count)
                            (evaluated_row (canon observed) ev d now) (monitors L)\<rparr> in
                      if d = StayArmed then (Inr None, L') else (read_back mid L', L'))))"

end
