(* ===== verification/Ledger_Facts.thy ===== *)
theory Ledger_Facts
  imports Ledger_Claims
begin

text \<open>
  How the tables move. \<open>row_order\<close> is the interface of a row order that every UPDATE respects; it is
  interpreted for both tables. A \<open>ledger_call\<close> is one call of a ledger operation with its arguments,
  so that a list of calls is a history of any interleaving of the processes that share the ledger.
\<close>

section \<open>Tables\<close>

lemma sql_update_nth [simp]:
  "i < length rows \<Longrightarrow> sql_update p f rows ! i = (if p (rows ! i) then f (rows ! i) else rows ! i)"
  by (simp add: sql_update_def)

lemma length_sql_update [simp]: "length (sql_update p f rows) = length rows"
  by (simp add: sql_update_def)

lemma map_sql_update: "(\<And>r. g (f r) = g r) \<Longrightarrow> map g (sql_update p f rows) = map g rows"
  by (simp add: sql_update_def)

lemma set_sql_update: "r \<in> set (sql_update p f rows) \<Longrightarrow> \<exists>q \<in> set rows. r = (if p q then f q else q)"
  by (auto simp: sql_update_def)

lemma sql_update_none [simp]: "\<lbrakk>\<And>r. r \<in> set rows \<Longrightarrow> \<not> p r\<rbrakk> \<Longrightarrow> sql_update p f rows = rows"
  by (simp add: sql_update_def map_idI)

lemma sql_first_Some: "sql_first p rows = Some r \<Longrightarrow> r \<in> set rows \<and> p r"
  by (auto simp: sql_first_def find_Some_iff)

lemma sql_first_None: "sql_first p rows = None \<longleftrightarrow> (\<forall>r \<in> set rows. \<not> p r)"
  by (auto simp: sql_first_def find_None_iff)

lemma sql_count_0: "sql_count p rows = 0 \<longleftrightarrow> (\<forall>r \<in> set rows. \<not> p r)"
  by (auto simp: sql_count_def filter_empty_conv)

text \<open>With distinct keys, the row a SELECT by key finds is the only one an UPDATE by key touches.\<close>

lemma keyed_unique:
  "\<lbrakk>distinct (map key rows); r \<in> set rows; q \<in> set rows; key r = key q\<rbrakk> \<Longrightarrow> q = r"
  by (metis distinct_map inj_onD)

text \<open>A table grew: its rows are the old ones, each moved along an order, then new ones.\<close>

definition grows :: "('r \<Rightarrow> 'r \<Rightarrow> bool) \<Rightarrow> 'r list \<Rightarrow> 'r list \<Rightarrow> bool" where
  "grows moved rows rows' \<longleftrightarrow> list_all2 moved rows (take (length rows) rows')"

locale row_order =
  fixes moved :: "'r \<Rightarrow> 'r \<Rightarrow> bool"
  assumes moved_refl: "moved r r"
    and moved_trans: "moved a b \<Longrightarrow> moved b c \<Longrightarrow> moved a c"
begin

lemma grows_nth:
  "grows moved rows rows' \<longleftrightarrow>
     length rows \<le> length rows' \<and> (\<forall>i < length rows. moved (rows ! i) (rows' ! i))"
  by (auto simp: grows_def list_all2_conv_all_nth)

lemma grows_refl: "grows moved rows rows"
  by (simp add: grows_nth moved_refl)

lemma grows_trans: "grows moved a b \<Longrightarrow> grows moved b c \<Longrightarrow> grows moved a c"
  by (force simp: grows_nth intro: moved_trans)

lemma grows_update:
  "(\<And>r. r \<in> set rows \<Longrightarrow> p r \<Longrightarrow> moved r (f r)) \<Longrightarrow> grows moved rows (sql_update p f rows)"
  by (simp add: grows_nth moved_refl)

lemma grows_append: "grows moved rows (rows @ new)"
  by (simp add: grows_nth nth_append moved_refl)

lemma grows_fold:
  assumes keeps: "\<And>c s. I s \<Longrightarrow> I (step c s)"
    and moves: "\<And>c s. I s \<Longrightarrow> grows moved (table s) (table (step c s))"
  shows "I s \<Longrightarrow> grows moved (table s) (table (fold step cs s))"
proof (induction cs arbitrary: s)
  case (Cons c cs)
  with keeps have "grows moved (table (step c s)) (table (fold step (c # cs) s))"
    by simp
  with moves [OF Cons.prems] grows_trans show ?case by blast
qed (simp add: grows_refl)

lemma moved_member:
  assumes "grows moved rows rows'" "r \<in> set rows"
  shows "\<exists>r' \<in> set rows'. moved r r'"
proof -
  from assms(2) obtain i where "i < length rows" "rows ! i = r"
    by (auto simp: in_set_conv_nth)
  with assms(1) show ?thesis
    unfolding grows_nth by (metis nth_mem order_less_le_trans)
qed

end

section \<open>Calls\<close>

datatype ledger_call =
    Reserve string string "string option" EventKind string json string rat rat
  | CancelEvent string rat
  | ExpireEvents rat
  | PublishHeartbeat string string json rat
  | PublishTerminal string string event_input json rat
  | CreateMonitor registration rat
  | Transition string "MonitorState list" MonitorState updates rat
  | UpdateDelivery string "MonitorState list" MonitorState ThreadDeliveryState "json option"
      "json option" "json option" rat
  | BeginAdmission string json rat
  | ObserveStatus string string rat
  | EvaluateAndClaim string int json path_evals "string option" rat
  | Recover MonitorState MonitorState string rat rat

fun call :: "digest_env \<Rightarrow> ledger_call \<Rightarrow> ledger \<Rightarrow> ledger" where
  "call E (Reserve salt rid ikey kind producer semantic token expires now) L =
     snd (reserve_event E salt rid ikey kind producer semantic token expires now L)"
| "call E (CancelEvent rid now) L = snd (cancel_event E rid now L)"
| "call E (ExpireEvents now) L = snd (expire_events now L)"
| "call E (PublishHeartbeat rid token hb now) L = snd (publish_event_heartbeat E rid token hb now L)"
| "call E (PublishTerminal rid token ev att now) L = snd (publish_terminal_event E rid token ev att now L)"
| "call E (CreateMonitor g now) L = snd (create_or_get E g now L)"
| "call E (Transition mid expected st u now) L = snd (transition mid expected st u now L)"
| "call E (UpdateDelivery mid expected st ds receipt rc outcome now) L =
     snd (update_thread_delivery mid expected st ds receipt rc outcome now L)"
| "call E (BeginAdmission mid cap now) L = snd (begin_thread_admission mid cap now L)"
| "call E (ObserveStatus mid thread now) L = snd (record_target_status_observed mid thread now L)"
| "call E (EvaluateAndClaim mid n observed ext contract now) L =
     snd (evaluate_and_claim_event_monitor E mid n observed ext contract now L)"
| "call E (Recover old st kind t0 now) L = snd (recover old st kind t0 now L)"

definition calls :: "digest_env \<Rightarrow> ledger_call list \<Rightarrow> ledger \<Rightarrow> ledger" where
  "calls E cs = fold (call E) cs"

definition empty_ledger :: ledger where
  "empty_ledger = \<lparr>reservations = [], monitors = []\<rparr>"

section \<open>What a decoded row says\<close>

lemma recast_ok [simp]: "recast msg (Inr x) = Inr x"
  by (simp add: recast_def)

lemma recast_Inr [simp]: "recast msg r = Inr x \<longleftrightarrow> r = Inr x"
  by (auto simp: recast_def raise_validation_def split: sum.splits)

lemma finite_time_Inr: "finite_time v msg = Inr x \<longleftrightarrow> py_float v = Inr (Fin x)"
proof (cases "py_float v")
  case (Inr f)
  then show ?thesis
    by (cases f) (simp_all add: finite_time_def recast_def raise_validation_def)
qed (simp add: finite_time_def)

lemma optional_time_Inr:
  "optional_time v msg = Inr x \<Longrightarrow> x = None \<longleftrightarrow> v = JNull"
  by (auto simp: optional_time_def split: if_splits)

lemma bound_monitor_Inr:
  "bound_monitor_text v = Inr x \<Longrightarrow> v = opt_json JStr x"
  by (auto simp: bound_monitor_text_def opt_json_def raise_validation_def split: json.splits if_splits)

lemma identity_text_Inr: "identity_text v msg = Inr s \<Longrightarrow> v = JStr s \<and> s \<noteq> []"
  by (auto simp: identity_text_def raise_validation_def split: json.splits if_splits)

definition stored_value :: "stored \<Rightarrow> json" where
  "stored_value s = (case s of Stored v \<Rightarrow> v | _ \<Rightarrow> JNull)"

lemma load_json_Inr: "load_json s fallback = Inr v \<Longrightarrow> s \<noteq> Garbled \<and> (s = Absent \<and> v = fallback \<or> s = Stored v)"
  by (cases s) auto

lemma load_row_texts_Inr:
  "load_row_texts r = Inr (k, s, h, t, a) \<Longrightarrow>
     kind_of (py_str (row_kind r)) = Some k \<and> load_json (row_semantic r) (JObj []) = Inr s
     \<and> load_json (row_heartbeat r) JNull = Inr h \<and> load_json (row_terminal r) JNull = Inr t
     \<and> load_json (row_attestation r) JNull = Inr a"
  by (auto simp: load_row_texts_def raise_validation_def split: option.splits sum.splits)

lemma event_from_row_Inr:
  assumes "event_from_row E r = Inr rec"
  shows "row_id r = JStr (er_id rec)" "kind_of (py_str (row_kind r)) = Some (er_kind rec)"
    "row_bound r = opt_json JStr (er_bound rec)" "er_state rec = derived_state r"
    "er_cancelled_at rec = None \<longleftrightarrow> row_cancelled_at r = JNull"
    "er_expired_at rec = None \<longleftrightarrow> row_expired_at r = JNull"
    "er_terminal rec = stored_value (row_terminal r)" "row_terminal r \<noteq> Garbled"
    "optional_sequence (row_hb_sequence r) = Inr (er_hb_sequence rec)"
    "er_fingerprint rec = optional_text (row_fingerprint r)"
    "er_hb_fingerprint rec = optional_text (row_hb_fingerprint r)"
    "py_float (row_expires_at r) = Inr (Fin (er_expires_at rec))"
    "row_cancelled_at r = JNull \<or> row_expired_at r = JNull"
    "row_cancelled_at r = JNull \<and> row_expired_at r = JNull
     \<or> row_bound r = JNull \<and> stored_value (row_terminal r) = JNull"
proof -
  obtain k s h t a where texts: "load_row_texts r = Inr (k, s, h, t, a)"
    using assms by (fastforce simp: event_from_row_def)
  then obtain rid producer ikey digest where ids: "row_identities E r s = Inr (rid, producer, ikey, digest)"
    using assms by (fastforce simp: event_from_row_def)
  with texts obtain ex cr up bound ca xa where times: "row_times r t = Inr (ex, cr, up, bound, ca, xa)"
    using assms by (fastforce simp: event_from_row_def)
  from ids have rid: "row_id r = JStr rid"
    by (auto simp: row_identities_def dest: identity_text_Inr)
  from times have tm: "py_float (row_expires_at r) = Inr (Fin ex)" "row_bound r = opt_json JStr bound"
    "ca = None \<longleftrightarrow> row_cancelled_at r = JNull" "xa = None \<longleftrightarrow> row_expired_at r = JNull"
    "ca = None \<or> xa = None" "ca = None \<and> xa = None \<or> bound = None \<and> t = JNull"
    by (auto simp: row_times_def finite_time_Inr dest: optional_time_Inr bound_monitor_Inr)
  have tv: "t = stored_value (row_terminal r)" "row_terminal r \<noteq> Garbled"
    "kind_of (py_str (row_kind r)) = Some k"
    using load_row_texts_Inr [OF texts]
    by (auto simp: stored_value_def dest: load_json_Inr split: stored.splits)
  have rest: "optional_sequence (row_hb_sequence r) = Inr (er_hb_sequence rec)"
    "rec = \<lparr>er_id = rid, er_ikey = ikey, er_kind = k, er_producer = producer,
          er_semantic = s, er_state = derived_state r, er_salt = row_salt r,
          er_digest = digest, er_expires_at = ex, er_bound = bound, er_heartbeat = h,
          er_hb_sequence = er_hb_sequence rec, er_hb_fingerprint = optional_text (row_hb_fingerprint r),
          er_terminal = t, er_fingerprint = optional_text (row_fingerprint r),
          er_attestation = a, er_cancelled_at = ca, er_expired_at = xa,
          er_created_at = cr, er_updated_at = up\<rparr>"
    using assms by (auto simp: event_from_row_def texts ids times)
  have sel: "er_id rec = rid" "er_kind rec = k" "er_bound rec = bound" "er_state rec = derived_state r"
    "er_cancelled_at rec = ca" "er_expired_at rec = xa" "er_terminal rec = t"
    "er_fingerprint rec = optional_text (row_fingerprint r)"
    "er_hb_fingerprint rec = optional_text (row_hb_fingerprint r)" "er_expires_at rec = ex"
    by (subst rest(2), simp)+
  show "row_id r = JStr (er_id rec)" "kind_of (py_str (row_kind r)) = Some (er_kind rec)"
    "row_bound r = opt_json JStr (er_bound rec)" "er_state rec = derived_state r"
    "er_cancelled_at rec = None \<longleftrightarrow> row_cancelled_at r = JNull"
    "er_expired_at rec = None \<longleftrightarrow> row_expired_at r = JNull"
    "er_terminal rec = stored_value (row_terminal r)" "row_terminal r \<noteq> Garbled"
    "optional_sequence (row_hb_sequence r) = Inr (er_hb_sequence rec)"
    "er_fingerprint rec = optional_text (row_fingerprint r)"
    "er_hb_fingerprint rec = optional_text (row_hb_fingerprint r)"
    "py_float (row_expires_at r) = Inr (Fin (er_expires_at rec))"
    "row_cancelled_at r = JNull \<or> row_expired_at r = JNull"
    "row_cancelled_at r = JNull \<and> row_expired_at r = JNull
     \<or> row_bound r = JNull \<and> stored_value (row_terminal r) = JNull"
    using rid tm tv rest(1) by (simp_all only: sel) (auto simp: opt_json_def)
qed

end
