(* ===== verification/Reservation_Facts.thy ===== *)
theory Reservation_Facts
  imports Ledger_Facts
begin

text \<open>
  How a reservation row may move: \<open>reservation_moved\<close> is the order every ledger operation respects, and
  \<open>reservations_ok\<close> the invariant of the table. Both are proved operation by operation and then for
  every list of calls.
\<close>

section \<open>The order of a row\<close>

definition identity_of_row :: "event_row \<Rightarrow> json \<times> json \<times> json \<times> json \<times> stored \<times> string \<times> json \<times> json \<times> json" where
  "identity_of_row r =
     (row_id r, row_ikey r, row_kind r, row_producer r, row_semantic r, row_salt r, row_digest r,
      row_expires_at r, row_created_at r)"

definition heartbeat_facts :: "event_row \<Rightarrow> stored \<times> json \<times> json" where
  "heartbeat_facts r = (row_heartbeat r, row_hb_sequence r, row_hb_fingerprint r)"

definition terminal_facts :: "event_row \<Rightarrow> stored \<times> json \<times> stored" where
  "terminal_facts r = (row_terminal r, row_fingerprint r, row_attestation r)"

definition closed_row :: "event_row \<Rightarrow> bool" where
  "closed_row r \<longleftrightarrow> row_cancelled_at r \<noteq> JNull \<or> row_expired_at r \<noteq> JNull"

definition settled_row :: "event_row \<Rightarrow> bool" where
  "settled_row r \<longleftrightarrow> stored_value (row_terminal r) \<noteq> JNull \<or> closed_row r"

text \<open>The sequence number of the stored heartbeat, where there is one.\<close>

definition heartbeat_number :: "event_row \<Rightarrow> int option" where
  "heartbeat_number r = (case optional_sequence (row_hb_sequence r) of Inr (Some n) \<Rightarrow> Some n | _ \<Rightarrow> None)"

definition reservation_moved :: "event_row \<Rightarrow> event_row \<Rightarrow> bool" where
  "reservation_moved r r' \<longleftrightarrow>
     identity_of_row r' = identity_of_row r
     \<and> (row_bound r \<noteq> JNull \<longrightarrow> row_bound r' = row_bound r)
     \<and> (row_terminal r \<noteq> Absent \<longrightarrow> terminal_facts r' = terminal_facts r)
     \<and> (settled_row r \<longrightarrow> heartbeat_facts r' = heartbeat_facts r)
     \<and> (closed_row r \<longrightarrow> row_bound r' = row_bound r \<and> terminal_facts r' = terminal_facts r
          \<and> row_cancelled_at r' = row_cancelled_at r \<and> row_expired_at r' = row_expired_at r)
     \<and> (\<forall>n. heartbeat_number r = Some n \<longrightarrow> (\<exists>m. heartbeat_number r' = Some m \<and> n \<le> m))"

interpretation reservation_order: row_order reservation_moved
proof
  show "reservation_moved r r" for r
    by (simp add: reservation_moved_def)
  show "reservation_moved a c" if ab: "reservation_moved a b" and bc: "reservation_moved b c" for a b c
  proof -
    have keep: "closed_row a \<Longrightarrow> closed_row b" "settled_row a \<Longrightarrow> settled_row b"
      "row_terminal a \<noteq> Absent \<Longrightarrow> row_terminal b \<noteq> Absent"
      "row_bound a \<noteq> JNull \<Longrightarrow> row_bound b \<noteq> JNull"
      using ab by (auto simp: reservation_moved_def closed_row_def settled_row_def terminal_facts_def
          stored_value_def)
    show ?thesis
      unfolding reservation_moved_def
    proof (intro conjI impI allI)
      show "\<exists>m. heartbeat_number c = Some m \<and> n \<le> m" if "heartbeat_number a = Some n" for n
        using ab bc that unfolding reservation_moved_def by (meson order_trans)
    qed (use ab bc keep in \<open>simp_all add: reservation_moved_def\<close>)
  qed
qed

section \<open>The invariant of the table\<close>

text \<open>
  Keys are unique; a row that was cancelled or expired is not both, is not bound and holds no event;
  a row without an event has no attestation, and a stored event is an object.
\<close>

definition row_lifecycle_ok :: "event_row \<Rightarrow> bool" where
  "row_lifecycle_ok r \<longleftrightarrow>
     (row_cancelled_at r = JNull \<or> row_expired_at r = JNull)
     \<and> (closed_row r \<longrightarrow> row_bound r = JNull \<and> row_terminal r = Absent)
     \<and> (row_terminal r = Absent \<longrightarrow> row_fingerprint r = JNull \<and> row_attestation r = Absent)
     \<and> (row_terminal r = Absent \<or> (\<exists>kvs. row_terminal r = Stored (JObj kvs)))"

definition reservations_ok :: "ledger \<Rightarrow> bool" where
  "reservations_ok L \<longleftrightarrow>
     distinct (map row_id (reservations L))
     \<and> distinct (filter (\<lambda>k. k \<noteq> JNull) (map row_ikey (reservations L)))
     \<and> (\<forall>r \<in> set (reservations L). row_lifecycle_ok r)"

lemma reservations_ok_update:
  assumes "reservations_ok L"
    and "\<And>r. row_id (f r) = row_id r" "\<And>r. row_ikey (f r) = row_ikey r"
    and "\<And>r. r \<in> set (reservations L) \<Longrightarrow> p r \<Longrightarrow> row_lifecycle_ok (f r)"
    and "reservations L' = sql_update p f (reservations L)"
  shows "reservations_ok L'"
  using assms
  by (auto simp: reservations_ok_def map_sql_update [of row_id f] map_sql_update [of row_ikey f]
      dest: set_sql_update)

lemma get_event_row_Some:
  "get_event_row rid L = Some r \<Longrightarrow> r \<in> set (reservations L) \<and> row_id r = JStr rid"
  by (auto simp: get_event_row_def dest: sql_first_Some)

lemma row_with_id:
  "\<lbrakk>reservations_ok L; get_event_row rid L = Some r; q \<in> set (reservations L); row_id q = JStr rid\<rbrakk>
     \<Longrightarrow> q = r"
  by (metis get_event_row_Some keyed_unique reservations_ok_def)

section \<open>Effects of the operations\<close>

text \<open>Each operation leaves the tables alone or performs the one write of its code.\<close>

lemma reserve_event_effect:
  "snd (reserve_event E salt rid ikey kind producer semantic token expires now L) = L
   \<or> (\<forall>r \<in> set (reservations L). row_id r \<noteq> JStr rid \<and> (\<forall>k. ikey = Some k \<longrightarrow> row_ikey r \<noteq> JStr k))
     \<and> snd (reserve_event E salt rid ikey kind producer semantic token expires now L)
       = L\<lparr>reservations := reservations L
           @ [fresh_row rid ikey kind producer semantic salt (publish_token_digest E token salt) expires now]\<rparr>"
  by (auto simp: reserve_event_def Let_def sql_count_0 sql_first_None split: option.split)

lemma cancel_event_effect:
  "snd (cancel_event E rid now L) = L
   \<or> (\<exists>fact \<in> {RES_EXPIRED, RES_CANCELLED}.
        snd (cancel_event E rid now L)
        = L\<lparr>reservations := sql_update (\<lambda>r. row_id r = JStr rid \<and> unsettled r) (end_row fact now)
             (reservations L)\<rparr>)"
  by (auto simp: cancel_event_def Let_def split: option.split sum.split)

lemma authenticated_Inr:
  "authenticated_event_row E rid token L = Inr r \<longleftrightarrow>
     get_event_row rid L = Some r \<and> is_ascii (py_str (row_digest r))
     \<and> py_str (row_digest r) = publish_token_digest E token (row_salt r)"
  by (auto simp: authenticated_event_row_def raise_conflict_def split: option.split)

lemma heartbeat_effect:
  "snd (publish_event_heartbeat E rid token hb now L) = L
   \<or> (\<exists>r current h f. authenticated_event_row E rid token L = Inr r \<and> event_from_row E r = Inr current
        \<and> ensure_event_writable current now L = Inr () \<and> heartbeat_decision h f current = Inr True
        \<and> snd (publish_event_heartbeat E rid token hb now L)
          = L\<lparr>reservations := sql_update (\<lambda>r. row_id r = JStr rid) (heartbeat_row h f now)
               (reservations L)\<rparr>)"
  by (simp add: publish_event_heartbeat_def split: sum.split) (auto split: prod.splits)

lemma terminal_effect:
  "snd (publish_terminal_event E rid token ev att now L) = L
   \<or> (\<exists>r current e f. authenticated_event_row E rid token L = Inr r \<and> event_from_row E r = Inr current
        \<and> ensure_event_writable current now L = Inr () \<and> er_terminal current = JNull
        \<and> snd (publish_terminal_event E rid token ev att now L)
          = L\<lparr>reservations := sql_update (\<lambda>r. row_id r = JStr rid \<and> row_terminal r = Absent)
               (terminal_row e f att now) (reservations L)\<rparr>)"
  by (simp add: publish_terminal_event_def rolled_back_def split: sum.split) (auto split: if_splits)

lemma bind_event_effect:
  "bind_event E mid now b L = Inr L' \<Longrightarrow>
     L' = L \<or> (\<exists>st r event. get_event_row (fst b) L = Some r \<and> event_from_row E r = Inr event
       \<and> \<not> closed_row r
       \<and> L' = L\<lparr>reservations := sql_update (\<lambda>r. row_id r = JStr (fst b) \<and> row_bound r = JNull)
                  (bound_row mid st now) (reservations L)\<rparr>)"
  by (auto simp: bind_event_def Let_def closed_row_def raise_conflict_def event_from_row_Inr(5,6) [symmetric]
      split: option.splits if_splits)

lemma create_effect:
  "snd (create_or_get E g now L) = L
   \<or> (\<exists>bindings target. event_condition_bindings (reg_condition g) = Inr bindings
       \<and> (\<forall>r \<in> set (monitors L). mon_id r \<noteq> reg_id g \<and> (mon_ikey r = None \<or> mon_ikey r \<noteq> reg_ikey g))
       \<and> stored_target g = Inr target
       \<and> bind_events E (reg_id g) now bindings
            (L\<lparr>monitors := monitors L @ [registered_row g target now]\<rparr>)
         = Inr (snd (create_or_get E g now L)))"
  by (auto simp: create_or_get_def insert_monitor_def sql_count_0 sql_first_None
      split: sum.splits option.splits)

text \<open>The operations on monitors do not touch the reservations.\<close>

lemma update_monitor_reservations [simp]:
  "reservations (snd (update_monitor mid guard f L)) = reservations L"
  by (simp add: update_monitor_def Let_def)

lemma monitor_calls_reservations:
  "reservations (snd (transition mid expected st u now L)) = reservations L"
  "reservations (snd (update_thread_delivery mid expected st ds receipt rc outcome now L)) = reservations L"
  "reservations (snd (begin_thread_admission mid cap now L)) = reservations L"
  "reservations (snd (record_target_status_observed mid thread now L)) = reservations L"
  "reservations (snd (evaluate_and_claim_event_monitor E mid n observed ext contract now L)) = reservations L"
  "reservations (snd (recover old st kind t0 now L)) = reservations L"
  by (auto simp: transition_def update_thread_delivery_def begin_thread_admission_def
      record_target_status_observed_def evaluate_and_claim_event_monitor_def recover_def Let_def
      split: option.split sum.split prod.split)

section \<open>The invariant is kept\<close>

lemma fresh_row_ok: "row_lifecycle_ok (fresh_row rid ikey kind producer semantic salt digest expires now)"
  by (simp add: row_lifecycle_ok_def closed_row_def fresh_row_def)

lemma writable_open:
  assumes "event_from_row E r = Inr current" "ensure_event_writable current now L = Inr ()"
  shows "\<not> closed_row r"
  using assms(2) event_from_row_Inr(5,6) [OF assms(1)] by (simp add: ensure_event_writable_def closed_row_def)

lemma row_updates_keep [simp]:
  "row_id (end_row st now r) = row_id r" "row_ikey (end_row st now r) = row_ikey r"
  "row_id (heartbeat_row h f now r) = row_id r" "row_ikey (heartbeat_row h f now r) = row_ikey r"
  "row_id (terminal_row e f att now r) = row_id r" "row_ikey (terminal_row e f att now r) = row_ikey r"
  "row_id (bound_row mid st now r) = row_id r" "row_ikey (bound_row mid st now r) = row_ikey r"
  by (simp_all add: end_row_def heartbeat_row_def terminal_row_def bound_row_def Let_def)

lemma end_row_ok: "unsettled r \<Longrightarrow> row_lifecycle_ok r \<Longrightarrow> row_lifecycle_ok (end_row st now r)"
  by (auto simp: unsettled_def end_row_def row_lifecycle_ok_def closed_row_def Let_def)

lemma terminal_row_stored: "\<exists>kvs. row_terminal (terminal_row e f att now r) = Stored (JObj kvs)"
  by (cases e) (simp_all add: terminal_row_def)

lemma reservations_ok_rows: "reservations L' = reservations L \<Longrightarrow> reservations_ok L \<Longrightarrow> reservations_ok L'"
  by (simp add: reservations_ok_def)

lemma bind_events_ok:
  "bind_events E mid now bs L = Inr L' \<Longrightarrow> reservations_ok L \<Longrightarrow> reservations_ok L'"
proof (induction bs arbitrary: L)
  case (Cons b bs)
  then obtain M where M: "bind_event E mid now b L = Inr M" "bind_events E mid now bs M = Inr L'"
    by auto
  have "reservations_ok M"
  proof (cases "M = L")
    case False
    then obtain st r event where r: "get_event_row (fst b) L = Some r" "\<not> closed_row r"
      and M': "M = L\<lparr>reservations := sql_update (\<lambda>r. row_id r = JStr (fst b) \<and> row_bound r = JNull)
                  (bound_row mid st now) (reservations L)\<rparr>"
      using bind_event_effect [OF M(1)] by blast
    show ?thesis
    proof (rule reservations_ok_update [OF Cons.prems(2)])
      fix q
      assume q: "q \<in> set (reservations L)" "row_id q = JStr (fst b) \<and> row_bound q = JNull"
      then have "q = r"
        using row_with_id [OF Cons.prems(2) r(1)] by simp
      moreover have "row_lifecycle_ok q"
        using Cons.prems(2) q by (simp add: reservations_ok_def)
      ultimately show "row_lifecycle_ok (bound_row mid st now q)"
        using r(2) by (simp add: row_lifecycle_ok_def bound_row_def closed_row_def)
    qed (simp_all add: M')
  qed (use Cons.prems in simp)
  with Cons.IH M(2) show ?case by blast
qed simp

lemma reserve_ok:
  "reservations_ok L \<Longrightarrow>
     reservations_ok (snd (reserve_event E salt rid ikey kind producer semantic token expires now L))"
proof (cases rule: disjE [OF reserve_event_effect [of E salt rid ikey kind producer semantic token
        expires now L]])
  case 2
  assume "reservations_ok L"
  with 2 show ?thesis
    by (cases ikey)
      (auto simp: reservations_ok_def fresh_row_ok, auto simp: fresh_row_def opt_json_def)
qed simp

lemma publish_heartbeat_ok:
  assumes "reservations_ok L"
  shows "reservations_ok (snd (publish_event_heartbeat E rid token hb now L))"
proof (cases rule: disjE [OF heartbeat_effect [of E rid token hb now L]])
  case 2
  then obtain h f where eff: "snd (publish_event_heartbeat E rid token hb now L)
      = L\<lparr>reservations := sql_update (\<lambda>r. row_id r = JStr rid) (heartbeat_row h f now) (reservations L)\<rparr>"
    by blast
  show ?thesis
    unfolding eff
    by (rule reservations_ok_update [OF assms, of "heartbeat_row h f now" "\<lambda>r. row_id r = JStr rid"])
      (use assms in \<open>auto simp: reservations_ok_def row_lifecycle_ok_def heartbeat_row_def closed_row_def\<close>)
qed (use assms in simp)

lemma publish_terminal_ok:
  assumes "reservations_ok L"
  shows "reservations_ok (snd (publish_terminal_event E rid token ev att now L))"
proof (cases rule: disjE [OF terminal_effect [of E rid token ev att now L]])
  case 2
  then obtain r current e f where r: "authenticated_event_row E rid token L = Inr r"
      "event_from_row E r = Inr current" "ensure_event_writable current now L = Inr ()"
    and eff: "snd (publish_terminal_event E rid token ev att now L)
      = L\<lparr>reservations := sql_update (\<lambda>r. row_id r = JStr rid \<and> row_terminal r = Absent)
           (terminal_row e f att now) (reservations L)\<rparr>"
    by blast
  have only: "q = r" if "q \<in> set (reservations L)" "row_id q = JStr rid" for q
    using row_with_id [OF assms _ that] r(1) by (simp add: authenticated_Inr)
  show ?thesis
    unfolding eff
  proof (rule reservations_ok_update [OF assms, of "terminal_row e f att now"
        "\<lambda>r. row_id r = JStr rid \<and> row_terminal r = Absent"])
    fix q
    assume "q \<in> set (reservations L)" "row_id q = JStr rid \<and> row_terminal q = Absent"
    with only writable_open [OF r(2,3)] assms terminal_row_stored [of e f att now q]
    show "row_lifecycle_ok (terminal_row e f att now q)"
      by (auto simp: reservations_ok_def row_lifecycle_ok_def terminal_row_def closed_row_def)
  qed simp_all
qed (use assms in simp)

lemma ending_ok:
  assumes "reservations_ok L"
  shows "reservations_ok (snd (cancel_event E rid now L))" "reservations_ok (snd (expire_events now L))"
proof -
  have upd: "reservations_ok (L\<lparr>reservations := sql_update p (end_row st now) (reservations L)\<rparr>)"
    if "\<And>r. p r \<Longrightarrow> unsettled r" for p st
    by (rule reservations_ok_update [OF assms, of "end_row st now" p])
      (use assms that end_row_ok in \<open>auto simp: reservations_ok_def\<close>)
  show "reservations_ok (snd (cancel_event E rid now L))"
    using cancel_event_effect [of E rid now L] assms upd by force
  show "reservations_ok (snd (expire_events now L))"
    unfolding expire_events_def snd_conv by (rule upd) (simp add: expired_row_def)
qed

lemma create_ok: "reservations_ok L \<Longrightarrow> reservations_ok (snd (create_or_get E g now L))"
  using create_effect [of E g now L] bind_events_ok by (fastforce simp: reservations_ok_def)

lemma call_keeps_ok: "reservations_ok L \<Longrightarrow> reservations_ok (call E c L)"
  by (cases c)
    (simp_all add: reserve_ok ending_ok publish_heartbeat_ok publish_terminal_ok create_ok
      reservations_ok_rows [OF monitor_calls_reservations(1)]
      reservations_ok_rows [OF monitor_calls_reservations(2)]
      reservations_ok_rows [OF monitor_calls_reservations(3)]
      reservations_ok_rows [OF monitor_calls_reservations(4)]
      reservations_ok_rows [OF monitor_calls_reservations(5)]
      reservations_ok_rows [OF monitor_calls_reservations(6)])

lemma calls_keep_ok: "reservations_ok L \<Longrightarrow> reservations_ok (calls E cs L)"
  unfolding calls_def by (induction cs arbitrary: L) (simp_all add: call_keeps_ok)

section \<open>Every call moves every row forward\<close>

lemma end_row_moved: "unsettled r \<Longrightarrow> reservation_moved r (end_row st now r)"
  by (auto simp: unsettled_def end_row_def reservation_moved_def closed_row_def settled_row_def
      identity_of_row_def terminal_facts_def heartbeat_facts_def heartbeat_number_def Let_def)

lemma heartbeat_row_moved:
  assumes row: "event_from_row E r = Inr current" and writable: "ensure_event_writable current now L = Inr ()"
    and fresh: "heartbeat_decision h f current = Inr True"
  shows "reservation_moved r (heartbeat_row h f now r)"
proof -
  have "stored_value (row_terminal r) = JNull"
    using fresh by (simp add: heartbeat_decision_def event_from_row_Inr(7) [OF row])
  with writable_open [OF row writable] have "\<not> settled_row r"
    by (simp add: settled_row_def)
  moreover have "\<exists>m. heartbeat_number (heartbeat_row h f now r) = Some m \<and> n \<le> m"
    if "heartbeat_number r = Some n" for n
  proof -
    have "er_hb_sequence current = Some n"
      using that event_from_row_Inr(9) [OF row] by (simp add: heartbeat_number_def split: option.splits)
    then have "n \<le> hb_sequence h"
      using fresh by (auto simp: heartbeat_decision_def raise_conflict_def split: if_splits)
    then show ?thesis
      by (simp add: heartbeat_number_def heartbeat_row_def optional_sequence_def)
  qed
  ultimately show ?thesis
    by (auto simp: reservation_moved_def heartbeat_row_def identity_of_row_def settled_row_def
        terminal_facts_def)
qed

lemma terminal_row_moved:
  assumes "\<not> closed_row r" "row_terminal r = Absent"
  shows "reservation_moved r (terminal_row e f att now r)"
  using assms
  by (auto simp: reservation_moved_def terminal_row_def identity_of_row_def settled_row_def
      stored_value_def heartbeat_number_def)

lemma bound_row_moved:
  assumes "\<not> closed_row r" "row_bound r = JNull"
  shows "reservation_moved r (bound_row mid st now r)"
  using assms
  by (auto simp: reservation_moved_def bound_row_def identity_of_row_def settled_row_def
      terminal_facts_def heartbeat_facts_def heartbeat_number_def)

lemma bind_events_moved:
  "bind_events E mid now bs L = Inr L' \<Longrightarrow> reservations_ok L \<Longrightarrow>
     grows reservation_moved (reservations L) (reservations L')"
proof (induction bs arbitrary: L)
  case (Cons b bs)
  then obtain M where M: "bind_event E mid now b L = Inr M" "bind_events E mid now bs M = Inr L'"
    by auto
  have ok: "reservations_ok M"
    using bind_events_ok [of E mid now "[b]" L M] M(1) Cons.prems(2) by simp
  have "grows reservation_moved (reservations L) (reservations M)"
  proof (cases "M = L")
    case False
    then obtain st r where r: "get_event_row (fst b) L = Some r" "\<not> closed_row r"
      and M': "M = L\<lparr>reservations := sql_update (\<lambda>r. row_id r = JStr (fst b) \<and> row_bound r = JNull)
                  (bound_row mid st now) (reservations L)\<rparr>"
      using bind_event_effect [OF M(1)] by blast
    show ?thesis
      unfolding M'
      by (simp, rule reservation_order.grows_update, rule bound_row_moved)
        (use row_with_id [OF Cons.prems(2) r(1)] r(2) in blast)+
  qed (simp add: reservation_order.grows_refl)
  with Cons.IH [OF M(2) ok] reservation_order.grows_trans show ?case by blast
qed (simp add: reservation_order.grows_refl)

lemma publish_heartbeat_moved:
  assumes "reservations_ok L"
  shows "grows reservation_moved (reservations L)
           (reservations (snd (publish_event_heartbeat E rid token hb now L)))"
proof (cases rule: disjE [OF heartbeat_effect [of E rid token hb now L]])
  case 2
  then obtain r current h f where r: "authenticated_event_row E rid token L = Inr r"
      "event_from_row E r = Inr current" "ensure_event_writable current now L = Inr ()"
      "heartbeat_decision h f current = Inr True"
    and eff: "snd (publish_event_heartbeat E rid token hb now L)
      = L\<lparr>reservations := sql_update (\<lambda>r. row_id r = JStr rid) (heartbeat_row h f now) (reservations L)\<rparr>"
    by blast
  have only: "q = r" if "q \<in> set (reservations L)" "row_id q = JStr rid" for q
    using row_with_id [OF assms _ that] r(1) by (simp add: authenticated_Inr)
  show ?thesis
    unfolding eff
    by (simp, rule reservation_order.grows_update)
      (use only heartbeat_row_moved [OF r(2,3,4)] in blast)
qed (simp add: reservation_order.grows_refl)

lemma publish_terminal_moved:
  assumes "reservations_ok L"
  shows "grows reservation_moved (reservations L)
           (reservations (snd (publish_terminal_event E rid token ev att now L)))"
proof (cases rule: disjE [OF terminal_effect [of E rid token ev att now L]])
  case 2
  then obtain r current e f where r: "authenticated_event_row E rid token L = Inr r"
      "event_from_row E r = Inr current" "ensure_event_writable current now L = Inr ()"
    and eff: "snd (publish_terminal_event E rid token ev att now L)
      = L\<lparr>reservations := sql_update (\<lambda>r. row_id r = JStr rid \<and> row_terminal r = Absent)
           (terminal_row e f att now) (reservations L)\<rparr>"
    by blast
  have only: "q = r" if "q \<in> set (reservations L)" "row_id q = JStr rid" for q
    using row_with_id [OF assms _ that] r(1) by (simp add: authenticated_Inr)
  show ?thesis
    unfolding eff
    by (simp, rule reservation_order.grows_update, rule terminal_row_moved)
      (use only writable_open [OF r(2,3)] in blast)+
qed (simp add: reservation_order.grows_refl)

lemma reserve_moved:
  "grows reservation_moved (reservations L)
     (reservations (snd (reserve_event E salt rid ikey kind producer semantic token expires now L)))"
  using reserve_event_effect [of E salt rid ikey kind producer semantic token expires now L]
    reservation_order.grows_refl reservation_order.grows_append by fastforce

lemma ending_moved:
  "grows reservation_moved (reservations L) (reservations (snd (cancel_event E rid now L)))"
  "grows reservation_moved (reservations L) (reservations (snd (expire_events now L)))"
proof -
  have upd: "grows reservation_moved (reservations L) (sql_update p (end_row st now) (reservations L))"
    if "\<And>r. p r \<Longrightarrow> unsettled r" for p st
    by (rule reservation_order.grows_update) (use that end_row_moved in blast)
  show "grows reservation_moved (reservations L) (reservations (snd (cancel_event E rid now L)))"
    using cancel_event_effect [of E rid now L] reservation_order.grows_refl upd by fastforce
  show "grows reservation_moved (reservations L) (reservations (snd (expire_events now L)))"
    unfolding expire_events_def snd_conv by (simp, rule upd) (simp add: expired_row_def)
qed

lemma create_moved:
  assumes "reservations_ok L"
  shows "grows reservation_moved (reservations L) (reservations (snd (create_or_get E g now L)))"
  using create_effect [of E g now L] bind_events_moved assms reservation_order.grows_refl
  by (fastforce simp: reservations_ok_def)

lemma call_moves_reservations:
  "reservations_ok L \<Longrightarrow> grows reservation_moved (reservations L) (reservations (call E c L))"
  by (cases c)
    (simp_all add: reserve_moved ending_moved publish_heartbeat_moved publish_terminal_moved create_moved
      monitor_calls_reservations reservation_order.grows_refl)

lemma calls_move_reservations:
  "reservations_ok L \<Longrightarrow> grows reservation_moved (reservations L) (reservations (calls E cs L))"
  unfolding calls_def
  by (rule reservation_order.grows_fold [where table = reservations and I = reservations_ok])
    (simp_all add: call_keeps_ok call_moves_reservations)

end
