(* ===== verification/Monitor_Facts.thy ===== *)
theory Monitor_Facts
  imports Reservation_Facts
begin

text \<open>
  How a monitor row may move under any call of the ledger, whatever states the caller names: its
  identity is fixed, the admission of a thread delivery is recorded once, evaluations are counted.
\<close>

section \<open>The order of a monitor row\<close>

definition identity_of_monitor ::
    "monitor_row \<Rightarrow> (string \<times> string option \<times> json \<times> json) \<times> (MonitorMode \<times> bool \<times> bool) \<times> (rat \<times> rat \<times> string option)" where
  "identity_of_monitor r =
     ((mon_id r, mon_ikey r, mon_semantic r, mon_target r),
      (mon_mode r, mon_idle_barrier r, mon_heuristic r),
      (mon_expires_at r, mon_created_at r, mon_rearm_of r))"

definition monitor_moved :: "monitor_row \<Rightarrow> monitor_row \<Rightarrow> bool" where
  "monitor_moved r r' \<longleftrightarrow>
     identity_of_monitor r' = identity_of_monitor r
     \<and> (mon_admission_at r \<noteq> None \<longrightarrow> mon_admission_at r' = mon_admission_at r)
     \<and> (mon_status_seen_at r \<noteq> None \<longrightarrow> mon_status_seen_at r' = mon_status_seen_at r)
     \<and> mon_evaluations r \<le> mon_evaluations r'"

interpretation monitor_order: row_order monitor_moved
proof
  show "monitor_moved r r" for r
    by (simp add: monitor_moved_def)
  show "monitor_moved a c" if "monitor_moved a b" "monitor_moved b c" for a b c
    using that unfolding monitor_moved_def by auto
qed

definition monitors_ok :: "ledger \<Rightarrow> bool" where
  "monitors_ok L \<longleftrightarrow>
     distinct (map mon_id (monitors L))
     \<and> distinct (filter (\<lambda>k. k \<noteq> None) (map mon_ikey (monitors L)))"

lemma get_monitor_row_Some:
  "get_monitor_row mid L = Some r \<Longrightarrow> r \<in> set (monitors L) \<and> mon_id r = mid"
  by (auto simp: get_monitor_row_def dest: sql_first_Some)

lemma monitor_with_id:
  "\<lbrakk>monitors_ok L; get_monitor_row mid L = Some r; q \<in> set (monitors L); mon_id q = mid\<rbrakk> \<Longrightarrow> q = r"
  by (metis get_monitor_row_Some keyed_unique monitors_ok_def)

lemma get_monitor_row_in:
  "monitors_ok L \<Longrightarrow> r \<in> set (monitors L) \<Longrightarrow> get_monitor_row (mon_id r) L = Some r"
  by (cases "get_monitor_row (mon_id r) L")
    (auto simp: get_monitor_row_def sql_first_None dest: monitor_with_id [unfolded get_monitor_row_def])

text \<open>With distinct keys, an UPDATE by key hits no row or exactly one.\<close>

lemma keyed_count:
  assumes "distinct (map key rows)"
  shows "sql_count (\<lambda>r. key r = k \<and> p r) rows \<le> 1"
proof -
  have "filter (\<lambda>r. key r = k \<and> p r) rows = [] \<or> (\<exists>r. filter (\<lambda>r. key r = k \<and> p r) rows = [r])"
    using assms
  proof (induction rows)
    case (Cons r rows)
    have none: "filter (\<lambda>r. key r = k \<and> p r) rows = []" if "key r = k"
      using Cons.prems that by (auto simp: filter_empty_conv image_iff)
    from Cons have "filter (\<lambda>r. key r = k \<and> p r) rows = []
        \<or> (\<exists>q. filter (\<lambda>r. key r = k \<and> p r) rows = [q])"
      by simp
    then show ?case
      by (cases "key r = k") (simp_all add: none)
  qed simp
  then show ?thesis
    by (auto simp: sql_count_def)
qed

lemma sql_first_update:
  "(\<And>r. q (f r) = q r) \<Longrightarrow>
     sql_first q (sql_update p f rows) = map_option (\<lambda>r. if p r then f r else r) (sql_first q rows)"
  by (induction rows) (auto simp: sql_first_def sql_update_def)

section \<open>Decoded monitors\<close>

lemma monitor_from_row_sel:
  assumes "monitor_from_row r = Inr rec"
  shows "mon_id rec = mon_id r"
    "mon_ikey rec = mon_ikey r"
    "mon_semantic rec = mon_semantic r"
    "mon_target rec = mon_target r"
    "mon_condition rec = mon_condition r"
    "mon_state rec = mon_state r"
    "mon_mode rec = mon_mode r"
    "mon_idle_barrier rec = mon_idle_barrier r"
    "mon_heuristic rec = mon_heuristic r"
    "mon_expires_at rec = mon_expires_at r"
    "mon_evidence rec = mon_evidence r"
    "mon_witness rec = mon_witness r"
    "mon_outcome rec = mon_outcome r"
    "mon_activation rec = mon_activation r"
    "mon_created_at rec = mon_created_at r"
    "mon_updated_at rec = mon_updated_at r"
    "mon_wake_reason rec = mon_wake_reason r"
    "mon_rearm_of rec = mon_rearm_of r"
    "mon_evaluations rec = mon_evaluations r"
    "mon_armed_at rec = mon_armed_at r"
    "mon_delivery rec = mon_delivery r"
    "mon_delivery_state rec = mon_delivery_state r"
    "mon_admission_at rec = mon_admission_at r"
    "mon_receipt rec = mon_receipt r"
    "mon_reconciliation rec = mon_reconciliation r"
    "mon_delivery_outcome rec = mon_delivery_outcome r"
    "mon_status_seen_at rec = mon_status_seen_at r"
    "is_thread_delivery (mon_delivery r) \<Longrightarrow> mon_guard rec = None"
    "\<not> is_thread_delivery (mon_delivery r) \<Longrightarrow> \<exists>g. mon_guard rec = Some g \<and> guard_from_dict (mon_target r) = Inr g"
  using assms by (auto simp: monitor_from_row_def monitor_row.defs MonitorRecord.defs split: if_splits)

lemma delivery_kind_thread:
  "is_thread_delivery (mon_delivery rec) \<Longrightarrow> delivery_kind rec = Inr THREAD"
  "mon_delivery rec = JNull \<Longrightarrow> delivery_kind rec = Inr GOAL"
  by (auto simp: delivery_kind_def is_thread_delivery_def delivery_kind_of_def)

lemma delivery_kind_THREAD: "delivery_kind rec = Inr THREAD \<Longrightarrow> mon_delivery rec \<noteq> JNull"
  by (auto simp: delivery_kind_def split: if_splits)

section \<open>The writes\<close>

lemma monitor_writes_keep [simp]:
  "mon_id (transition_row st u now r) = mon_id r"
  "mon_id (delivery_row st ds receipt rc outcome now r) = mon_id r"
  "mon_id (admission_row d now r) = mon_id r" "mon_id (evaluated_row c ev dd now r) = mon_id r"
  "mon_id (recover_row st kind t0 now r) = mon_id r"
  "mon_ikey (transition_row st u now r) = mon_ikey r"
  "mon_ikey (delivery_row st ds receipt rc outcome now r) = mon_ikey r"
  "mon_ikey (admission_row d now r) = mon_ikey r" "mon_ikey (evaluated_row c ev dd now r) = mon_ikey r"
  "mon_ikey (recover_row st kind t0 now r) = mon_ikey r"
  by (simp_all add: transition_row_def delivery_row_def admission_row_def evaluated_row_def
      recover_row_def)

lemma monitor_writes_moved:
  "monitor_moved r (transition_row st u now r)"
  "monitor_moved r (delivery_row st ds receipt rc outcome now r)"
  "mon_admission_at r = None \<Longrightarrow> monitor_moved r (admission_row d now r)"
  "monitor_moved r (evaluated_row c ev dd now r)"
  "monitor_moved r (recover_row st kind t0 now r)"
  by (simp_all add: transition_row_def delivery_row_def admission_row_def evaluated_row_def
      recover_row_def monitor_moved_def identity_of_monitor_def)

lemma update_monitor_effect:
  "monitors (snd (update_monitor mid guard f L)) = sql_update (\<lambda>r. mon_id r = mid \<and> guard r) f (monitors L)"
  by (simp add: update_monitor_def Let_def)

lemma transition_effect:
  "monitors (snd (transition mid expected st u now L))
     = sql_update (\<lambda>r. mon_id r = mid \<and> mon_state r \<in> set expected) (transition_row st u now) (monitors L)"
  by (simp add: transition_def update_monitor_effect)

lemma delivery_effect:
  "monitors (snd (update_thread_delivery mid expected st ds receipt rc outcome now L))
     = sql_update (\<lambda>r. mon_id r = mid \<and> mon_state r \<in> set expected \<and> mon_delivery r \<noteq> JNull)
         (delivery_row st ds receipt rc outcome now) (monitors L)"
  by (simp add: update_thread_delivery_def update_monitor_effect)

lemma admission_effect:
  "snd (begin_thread_admission mid cap now L) = L \<or>
   (\<exists>d. snd (begin_thread_admission mid cap now L)
        = L\<lparr>monitors := sql_update (\<lambda>r. mon_id r = mid \<and> mon_state r = CLAIMED \<and> mon_admission_at r = None)
             (admission_row d now) (monitors L)\<rparr>)"
  by (auto simp: begin_thread_admission_def Let_def split: option.split sum.split)

lemma status_effect:
  "monitors_ok L \<Longrightarrow> snd (record_target_status_observed mid thread now L) = L \<or>
   (\<exists>r. get_monitor_row mid L = Some r \<and> mon_status_seen_at r = None
      \<and> snd (record_target_status_observed mid thread now L)
        = L\<lparr>monitors := sql_update (\<lambda>r. mon_id r = mid)
             (\<lambda>r. r\<lparr>mon_status_seen_at := Some now, mon_updated_at := now\<rparr>) (monitors L)\<rparr>)"
  by (auto simp: record_target_status_observed_def Let_def monitor_from_row_def monitor_row.defs
      MonitorRecord.defs split: option.split sum.split)

lemma evaluate_effect:
  "snd (evaluate_and_claim_event_monitor E mid n observed ext contract now L) = L \<or>
   (\<exists>r current s ev k d. get_monitor_row mid L = Some r \<and> monitor_from_row r = Inr current
      \<and> mon_state current = ARMED \<and> mon_evaluations current = n
      \<and> event_snapshot E (mon_condition current) observed (bound_rows mid L) = Inr s
      \<and> event_evaluation s contract (canon observed) ext now = Inr ev \<and> delivery_kind current = Inr k
      \<and> d = decide_claim current (k = THREAD) ev now
      \<and> snd (evaluate_and_claim_event_monitor E mid n observed ext contract now L)
        = L\<lparr>monitors := sql_update (\<lambda>r. mon_id r = mid \<and> mon_state r = ARMED \<and> mon_evaluations r = n)
             (evaluated_row (canon observed) ev d now) (monitors L)\<rparr>)"
  unfolding evaluate_and_claim_event_monitor_def Let_def
  by (simp split: option.split sum.split prod.split) fastforce

lemma bind_events_monitors: "bind_events E mid now bs L = Inr L' \<Longrightarrow> monitors L' = monitors L"
proof (induction bs arbitrary: L)
  case (Cons b bs)
  then obtain M where M: "bind_event E mid now b L = Inr M" "bind_events E mid now bs M = Inr L'"
    by auto
  have "monitors M = monitors L"
    using bind_event_effect [OF M(1)] by auto
  with Cons.IH [OF M(2)] show ?case by simp
qed simp

lemma create_monitors:
  "snd (create_or_get E g now L) = L \<or>
   (\<exists>target. stored_target g = Inr target
      \<and> (\<forall>r \<in> set (monitors L). mon_id r \<noteq> reg_id g \<and> (mon_ikey r = None \<or> mon_ikey r \<noteq> reg_ikey g))
      \<and> monitors (snd (create_or_get E g now L)) = monitors L @ [registered_row g target now])"
  using create_effect [of E g now L] by (auto dest: bind_events_monitors)

lemma reservation_calls_monitors:
  "monitors (snd (reserve_event E salt rid ikey kind producer semantic token expires now L)) = monitors L"
  "monitors (snd (cancel_event E rid now L)) = monitors L"
  "monitors (snd (expire_events now L)) = monitors L"
  "monitors (snd (publish_event_heartbeat E rid token hb now L)) = monitors L"
  "monitors (snd (publish_terminal_event E rid token ev att now L)) = monitors L"
  using reserve_event_effect [of E salt rid ikey kind producer semantic token expires now L]
    cancel_event_effect [of E rid now L] heartbeat_effect [of E rid token hb now L]
    terminal_effect [of E rid token ev att now L]
  by (auto simp: expire_events_def)

section \<open>Every call\<close>

text \<open>One shape for every call: nothing, an UPDATE that moves rows forward, or one new row.\<close>

lemma call_monitors_cases:
  assumes "monitors_ok L"
  obtains (same) "monitors (call E c L) = monitors L"
  | (update) p f where "monitors (call E c L) = sql_update p f (monitors L)"
      "\<And>r. mon_id (f r) = mon_id r \<and> mon_ikey (f r) = mon_ikey r"
      "\<And>r. r \<in> set (monitors L) \<Longrightarrow> p r \<Longrightarrow> monitor_moved r (f r)"
  | (new) g target now where "stored_target g = Inr target"
      "\<forall>r \<in> set (monitors L). mon_id r \<noteq> reg_id g \<and> (mon_ikey r = None \<or> mon_ikey r \<noteq> reg_ikey g)"
      "monitors (call E c L) = monitors L @ [registered_row g target now]"
proof (cases c)
  case (CreateMonitor g now)
  then show thesis
    using create_monitors [of E g now L] same new by fastforce
next
  case (Transition mid expected st u now)
  show thesis
    by (rule update [OF transition_effect [of mid expected st u now L, folded call.simps(7) [of E],
            folded Transition]]) (simp_all add: monitor_writes_moved)
next
  case (UpdateDelivery mid expected st ds receipt rc outcome now)
  show thesis
    by (rule update [OF delivery_effect [of mid expected st ds receipt rc outcome now L,
            folded call.simps(8) [of E], folded UpdateDelivery]]) (simp_all add: monitor_writes_moved)
next
  case (BeginAdmission mid cap now)
  from admission_effect [of mid cap now L] show thesis
  proof
    assume "\<exists>d. snd (begin_thread_admission mid cap now L)
        = L\<lparr>monitors := sql_update (\<lambda>r. mon_id r = mid \<and> mon_state r = CLAIMED \<and> mon_admission_at r = None)
             (admission_row d now) (monitors L)\<rparr>"
    then obtain d where d: "monitors (call E c L)
        = sql_update (\<lambda>r. mon_id r = mid \<and> mon_state r = CLAIMED \<and> mon_admission_at r = None)
             (admission_row d now) (monitors L)"
      by (auto simp: BeginAdmission)
    show thesis
      by (rule update [OF d]) (simp_all add: monitor_writes_moved)
  qed (use BeginAdmission same in simp)
next
  case (ObserveStatus mid thread now)
  from status_effect [OF assms, of mid thread now] show thesis
  proof
    assume "\<exists>r. get_monitor_row mid L = Some r \<and> mon_status_seen_at r = None
      \<and> snd (record_target_status_observed mid thread now L)
        = L\<lparr>monitors := sql_update (\<lambda>r. mon_id r = mid)
             (\<lambda>r. r\<lparr>mon_status_seen_at := Some now, mon_updated_at := now\<rparr>) (monitors L)\<rparr>"
    then obtain r where r: "get_monitor_row mid L = Some r" "mon_status_seen_at r = None"
      and m: "monitors (call E c L) = sql_update (\<lambda>r. mon_id r = mid)
             (\<lambda>r. r\<lparr>mon_status_seen_at := Some now, mon_updated_at := now\<rparr>) (monitors L)"
      by (auto simp: ObserveStatus)
    show thesis
      by (rule update [OF m])
        (use monitor_with_id [OF assms r(1)] r(2) in \<open>auto simp: monitor_moved_def identity_of_monitor_def\<close>)
  qed (use ObserveStatus same in simp)
next
  case (EvaluateAndClaim mid n observed ext contract now)
  from evaluate_effect [of E mid n observed ext contract now L] show thesis
  proof
    assume "snd (evaluate_and_claim_event_monitor E mid n observed ext contract now L) = L"
    then show thesis
      using same EvaluateAndClaim by simp
  next
    assume "\<exists>r current s ev k d. get_monitor_row mid L = Some r \<and> monitor_from_row r = Inr current
      \<and> mon_state current = ARMED \<and> mon_evaluations current = n
      \<and> event_snapshot E (mon_condition current) observed (bound_rows mid L) = Inr s
      \<and> event_evaluation s contract (canon observed) ext now = Inr ev \<and> delivery_kind current = Inr k
      \<and> d = decide_claim current (k = THREAD) ev now
      \<and> snd (evaluate_and_claim_event_monitor E mid n observed ext contract now L)
        = L\<lparr>monitors := sql_update (\<lambda>r. mon_id r = mid \<and> mon_state r = ARMED \<and> mon_evaluations r = n)
             (evaluated_row (canon observed) ev d now) (monitors L)\<rparr>"
    then obtain ev d where m: "monitors (call E c L)
        = sql_update (\<lambda>r. mon_id r = mid \<and> mon_state r = ARMED \<and> mon_evaluations r = n)
             (evaluated_row (canon observed) ev d now) (monitors L)"
      unfolding EvaluateAndClaim by force
    show thesis
      by (rule update [OF m]) (simp_all add: monitor_writes_moved)
  qed
next
  case (Recover old st kind t0 now)
  then have m: "monitors (call E c L)
      = sql_update (\<lambda>r. mon_state r = old) (recover_row st kind t0 now) (monitors L)"
    by (simp add: recover_def)
  show thesis
    by (rule update [OF m]) (simp_all add: monitor_writes_moved)
qed (use same in \<open>simp_all add: reservation_calls_monitors\<close>)

lemma call_keeps_monitors_ok:
  assumes ok: "monitors_ok L"
  shows "monitors_ok (call E c L)"
proof (rule call_monitors_cases [OF ok, of E c])
  fix g target now
  assume "\<forall>r \<in> set (monitors L). mon_id r \<noteq> reg_id g \<and> (mon_ikey r = None \<or> mon_ikey r \<noteq> reg_ikey g)"
    and "monitors (call E c L) = monitors L @ [registered_row g target now]"
  with ok show ?thesis
    by (auto simp: monitors_ok_def registered_row_def)
qed (use ok in \<open>simp_all add: monitors_ok_def map_sql_update\<close>)

lemma call_moves_monitors:
  assumes ok: "monitors_ok L"
  shows "grows monitor_moved (monitors L) (monitors (call E c L))"
  by (rule call_monitors_cases [OF ok, of E c])
    (simp_all add: monitor_order.grows_refl monitor_order.grows_append monitor_order.grows_update)

lemma calls_keep_monitors_ok: "monitors_ok L \<Longrightarrow> monitors_ok (calls E cs L)"
  unfolding calls_def by (induction cs arbitrary: L) (simp_all add: call_keeps_monitors_ok)

lemma calls_move_monitors: "monitors_ok L \<Longrightarrow> grows monitor_moved (monitors L) (monitors (calls E cs L))"
  unfolding calls_def
  by (rule monitor_order.grows_fold [where table = monitors and I = monitors_ok])
    (simp_all add: call_keeps_monitors_ok call_moves_monitors)

lemma empty_ok [simp]: "reservations_ok empty_ledger" "monitors_ok empty_ledger"
  by (simp_all add: reservations_ok_def monitors_ok_def empty_ledger_def)

end
