(* ===== verification/Ledger_Samples.thy ===== *)
theory Ledger_Samples
  imports Monitor_Facts Event_Properties
begin

text \<open>
  Concrete reservations and monitors for the witnesses: a digest of 64 hexadecimal digits that tells
  tokens ending in an exclamation mark from the others, a reserved row, and what publishing and
  cancelling make of it.
\<close>

definition hex_env :: digest_env where
  "hex_env = \<lparr>sha256 = (\<lambda>s. replicate 64 (if List.last (CHR ''x'' # s) = CHR ''!'' then CHR ''1'' else CHR ''0'')),
     float_repr = (\<lambda>_. ''0.0'')\<rparr>"

lemma hex_env_sel:
  "sha256 hex_env s = replicate 64 (if List.last (CHR ''x'' # s) = CHR ''!'' then CHR ''1'' else CHR ''0'')"
  by (simp add: hex_env_def)

definition sample_salt :: string where "sample_salt = replicate 32 CHR ''s''"

definition sample_row :: event_row where
  "sample_row = fresh_row ''r1'' None WORKER_TERMINAL ''p1'' (JObj []) sample_salt
     (publish_token_digest hex_env ''tok'' sample_salt) 100 1"

definition reserve_sample :: ledger_call where
  "reserve_sample = Reserve sample_salt ''r1'' None WORKER_TERMINAL ''p1'' (JObj []) ''tok'' 100 1"

definition sample_ledger :: ledger where
  "sample_ledger = calls hex_env [reserve_sample] empty_ledger"

lemma sample_ledger_rows: "sample_ledger = \<lparr>reservations = [sample_row], monitors = []\<rparr>"
  by (simp add: sample_ledger_def calls_def reserve_sample_def empty_ledger_def reserve_event_def
      sample_row_def sql_count_def Let_def)

lemma sample_get [simp]: "get_event_row ''r1'' sample_ledger = Some sample_row"
  by (simp add: get_event_row_def sample_ledger_rows sql_first_def sample_row_def fresh_row_def)

lemma sample_texts: "load_row_texts sample_row = Inr (WORKER_TERMINAL, JObj [], JNull, JNull, JNull)"
  by code_simp

lemma brace_codes: "code CHR ''{'' = 123" "code CHR ''}'' = 125"
  by (simp_all add: code_def)

lemma sample_text_size: "ledger_json hex_env (JObj []) = ''{}''"
  by (simp add: ledger_json_def dump_json.simps brace_codes)

lemma zeros_hex: "py_len (replicate 64 CHR ''0'') = 64" "list_all is_lower_hex (replicate 64 CHR ''0'')"
  by code_simp+

lemma sample_digest: "publish_token_digest hex_env ''tok'' sample_salt = replicate 64 CHR ''0''"
  by (simp add: publish_token_digest_def hex_env_sel sample_salt_def)

lemma sample_digest_ok: "token_digest_text (JStr (replicate 64 CHR ''0'')) sample_salt = Inr (replicate 64 CHR ''0'')"
  unfolding token_digest_text_def py_str.simps zeros_hex(1) Let_def
  using zeros_hex(2) by (simp add: sample_salt_def)

lemma sample_ids:
  "row_identities hex_env sample_row (JObj []) = Inr (''r1'', ''p1'', None, replicate 64 CHR ''0'')"
  unfolding row_identities_def sample_row_def fresh_row_def sample_digest event_row.simps sample_digest_ok
    sample_text_size
  by (simp add: identity_text_def opt_json_def)

lemma sample_times: "row_times sample_row JNull = Inr (100, 1, 1, None, None, None)"
  by (simp add: row_times_def sample_row_def fresh_row_def finite_time_def bound_monitor_text_def optional_time_def)

definition sample_record :: EventReservationRecord where
  "sample_record =
     \<lparr>er_id = ''r1'', er_ikey = None, er_kind = WORKER_TERMINAL, er_producer = ''p1'',
      er_semantic = JObj [], er_state = RES_RESERVED, er_salt = sample_salt,
      er_digest = replicate 64 CHR ''0'', er_expires_at = 100, er_bound = None, er_heartbeat = JNull,
      er_hb_sequence = None, er_hb_fingerprint = None, er_terminal = JNull, er_fingerprint = None,
      er_attestation = JNull, er_cancelled_at = None, er_expired_at = None, er_created_at = 1,
      er_updated_at = 1\<rparr>"

lemma sample_decodes: "event_from_row hex_env sample_row = Inr sample_record"
  unfolding event_from_row_def sample_texts prod.case bindE_simps(2) sample_ids sample_times
  by (simp add: sample_row_def fresh_row_def sample_record_def optional_sequence_def
      check_stored_heartbeat_def check_stored_terminal_def validate_stored_attestation_def
      derived_state_def optional_text_def)

definition stored_sample :: json where
  "stored_sample = JObj [(''host_received_at'', jnum 5), (''kind'', JStr ''worker_terminal''),
     (''lead_accepted'', JBool False), (''outcome'', JStr ''completed''),
     (''producer_task_id'', JStr ''t1''), (''task_success'', JBool False)]"

lemma stored_sample: "canon (event_as_dict (WorkerEvent sample_worker_event)) = stored_sample"
  by code_simp

lemma sample_keys: "normalize_key ''kind'' = ''kind''" "forbidden_key ''kind'' = None"
  by (subst normalize_snake; simp add: snake_char_def)
    (simp add: forbidden_key_def normalize_snake snake_char_def RAW_COMMAND_KEYS_def SECRET_KEYS_def)

lemma stored_sample_normal:
  "normalize_terminal_event E (EventMapping (JObj [(''kind'', JStr ''worker_terminal''),
     (''outcome'', JStr ''completed''), (''producer_task_id'', JStr ''t1'')])) (Some WORKER_TERMINAL) (jnum 5)
   = Inr (WorkerEvent sample_worker_event)"
  by (simp add: normalize_worker_terminal_def reject_raw_commands.simps
      forbidden_key_def normalize_keys_sample sample_keys RAW_COMMAND_KEYS_def SECRET_KEYS_def event_keys_def
      worker_event_keys_def jget_def jhas_def check_kind_def optional_alias_def sample_worker_made)

lemma sample_fingerprint: "\<exists>f. event_fingerprint hex_env (WorkerEvent sample_worker_event) = Inr f"
proof -
  have "\<exists>w. canonical_value (JObj (worker_semantic sample_worker_event)) = Inr w"
    by (rule all_finite_canonical)
      (simp add: worker_semantic_def sample_worker_event_def opt_entry_def)
  then show ?thesis
    by (auto simp: event_fingerprint_def payload_fingerprint_def canonical_json_def)
qed

lemma sample_as_dict: "json_eq (event_as_dict (WorkerEvent sample_worker_event)) stored_sample"
  by code_simp

lemma stored_sample_checked:
  assumes "event_fingerprint hex_env (WorkerEvent sample_worker_event) = Inr f"
  shows "check_stored_terminal hex_env WORKER_TERMINAL stored_sample (JStr f) JNull
    = Inr (Some (WorkerEvent sample_worker_event))"
proof -
  have "apop ''task_success'' (apop ''lead_accepted'' (apop ''host_received_at'' (entries stored_sample)))
      = [(''kind'', JStr ''worker_terminal''), (''outcome'', JStr ''completed''),
         (''producer_task_id'', JStr ''t1'')]" "jget ''host_received_at'' stored_sample = jnum 5"
    by (simp_all add: stored_sample_def jget_def)
  with assms stored_sample_normal [of hex_env] sample_as_dict show ?thesis
    unfolding check_stored_terminal_def Let_def
    by (simp add: stored_sample_def popped_false_def)
qed

lemma row_identities_writes [simp]:
  "row_identities E (terminal_row ev f att now r) = row_identities E r"
  "row_identities E (end_row st now r) = row_identities E r"
  by (simp_all add: fun_eq_iff row_identities_def terminal_row_def end_row_def Let_def)

lemma sample_terminal_decodes:
  assumes "event_fingerprint hex_env (WorkerEvent sample_worker_event) = Inr f"
  shows "event_from_row hex_env (terminal_row (WorkerEvent sample_worker_event) f JNull 5 sample_row)
    = Inr (sample_record\<lparr>er_state := RES_TERMINAL, er_terminal := stored_sample,
             er_fingerprint := Some f, er_updated_at := 5\<rparr>)"
proof -
  let ?r = "terminal_row (WorkerEvent sample_worker_event) f JNull 5 sample_row"
  have texts: "load_row_texts ?r = Inr (WORKER_TERMINAL, JObj [], JNull, stored_sample, JNull)"
    unfolding terminal_row_def stored_sample
    by (simp add: load_row_texts_def sample_row_def fresh_row_def)
  have times: "row_times ?r stored_sample = Inr (100, 1, 5, None, None, None)"
    by (simp add: terminal_row_def row_times_def sample_row_def fresh_row_def finite_time_def
        bound_monitor_text_def optional_time_def)
  have cols: "row_hb_sequence ?r = JNull" "row_hb_fingerprint ?r = JNull" "row_fingerprint ?r = JStr f"
    "row_salt ?r = sample_salt" "derived_state ?r = RES_TERMINAL"
    by (simp_all add: terminal_row_def sample_row_def fresh_row_def derived_state_def)
  show ?thesis
    unfolding event_from_row_def texts prod.case bindE_simps(2) row_identities_writes sample_ids times cols
      stored_sample_checked [OF assms]
    by (simp add: optional_sequence_def check_stored_heartbeat_def validate_stored_attestation_def
        optional_text_def sample_record_def)
qed

lemma sample_authenticated: "authenticated_event_row hex_env ''r1'' ''tok'' sample_ledger = Inr sample_row"
proof -
  have "row_digest sample_row = JStr (replicate 64 CHR ''0'')" "row_salt sample_row = sample_salt"
    by (simp_all add: sample_row_def fresh_row_def sample_digest)
  moreover have "is_ascii (replicate 64 CHR ''0'')"
    by code_simp
  ultimately show ?thesis
    unfolding authenticated_event_row_def sample_get option.case
    by (simp only: sample_digest py_str.simps) simp
qed

definition published_sample :: "string \<Rightarrow> ledger" where
  "published_sample f = \<lparr>reservations =
     [terminal_row (WorkerEvent sample_worker_event) f JNull 5 sample_row], monitors = []\<rparr>"

lemma sample_published:
  assumes "event_fingerprint hex_env (WorkerEvent sample_worker_event) = Inr f"
  shows "publish_terminal_event hex_env ''r1'' ''tok'' (EventMapping sample_worker) JNull 5 sample_ledger
    = (Inr (sample_record\<lparr>er_state := RES_TERMINAL, er_terminal := stored_sample,
             er_fingerprint := Some f, er_updated_at := 5\<rparr>), published_sample f)"
proof -
  have "row_terminal sample_row = Absent" "row_id sample_row = JStr ''r1''"
    by (simp_all add: sample_row_def fresh_row_def)
  moreover have "er_kind sample_record = WORKER_TERMINAL" "er_terminal sample_record = JNull"
    "ensure_event_writable sample_record 5 sample_ledger = Inr ()"
    by (simp_all add: sample_record_def ensure_event_writable_def)
  ultimately show ?thesis
    using assms sample_terminal_decodes [OF assms] sample_authenticated sample_decodes
      sample_worker_ok [of hex_env]
    by (simp del: normalize_terminal_event.simps add: publish_terminal_event_def rolled_back_def sample_ledger_rows sql_update_def published_sample_def)
qed

lemma sample_cancelled:
  "cancel_event hex_env ''r1'' 7 sample_ledger
     = (Inr (sample_record\<lparr>er_state := RES_CANCELLED, er_cancelled_at := Some 7, er_updated_at := 7\<rparr>),
        \<lparr>reservations = [end_row RES_CANCELLED 7 sample_row], monitors = []\<rparr>)"
proof -
  let ?r = "end_row RES_CANCELLED 7 sample_row"
  have texts: "load_row_texts ?r = Inr (WORKER_TERMINAL, JObj [], JNull, JNull, JNull)"
    by (simp add: end_row_def load_row_texts_def sample_row_def fresh_row_def)
  have times: "row_times ?r JNull = Inr (100, 1, 7, None, Some 7, None)"
    by (simp add: end_row_def row_times_def sample_row_def fresh_row_def finite_time_def
        bound_monitor_text_def optional_time_def)
  have "event_from_row hex_env ?r
      = Inr (sample_record\<lparr>er_state := RES_CANCELLED, er_cancelled_at := Some 7, er_updated_at := 7\<rparr>)"
    unfolding event_from_row_def texts prod.case bindE_simps(2) row_identities_writes sample_ids times
    by (simp add: optional_sequence_def check_stored_heartbeat_def validate_stored_attestation_def
        check_stored_terminal_def optional_text_def sample_record_def end_row_def sample_row_def
        fresh_row_def derived_state_def)
  moreover have "row_id sample_row = JStr ''r1''" "unsettled sample_row"
    "er_expires_at sample_record = 100" "er_state sample_record = RES_RESERVED"
    by (simp_all add: sample_row_def fresh_row_def unsettled_def sample_record_def)
  ultimately show ?thesis
    using sample_decodes sample_get
    by (simp add: cancel_event_def after_commit_def sample_ledger_rows sql_count_def sql_update_def Let_def)
qed

end
