(* ===== verification/Ledger_Properties.thy ===== *)
theory Ledger_Properties
  imports Ledger_Samples
begin

text \<open>
  What the ledger promises under any interleaving of the processes that share it. A history is a list
  of calls from the empty ledger.
\<close>

section \<open>Reservations\<close>

text \<open>C18. Published facts are final. Whatever calls follow, a reservation keeps its identity (its
  capability and deadline included); once bound it stays bound to the same monitor; a terminal event
  is written once, with its fingerprint and attestation; after the terminal event, a cancellation or an
  expiry the heartbeat is frozen; and a heartbeat's sequence never goes back.\<close>

theorem reservation_facts_are_final:
  assumes "r \<in> set (reservations (calls E cs empty_ledger))"
  shows "\<exists>r' \<in> set (reservations (calls E ds (calls E cs empty_ledger))).
      identity_of_row r' = identity_of_row r
      \<and> (row_bound r \<noteq> JNull \<longrightarrow> row_bound r' = row_bound r)
      \<and> (row_terminal r \<noteq> Absent \<longrightarrow>
           row_terminal r' = row_terminal r \<and> row_fingerprint r' = row_fingerprint r
           \<and> row_attestation r' = row_attestation r)
      \<and> (row_cancelled_at r \<noteq> JNull \<or> row_expired_at r \<noteq> JNull \<longrightarrow>
           row_cancelled_at r' = row_cancelled_at r \<and> row_expired_at r' = row_expired_at r
           \<and> row_bound r' = row_bound r \<and> row_terminal r' = row_terminal r)
      \<and> (row_terminal r \<noteq> Absent \<or> row_cancelled_at r \<noteq> JNull \<or> row_expired_at r \<noteq> JNull \<longrightarrow>
           row_heartbeat r' = row_heartbeat r)
      \<and> (\<forall>n. heartbeat_number r = Some n \<longrightarrow> (\<exists>m. heartbeat_number r' = Some m \<and> n \<le> m))"
proof -
  have ok: "reservations_ok (calls E cs empty_ledger)"
    by (simp add: calls_keep_ok)
  obtain r' where r': "r' \<in> set (reservations (calls E ds (calls E cs empty_ledger)))"
    and m: "reservation_moved r r'"
    using reservation_order.moved_member [OF calls_move_reservations [OF ok] assms] by blast
  have "row_terminal r = Absent \<or> (\<exists>kvs. row_terminal r = Stored (JObj kvs))"
    using ok assms by (auto simp: reservations_ok_def row_lifecycle_ok_def)
  then have "row_terminal r \<noteq> Absent \<Longrightarrow> settled_row r"
    by (auto simp: settled_row_def stored_value_def)
  with r' m show ?thesis
    by (intro bexI [of _ r'])
      (auto simp: reservation_moved_def terminal_facts_def closed_row_def settled_row_def heartbeat_facts_def)
qed

lemma reservation_facts_are_final_witness:
  "\<exists>r' \<in> set (reservations (calls hex_env [ExpireEvents 200] sample_ledger)).
     identity_of_row r' = identity_of_row sample_row"
proof -
  have "sample_row \<in> set (reservations (calls hex_env [reserve_sample] empty_ledger))"
    using sample_ledger_rows by (simp add: sample_ledger_def)
  from reservation_facts_are_final [OF this, of "[ExpireEvents 200]"] show ?thesis
    unfolding sample_ledger_def by blast
qed

text \<open>C17. In every history the reservations have distinct identities, and the facts of a row fit one
  lifecycle: it is not both cancelled and expired, a cancelled or expired row is bound to no monitor
  and holds no terminal event, and an attestation goes with a terminal event.\<close>

theorem reservation_lifecycle:
  "let L = calls E cs empty_ledger in
     distinct (map row_id (reservations L))
    \<and> distinct (filter (\<lambda>k. k \<noteq> JNull) (map row_ikey (reservations L)))
    \<and> list_all (\<lambda>r. (row_cancelled_at r = JNull \<or> row_expired_at r = JNull)
          \<and> (derived_state r \<in> {RES_CANCELLED, RES_EXPIRED} \<longrightarrow> row_bound r = JNull \<and> row_terminal r = Absent)
          \<and> (row_attestation r \<noteq> Absent \<longrightarrow> row_terminal r \<noteq> Absent)) (reservations L)"
proof -
  have "reservations_ok (calls E cs empty_ledger)"
    by (simp add: calls_keep_ok)
  then show ?thesis
    by (auto simp: Let_def reservations_ok_def list_all_iff row_lifecycle_ok_def closed_row_def derived_state_def
        split: if_splits)
qed

lemma reservation_lifecycle_witness:
  "sample_row \<in> set (reservations sample_ledger) \<and> distinct (map row_id (reservations sample_ledger))
   \<and> (row_cancelled_at sample_row = JNull \<or> row_expired_at sample_row = JNull)"
  using reservation_lifecycle [of hex_env "[reserve_sample]"]
  by (auto simp: sample_ledger_def [symmetric] sample_ledger_rows Let_def)

text \<open>C19. Publishing needs the capability: for a reservation that is unknown or whose digest the token
  does not produce, a heartbeat and a terminal event raise and leave every table as it was.\<close>

theorem publication_needs_capability:
  assumes "\<forall>r. get_event_row rid L = Some r \<longrightarrow>
     py_str (row_digest r) \<noteq> publish_token_digest E token (row_salt r)"
  shows "isl (fst (publish_event_heartbeat E rid token hb now L))
    \<and> snd (publish_event_heartbeat E rid token hb now L) = L
    \<and> isl (fst (publish_terminal_event E rid token ev att now L))
    \<and> snd (publish_terminal_event E rid token ev att now L) = L"
proof -
  obtain e where "authenticated_event_row E rid token L = Inl e"
    using assms by (cases "authenticated_event_row E rid token L") (auto simp: authenticated_Inr)
  then show ?thesis
    by (cases "normalize_heartbeat E hb (jnum now)")
      (simp_all add: publish_event_heartbeat_def publish_terminal_event_def rolled_back_def)
qed

lemma publication_needs_capability_witness:
  "publish_token_digest hex_env ''bad!'' sample_salt \<noteq> publish_token_digest hex_env ''tok'' sample_salt
   \<and> isl (fst (publish_event_heartbeat hex_env ''r1'' ''bad!'' sample_heartbeat_input 5 sample_ledger))
   \<and> snd (publish_terminal_event hex_env ''r1'' ''bad!'' (EventMapping sample_worker) JNull 5 sample_ledger)
     = sample_ledger"
proof -
  have ne: "publish_token_digest hex_env ''bad!'' sample_salt \<noteq> publish_token_digest hex_env ''tok'' sample_salt"
    by (simp add: publish_token_digest_def hex_env_sel sample_salt_def)
  have "\<forall>r. get_event_row ''r1'' sample_ledger = Some r \<longrightarrow>
      py_str (row_digest r) \<noteq> publish_token_digest hex_env ''bad!'' (row_salt r)"
    using ne by (simp add: sample_row_def fresh_row_def)
  from publication_needs_capability [OF this] ne show ?thesis by blast
qed

lemma get_event_row_update:
  "(\<And>r. row_id (f r) = row_id r) \<Longrightarrow>
     get_event_row rid (L\<lparr>reservations := sql_update p f (reservations L)\<rparr>)
     = map_option (\<lambda>r. if p r then f r else r) (get_event_row rid L)"
  by (simp add: get_event_row_def sql_first_update)

text \<open>The row a successful publication leaves, still under the same capability.\<close>

lemma published_row:
  assumes pub: "publish_terminal_event E rid token ev att now L = (Inr rec, L1)"
    and ok: "reservations_ok L"
  obtains r1 where "authenticated_event_row E rid token L1 = Inr r1" "event_from_row E r1 = Inr rec"
    "er_terminal rec \<noteq> JNull"
proof -
  obtain r current e f where r: "authenticated_event_row E rid token L = Inr r" "event_from_row E r = Inr current"
    using pub by (auto simp: publish_terminal_event_def rolled_back_def split: sum.splits)
  have rin: "r \<in> set (reservations L)"
    using r(1) by (auto simp: authenticated_Inr dest: get_event_row_Some)
  show thesis
  proof (cases "er_terminal current = JNull")
    case False
    with pub r show thesis
      by (auto simp: publish_terminal_event_def rolled_back_def raise_conflict_def split: sum.splits if_splits
          intro: that)
  next
    case True
    have absent: "row_terminal r = Absent"
      using ok rin True event_from_row_Inr(7) [OF r(2)]
      by (auto simp: reservations_ok_def row_lifecycle_ok_def stored_value_def)
    obtain e f where ef: "event_from_row E (terminal_row e f att now r) = Inr rec"
        "L1 = L\<lparr>reservations := sql_update (\<lambda>r. row_id r = JStr rid \<and> row_terminal r = Absent)
             (terminal_row e f att now) (reservations L)\<rparr>"
      using pub r True absent
      by (auto simp: publish_terminal_event_def rolled_back_def split: sum.splits)
    have "authenticated_event_row E rid token L1 = Inr (terminal_row e f att now r)"
      using r(1) absent get_event_row_Some [of rid L r]
      by (auto simp: ef(2) authenticated_Inr get_event_row_update terminal_row_def)
    moreover have "er_terminal rec \<noteq> JNull"
      using event_from_row_Inr(7) [OF ef(1)] terminal_row_stored [of e f att now r]
      by (auto simp: stored_value_def)
    ultimately show thesis
      using that ef(1) by blast
  qed
qed

text \<open>C11. Publication is idempotent and immutable: after a terminal event was accepted, publishing again
  under the same capability changes nothing; it returns the stored event when the fingerprint is the
  stored one and raises a conflict otherwise.\<close>

theorem terminal_publication_idempotent:
  assumes "publish_terminal_event E rid token ev att now (calls E cs empty_ledger) = (Inr rec, L1)"
    and "normalize_terminal_event E ev2 (Some (er_kind rec)) (jnum now2) = Inr e2"
    and "event_fingerprint E e2 = Inr f2"
  shows "publish_terminal_event E rid token ev2 att2 now2 L1 =
    (if er_fingerprint rec = Some f2 then Inr rec
     else Inl (ConflictError ''terminal event is immutable after first publication''), L1)"
proof -
  obtain r1 where "authenticated_event_row E rid token L1 = Inr r1" "event_from_row E r1 = Inr rec"
      "er_terminal rec \<noteq> JNull"
    using published_row [OF assms(1)] calls_keep_ok [OF empty_ok(1)] by blast
  with assms(2,3) show ?thesis
    by (simp add: publish_terminal_event_def rolled_back_def raise_conflict_def)
qed

lemma terminal_publication_idempotent_witness:
  "\<exists>f rec. publish_terminal_event hex_env ''r1'' ''tok'' (EventMapping sample_worker) JNull 5 sample_ledger
       = (Inr rec, published_sample f)
     \<and> publish_terminal_event hex_env ''r1'' ''tok'' (EventMapping sample_worker) JNull 5 (published_sample f)
       = (Inr rec, published_sample f)"
proof -
  obtain f where f: "event_fingerprint hex_env (WorkerEvent sample_worker_event) = Inr f"
    using sample_fingerprint by blast
  let ?rec = "sample_record\<lparr>er_state := RES_TERMINAL, er_terminal := stored_sample,
             er_fingerprint := Some f, er_updated_at := 5\<rparr>"
  have pub: "publish_terminal_event hex_env ''r1'' ''tok'' (EventMapping sample_worker) JNull 5
      (calls hex_env [reserve_sample] empty_ledger) = (Inr ?rec, published_sample f)"
    using sample_published [OF f] by (simp add: sample_ledger_def)
  have kind: "er_kind ?rec = WORKER_TERMINAL" and stored: "er_fingerprint ?rec = Some f"
    by (simp_all add: sample_record_def)
  have "normalize_terminal_event hex_env (EventMapping sample_worker) (Some (er_kind ?rec)) (jnum 5)
      = Inr (WorkerEvent sample_worker_event)"
    unfolding kind by (rule sample_worker_ok)
  from terminal_publication_idempotent [OF pub this f, of JNull] stored
  have "publish_terminal_event hex_env ''r1'' ''tok'' (EventMapping sample_worker) JNull 5 (published_sample f)
      = (Inr ?rec, published_sample f)"
    by (simp only: simp_thms if_True)
  with pub [folded sample_ledger_def] show ?thesis by blast
qed

lemma cancelled_row:
  assumes "cancel_event E rid now L = (Inr rec, L1)"
  obtains r1 where "get_event_row rid L1 = Some r1" "event_from_row E r1 = Inr rec"
    "er_state rec \<in> {RES_CANCELLED, RES_EXPIRED}"
    "L1 \<noteq> L \<longrightarrow> (er_state rec = RES_EXPIRED \<longleftrightarrow> er_expires_at rec \<le> now)"
proof -
  obtain r current where r: "get_event_row rid L = Some r" "event_from_row E r = Inr current"
    using assms by (auto simp: cancel_event_def raise_conflict_def split: option.splits sum.splits)
  show thesis
  proof (cases "er_state current \<in> {RES_CANCELLED, RES_EXPIRED}")
    case True
    with assms r that show thesis by (simp add: cancel_event_def)
  next
    case False
    let ?fact = "if er_expires_at current \<le> now then RES_EXPIRED else RES_CANCELLED"
    let ?hit = "\<lambda>r. row_id r = JStr rid \<and> unsettled r"
    have st: "er_state current = RES_RESERVED" and dec: "event_from_row E (end_row ?fact now r) = Inr rec"
      and L1: "L1 = L\<lparr>reservations := sql_update ?hit (end_row ?fact now) (reservations L)\<rparr>"
      using assms r False
      by (auto simp: cancel_event_def raise_conflict_def Let_def after_commit_def split: if_splits sum.splits)
    have un: "unsettled r"
      using st event_from_row_Inr(4) [OF r(2)] by (auto simp: unsettled_def derived_state_def split: if_splits)
    have "get_event_row rid L1 = Some (end_row ?fact now r)"
      using r(1) un get_event_row_Some [OF r(1)] by (simp add: L1 get_event_row_update)
    moreover have "er_state rec = ?fact"
      using event_from_row_Inr(4) [OF dec] un
      by (auto simp: derived_state_def end_row_def unsettled_def Let_def)
    moreover have "er_expires_at rec = er_expires_at current"
      using event_from_row_Inr(12) [OF dec] event_from_row_Inr(12) [OF r(2)]
      by (simp add: end_row_def Let_def split: if_splits)
    ultimately show thesis
      using that dec by (auto split: if_splits)
  qed
qed

lemma closed_row_shut:
  assumes ok: "reservations_ok L" and r: "get_event_row rid L = Some r" "closed_row r"
    and q: "get_event_row rid (calls E ds L) = Some q" and c: "event_from_row E q = Inr c"
  shows "isl (ensure_event_writable c now (calls E ds L))" "er_terminal c = JNull"
proof -
  have okM: "reservations_ok (calls E ds L)"
    using ok by (rule calls_keep_ok)
  obtain q' where q': "q' \<in> set (reservations (calls E ds L))" "reservation_moved r q'"
    using reservation_order.moved_member [OF calls_move_reservations [OF ok]] get_event_row_Some [OF r(1)]
    by blast
  then have "row_id q' = JStr rid"
    using get_event_row_Some [OF r(1)] by (simp add: reservation_moved_def identity_of_row_def)
  with q' q okM have "reservation_moved r q"
    using row_with_id by blast
  with r(2) have "closed_row q"
    by (auto simp: reservation_moved_def closed_row_def)
  moreover have "row_lifecycle_ok q"
    using okM get_event_row_Some [OF q] by (simp add: reservations_ok_def)
  ultimately show "isl (ensure_event_writable c now (calls E ds L))" "er_terminal c = JNull"
    using event_from_row_Inr(5,6,7) [OF c]
    by (auto simp: ensure_event_writable_def closed_row_def row_lifecycle_ok_def stored_value_def)
qed

text \<open>C9. Cancelling closes a reservation for good: what \<open>cancel_event\<close> returns is cancelled or expired,
  a live one became expired exactly when its deadline had passed, and no heartbeat and no terminal
  event is accepted for it afterwards, whatever calls intervene.\<close>

theorem cancelled_reservation_is_closed:
  assumes "L = calls E cs empty_ledger" and "cancel_event E rid now L = (Inr rec, L1)"
  shows "er_state rec \<in> {RES_CANCELLED, RES_EXPIRED}
    \<and> (L1 \<noteq> L \<longrightarrow> (er_state rec = RES_EXPIRED \<longleftrightarrow> er_expires_at rec \<le> now))
    \<and> isl (fst (publish_event_heartbeat E rid token hb now2 (calls E ds L1)))
    \<and> isl (fst (publish_terminal_event E rid token ev att now2 (calls E ds L1)))"
proof -
  have "reservations_ok L"
    unfolding assms(1) by (rule calls_keep_ok) simp
  then have ok: "reservations_ok L1"
    using call_keeps_ok [of L E "CancelEvent rid now"] assms(2) by simp
  obtain r1 where r1: "get_event_row rid L1 = Some r1" "event_from_row E r1 = Inr rec"
    "er_state rec \<in> {RES_CANCELLED, RES_EXPIRED}"
    "L1 \<noteq> L \<longrightarrow> (er_state rec = RES_EXPIRED \<longleftrightarrow> er_expires_at rec \<le> now)"
    using cancelled_row [OF assms(2)] by blast
  have closed: "closed_row r1"
    using r1(3) event_from_row_Inr(4) [OF r1(2)]
    by (auto simp: closed_row_def derived_state_def split: if_splits)
  have shut: "ensure_event_writable c now2 (calls E ds L1) \<noteq> Inr () \<and> er_terminal c = JNull"
    if "get_event_row rid (calls E ds L1) = Some q" "event_from_row E q = Inr c" for q c
    using closed_row_shut [OF ok r1(1) closed that] by (metis Inl_Inr_False isl_def)
  have "isl (fst (publish_event_heartbeat E rid token hb now2 (calls E ds L1)))"
    by (auto simp: publish_event_heartbeat_def authenticated_Inr split: sum.splits dest: shut)
  moreover have "isl (fst (publish_terminal_event E rid token ev att now2 (calls E ds L1)))"
    by (auto simp: publish_terminal_event_def rolled_back_def authenticated_Inr
        split: sum.splits dest: shut)
  ultimately show ?thesis
    using r1(3,4) by blast
qed

lemma cancelled_reservation_is_closed_witness:
  "\<exists>rec L1. cancel_event hex_env ''r1'' 7 sample_ledger = (Inr rec, L1)
     \<and> isl (fst (publish_terminal_event hex_env ''r1'' ''tok'' (EventMapping sample_worker) JNull 8
          (calls hex_env [ExpireEvents 200] L1)))"
  using cancelled_reservation_is_closed [OF sample_ledger_def sample_cancelled] sample_cancelled by blast

end
