(* ===== verification/Monitor_Properties.thy ===== *)
theory Monitor_Properties
  imports Ledger_Properties
begin

text \<open>
  What the ledger promises about monitors under any interleaving: rows always decode, a registration
  is all or nothing, an update is one compare-and-set, the one queue-add attempt of a thread delivery is
  consumed once, and an evaluation made from a stale observation is discarded.
\<close>

section \<open>Stored objects are read back\<close>

lemma map_of_filter_key: "map_of kvs k = map_of (filter (\<lambda>kv. fst kv = k) kvs) k"
  by (induction kvs) auto

lemma map_of_sorted: "map_of (sort_key fst kvs) k = map_of kvs k"
  by (metis map_of_filter_key sort_key_stable)

lemma jget_canon: "jget k (canon v) = canon (jget k v)"
  by (cases v) (auto simp: jget_def map_of_sorted map_of_canon split: option.splits)

lemma thread_delivery_canon [simp]: "is_thread_delivery (canon d) = is_thread_delivery d"
  by (simp add: is_thread_delivery_def jget_canon)

lemma jindex_canon: "jindex k (canon v) = bindE (jindex k v) (\<lambda>x. Inr (canon x))"
  by (cases v) (auto simp: jindex_def map_of_sorted map_of_canon split: option.splits)

lemma guard_canon: "guard_from_dict (canon (guard_as_dict g)) = Inr g"
  by (cases g; cases "guard_goal g"; cases "token_budget (guard_goal g)")
    (auto simp: guard_from_dict_def guard_as_dict_def goal_as_dict_def jindex_canon jget_canon
      optional_int_def jindex_def jget_def)

section \<open>Rows decode\<close>

definition monitor_typed :: "monitor_row \<Rightarrow> bool" where
  "monitor_typed r \<longleftrightarrow>
     is_thread_delivery (mon_delivery r)
     \<or> mon_delivery r = JNull \<and> (\<exists>g. guard_from_dict (mon_target r) = Inr g)"

lemma typed_decodes: "monitor_typed r \<Longrightarrow> \<exists>rec. monitor_from_row r = Inr rec"
  by (auto simp: monitor_typed_def monitor_from_row_def)

lemma typed_kind:
  "monitor_typed r \<Longrightarrow> monitor_from_row r = Inr rec \<Longrightarrow>
     delivery_kind rec = Inr (if is_thread_delivery (mon_delivery r) then THREAD else GOAL)"
  by (auto simp: monitor_typed_def monitor_from_row_sel delivery_kind_thread)

lemma registered_typed: "stored_target g = Inr target \<Longrightarrow> monitor_typed (registered_row g target now)"
  by (auto simp: stored_target_def monitor_typed_def registered_row_def raise_conflict_def guard_canon
      split: option.splits if_splits)

lemma thread_delivery_jset:
  "is_thread_delivery d \<Longrightarrow> is_thread_delivery (jset ''capability_at_admission'' c d)"
  by (cases d) (auto simp: is_thread_delivery_def jset_def jget_def)

lemma writes_typed [simp]:
  "monitor_typed (transition_row st u now r) = monitor_typed r"
  "monitor_typed (delivery_row st ds receipt rc outcome now r) = monitor_typed r"
  "monitor_typed (evaluated_row c ev d now r) = monitor_typed r"
  "monitor_typed (recover_row st kind t0 now r) = monitor_typed r"
  "monitor_typed (r\<lparr>mon_status_seen_at := s, mon_updated_at := now\<rparr>) = monitor_typed r"
  by (simp_all add: monitor_typed_def transition_row_def delivery_row_def evaluated_row_def recover_row_def)

lemma admission_typed:
  "is_thread_delivery d \<Longrightarrow> monitor_typed (admission_row (jset ''capability_at_admission'' c d) now r)"
  by (simp add: monitor_typed_def admission_row_def thread_delivery_jset)

definition monitors_typed :: "ledger \<Rightarrow> bool" where
  "monitors_typed L \<longleftrightarrow> (\<forall>r \<in> set (monitors L). monitor_typed r)"

lemma typed_update:
  "\<lbrakk>monitors_typed L; monitors L' = sql_update p f (monitors L);
    \<And>r. r \<in> set (monitors L) \<Longrightarrow> monitor_typed r \<Longrightarrow> monitor_typed (f r)\<rbrakk> \<Longrightarrow> monitors_typed L'"
  by (auto simp: monitors_typed_def dest!: set_sql_update)

text \<open>What an admission that wrote found, in a table that decodes.\<close>

definition admission_check :: "monitor_row \<Rightarrow> bool res" where
  "admission_check r =
     bindE (monitor_from_row r) (\<lambda>rec.
     bindE (delivery_kind rec) (\<lambda>k.
     bindE (thread_delivery_state rec) (\<lambda>ds.
     Inr (mon_state rec = CLAIMED \<and> k = THREAD \<and> ds = Some TD_UNATTEMPTED
          \<and> mon_admission_at rec = None))))"

definition admitted :: "string \<Rightarrow> json \<Rightarrow> rat \<Rightarrow> monitor_row \<Rightarrow> ledger \<Rightarrow> ledger" where
  "admitted mid cap now r L = L\<lparr>monitors := sql_update
     (\<lambda>r. mon_id r = mid \<and> mon_state r = CLAIMED \<and> mon_admission_at r = None)
     (admission_row (jset ''capability_at_admission'' cap (mon_delivery r)) now) (monitors L)\<rparr>"

lemma admission_cases:
  "begin_thread_admission mid cap now L =
     (case get_monitor_row mid L of
        None \<Rightarrow> (Inr None, L)
      | Some r \<Rightarrow>
          (case admission_check r of
             Inl e \<Rightarrow> (Inl e, L)
           | Inr ok \<Rightarrow>
               if ok then (read_back mid (admitted mid cap now r L), admitted mid cap now r L)
               else (Inr None, L)))"
  unfolding begin_thread_admission_def admission_check_def [symmetric] admitted_def [symmetric] Let_def
  by (intro option.case_cong sum.case_cong refl) simp

lemma admission_check_Inr:
  assumes "admission_check r = Inr True"
  shows "mon_state r = CLAIMED" "mon_admission_at r = None" "mon_delivery r \<noteq> JNull"
proof -
  obtain rec where "monitor_from_row r = Inr rec" "delivery_kind rec = Inr THREAD"
      "mon_state rec = CLAIMED" "mon_admission_at rec = None"
    using assms by (auto simp: admission_check_def)
  then show "mon_state r = CLAIMED" "mon_admission_at r = None" "mon_delivery r \<noteq> JNull"
    using monitor_from_row_sel(6,21,23) [of r rec] delivery_kind_THREAD [of rec] by auto
qed

lemma typed_thread: "monitor_typed r \<Longrightarrow> mon_delivery r \<noteq> JNull \<Longrightarrow> is_thread_delivery (mon_delivery r)"
  by (auto simp: monitor_typed_def)

lemma monitors_typed_same: "monitors L' = monitors L \<Longrightarrow> monitors_typed L \<Longrightarrow> monitors_typed L'"
  by (simp add: monitors_typed_def)

lemma call_keeps_typed:
  assumes typed: "monitors_typed L" and ok: "monitors_ok L"
  shows "monitors_typed (call E c L)"
proof (cases c)
  case (CreateMonitor g now)
  with create_monitors [of E g now L] typed show ?thesis
    by (auto simp: monitors_typed_def registered_typed)
next
  case (Transition mid expected st u now)
  show ?thesis
    by (rule typed_update [OF typed, where p = "\<lambda>r. mon_id r = mid \<and> mon_state r \<in> set expected"
          and f = "transition_row st u now"]) (simp_all add: Transition transition_effect)
next
  case (UpdateDelivery mid expected st ds receipt rc outcome now)
  show ?thesis
    by (rule typed_update [OF typed, where f = "delivery_row st ds receipt rc outcome now"
          and p = "\<lambda>r. mon_id r = mid \<and> mon_state r \<in> set expected \<and> mon_delivery r \<noteq> JNull"])
      (simp_all add: UpdateDelivery delivery_effect)
next
  case (BeginAdmission mid cap now)
  have "monitors_typed (admitted mid cap now r L)"
    if "get_monitor_row mid L = Some r" "admission_check r = Inr True" for r
  proof -
    have "is_thread_delivery (mon_delivery r)"
      using typed get_monitor_row_Some [OF that(1)] admission_check_Inr [OF that(2)]
      by (simp add: monitors_typed_def typed_thread)
    then show ?thesis
      using typed by (auto simp: monitors_typed_def admitted_def admission_typed dest!: set_sql_update)
  qed
  with typed show ?thesis
    by (simp add: BeginAdmission admission_cases split: option.split sum.split)
next
  case (ObserveStatus mid thread now)
  with status_effect [OF ok, of mid thread now] typed show ?thesis
    by (auto simp: monitors_typed_def dest!: set_sql_update)
next
  case (EvaluateAndClaim mid n observed ext contract now)
  with evaluate_effect [of E mid n observed ext contract now L] typed show ?thesis
    by (auto simp: monitors_typed_def dest!: set_sql_update)
next
  case (Recover old st kind t0 now)
  show ?thesis
    by (rule typed_update [OF typed, where p = "\<lambda>r. mon_state r = old" and f = "recover_row st kind t0 now"])
      (simp_all add: Recover recover_def)
qed (use typed in \<open>simp_all add: reservation_calls_monitors monitors_typed_def\<close>)

lemma calls_keep_typed:
  "monitors_typed L \<Longrightarrow> monitors_ok L \<Longrightarrow> monitors_typed (calls E cs L)"
  unfolding calls_def
  by (induction cs arbitrary: L) (simp_all add: call_keeps_typed call_keeps_monitors_ok)

lemma empty_typed [simp]: "monitors_typed empty_ledger"
  by (simp add: monitors_typed_def empty_ledger_def)

section \<open>The properties\<close>

lemma history_ok:
  "monitors_ok (calls E cs empty_ledger)" "monitors_typed (calls E cs empty_ledger)"
  by (simp_all add: calls_keep_monitors_ok calls_keep_typed)

lemma typed_decodes_as:
  assumes typed: "monitor_typed r"
  shows "\<exists>rec. monitor_from_row r = Inr rec
      \<and> (mon_guard rec = None \<longleftrightarrow> is_thread_delivery (mon_delivery r))
      \<and> delivery_kind rec = Inr (if is_thread_delivery (mon_delivery r) then THREAD else GOAL)"
proof -
  obtain rec where rec: "monitor_from_row r = Inr rec"
    using typed_decodes [OF typed] by blast
  have "mon_guard rec = None \<longleftrightarrow> is_thread_delivery (mon_delivery r)"
    using monitor_from_row_sel(28,29) [OF rec] by (cases "is_thread_delivery (mon_delivery r)") auto
  with rec typed_kind [OF typed rec] show ?thesis
    by (intro exI [of _ rec] conjI)
qed

text \<open>C16. In every history each monitor row decodes: it is a thread delivery without a goal guard or a
  goal monitor whose stored guard reads back, its delivery kind is known, and no two monitors share an
  identity or an idempotency key.\<close>

theorem stored_monitors_decode:
  "list_all (\<lambda>r. \<exists>rec. monitor_from_row r = Inr rec
      \<and> (mon_guard rec = None \<longleftrightarrow> is_thread_delivery (mon_delivery r))
      \<and> delivery_kind rec = Inr (if is_thread_delivery (mon_delivery r) then THREAD else GOAL))
     (monitors (calls E cs empty_ledger))
   \<and> distinct (map mon_id (monitors (calls E cs empty_ledger)))
   \<and> distinct (filter (\<lambda>k. k \<noteq> None) (map mon_ikey (monitors (calls E cs empty_ledger))))"
  unfolding list_all_iff
  by (intro conjI ballI typed_decodes_as
      history_ok(1) [unfolded monitors_ok_def, THEN conjunct1]
      history_ok(1) [unfolded monitors_ok_def, THEN conjunct2]
      history_ok(2) [unfolded monitors_typed_def, THEN bspec])

lemma get_monitor_row_update:
  "(\<And>r. mon_id (f r) = mon_id r) \<Longrightarrow>
     get_monitor_row mid (L\<lparr>monitors := sql_update p f (monitors L)\<rparr>)
     = map_option (\<lambda>r. if p r then f r else r) (get_monitor_row mid L)"
  by (simp add: get_monitor_row_def sql_first_update)

lemma keyed_hit:
  assumes ok: "monitors_ok L" and row: "get_monitor_row mid L = Some r"
  shows "sql_count (\<lambda>q. mon_id q = mid \<and> guard q) (monitors L) = (if guard r then 1 else 0)"
proof -
  have "sql_count (\<lambda>q. mon_id q = mid \<and> guard q) (monitors L) \<le> 1"
    using ok by (intro keyed_count) (simp add: monitors_ok_def)
  moreover have "sql_count (\<lambda>q. mon_id q = mid \<and> guard q) (monitors L) = 0 \<longleftrightarrow> \<not> guard r"
    using get_monitor_row_Some [OF row] monitor_with_id [OF ok row] by (auto simp: sql_count_0)
  ultimately show ?thesis by auto
qed

lemma keyed_miss:
  "get_monitor_row mid L = None \<Longrightarrow> sql_count (\<lambda>q. mon_id q = mid \<and> guard q) (monitors L) = 0"
  by (auto simp: get_monitor_row_def sql_first_None sql_count_0)

lemma sql_update_cong: "(\<And>r. r \<in> set rows \<Longrightarrow> p r = q r) \<Longrightarrow> sql_update p f rows = sql_update q f rows"
  by (simp add: sql_update_def)

text \<open>With unique identities, an UPDATE by identity is a compare-and-set of one row.\<close>

lemma update_monitor_is_cas:
  assumes ok: "monitors_ok L" and keep: "\<And>r. mon_id (f r) = mon_id r"
  shows "update_monitor mid guard f L =
    (case get_monitor_row mid L of
       None \<Rightarrow> (Inr None, L)
     | Some r \<Rightarrow>
         if guard r then
           (after_commit (bindE (monitor_from_row (f r)) (\<lambda>rec. Inr (Some rec))),
            L\<lparr>monitors := sql_update (\<lambda>q. mon_id q = mid) f (monitors L)\<rparr>)
         else (Inr None, L))"
proof (cases "get_monitor_row mid L")
  case None
  then have "sql_update (\<lambda>q. mon_id q = mid \<and> guard q) f (monitors L) = monitors L"
    by (auto simp: get_monitor_row_def sql_first_None)
  with None show ?thesis
    by (simp add: update_monitor_def keyed_miss)
next
  case (Some r)
  have same: "sql_update (\<lambda>q. mon_id q = mid \<and> guard q) f (monitors L)
      = (if guard r then sql_update (\<lambda>q. mon_id q = mid) f (monitors L) else monitors L)"
    using monitor_with_id [OF ok Some]
    by (cases "guard r") (auto intro!: sql_update_cong sql_update_none)
  show ?thesis
    using Some get_monitor_row_Some [OF Some]
    by (simp add: update_monitor_def keyed_hit [OF ok Some] same read_back_def
        get_monitor_row_update keep)
qed

text \<open>C15. A transition is a compare-and-set: in every history it raises only for an empty set of expected
  states; otherwise it writes the one row it names exactly when that row is in an expected state, and
  returns the row it wrote, or leaves every table alone and returns nothing.\<close>

theorem transition_is_compare_and_set:
  "let L = calls E cs empty_ledger in
   if expected = [] then transition mid expected st u now L = (Inl ValueError, L)
   else (case get_monitor_row mid L of
       None \<Rightarrow> transition mid expected st u now L = (Inr None, L)
     | Some r \<Rightarrow>
         if mon_state r \<in> set expected then
           (\<exists>rec. monitor_from_row (transition_row st u now r) = Inr rec \<and> mon_state rec = st
              \<and> transition mid expected st u now L =
                  (Inr (Some rec),
                   L\<lparr>monitors := map (\<lambda>q. if mon_id q = mid then transition_row st u now r else q)
                                  (monitors L)\<rparr>))
         else transition mid expected st u now L = (Inr None, L))"
proof -
  let ?L = "calls E cs empty_ledger" and ?f = "transition_row st u now"
  note cas = update_monitor_is_cas [OF history_ok(1) monitor_writes_keep(1)]
  have "\<exists>rec. monitor_from_row (?f r) = Inr rec \<and> mon_state rec = st"
    and "sql_update (\<lambda>q. mon_id q = mid) ?f (monitors ?L)
      = map (\<lambda>q. if mon_id q = mid then ?f r else q) (monitors ?L)"
    if r: "get_monitor_row mid ?L = Some r" for r
  proof -
    have "monitor_typed r"
      using history_ok(2) [of E cs] get_monitor_row_Some [OF r] by (simp add: monitors_typed_def)
    then obtain rec where rec: "monitor_from_row (?f r) = Inr rec"
      using typed_decodes writes_typed(1) by metis
    then show "\<exists>rec. monitor_from_row (?f r) = Inr rec \<and> mon_state rec = st"
      using monitor_from_row_sel(6) [OF rec] by (auto simp: transition_row_def)
    show "sql_update (\<lambda>q. mon_id q = mid) ?f (monitors ?L)
      = map (\<lambda>q. if mon_id q = mid then ?f r else q) (monitors ?L)"
      using monitor_with_id [OF history_ok(1) r] by (auto simp: sql_update_def)
  qed
  then show ?thesis
    by (fastforce simp: transition_def cas after_commit_def Let_def split: option.split)
qed

text \<open>The row a monitor has later in a history.\<close>

lemma later_row:
  assumes ok: "monitors_ok L" and r: "get_monitor_row mid L = Some r"
  obtains q where "get_monitor_row mid (calls E ds L) = Some q" "monitor_moved r q"
    "q \<in> set (monitors (calls E ds L))"
proof -
  have okM: "monitors_ok (calls E ds L)"
    using ok by (rule calls_keep_monitors_ok)
  obtain q where q: "q \<in> set (monitors (calls E ds L))" "monitor_moved r q"
    using monitor_order.moved_member [OF calls_move_monitors [OF ok]] get_monitor_row_Some [OF r] by blast
  then have "mon_id q = mid"
    using get_monitor_row_Some [OF r] by (simp add: monitor_moved_def identity_of_monitor_def)
  with q get_monitor_row_in [OF okM q(1)] that show thesis by simp
qed

lemma admission_record:
  assumes adm: "begin_thread_admission mid cap now L = (Inr (Some rec), L1)"
  shows "\<exists>r. get_monitor_row mid L = Some r \<and> admission_check r = Inr True
    \<and> L1 = admitted mid cap now r L \<and> read_back mid L1 = Inr (Some rec)"
proof (cases "get_monitor_row mid L")
  case (Some r)
  show ?thesis
  proof (cases "admission_check r = Inr True")
    case True
    with adm Some show ?thesis by (auto simp: admission_cases)
  next
    case False
    with adm Some show ?thesis by (cases "admission_check r") (auto simp: admission_cases)
  qed
qed (use adm in \<open>simp add: admission_cases\<close>)

text \<open>C4. A thread delivery gets one queue-add attempt: once an admission returned its record, every later
  admission of that monitor, after any calls of any process, returns nothing and changes nothing.\<close>

theorem thread_admission_once:
  assumes "begin_thread_admission mid cap now (calls E cs empty_ledger) = (Inr (Some rec), L1)"
  shows "mon_admission_at rec = Some now
    \<and> begin_thread_admission mid cap2 now2 (calls E ds L1) = (Inr None, calls E ds L1)"
proof -
  let ?L = "calls E cs empty_ledger"
  obtain r where r: "get_monitor_row mid ?L = Some r" "admission_check r = Inr True"
    and L1: "L1 = admitted mid cap now r ?L" and read: "read_back mid L1 = Inr (Some rec)"
    using admission_record [OF assms] by blast
  let ?a = "admission_row (jset ''capability_at_admission'' cap (mon_delivery r)) now r"
  have row: "get_monitor_row mid L1 = Some ?a"
    using r(1) get_monitor_row_Some [OF r(1)] admission_check_Inr [OF r(2)]
    by (simp add: L1 admitted_def get_monitor_row_update)
  have "monitor_from_row ?a = Inr rec"
    using read row by (simp add: read_back_def after_commit_def split: sum.splits)
  from monitor_from_row_sel(23) [OF this] have admission_at: "mon_admission_at rec = Some now"
    by (simp add: admission_row_def)
  have ok: "monitors_ok L1" "monitors_typed L1"
    using call_keeps_monitors_ok [of ?L E "BeginAdmission mid cap now"]
      call_keeps_typed [of ?L E "BeginAdmission mid cap now"] history_ok [of E cs] assms
    by simp_all
  obtain q where q: "get_monitor_row mid (calls E ds L1) = Some q" "monitor_moved ?a q"
      "q \<in> set (monitors (calls E ds L1))"
    using later_row [OF ok(1) row] by blast
  then have "monitor_typed q"
    using calls_keep_typed [OF ok(2,1)] by (simp add: monitors_typed_def)
  then obtain qrec k where dec: "monitor_from_row q = Inr qrec" "delivery_kind qrec = Inr k"
    using typed_decodes typed_kind by blast
  have "mon_admission_at qrec \<noteq> None"
    using q(2) monitor_from_row_sel(23) [OF dec(1)] by (simp add: monitor_moved_def admission_row_def)
  with dec have "admission_check q = Inr False"
    by (simp add: admission_check_def thread_delivery_state_def)
  with q(1) admission_at show ?thesis
    by (simp add: admission_cases)
qed

lemma evaluate_written:
  assumes "snd (evaluate_and_claim_event_monitor E mid n ob ext contract now L) \<noteq> L"
  obtains r current ev d where "get_monitor_row mid L = Some r" "monitor_from_row r = Inr current"
    "mon_state current = ARMED" "mon_evaluations current = n"
    "snd (evaluate_and_claim_event_monitor E mid n ob ext contract now L)
     = L\<lparr>monitors := sql_update (\<lambda>r. mon_id r = mid \<and> mon_state r = ARMED \<and> mon_evaluations r = n)
             (evaluated_row (canon ob) ev d now) (monitors L)\<rparr>"
proof (rule disjE [OF evaluate_effect [of E mid n ob ext contract now L]], goal_cases)
  case 1
  with assms show thesis by simp
next
  case 2
  from 2(2) show thesis
    by (elim exE conjE) (rule 2(1))
qed

definition sample_registration :: "MonitorState \<Rightarrow> registration" where
  "sample_registration st =
     \<lparr>reg_id = ''m1'', reg_ikey = None, reg_semantic = JObj [], reg_target = None,
      reg_condition = JObj [(''type'', JStr ''pid_exited'')], reg_heuristic = False, reg_expires_at = 100,
      reg_delivery = JObj [(''kind'', JStr ''thread''), (''thread_id'', JStr ''t1'')], reg_mode = DEFERRED,
      reg_idle_barrier = False, reg_state = st, reg_rearm_of = None, reg_bindings = []\<rparr>"

definition monitored_ledger :: "MonitorState \<Rightarrow> ledger" where
  "monitored_ledger st = calls hex_env [CreateMonitor (sample_registration st) 1] empty_ledger"

definition returns_record :: "MonitorRecord option res \<times> ledger \<Rightarrow> bool" where
  "returns_record r = (case fst r of Inr (Some _) \<Rightarrow> True | _ \<Rightarrow> False)"

lemma thread_admission_once_witness:
  "\<exists>rec L1. begin_thread_admission ''m1'' JNull 2 (monitored_ledger CLAIMED) = (Inr (Some rec), L1)
     \<and> begin_thread_admission ''m1'' JNull 3 (calls hex_env [ExpireEvents 3] L1)
       = (Inr None, calls hex_env [ExpireEvents 3] L1)"
proof -
  have "returns_record (begin_thread_admission ''m1'' JNull 2 (monitored_ledger CLAIMED))"
    by code_simp
  then obtain rec L1 where "begin_thread_admission ''m1'' JNull 2 (monitored_ledger CLAIMED) = (Inr (Some rec), L1)"
    by (cases "begin_thread_admission ''m1'' JNull 2 (monitored_ledger CLAIMED)")
      (auto simp: returns_record_def split: sum.splits option.splits)
  with thread_admission_once [OF this [unfolded monitored_ledger_def]] show ?thesis by blast
qed

text \<open>C13. An evaluation is optimistic: when an evaluation made against the count \<open>n\<close> was written, every
  later one made against the same count, after any calls of any process, returns nothing and changes
  nothing, so two observers of one monitor cannot both claim it.\<close>

theorem stale_evaluation_discarded:
  assumes "snd (evaluate_and_claim_event_monitor E mid n ob ext contract now (calls E cs empty_ledger)) = L1"
    and "L1 \<noteq> calls E cs empty_ledger"
  shows "evaluate_and_claim_event_monitor E mid n ob2 ext2 contract2 now2 (calls E ds L1)
    = (Inr None, calls E ds L1)"
proof -
  let ?L = "calls E cs empty_ledger"
  obtain r current ev d where r: "get_monitor_row mid ?L = Some r" "monitor_from_row r = Inr current"
      "mon_state current = ARMED" "mon_evaluations current = n"
    and L1: "L1 = ?L\<lparr>monitors := sql_update (\<lambda>r. mon_id r = mid \<and> mon_state r = ARMED \<and> mon_evaluations r = n)
             (evaluated_row (canon ob) ev d now) (monitors ?L)\<rparr>"
    by (rule evaluate_written [of E mid n ob ext contract now ?L])
      (use assms in simp, rule that, assumption+, use assms(1) in simp)
  have row: "get_monitor_row mid L1 = Some (evaluated_row (canon ob) ev d now r)"
    using r monitor_from_row_sel(6,19) [OF r(2)] get_monitor_row_Some [OF r(1)]
    by (simp add: L1 get_monitor_row_update)
  have ok: "monitors_ok L1" "monitors_typed L1"
    using call_keeps_monitors_ok [of ?L E "EvaluateAndClaim mid n ob ext contract now"]
      call_keeps_typed [of ?L E "EvaluateAndClaim mid n ob ext contract now"] history_ok [of E cs] assms(1)
    by simp_all
  obtain q where q: "get_monitor_row mid (calls E ds L1) = Some q"
      "monitor_moved (evaluated_row (canon ob) ev d now r) q" "q \<in> set (monitors (calls E ds L1))"
    using later_row [OF ok(1) row] by blast
  then have "monitor_typed q"
    using calls_keep_typed [OF ok(2,1)] by (simp add: monitors_typed_def)
  then obtain qrec where dec: "monitor_from_row q = Inr qrec"
    using typed_decodes by blast
  have "n < mon_evaluations qrec"
    using q(2) r(4) monitor_from_row_sel(19) [OF dec] monitor_from_row_sel(19) [OF r(2)]
    by (simp add: monitor_moved_def evaluated_row_def)
  with q(1) dec show ?thesis
    by (simp add: evaluate_and_claim_event_monitor_def)
qed

lemma stale_evaluation_discarded_witness:
  "\<exists>L1. snd (evaluate_and_claim_event_monitor hex_env ''m1'' 0 (JObj [(''type'', JStr ''pid_exited'')]) [] None 2
           (monitored_ledger ARMED)) = L1
     \<and> evaluate_and_claim_event_monitor hex_env ''m1'' 0 JNull [] None 3 (calls hex_env [ExpireEvents 3] L1)
       = (Inr None, calls hex_env [ExpireEvents 3] L1)"
proof -
  let ?L1 = "snd (evaluate_and_claim_event_monitor hex_env ''m1'' 0 (JObj [(''type'', JStr ''pid_exited'')]) []
        None 2 (monitored_ledger ARMED))"
  have "map mon_evaluations (monitors ?L1) \<noteq> map mon_evaluations (monitors (monitored_ledger ARMED))"
    by code_simp
  then have "?L1 \<noteq> monitored_ledger ARMED"
    by auto
  with stale_evaluation_discarded [of hex_env "''m1''" 0 _ _ _ 2 "[CreateMonitor (sample_registration ARMED) 1]"]
  show ?thesis unfolding monitored_ledger_def by blast
qed

section \<open>Registration\<close>

text \<open>How binding moves a row: not at all, or from unbound to the monitor.\<close>

definition row_binding :: "string \<Rightarrow> string list \<Rightarrow> event_row \<Rightarrow> event_row \<Rightarrow> bool" where
  "row_binding mid ids r r' \<longleftrightarrow>
     r' = r \<or> row_bound r = JNull \<and> row_bound r' = JStr mid \<and> row_id r' = row_id r \<and> row_id r \<in> JStr ` set ids"

lemma bind_event_shape:
  assumes "bind_event E mid now b L = Inr L'"
  obtains (already) q where "get_event_row (fst b) L = Some q" "row_bound q = JStr mid" "L' = L"
  | (bound) q st where "get_event_row (fst b) L = Some q" "row_bound q = JNull"
      "L' = L\<lparr>reservations := sql_update (\<lambda>r. row_id r = JStr (fst b) \<and> row_bound r = JNull)
             (bound_row mid st now) (reservations L)\<rparr>"
proof -
  obtain q event where q: "get_event_row (fst b) L = Some q" "event_from_row E q = Inr event"
    using assms by (auto simp: bind_event_def raise_conflict_def split: option.splits)
  show thesis
  proof (cases "er_bound event = Some mid")
    case True
    with q assms event_from_row_Inr(3) [OF q(2)] show thesis
      by (intro already) (simp_all add: bind_event_def opt_json_def)
  next
    case False
    with q assms event_from_row_Inr(3) [OF q(2)] show thesis
      by (intro bound [OF q(1)]) (auto simp: bind_event_def opt_json_def Let_def)
  qed
qed

lemma bound_row_keeps [simp]: "row_id (bound_row mid st now r) = row_id r" "row_bound (bound_row mid st now r) = JStr mid"
  by (simp_all add: bound_row_def)

lemma bind_event_step:
  assumes "bind_event E mid now b L = Inr L'"
  shows "list_all2 (row_binding mid [fst b]) (reservations L) (reservations L')"
    "\<exists>r. get_event_row (fst b) L' = Some r \<and> row_bound r = JStr mid"
    "\<exists>q. get_event_row rid L = Some q \<and> row_bound q = JStr mid \<Longrightarrow>
       \<exists>q. get_event_row rid L' = Some q \<and> row_bound q = JStr mid"
proof -
  show "list_all2 (row_binding mid [fst b]) (reservations L) (reservations L')"
    by (rule bind_event_shape [OF assms])
      (auto simp: list_all2_conv_all_nth row_binding_def)
  show "\<exists>r. get_event_row (fst b) L' = Some r \<and> row_bound r = JStr mid"
  proof (rule bind_event_shape [OF assms])
    fix q st
    assume "get_event_row (fst b) L = Some q" "row_bound q = JNull"
      "L' = L\<lparr>reservations := sql_update (\<lambda>r. row_id r = JStr (fst b) \<and> row_bound r = JNull)
             (bound_row mid st now) (reservations L)\<rparr>"
    then show ?thesis
      using get_event_row_Some [of "fst b" L q] by (simp add: get_event_row_update)
  qed blast
  show "\<exists>q. get_event_row rid L' = Some q \<and> row_bound q = JStr mid"
    if "\<exists>q. get_event_row rid L = Some q \<and> row_bound q = JStr mid"
  proof -
    from that obtain r where r: "get_event_row rid L = Some r" "row_bound r = JStr mid" by blast
    show ?thesis
    proof (rule bind_event_shape [OF assms])
      fix q st
      assume "L' = L\<lparr>reservations := sql_update (\<lambda>r. row_id r = JStr (fst b) \<and> row_bound r = JNull)
             (bound_row mid st now) (reservations L)\<rparr>"
      with r show ?thesis
        by (simp add: get_event_row_update)
    qed (use r in blast)
  qed
qed

lemma row_binding_trans:
  "row_binding mid ids a b \<Longrightarrow> row_binding mid ids' b c \<Longrightarrow> row_binding mid (ids @ ids') a c"
  by (auto simp: row_binding_def)

lemma bind_events_keep_bound:
  "\<lbrakk>bind_events E mid now bs L = Inr L'; \<exists>q. get_event_row rid L = Some q \<and> row_bound q = JStr mid\<rbrakk>
     \<Longrightarrow> \<exists>q. get_event_row rid L' = Some q \<and> row_bound q = JStr mid"
proof (induction bs arbitrary: L)
  case (Cons b bs)
  then obtain M where M: "bind_event E mid now b L = Inr M" "bind_events E mid now bs M = Inr L'"
    by auto
  show ?case
    using Cons.IH [OF M(2) bind_event_step(3) [OF M(1) Cons.prems(2)]] .
qed simp

lemma bind_events_step:
  "bind_events E mid now bs L = Inr L' \<Longrightarrow>
     list_all2 (row_binding mid (map fst bs)) (reservations L) (reservations L')
     \<and> list_all (\<lambda>b. \<exists>r. get_event_row (fst b) L' = Some r \<and> row_bound r = JStr mid) bs"
proof (induction bs arbitrary: L)
  case Nil
  then show ?case by (simp add: list_all2_same row_binding_def)
next
  case (Cons b bs)
  then obtain M where M: "bind_event E mid now b L = Inr M" "bind_events E mid now bs M = Inr L'"
    by auto
  have "list_all2 (row_binding mid ([fst b] @ map fst bs)) (reservations L) (reservations L')"
    by (rule list_all2_trans [OF row_binding_trans bind_event_step(1) [OF M(1)]
          Cons.IH [OF M(2), THEN conjunct1]])
  moreover have "\<exists>r. get_event_row (fst b) L' = Some r \<and> row_bound r = JStr mid"
    by (rule bind_events_keep_bound [OF M(2) bind_event_step(2) [OF M(1)]])
  ultimately show ?case
    using Cons.IH [OF M(2)] by simp
qed

lemma sql_first_append:
  "sql_first p (xs @ ys) = (case sql_first p xs of None \<Rightarrow> sql_first p ys | Some r \<Rightarrow> Some r)"
  by (induction xs) (simp_all add: sql_first_def)

lemma inserted_row:
  assumes "insert_monitor E g bindings now L = Inr L'"
  obtains target rec where "monitors L' = monitors L @ [registered_row g target now]"
    "read_back (reg_id g) L' = Inr (Some rec)" "monitor_from_row (registered_row g target now) = Inr rec"
    "bind_events E (reg_id g) now bindings (L\<lparr>monitors := monitors L @ [registered_row g target now]\<rparr>) = Inr L'"
proof -
  obtain target where t: "stored_target g = Inr target" "\<forall>r \<in> set (monitors L). mon_id r \<noteq> reg_id g"
    and b: "bind_events E (reg_id g) now bindings (L\<lparr>monitors := monitors L @ [registered_row g target now]\<rparr>) = Inr L'"
    using assms by (auto simp: insert_monitor_def sql_count_0)
  have m: "monitors L' = monitors L @ [registered_row g target now]"
    using bind_events_monitors [OF b] by simp
  have "get_monitor_row (reg_id g) L' = Some (registered_row g target now)"
    using t(2) by (simp add: get_monitor_row_def m sql_first_append sql_first_None [THEN iffD2])
      (simp add: sql_first_def registered_row_def)
  moreover obtain rec where "monitor_from_row (registered_row g target now) = Inr rec"
    using typed_decodes [OF registered_typed [OF t(1)]] by blast
  ultimately show thesis
    using that m b by (simp add: read_back_def after_commit_def)
qed

text \<open>C10. Registration is all or nothing. An error leaves every table as it was; a keyed replay returns a
  monitor with the same mode, meaning and exact bindings and writes nothing; a new registration adds
  exactly its row, binds every reservation of its condition to it, and touches no other reservation.\<close>

theorem registration_all_or_nothing:
  "case create_or_get E g now L of
     (Inl e, L1) \<Rightarrow> L1 = L
   | (Inr (rec, created), L1) \<Rightarrow>
       event_condition_bindings (reg_condition g) = Inr (reg_bindings g)
       \<and> (if created then
            mon_id rec = reg_id g \<and> mon_state rec = reg_state g
            \<and> (\<exists>target. monitors L1 = monitors L @ [registered_row g target now])
            \<and> list_all (\<lambda>b. \<exists>r. get_event_row (fst b) L1 = Some r \<and> row_bound r = JStr (reg_id g))
                (reg_bindings g)
            \<and> list_all2 (row_binding (reg_id g) (map fst (reg_bindings g))) (reservations L) (reservations L1)
          else
            L1 = L \<and> reg_ikey g \<noteq> None \<and> mon_ikey rec = reg_ikey g \<and> mon_mode rec = reg_mode g
            \<and> json_eq (mon_semantic rec) (reg_semantic g)
            \<and> bound_event_bindings E (mon_id rec) L = Inr (reg_bindings g))"
proof (cases "event_condition_bindings (reg_condition g) = Inr (reg_bindings g)")
  case False
  then show ?thesis
    by (cases "event_condition_bindings (reg_condition g)") (auto simp: create_or_get_def raise_conflict_def)
next
  case True
  let ?found = "case reg_ikey g of None \<Rightarrow> None | Some k \<Rightarrow> sql_first (\<lambda>r. mon_ikey r = Some k) (monitors L)"
  show ?thesis
  proof (cases ?found)
    case (Some row)
    then have k: "reg_ikey g \<noteq> None" "mon_ikey row = reg_ikey g"
      by (auto split: option.splits dest: sql_first_Some)
    show ?thesis
    proof (cases "replay E g (reg_bindings g) row L")
      case (Inr rec)
      then obtain "monitor_from_row row = Inr rec" "mon_mode rec = reg_mode g"
          "json_eq (mon_semantic rec) (reg_semantic g)"
          "bound_event_bindings E (mon_id rec) L = Inr (reg_bindings g)"
        by (auto simp: replay_def)
      with True Some k Inr show ?thesis
        by (simp add: create_or_get_def monitor_from_row_sel)
    qed (use True Some in \<open>simp add: create_or_get_def\<close>)
  next
    case None
    show ?thesis
    proof (cases "insert_monitor E g (reg_bindings g) now L")
      case (Inr L')
      then obtain target rec where m: "monitors L' = monitors L @ [registered_row g target now]"
        "read_back (reg_id g) L' = Inr (Some rec)" "monitor_from_row (registered_row g target now) = Inr rec"
        "bind_events E (reg_id g) now (reg_bindings g) (L\<lparr>monitors := monitors L @ [registered_row g target now]\<rparr>) = Inr L'"
        by (rule inserted_row)
      from bind_events_step [OF m(4)] m True None Inr show ?thesis
        by (auto simp: create_or_get_def monitor_from_row_sel [OF m(3)] registered_row_def)
    qed (use True None in \<open>simp add: create_or_get_def\<close>)
  qed
qed

end
