(* ===== verification/Effects.thy ===== *)
theory Effects
  imports Ledger_Facts
begin

text \<open>
  What a coroutine of the package acts on: the shared ledger, the socket of the app-server and the
  machine. At every await the other processes that share the ledger may run any calls; the environment
  is a \<open>peer\<close>, which answers from what was written to the socket so far.
\<close>

section \<open>Errors\<close>

text \<open>The exception classes of the app-server; any other exception is one of the Python errors.\<close>

datatype app_kind =
    AppServerError
  | AppServerTransportError
  | AppServerRejectedError
  | AppServerUnsupportedMethodError

datatype svc_error = App app_kind string | Py py_error

section \<open>The world\<close>

text \<open>What went over the wire, newest first: a connection attempt or one written message.\<close>

datatype wire_event = Dial | Written "int option" string json

record world =
  tables :: ledger
  wire :: "wire_event list"
  asked :: history
  ticks :: nat
  request_id :: int
  server_info :: json
  files :: "(string \<times> json) list"
  spawned :: nat

text \<open>
  What the socket delivers while a request waits; the end of the list is the timeout. \<open>WsText None\<close>
  is a text that is not JSON.
\<close>

datatype ws_event = WsText "json option" | WsClosed | WsOther | WsDenied | WsBroken

datatype socket_stat = SocketDenied | SocketMissing | SocketFound bool int int bool

datatype dial_result = DialOk | DialRejected int | DialDenied | DialBroken

datatype write_result = WriteOk | WriteDenied | WriteBroken

text \<open>
  The runtime directory and the processes around it, at each instant: the heartbeat file, a signal 0 to
  a process, the daemon's lock file with the holder of its lock, \<open>/proc/locks\<close>, taking each of the three locks, the
  start of a process, output paths, the writing of a temporary file and the monotonic clock. An answer that is an error is the exception raised.
\<close>

datatype json_read = NoFile | NotJson | NotText | Parsed json

datatype flock_answer = FlockFree | FlockHeld | FlockFailed

record lock_file =
  lf_regular :: bool
  lf_uid :: int
  lf_bytes :: "string option"
  lf_flock :: flock_answer
  lf_device :: "int \<times> int \<times> int"

text \<open>
  An output path: what making its parent gave, the resolved parent with what \<open>stat\<close> says of it (is it a
  directory, owner, mode), and the destination.
\<close>

datatype destination = DestMissing | DestUnreadable | DestFound bool bool int

record output_view =
  ov_made :: "unit res"
  ov_parent :: "(bool \<times> int \<times> int) option"
  ov_selected :: string
  ov_destination :: destination

record runtime_host =
  heartbeat_file :: "nat \<Rightarrow> json_read"
  heartbeat_exists :: "nat \<Rightarrow> bool"
  signal_zero :: "nat \<Rightarrow> int \<Rightarrow> unit res"
  lock_at :: "nat \<Rightarrow> lock_file option"
  locks_table :: "nat \<Rightarrow> string option"
  start_lock :: "nat \<Rightarrow> unit res"
  defer_lock :: "nat \<Rightarrow> unit res"
  daemon_lock :: "nat \<Rightarrow> unit res"
  spawn_answer :: "nat \<Rightarrow> unit res"
  output_at :: "nat \<Rightarrow> string \<Rightarrow> output_view"
  temporary_file :: "nat \<Rightarrow> string \<Rightarrow> unit res"
  heartbeat_path :: string
  process_id :: int
  monotonic :: "nat \<Rightarrow> rat"
  source_identity :: string
  effective_user :: int

text \<open>
  \<open>daemon_starter\<close> to \<open>observer_context\<close> are the callables a \<open>MonitorService\<close> is built with; \<open>fresh_uuid\<close>,
  \<open>fresh_token\<close> and \<open>name_uuid\<close> are what \<open>uuid\<close> and \<open>secrets\<close> give, \<open>rounded_text x\<close> the text \<open>f"{x:.0f}"\<close>;
  \<open>timer_fires\<close> tells whether an \<open>asyncio.timeout\<close> ended the statement before.
\<close>

record peer =
  socket_stat_of :: "wire_event list \<Rightarrow> socket_stat"
  dial_answer :: "wire_event list \<Rightarrow> dial_result"
  write_answer :: "wire_event list \<Rightarrow> write_result"
  incoming :: "wire_event list \<Rightarrow> ws_event list"
  codex_home :: string
  resolve_home :: "string \<Rightarrow> string"
  process_uid :: int
  digests :: digest_env
  other_calls :: "nat \<Rightarrow> ledger_call list"
  wall_clock :: "nat \<Rightarrow> rat"
  machine :: host
  runtime :: runtime_host
  timer_fires :: "nat \<Rightarrow> bool"
  fresh_uuid :: "nat \<Rightarrow> string"
  fresh_token :: "nat \<Rightarrow> string"
  name_uuid :: "string \<Rightarrow> string"
  rounded_text :: "rat \<Rightarrow> string"
  daemon_starter :: "nat \<Rightarrow> bool res"
  daemon_readiness :: "nat \<Rightarrow> bool res"
  event_readiness :: "nat \<Rightarrow> bool res"
  delivery_readiness :: "nat \<Rightarrow> bool res"
  observer_context :: ObserverContext

section \<open>Actions\<close>

type_synonym 'a act = "world \<Rightarrow> (svc_error + 'a) \<times> world"

definition retA :: "'a \<Rightarrow> 'a act" where
  "retA x w = (Inr x, w)"

definition failA :: "svc_error \<Rightarrow> 'a act" where
  "failA e w = (Inl e, w)"

definition bindA :: "'a act \<Rightarrow> ('a \<Rightarrow> 'b act) \<Rightarrow> 'b act" where
  "bindA m f w = (case m w of (Inl e, w') \<Rightarrow> (Inl e, w') | (Inr x, w') \<Rightarrow> f x w')"

text \<open>\<open>try: m except \<dots>: handler\<close>; the handler re-raises what it does not catch.\<close>

definition catchA :: "'a act \<Rightarrow> (svc_error \<Rightarrow> 'a act) \<Rightarrow> 'a act" where
  "catchA m handler w = (case m w of (Inl e, w') \<Rightarrow> handler e w' | (Inr x, w') \<Rightarrow> (Inr x, w'))"

text \<open>\<open>try: m except \<dots>: handler else: rest\<close>.\<close>

definition tryA :: "'a act \<Rightarrow> (svc_error \<Rightarrow> 'b act) \<Rightarrow> ('a \<Rightarrow> 'b act) \<Rightarrow> 'b act" where
  "tryA m handler rest w = (case m w of (Inl e, w') \<Rightarrow> handler e w' | (Inr x, w') \<Rightarrow> rest x w')"

definition unlessA :: "bool \<Rightarrow> svc_error \<Rightarrow> unit act" where
  "unlessA bad e = (if bad then failA e else retA ())"

definition pyA :: "'a res \<Rightarrow> 'a act" where
  "pyA r = (case r of Inl e \<Rightarrow> failA (Py e) | Inr x \<Rightarrow> retA x)"

fun mapA :: "('a \<Rightarrow> 'b act) \<Rightarrow> 'a list \<Rightarrow> 'b list act" where
  "mapA f [] = retA []"
| "mapA f (x # xs) = bindA (f x) (\<lambda>y. bindA (mapA f xs) (\<lambda>ys. retA (y # ys)))"

text \<open>An await, or any point where another process may get the ledger first.\<close>

definition others :: "peer \<Rightarrow> unit act" where
  "others P w = (Inr (), w\<lparr>tables := calls (digests P) (other_calls P (ticks w)) (tables w),
                          ticks := ticks w + 1\<rparr>)"

definition nowA :: "peer \<Rightarrow> rat act" where
  "nowA P w = (Inr (wall_clock P (ticks w)), w\<lparr>ticks := ticks w + 1\<rparr>)"

text \<open>One transaction of the ledger, and a read of it.\<close>

definition ledgerA :: "peer \<Rightarrow> 'a ledger_op \<Rightarrow> 'a act" where
  "ledgerA P f = bindA (others P) (\<lambda>_. \<lambda>w.
     case f (tables w) of (r, L) \<Rightarrow> pyA r (w\<lparr>tables := L\<rparr>))"

definition readA :: "peer \<Rightarrow> (ledger \<Rightarrow> 'a res) \<Rightarrow> 'a act" where
  "readA P f = bindA (others P) (\<lambda>_. \<lambda>w. pyA (f (tables w)) w)"

text \<open>A question to the machine.\<close>

definition machineA :: "(history \<Rightarrow> (py_error + 'a) \<times> history) \<Rightarrow> 'a act" where
  "machineA m = (\<lambda>w. case m (asked w) of (r, h) \<Rightarrow> pyA r (w\<lparr>asked := h\<rparr>))"

text \<open>A question to the runtime directory, or to a callable of the service.\<close>

definition senseA :: "(nat \<Rightarrow> 'a res) \<Rightarrow> 'a act" where
  "senseA answer = (\<lambda>w. pyA (answer (ticks w)) (w\<lparr>ticks := ticks w + 1\<rparr>))"

text \<open>A transaction whose clock readings are taken at the call: one, or one for the outcome and one for
  the row.\<close>

definition ledger_nowA :: "peer \<Rightarrow> (rat \<Rightarrow> 'a ledger_op) \<Rightarrow> 'a act" where
  "ledger_nowA P f = bindA (nowA P) (\<lambda>now. ledgerA P (f now))"

definition ledger_timesA :: "peer \<Rightarrow> (rat \<Rightarrow> rat \<Rightarrow> 'a ledger_op) \<Rightarrow> 'a act" where
  "ledger_timesA P f = bindA (nowA P) (\<lambda>t0. bindA (nowA P) (\<lambda>now. ledgerA P (f t0 now)))"

named_theorems act_simps \<open>running an action\<close>

lemma act_run [act_simps]:
  "retA x w = (Inr x, w)" "failA e w = (Inl e, w)" "unlessA b e w = (if b then (Inl e, w) else (Inr (), w))"
  "pyA (Inr x) w = (Inr x, w)" "pyA (Inl err) w = (Inl (Py err), w)"
  by (simp_all add: retA_def failA_def unlessA_def pyA_def)

lemma bindA_run [act_simps]:
  "m w = (Inr x, w') \<Longrightarrow> bindA m f w = f x w'" "m w = (Inl e, w') \<Longrightarrow> bindA m f w = (Inl e, w')"
  by (simp_all add: bindA_def)

lemma bindA_Inr:
  "bindA m f w = (Inr y, w2) \<longleftrightarrow> (\<exists>x w1. m w = (Inr x, w1) \<and> f x w1 = (Inr y, w2))"
  by (auto simp: bindA_def split: prod.splits sum.splits)

lemma bindA_cong [fundef_cong]:
  "m = m' \<Longrightarrow> (\<And>x. f x = g x) \<Longrightarrow> bindA m f = bindA m' g"
  by (auto simp: bindA_def fun_eq_iff split: prod.splits sum.splits)

end
