(* ===== verification/Runtime.thy ===== *)
theory Runtime
  imports Effects
begin

text \<open>
  The runtime directory (\<open>runtime.py\<close>): the daemon's heartbeat and its health, the readiness checks of the
  event and delivery epochs with the reason a check fails, who holds the daemon's lock, and the bounded
  start of a daemon. Each question is asked at its own instant, so two reads of the heartbeat may differ.
\<close>

section \<open>The heartbeat\<close>

definition EVENT_CAPABILITY_EPOCH :: int where "EVENT_CAPABILITY_EPOCH = 3"
definition DELIVERY_CAPABILITY_EPOCH :: int where "DELIVERY_CAPABILITY_EPOCH = 1"
definition HEARTBEAT_MAX_AGE_SECONDS :: rat where "HEARTBEAT_MAX_AGE_SECONDS = 15"

text \<open>\<open>read_json\<close>: a text that is not UTF-8 raises \<open>UnicodeDecodeError\<close>, a \<open>ValueError\<close> it does not catch.\<close>

fun json_object :: "json_read \<Rightarrow> json option res" where
  "json_object (Parsed v) = Inr (if is_obj v then Some v else None)"
| "json_object NotText = Inl ValueError"
| "json_object _ = Inr None"

definition read_heartbeat :: "peer \<Rightarrow> json option act" where
  "read_heartbeat P = senseA (\<lambda>t. json_object (heartbeat_file (runtime P) t))"

definition heartbeat_json :: "runtime_host \<Rightarrow> rat \<Rightarrow> bool \<Rightarrow> json" where
  "heartbeat_json H now accepting = JObj
     [(''pid'', JInt (process_id H)), (''at'', jnum now), (''event_capability_epoch'', JInt EVENT_CAPABILITY_EPOCH),
      (''delivery_capability_epoch'', JInt DELIVERY_CAPABILITY_EPOCH),
      (''loaded_source_identity'', JStr (source_identity H)), (''accepting_work'', JBool accepting)]"

text \<open>\<open>except (KeyError, TypeError, ValueError)\<close>: an overflow is not caught.\<close>

definition decodedA :: "'a res \<Rightarrow> 'a option act" where
  "decodedA r = (case r of
     Inr x \<Rightarrow> retA (Some x)
   | Inl e \<Rightarrow> if e \<in> {KeyError, TypeError, ValueError} then retA None else failA (Py e))"

definition heartbeat_pid :: "json \<Rightarrow> int res" where
  "heartbeat_pid v = bindE (jindex ''pid'' v) py_int"

definition heartbeat_facts :: "json \<Rightarrow> (int \<times> pyfloat) res" where
  "heartbeat_facts v =
     bindE (heartbeat_pid v) (\<lambda>pid.
     bindE (jindex ''at'' v) (\<lambda>at_value. bindE (py_float at_value) (\<lambda>written. Inr (pid, written))))"

definition retiring :: "json \<Rightarrow> bool" where
  "retiring v \<longleftrightarrow> jget ''accepting_work'' v = JBool False"

text \<open>\<open>time.time() - at > max_age_seconds\<close>; false for a time that is not a number.\<close>

fun stale :: "rat \<Rightarrow> pyfloat \<Rightarrow> bool" where
  "stale now (Fin written) = (HEARTBEAT_MAX_AGE_SECONDS < now - written)"
| "stale now NegInf = True"
| "stale now _ = False"

text \<open>\<open>os.kill(pid, 0)\<close>: a process identity that does not fit the system type raises.\<close>

definition process_alive :: "peer \<Rightarrow> int \<Rightarrow> bool act" where
  "process_alive P pid =
     tryA (senseA (\<lambda>t. signal_zero (runtime P) t pid))
       (\<lambda>e. case e of Py (OSError _) \<Rightarrow> retA False | _ \<Rightarrow> failA e) (\<lambda>_. retA True)"

definition daemon_is_healthy :: "peer \<Rightarrow> bool act" where
  "daemon_is_healthy P =
     bindA (read_heartbeat P) (\<lambda>found.
     case found of
       None \<Rightarrow> retA False
     | Some v \<Rightarrow>
         if \<not> truthy v \<or> retiring v then retA False
         else
           bindA (decodedA (heartbeat_facts v)) (\<lambda>facts.
           case facts of
             None \<Rightarrow> retA False
           | Some (pid, written) \<Rightarrow>
               bindA (nowA P) (\<lambda>now. if stale now written then retA False else process_alive P pid)))"

section \<open>Who holds the daemon's lock\<close>

definition int_base16 :: "string \<Rightarrow> int res" where
  "int_base16 s =
     (if s \<noteq> [] \<and> list_all is_hex s
      then Inr (int (foldl (\<lambda>n c. 16 * n + (let d = code (ascii_lower c) in if d < 58 then d - 48 else d - 87)) 0 s))
      else Inl ValueError)"

definition lock_device :: "string \<Rightarrow> (int \<times> int \<times> int) res" where
  "lock_device s = (case split_on CHR '':'' s of
     [a, b, c] \<Rightarrow> bindE (int_base16 a) (\<lambda>major. bindE (int_base16 b) (\<lambda>minor.
                  bindE (parse_int c) (\<lambda>inode. Inr (major, minor, inode))))
   | _ \<Rightarrow> Inl ValueError)"

text \<open>A line of \<open>/proc/locks\<close> that names the process as the writer holding the inode's lock.\<close>

definition names_owner :: "int \<times> int \<times> int \<Rightarrow> int \<Rightarrow> string \<Rightarrow> bool" where
  "names_owner device pid line =
     (let fields = split_words line in
      8 \<le> length fields \<and> fields ! 1 = ''FLOCK'' \<and> fields ! 3 = ''WRITE''
      \<and> parse_int (fields ! 4) = Inr pid \<and> lock_device (fields ! 5) = Inr device)"

definition process_owns_flock :: "peer \<Rightarrow> int \<times> int \<times> int \<Rightarrow> int \<Rightarrow> bool act" where
  "process_owns_flock P device pid =
     bindA (senseA (\<lambda>t. Inr (locks_table (runtime P) t))) (\<lambda>table. retA (case table of
       None \<Rightarrow> False | Some text \<Rightarrow> list_ex (names_owner device pid) (split_on CHR 0x0A text)))"

definition own_lock_file :: "runtime_host \<Rightarrow> lock_file \<Rightarrow> bool" where
  "own_lock_file H f \<longleftrightarrow> lf_regular f \<and> lf_uid f = effective_user H"

definition daemon_lock_is_held_by :: "peer \<Rightarrow> int \<Rightarrow> bool act" where
  "daemon_lock_is_held_by P pid =
     bindA (senseA (\<lambda>t. Inr (lock_at (runtime P) t))) (\<lambda>found.
     case found of
       None \<Rightarrow> retA False
     | Some f \<Rightarrow>
         if \<not> own_lock_file (runtime P) f then retA False
         else (case lf_bytes f of
             None \<Rightarrow> retA False
           | Some raw \<Rightarrow>
               if is_ascii raw \<and> py_strip raw = ''pid='' @ show_int pid \<and> lf_flock f = FlockHeld
               then process_owns_flock P (lf_device f) pid else retA False))"

definition daemon_lock_is_held :: "peer \<Rightarrow> bool act" where
  "daemon_lock_is_held P =
     bindA (senseA (\<lambda>t. Inr (lock_at (runtime P) t))) (\<lambda>found. retA (case found of
       None \<Rightarrow> False | Some f \<Rightarrow> own_lock_file (runtime P) f \<and> lf_flock f = FlockHeld))"

section \<open>Readiness\<close>

definition same_source :: "peer \<Rightarrow> json \<Rightarrow> bool" where
  "same_source P v \<longleftrightarrow> jget ''loaded_source_identity'' v = JStr (source_identity (runtime P))"

definition epoch_is :: "string \<Rightarrow> int \<Rightarrow> json \<Rightarrow> bool" where
  "epoch_is k epoch v \<longleftrightarrow> json_eq (jget k v) (JInt epoch)"

text \<open>A healthy daemon whose heartbeat, read again, passes a check, and which holds the lock.\<close>

definition capable :: "peer \<Rightarrow> (json \<Rightarrow> bool) \<Rightarrow> bool act" where
  "capable P check =
     bindA (daemon_is_healthy P) (\<lambda>healthy.
     if \<not> healthy then retA False
     else
       bindA (read_heartbeat P) (\<lambda>found.
       case found of
         None \<Rightarrow> retA False
       | Some v \<Rightarrow>
           if \<not> truthy v then retA False
           else
             bindA (decodedA (heartbeat_pid v)) (\<lambda>pid.
             case pid of
               None \<Rightarrow> retA False
             | Some p \<Rightarrow> if check v then daemon_lock_is_held_by P p else retA False)))"

definition daemon_event_capable :: "peer \<Rightarrow> bool act" where
  "daemon_event_capable P = capable P (\<lambda>v.
     epoch_is ''event_capability_epoch'' EVENT_CAPABILITY_EPOCH v \<and> same_source P v)"

definition daemon_delivery_capable :: "peer \<Rightarrow> bool act" where
  "daemon_delivery_capable P = capable P (\<lambda>v.
     epoch_is ''delivery_capability_epoch'' DELIVERY_CAPABILITY_EPOCH v
     \<and> epoch_is ''event_capability_epoch'' EVENT_CAPABILITY_EPOCH v \<and> same_source P v)"

text \<open>The first mismatch, without changing anything.\<close>

definition unready_after_facts :: "peer \<Rightarrow> json \<Rightarrow> int \<Rightarrow> pyfloat \<Rightarrow> string option act" where
  "unready_after_facts P v pid written =
     bindA (nowA P) (\<lambda>now.
     if stale now written then retA (Some ''stale_heartbeat'')
     else
       bindA (process_alive P pid) (\<lambda>alive.
       if \<not> alive then retA (Some ''dead_process'')
       else if \<not> epoch_is ''delivery_capability_epoch'' DELIVERY_CAPABILITY_EPOCH v then
         retA (Some ''delivery_capability_epoch_mismatch'')
       else if \<not> epoch_is ''event_capability_epoch'' EVENT_CAPABILITY_EPOCH v then
         retA (Some ''event_capability_epoch_mismatch'')
       else if \<not> same_source P v then retA (Some ''source_identity_mismatch'')
       else
         bindA (daemon_lock_is_held_by P pid) (\<lambda>held.
         retA (if held then None else Some ''lock_owner_mismatch''))))"

definition delivery_daemon_unready_reason :: "peer \<Rightarrow> string option act" where
  "delivery_daemon_unready_reason P =
     bindA (read_heartbeat P) (\<lambda>found.
     case found of
       None \<Rightarrow>
         bindA (senseA (\<lambda>t. Inr (heartbeat_exists (runtime P) t))) (\<lambda>present.
         retA (Some (if present then ''malformed_heartbeat'' else ''missing_heartbeat'')))
     | Some v \<Rightarrow>
         if \<not> truthy v then retA (Some ''malformed_heartbeat'')
         else if retiring v then retA (Some ''retiring_owner'')
         else
           bindA (decodedA (heartbeat_facts v)) (\<lambda>facts.
           case facts of
             None \<Rightarrow> retA (Some ''malformed_heartbeat'')
           | Some (pid, written) \<Rightarrow> unready_after_facts P v pid written))"

section \<open>Private output files\<close>

definition checked_output :: "peer \<Rightarrow> output_view \<Rightarrow> string res" where
  "checked_output P v =
     bindE (ov_made v) (\<lambda>_.
     case ov_parent v of
       None \<Rightarrow> raise_validation ''output parent must be a usable private directory''
     | Some (is_dir, uid, mode) \<Rightarrow>
         bindE (unlessE (\<not> is_dir \<or> uid \<noteq> effective_user (runtime P) \<or> mode mod 64 \<noteq> 0)
           (ValidationError ''output parent must be a current-user-owned private directory'')) (\<lambda>_.
         case ov_destination v of
           DestMissing \<Rightarrow> Inr (ov_selected v)
         | DestUnreadable \<Rightarrow> raise_validation ''output destination cannot be inspected safely''
         | DestFound link regular owner \<Rightarrow>
             bindE (unlessE link (ValidationError ''output destination must not be a symlink'')) (\<lambda>_.
             bindE (unlessE (\<not> regular \<or> owner \<noteq> effective_user (runtime P))
               (ValidationError ''output destination must be a current-user-owned regular file'')) (\<lambda>_.
             Inr (ov_selected v)))))"

definition validate_private_output_path :: "peer \<Rightarrow> string \<Rightarrow> string act" where
  "validate_private_output_path P path =
     senseA (\<lambda>t. checked_output P (output_at (runtime P) t path))"

text \<open>The file appears at once, when its temporary is complete: \<open>os.replace\<close>.\<close>

definition atomic_write_json :: "peer \<Rightarrow> string \<Rightarrow> json \<Rightarrow> int \<Rightarrow> unit act" where
  "atomic_write_json P path v mode =
     bindA (unlessA (mode mod 64 \<noteq> 0) (Py (ValidationError ''atomic JSON output mode must be private''))) (\<lambda>_.
     bindA (validate_private_output_path P path) (\<lambda>selected.
     bindA (senseA (\<lambda>t. temporary_file (runtime P) t selected)) (\<lambda>_. \<lambda>w.
     retA () (w\<lparr>files := (selected, v) # files w\<rparr>))))"

definition write_heartbeat :: "peer \<Rightarrow> bool \<Rightarrow> unit act" where
  "write_heartbeat P accepting =
     bindA (nowA P) (\<lambda>now.
     atomic_write_json P (heartbeat_path (runtime P)) (heartbeat_json (runtime P) now accepting) 384)"

section \<open>Starting a daemon\<close>

text \<open>
  The polling loops. \<open>Returned b\<close> is a \<open>return\<close>, \<open>GoOn\<close> the end of the loop, \<open>NoFuel\<close> a bound on the
  iterations that is reached only while the monotonic clock stays below the deadline.
\<close>

datatype polled = Returned bool | GoOn | NoFuel

definition monotonicA :: "peer \<Rightarrow> rat act" where
  "monotonicA P = senseA (\<lambda>t. Inr (monotonic (runtime P) t))"

definition return_health :: "bool act \<Rightarrow> polled act" where
  "return_health health = bindA health (\<lambda>h. retA (Returned h))"

text \<open>\<open>while lock_held\<close>: a retiring daemon still owns the lock.\<close>

fun await_release :: "peer \<Rightarrow> bool act \<Rightarrow> rat \<Rightarrow> nat \<Rightarrow> polled act" where
  "await_release P health deadline 0 = retA NoFuel"
| "await_release P health deadline (Suc n) =
     bindA (daemon_lock_is_held P) (\<lambda>held.
     if \<not> held then retA GoOn
     else
       bindA (monotonicA P) (\<lambda>m.
       if deadline - m \<le> 0 then return_health health
       else
         bindA (others P) (\<lambda>_.
         bindA health (\<lambda>h. if h then retA (Returned True) else await_release P health deadline n))))"

text \<open>\<open>while monotonic() < deadline\<close> after the start.\<close>

fun await_health :: "peer \<Rightarrow> bool act \<Rightarrow> rat \<Rightarrow> nat \<Rightarrow> polled act" where
  "await_health P health deadline 0 = retA NoFuel"
| "await_health P health deadline (Suc n) =
     bindA (monotonicA P) (\<lambda>m.
     if deadline \<le> m then return_health health
     else
       bindA health (\<lambda>h.
       if h then retA (Returned True)
       else
         bindA (monotonicA P) (\<lambda>m2.
         if deadline - m2 \<le> 0 then return_health health
         else bindA (others P) (\<lambda>_. await_health P health deadline n))))"

fun is_runtime_error :: "svc_error \<Rightarrow> bool" where
  "is_runtime_error (App _ _) = True"
| "is_runtime_error (Py (RuntimeError _)) = True"
| "is_runtime_error (Py (ValidationError _)) = True"
| "is_runtime_error (Py (ConflictError _)) = True"
| "is_runtime_error (Py _) = False"

definition spawn_daemon :: "peer \<Rightarrow> unit act" where
  "spawn_daemon P = bindA (senseA (spawn_answer (runtime P))) (\<lambda>_. \<lambda>w. retA () (w\<lparr>spawned := spawned w + 1\<rparr>))"

definition start_body :: "peer \<Rightarrow> bool act \<Rightarrow> rat \<Rightarrow> nat \<Rightarrow> polled act" where
  "start_body P health deadline fuel =
     bindA health (\<lambda>h.
     if h then retA (Returned True)
     else
       bindA (await_release P health deadline fuel) (\<lambda>released.
       if released \<noteq> GoOn then retA released
       else
         tryA (spawn_daemon P)
           (\<lambda>e. case e of
              Py (OSError _) \<Rightarrow> retA (Returned False)
            | _ \<Rightarrow> if is_runtime_error e then retA (Returned False) else failA e)
           (\<lambda>_. await_health P health deadline fuel)))"

fun ensure_loop :: "peer \<Rightarrow> bool act \<Rightarrow> rat \<Rightarrow> nat \<Rightarrow> nat \<Rightarrow> polled act" where
  "ensure_loop P health deadline fuel 0 = retA NoFuel"
| "ensure_loop P health deadline fuel (Suc n) =
     bindA (monotonicA P) (\<lambda>m.
     if deadline \<le> m then return_health health
     else
       bindA health (\<lambda>h.
       if h then retA (Returned True)
       else
         catchA (bindA (senseA (start_lock (runtime P))) (\<lambda>_. start_body P health deadline fuel)) (\<lambda>e.
           if \<not> is_runtime_error e then failA e
           else
             bindA (monotonicA P) (\<lambda>m2.
             if deadline - m2 \<le> 0 then return_health health
             else bindA (others P) (\<lambda>_. ensure_loop P health deadline fuel n)))))"

definition ensure_daemon_ready ::
    "peer \<Rightarrow> bool act \<Rightarrow> rat \<Rightarrow> rat \<Rightarrow> nat \<Rightarrow> polled act" where
  "ensure_daemon_ready P health timeout interval fuel =
     bindA (unlessA (timeout \<le> 0 \<or> interval \<le> 0) (Py ValueError)) (\<lambda>_.
     bindA (monotonicA P) (\<lambda>m. ensure_loop P health (m + timeout) fuel fuel))"

definition ensure_daemon :: "peer \<Rightarrow> nat \<Rightarrow> polled act" where
  "ensure_daemon P fuel = ensure_daemon_ready P (daemon_is_healthy P) 2 (1 / 20) fuel"

definition ensure_event_daemon_ready :: "peer \<Rightarrow> nat \<Rightarrow> polled act" where
  "ensure_event_daemon_ready P fuel = ensure_daemon_ready P (daemon_event_capable P) 2 (1 / 20) fuel"

definition ensure_delivery_daemon_ready :: "peer \<Rightarrow> nat \<Rightarrow> polled act" where
  "ensure_delivery_daemon_ready P fuel = ensure_daemon_ready P (daemon_delivery_capable P) 2 (1 / 20) fuel"

section \<open>The lock of the pause protocol\<close>

definition enter_defer_lock :: "peer \<Rightarrow> unit act" where
  "enter_defer_lock P = senseA (defer_lock (runtime P))"

end
