(* ===== verification/App_Server.thy ===== *)
theory App_Server
  imports Runtime
begin

text \<open>
  The client of the local app-server (\<open>app_server.py\<close>): one connection, serial requests matched by id,
  and the operations the service calls, with the checks they make of every reply.
\<close>

section \<open>Text\<close>

definition text_in :: "string \<Rightarrow> string \<Rightarrow> bool" where
  "text_in p s \<longleftrightarrow> list_ex (\<lambda>i. starts_with p (drop i s)) [0..<Suc (length s)]"

text \<open>\<open>s.split(p, 1)[0]\<close>.\<close>

fun text_before :: "string \<Rightarrow> string \<Rightarrow> string" where
  "text_before p [] = []"
| "text_before p (c # s) = (if starts_with p (c # s) then [] else c # text_before p s)"

section \<open>Parameters\<close>

definition initialize_params :: "bool \<Rightarrow> json" where
  "initialize_params experimental = JObj
     [(''clientInfo'', JObj [(''name'', JStr ''codex-wake-me-up''),
         (''title'', JStr ''Codex Wake Me Up''), (''version'', JStr ''0.1.0'')]),
      (''capabilities'', JObj [(''experimentalApi'', JBool experimental),
         (''requestAttestation'', JBool False),
         (''optOutNotificationMethods'', JList (map JStr
            [''thread/updated'', ''thread/started'', ''thread/goal/updated'']))])]"

definition activation_params :: "string \<Rightarrow> json" where
  "activation_params thread_id = JObj [(''threadId'', JStr thread_id), (''status'', JStr ''active'')]"

definition pause_params :: "string \<Rightarrow> json" where
  "pause_params thread_id = JObj [(''threadId'', JStr thread_id), (''status'', JStr ''paused'')]"

section \<open>The connection\<close>

abbreviation app_failA :: "string \<Rightarrow> 'a act" where
  "app_failA m \<equiv> failA (App AppServerError m)"

abbreviation transport_failA :: "string \<Rightarrow> 'a act" where
  "transport_failA m \<equiv> failA (App AppServerTransportError m)"

definition no_access :: string where
  "no_access = ''current user cannot access the app-server control socket''"

definition check_socket :: "peer \<Rightarrow> unit act" where
  "check_socket P w = (case socket_stat_of P (wire w) of
     SocketDenied \<Rightarrow> app_failA no_access w
   | SocketMissing \<Rightarrow> transport_failA ''local app-server socket is unavailable'' w
   | SocketFound is_socket uid mode usable \<Rightarrow>
       (if \<not> is_socket then app_failA ''app-server control path is not a Unix socket''
        else if uid \<notin> {process_uid P, 0} then
          app_failA ''app-server control socket is not owned by this local user''
        else if mode mod 64 \<noteq> 0 then app_failA ''app-server control socket permissions are not private''
        else if \<not> usable then app_failA no_access
        else retA ()) w)"

definition dial :: "peer \<Rightarrow> unit act" where
  "dial P w = (case dial_answer P (wire w) of
     DialOk \<Rightarrow> retA ()
   | DialRejected status \<Rightarrow>
       failA (App AppServerRejectedError ''app-server WebSocket handshake rejected request'')
   | DialDenied \<Rightarrow> app_failA no_access
   | DialBroken \<Rightarrow> transport_failA ''cannot connect to the local app-server socket'')
     (w\<lparr>wire := Dial # wire w\<rparr>)"

definition send :: "peer \<Rightarrow> int option \<Rightarrow> string \<Rightarrow> json \<Rightarrow> unit act" where
  "send P i method params w = (case write_answer P (wire w) of
     WriteOk \<Rightarrow> retA ()
   | WriteDenied \<Rightarrow> app_failA no_access
   | WriteBroken \<Rightarrow> transport_failA ''failed to write to local app-server'')
     (w\<lparr>wire := Written i method params # wire w\<rparr>)"

text \<open>What an error reply raises.\<close>

definition rejection_text :: "json \<Rightarrow> string" where
  "rejection_text error =
     (let raw = (if is_obj error then jget ''message'' error else JStr (py_str error));
          text = (case raw of JStr s \<Rightarrow> s | _ \<Rightarrow> ''invalid error message'');
          message = py_strip (text_before '', expected'' text) in
      py_take 256 (if message = [] then ''unspecified rejection'' else message))"

definition rejection :: "string \<Rightarrow> json \<Rightarrow> svc_error" where
  "rejection method error =
     (let message = rejection_text error;
          code = (if is_obj error then jget ''code'' error else JNull) in
      if text_in ''unknown variant'' message \<and> text_in method message then
        App AppServerUnsupportedMethodError
          (''app-server does not support required method: '' @ method)
      else App AppServerRejectedError (''app-server '' @ method @ '' rejected request: '' @
        (if code \<noteq> JNull then ''code='' @ py_str code @ '' message='' @ message else message)))"

definition reply_result :: "string \<Rightarrow> json \<Rightarrow> svc_error + json" where
  "reply_result method payload =
     (if jhas ''error'' payload then Inl (rejection method (jget ''error'' payload))
      else if is_obj (jget ''result'' payload) then Inr (jget ''result'' payload)
      else Inl (App AppServerError (''app-server '' @ method @ '' returned no object result'')))"

text \<open>The receive loop: what is not a response to this request is skipped.\<close>

fun await_reply :: "string \<Rightarrow> int \<Rightarrow> ws_event list \<Rightarrow> svc_error + json" where
  "await_reply method i [] =
     Inl (App AppServerTransportError (''app-server '' @ method @ '' timed out''))"
| "await_reply method i (WsText None # es) =
     Inl (App AppServerError ''app-server returned non-JSON text'')"
| "await_reply method i (WsText (Some payload) # es) =
     (if \<not> is_obj payload \<or> \<not> json_eq (jget ''id'' payload) (JInt i) then await_reply method i es
      else reply_result method payload)"
| "await_reply method i (WsClosed # es) =
     Inl (App AppServerTransportError ''local app-server WebSocket closed'')"
| "await_reply method i (WsOther # es) = await_reply method i es"
| "await_reply method i (WsDenied # es) = Inl (App AppServerError no_access)"
| "await_reply method i (WsBroken # es) =
     Inl (App AppServerTransportError (''app-server '' @ method @ '' transport failed''))"

definition request :: "peer \<Rightarrow> string \<Rightarrow> json \<Rightarrow> json act" where
  "request P method params w =
     (let i = request_id w in
      bindA (send P (Some i) method params) (\<lambda>_.
      bindA (others P) (\<lambda>_. \<lambda>w'.
        (case await_reply method i (incoming P (wire w')) of
           Inl e \<Rightarrow> failA e w' | Inr v \<Rightarrow> retA v w'))) (w\<lparr>request_id := i + 1\<rparr>))"

definition connect :: "peer \<Rightarrow> bool \<Rightarrow> unit act" where
  "connect P experimental =
     bindA (check_socket P) (\<lambda>_.
     bindA (dial P) (\<lambda>_. \<lambda>w.
     bindA (others P) (\<lambda>_.
     bindA (request P ''initialize'' (initialize_params experimental)) (\<lambda>initialized.
     bindA (unlessA (\<not> (case jget ''codexHome'' initialized of
                           JStr home \<Rightarrow> resolve_home P home = codex_home P | _ \<Rightarrow> False))
       (App AppServerError ''app-server CODEX_HOME does not match the local runtime root'')) (\<lambda>_. \<lambda>w'.
     send P None ''initialized'' JNull (w'\<lparr>server_info := initialized\<rparr>))))
       (w\<lparr>request_id := 1, server_info := JNull\<rparr>)))"

text \<open>\<open>async with factory() as client: body\<close>; both factories of the service enable the experimental API.\<close>

definition with_client :: "peer \<Rightarrow> 'a act \<Rightarrow> 'a act" where
  "with_client P body = bindA (connect P True) (\<lambda>_. body)"

section \<open>Reading a thread\<close>

definition read_params :: "string \<Rightarrow> bool \<Rightarrow> json" where
  "read_params thread_id turns =
     JObj [(''threadId'', JStr thread_id), (''includeTurns'', JBool turns)]"

text \<open>\<open>status["type"]\<close> where it is a string.\<close>

definition runtime_status_of :: "json \<Rightarrow> string \<Rightarrow> string act" where
  "runtime_status_of thread msg =
     (case (is_obj (jget ''status'' thread), jget ''type'' (jget ''status'' thread)) of
        (True, JStr s) \<Rightarrow> retA s | _ \<Rightarrow> app_failA msg)"

definition goal_snapshot_of :: "json \<Rightarrow> json" where
  "goal_snapshot_of goal = JObj (map (\<lambda>k. (k, jget k goal))
     [''createdAt'', ''objective'', ''tokenBudget'', ''updatedAt'', ''tokensUsed'', ''timeUsedSeconds'',
      ''status''])"

definition goal_status_of :: "json \<Rightarrow> string option" where
  "goal_status_of goal =
     (if jget ''status'' goal = JNull then None else Some (py_str (jget ''status'' goal)))"

text \<open>\<open>except (KeyError, TypeError, ValueError)\<close>: an overflow is not caught.\<close>

definition goal_marker :: "json \<Rightarrow> string \<Rightarrow> GoalMarker act" where
  "goal_marker goal msg = (case goal_from_wire goal of
     Inr g \<Rightarrow> retA g
   | Inl e \<Rightarrow> if e \<in> {KeyError, TypeError, ValueError} then app_failA msg else failA (Py e))"

definition observation :: "string \<Rightarrow> string \<Rightarrow> (json \<times> GoalMarker) option \<Rightarrow> TargetObservation" where
  "observation thread_id status goal =
     \<lparr>obs_thread_id = thread_id, runtime_status = status, is_loaded = (status \<noteq> ''notLoaded''),
      goal_status = (case goal of None \<Rightarrow> None | Some g \<Rightarrow> goal_status_of (fst g)),
      obs_goal = map_option snd goal,
      goal_snapshot = (case goal of None \<Rightarrow> JNull | Some g \<Rightarrow> goal_snapshot_of (fst g))\<rparr>"

definition same_thread :: "json \<Rightarrow> string \<Rightarrow> bool" where
  "same_thread v thread_id \<longleftrightarrow> v = JStr thread_id \<and> thread_id \<noteq> []"

definition read_observation :: "peer \<Rightarrow> string \<Rightarrow> bool \<Rightarrow> TargetObservation act" where
  "read_observation P thread_id include_goal =
     bindA (request P ''thread/read'' (read_params thread_id False)) (\<lambda>result.
     let thread = jget ''thread'' result in
     bindA (unlessA (\<not> is_obj thread) (App AppServerError ''thread/read returned no thread'')) (\<lambda>_.
     bindA (unlessA (\<not> same_thread (jget ''id'' thread) thread_id)
       (App AppServerError ''thread/read returned a different thread identity'')) (\<lambda>_.
     bindA (runtime_status_of thread ''thread/read returned no runtime status'') (\<lambda>status.
     if \<not> include_goal then retA (observation thread_id status None)
     else
       bindA (request P ''thread/goal/get'' (JObj [(''threadId'', JStr thread_id)])) (\<lambda>goal_result.
       let goal = jget ''goal'' goal_result in
       if goal = JNull then retA (observation thread_id status None)
       else
         bindA (unlessA (\<not> is_obj goal)
           (App AppServerError ''thread/goal/get returned an invalid goal'')) (\<lambda>_.
         bindA (unlessA (\<not> same_thread (jget ''threadId'' goal) thread_id)
           (App AppServerError ''thread/goal/get returned a different thread identity'')) (\<lambda>_.
         bindA (goal_marker goal ''thread/goal/get returned an invalid goal marker'') (\<lambda>marker.
         retA (observation thread_id status (Some (goal, marker)))))))))))"

section \<open>Reading the queue of a thread\<close>

definition exact_thread :: "json \<Rightarrow> string \<Rightarrow> json act" where
  "exact_thread result thread_id =
     (let thread = jget ''thread'' result in
      bindA (unlessA (\<not> is_obj thread) (App AppServerError ''thread/read returned no thread'')) (\<lambda>_.
      bindA (unlessA (jget ''id'' thread \<noteq> JStr thread_id)
        (App AppServerError ''thread/read returned a different thread identity'')) (\<lambda>_.
      retA thread)))"

definition queue_items :: "json \<Rightarrow> json list act" where
  "queue_items result = (case jget ''data'' result of
     JList items \<Rightarrow>
       if list_all is_obj items then retA items
       else app_failA ''thread/queue/list returned an invalid item list''
   | _ \<Rightarrow> app_failA ''thread/queue/list returned an invalid item list'')"

text \<open>The text of a one-element list of text parts: the input of a queued item, the content of a turn's.\<close>

definition one_text :: "json \<Rightarrow> string \<Rightarrow> string \<Rightarrow> string \<Rightarrow> string act" where
  "one_text parts bad_list bad_part bad_text = (case parts of
     JList [value] \<Rightarrow>
       if \<not> is_obj value \<or> jget ''type'' value \<noteq> JStr ''text'' then app_failA bad_part
       else (case jget ''text'' value of JStr t \<Rightarrow> retA t | _ \<Rightarrow> app_failA bad_text)
   | _ \<Rightarrow> app_failA bad_list)"

definition queued_pointer :: "json \<Rightarrow> string act" where
  "queued_pointer item = one_text (jget ''input'' item) ''queued submission has an invalid pointer input''
     ''queued submission has a non-text pointer'' ''queued submission pointer has no text''"

definition history_pointer :: "json \<Rightarrow> string act" where
  "history_pointer item = one_text (jget ''content'' item) ''recorded delivery has invalid pointer content''
     ''recorded delivery has non-text pointer content'' ''recorded delivery pointer has no text''"

definition looks_like_spawned_subagent :: "json \<Rightarrow> bool" where
  "looks_like_spawned_subagent source \<longleftrightarrow>
     is_obj source \<and> is_obj (jget ''subAgent'' source) \<and> jhas ''thread_spawn'' (jget ''subAgent'' source)"

definition queue_params :: "string \<Rightarrow> json" where
  "queue_params thread_id = JObj [(''threadId'', JStr thread_id), (''limit'', JInt 100)]"

fun is_bool_or_none :: "json \<Rightarrow> bool" where
  "is_bool_or_none JNull = True"
| "is_bool_or_none (JBool b) = True"
| "is_bool_or_none _ = False"

text \<open>The version the capability is recorded with: of the server, of the thread, or the user agent.\<close>

definition codex_version :: "json \<Rightarrow> json \<Rightarrow> json act" where
  "codex_version server thread =
     (let identity = (if is_obj (jget ''serverInfo'' server) then jget ''serverInfo'' server else JObj []);
          v = (if truthy (jget ''version'' identity) then jget ''version'' identity
               else jget ''cliVersion'' thread) in
      if nonempty_str v then retA v
      else if nonempty_str (jget ''userAgent'' server) then retA (jget ''userAgent'' server)
      else app_failA ''app-server exposed no Codex version identity'')"

definition capability_json :: "string \<Rightarrow> string \<Rightarrow> json \<Rightarrow> nat \<Rightarrow> json \<Rightarrow> json \<Rightarrow> json" where
  "capability_json thread_id status thread items version server =
     JObj [(''thread_id'', JStr thread_id), (''runtime_status'', JStr status),
       (''loaded'', JBool (status \<noteq> ''notLoaded'')),
       (''can_accept_direct_input'', jget ''canAcceptDirectInput'' thread),
       (''source'', jget ''source'' thread), (''queue_count'', JInt (int items)),
       (''queue_capacity'', JInt 100), (''codex_version'', version),
       (''server'', jset ''user_agent'' (jget ''userAgent'' server)
          (if is_obj (jget ''serverInfo'' server) then jget ''serverInfo'' server else JObj []))]"

definition preflight_thread_delivery :: "peer \<Rightarrow> string \<Rightarrow> json act" where
  "preflight_thread_delivery P thread_id =
     bindA (request P ''thread/read'' (read_params thread_id False)) (\<lambda>result.
     bindA (exact_thread result thread_id) (\<lambda>thread.
     bindA (runtime_status_of thread ''thread/read returned no runtime status'') (\<lambda>status.
     bindA (unlessA (jget ''ephemeral'' thread = JBool True)
       (App AppServerError ''ephemeral target cannot receive durable delivery'')) (\<lambda>_.
     let can_accept = jget ''canAcceptDirectInput'' thread in
     bindA (unlessA (\<not> is_bool_or_none can_accept)
       (App AppServerError ''thread.canAcceptDirectInput has an invalid shape'')) (\<lambda>_.
     bindA (unlessA (can_accept = JBool False)
       (App AppServerError ''target thread does not accept direct input'')) (\<lambda>_.
     bindA (unlessA (can_accept = JNull \<and> looks_like_spawned_subagent (jget ''source'' thread))
       (App AppServerError ''unloaded spawned target does not accept direct input'')) (\<lambda>_.
     bindA (request P ''thread/queue/list'' (queue_params thread_id)) (\<lambda>queue.
     bindA (queue_items queue) (\<lambda>items.
     bindA (unlessA (jget ''nextCursor'' queue \<noteq> JNull)
       (App AppServerError ''thread queue exceeds the observed capacity'')) (\<lambda>_. \<lambda>w.
     bindA (codex_version (server_info w) thread) (\<lambda>version.
     retA (capability_json thread_id status thread (length items) version (server_info w))) w))))))))))"

text \<open>One item of the bounded queue, with its position.\<close>

definition queue_entry :: "digest_env \<Rightarrow> nat \<times> json \<Rightarrow> json act" where
  "queue_entry E numbered = (case numbered of (position, item) \<Rightarrow>
     bindA (unlessA (\<not> nonempty_str (jget ''id'' item))
       (App AppServerError ''queued submission has no item identity'')) (\<lambda>_.
     bindA (unlessA (\<not> nonempty_str (jget ''clientUserMessageId'' item))
       (App AppServerError ''queued submission has no client message identity'')) (\<lambda>_.
     bindA (queued_pointer item) (\<lambda>pointer.
     retA (JObj [(''item_id'', jget ''id'' item),
       (''client_user_message_id'', jget ''clientUserMessageId'' item), (''pointer'', JStr pointer),
       (''pointer_digest'', JStr (sha256 E pointer)), (''position'', JInt (int position))])))))"

definition list_thread_queue :: "peer \<Rightarrow> string \<Rightarrow> json list act" where
  "list_thread_queue P thread_id =
     bindA (request P ''thread/queue/list'' (queue_params thread_id)) (\<lambda>result.
     bindA (queue_items result) (\<lambda>items.
     bindA (unlessA (jget ''nextCursor'' result \<noteq> JNull)
       (App AppServerError ''thread queue exceeds the observed capacity'')) (\<lambda>_.
     mapA (queue_entry (digests P)) (List.enumerate 0 items))))"

section \<open>Delivering a pointer\<close>

definition add_params :: "string \<Rightarrow> string \<Rightarrow> string \<Rightarrow> json" where
  "add_params thread_id delivery_id pointer = JObj
     [(''threadId'', JStr thread_id),
      (''input'', JList [JObj [(''type'', JStr ''text''), (''text'', JStr pointer)]]),
      (''clientUserMessageId'', JStr delivery_id)]"

definition add_thread_delivery :: "peer \<Rightarrow> string \<Rightarrow> string \<Rightarrow> string \<Rightarrow> json act" where
  "add_thread_delivery P thread_id delivery_id pointer =
     bindA (request P ''thread/queue/add'' (add_params thread_id delivery_id pointer)) (\<lambda>result.
     let item = jget ''queuedSubmission'' result in
     bindA (unlessA (\<not> is_obj item)
       (App AppServerError ''thread/queue/add returned no queued submission'')) (\<lambda>_.
     bindA (unlessA (jget ''clientUserMessageId'' item \<noteq> JStr delivery_id)
       (App AppServerError ''thread/queue/add returned a different delivery identity'')) (\<lambda>_.
     bindA (unlessA (\<not> nonempty_str (jget ''id'' item))
       (App AppServerError ''thread/queue/add returned no queue item identity'')) (\<lambda>_.
     bindA (queued_pointer item) (\<lambda>returned.
     bindA (unlessA (returned \<noteq> pointer)
       (App AppServerError ''thread/queue/add returned modified pointer content'')) (\<lambda>_.
     retA (JObj [(''item_id'', jget ''id'' item), (''client_user_message_id'', JStr delivery_id),
                 (''pointer'', JStr returned)])))))))"

text \<open>The user messages of one turn that carry the delivery id.\<close>

definition history_entry :: "digest_env \<Rightarrow> json \<Rightarrow> json \<Rightarrow> json act" where
  "history_entry E turn item =
     bindA (history_pointer item) (\<lambda>pointer.
     retA (JObj [(''turn_id'', jget ''id'' turn), (''message_id'', jget ''id'' item),
                 (''pointer_digest'', JStr (sha256 E pointer))]))"

definition turn_history :: "digest_env \<Rightarrow> string \<Rightarrow> json \<Rightarrow> json list act" where
  "turn_history E delivery_id turn = (case jget ''items'' turn of
     JList items \<Rightarrow>
       mapA (history_entry E turn)
         (filter (\<lambda>i. is_obj i \<and> jget ''type'' i = JStr ''userMessage'' \<and> jget ''clientId'' i = JStr delivery_id)
           items)
   | _ \<Rightarrow> app_failA ''thread/read returned an invalid turn item list'')"

definition classify_delivery :: "nat \<Rightarrow> nat \<Rightarrow> nat \<Rightarrow> nat \<Rightarrow> string" where
  "classify_delivery history_matches history_modified queue_matches queue_modified =
     (if history_modified \<noteq> 0 \<or> queue_modified \<noteq> 0 then ''delivery_modified''
      else if history_matches \<noteq> 0 then ''recorded''
      else if queue_matches \<noteq> 0 then ''queued''
      else ''absent'')"

definition delivery_report :: "string \<Rightarrow> string \<Rightarrow> bool \<Rightarrow> json list \<Rightarrow> string \<Rightarrow> json list \<Rightarrow> json" where
  "delivery_report digest status interrupted history delivery_id queue =
     (let matching = filter (\<lambda>i. jget ''client_user_message_id'' i = JStr delivery_id) queue;
          prior = takeWhile (\<lambda>i. jget ''client_user_message_id'' i \<noteq> JStr delivery_id) queue;
          same = (\<lambda>items. length (filter (\<lambda>i. jget ''pointer_digest'' i = JStr digest) items));
          nat_json = (\<lambda>n. JInt (int n)) in
      JObj [(''classification'', JStr (classify_delivery (same history) (length history - same history)
               (same matching) (length matching - same matching))),
        (''runtime_status'', JStr status), (''interrupted'', JBool interrupted),
        (''history_matches'', nat_json (same history)),
        (''history_modified'', nat_json (length history - same history)),
        (''queue_matches'', nat_json (same matching)),
        (''queue_modified'', nat_json (length matching - same matching)),
        (''observed_pointer_count'', nat_json (length history + length matching)),
        (''history'', JList history), (''queue'', JList matching),
        (''queue_count'', nat_json (length queue)), (''prior_item_count'', nat_json (length prior)),
        (''prior_item_ids'', JList (map (\<lambda>i. JStr (py_str (jget ''item_id'' i))) prior))])"

definition inspect_thread_delivery :: "peer \<Rightarrow> string \<Rightarrow> string \<Rightarrow> string \<Rightarrow> json act" where
  "inspect_thread_delivery P thread_id delivery_id digest =
     bindA (request P ''thread/read'' (read_params thread_id True)) (\<lambda>result.
     bindA (exact_thread result thread_id) (\<lambda>thread.
     bindA (runtime_status_of thread ''thread/read returned no runtime status'') (\<lambda>status.
     bindA (case jget ''turns'' thread of
              JList turns \<Rightarrow>
                if list_all is_obj turns then retA turns
                else app_failA ''thread/read returned an invalid turn list''
            | _ \<Rightarrow> app_failA ''thread/read returned an invalid turn list'') (\<lambda>turns.
     bindA (mapA (turn_history (digests P) delivery_id) turns) (\<lambda>history.
     bindA (list_thread_queue P thread_id) (\<lambda>queue.
     retA (delivery_report digest status
             (list_ex (\<lambda>t. jget ''status'' t = JStr ''interrupted'') turns) (concat history)
             delivery_id queue)))))))"

definition resume_thread_delivery :: "peer \<Rightarrow> string \<Rightarrow> json act" where
  "resume_thread_delivery P thread_id =
     bindA (request P ''thread/resume'' (JObj [(''threadId'', JStr thread_id)])) (\<lambda>result.
     bindA (exact_thread result thread_id) (\<lambda>thread.
     bindA (runtime_status_of thread ''thread/resume returned no runtime status'') (\<lambda>status.
     retA (JObj [(''thread_id'', JStr thread_id), (''runtime_status'', JStr status),
                 (''can_accept_direct_input'', jget ''canAcceptDirectInput'' thread)]))))"

definition delete_params :: "string \<Rightarrow> string \<Rightarrow> json" where
  "delete_params thread_id item_id =
     JObj [(''threadId'', JStr thread_id), (''queuedSubmissionId'', JStr item_id)]"

definition delete_thread_delivery :: "peer \<Rightarrow> string \<Rightarrow> string \<Rightarrow> bool act" where
  "delete_thread_delivery P thread_id item_id =
     bindA (request P ''thread/queue/delete'' (delete_params thread_id item_id)) (\<lambda>result.
     case jget ''deleted'' result of
       JBool b \<Rightarrow> retA b | _ \<Rightarrow> app_failA ''thread/queue/delete returned no conclusive result'')"

section \<open>Setting a goal\<close>

definition goal_set_observation :: "json \<Rightarrow> TargetObservation act" where
  "goal_set_observation result =
     (let goal = jget ''goal'' result in
      bindA (unlessA (\<not> is_obj goal) (App AppServerError ''thread/goal/set returned no goal'')) (\<lambda>_.
      case jget ''threadId'' goal of
        JStr tid \<Rightarrow>
          bindA (unlessA (tid = [])
            (App AppServerError ''thread/goal/set returned no valid thread identity'')) (\<lambda>_.
          bindA (goal_marker goal ''thread/goal/set returned an invalid goal marker'') (\<lambda>marker.
          retA \<lparr>obs_thread_id = tid, runtime_status = ''unknown_after_goal_set'', is_loaded = True,
                goal_status = goal_status_of goal, obs_goal = Some marker,
                goal_snapshot = goal_snapshot_of goal\<rparr>))
      | _ \<Rightarrow> app_failA ''thread/goal/set returned no valid thread identity''))"

definition activate_guarded_goal :: "peer \<Rightarrow> string \<Rightarrow> TargetObservation act" where
  "activate_guarded_goal P thread_id =
     bindA (request P ''thread/goal/set'' (activation_params thread_id)) goal_set_observation"

definition pause_guarded_goal :: "peer \<Rightarrow> string \<Rightarrow> TargetObservation act" where
  "pause_guarded_goal P thread_id =
     bindA (request P ''thread/goal/set'' (pause_params thread_id)) goal_set_observation"

section \<open>Native workers\<close>

definition native_statuses :: "string list" where
  "native_statuses =
     [''bindPending'', ''running'', ''interrupted'', ''completed'', ''failed'', ''unavailable'', ''mismatch'']"

definition native_params :: "string \<Rightarrow> string \<Rightarrow> string option \<Rightarrow> string option \<Rightarrow> json" where
  "native_params root_id task child invocation = JObj
     ([(''rootThreadId'', JStr root_id), (''taskName'', JStr task)] @
      (case (child, invocation) of
         (Some c, Some i) \<Rightarrow> [(''childThreadId'', JStr c), (''invocationId'', JStr i)]
       | _ \<Rightarrow> []))"

definition native_identity :: "json \<Rightarrow> string \<Rightarrow> unit act" where
  "native_identity v label =
     unlessA (v \<noteq> JNull \<and> \<not> nonempty_str v)
       (App AppServerError (''native worker observation returned an invalid '' @ label @ '' identity''))"

definition native_error_ok :: "json \<Rightarrow> bool" where
  "native_error_ok v = (case v of JNull \<Rightarrow> True | JStr s \<Rightarrow> py_len s \<le> 512 | _ \<Rightarrow> False)"

definition check_native_result ::
    "string \<Rightarrow> string option \<Rightarrow> string option \<Rightarrow> json \<Rightarrow> json act" where
  "check_native_result task child invocation result =
     (let status = jget ''status'' result; c = jget ''childThreadId'' result;
          i = jget ''invocationId'' result; err = jget ''error'' result in
      bindA (pyA (memE status native_statuses)) (\<lambda>known.
      bindA (unlessA (\<not> known)
        (App AppServerError ''native worker observation returned an invalid status'')) (\<lambda>_.
      bindA (unlessA (jget ''taskName'' result \<noteq> JStr task)
        (App AppServerError ''native worker observation returned a different task'')) (\<lambda>_.
      bindA (native_identity c ''child thread'') (\<lambda>_.
      bindA (native_identity i ''invocation'') (\<lambda>_.
      bindA (unlessA (\<not> native_error_ok err)
        (App AppServerError ''native worker observation returned an invalid error'')) (\<lambda>_.
      bindA (unlessA (status \<in> JStr ` {''running'', ''interrupted'', ''completed'', ''failed''}
                      \<and> (c = JNull \<or> i = JNull))
        (App AppServerError ''native worker observation omitted its exact invocation'')) (\<lambda>_.
      bindA (unlessA (child \<noteq> None \<and> status \<notin> {JStr ''unavailable'', JStr ''mismatch''}
                      \<and> (c \<noteq> opt_json JStr child \<or> i \<noteq> opt_json JStr invocation))
        (App AppServerError ''native worker observation changed the exact invocation identity'')) (\<lambda>_.
      retA (JObj [(''task_name'', JStr task), (''child_thread_id'', c), (''invocation_id'', i),
                  (''status'', status), (''error'', err)]))))))))))"

definition observe_native_worker ::
    "peer \<Rightarrow> string \<Rightarrow> string \<Rightarrow> string option \<Rightarrow> string option \<Rightarrow> json act" where
  "observe_native_worker P root_id task child invocation =
     bindA (unlessA (root_id = [] \<or> task = [])
       (App AppServerError ''native worker root and task identities must be non-empty'')) (\<lambda>_.
     bindA (unlessA ((child = None) \<noteq> (invocation = None))
       (App AppServerError ''native worker child and invocation identities must be supplied together'')) (\<lambda>_.
     bindA (request P ''thread/agent/observe'' (native_params root_id task child invocation))
       (check_native_result task child invocation)))"

definition probe_report :: "string \<Rightarrow> string \<Rightarrow> json" where
  "probe_report state reason = JObj
     [(''state'', JStr state), (''required_capability'', JStr ''thread/agent/observe''),
      (''reason'', JStr reason)]"

definition native_worker_observation_capability :: "peer \<Rightarrow> json act" where
  "native_worker_observation_capability P =
     tryA (request P ''thread/agent/observe'' (JObj []))
       (\<lambda>e. case e of
          App AppServerUnsupportedMethodError _ \<Rightarrow> retA (probe_report ''unavailable'' ''unsupported_method'')
        | App AppServerTransportError _ \<Rightarrow> retA (probe_report ''indeterminate'' ''transport_failure'')
        | App AppServerRejectedError _ \<Rightarrow> retA (probe_report ''available'' ''method_dispatched'')
        | App AppServerError _ \<Rightarrow> retA (probe_report ''indeterminate'' ''invalid_probe_response'')
        | Py err \<Rightarrow> failA (Py err))
       (\<lambda>_. retA (probe_report ''available'' ''method_dispatched''))"

section \<open>Resolving a caller to its topmost root\<close>

text \<open>\<open>left\<close> is how many more threads the chain may hold: 64 at the start.\<close>

fun resolve_chain :: "peer \<Rightarrow> string \<Rightarrow> nat \<Rightarrow> string list \<Rightarrow> string \<Rightarrow> json act" where
  "resolve_chain P origin left chain current =
     (if current \<in> set chain then app_failA ''spawned-subagent ancestry contains a cycle''
      else case left of
        0 \<Rightarrow> app_failA ''spawned-subagent ancestry exceeds 64 threads''
      | Suc n \<Rightarrow>
          bindA (request P ''thread/read'' (read_params current False)) (\<lambda>result.
          bindA (exact_thread result current) (\<lambda>thread.
          bindA (runtime_status_of thread ''thread/read returned no runtime status'') (\<lambda>_.
          bindA (unlessA (jget ''ephemeral'' thread = JBool True)
            (App AppServerError ''ephemeral thread cannot anchor durable delivery'')) (\<lambda>_.
          bindA (unlessA (\<not> is_bool_or_none (jget ''canAcceptDirectInput'' thread))
            (App AppServerError ''thread.canAcceptDirectInput has an invalid shape'')) (\<lambda>_.
          let parent = jget ''parentThreadId'' thread in
          if \<not> looks_like_spawned_subagent (jget ''source'' thread) then
            bindA (unlessA (parent \<noteq> JNull)
              (App AppServerError ''non-subagent thread exposed an unsupported parentThreadId'')) (\<lambda>_.
            bindA (preflight_thread_delivery P current) (\<lambda>capability.
            retA (JObj (aupdate (entries capability)
              [(''origin_thread_id'', JStr origin), (''delivery_thread_id'', JStr current),
               (''relay_chain'', JList (map JStr (chain @ [current]))),
               (''relayed_to_root'', JBool (current \<noteq> origin))]))))
          else (case parent of
             JStr next_id \<Rightarrow>
               if next_id = [] then app_failA ''spawned-subagent ancestry has a missing parentThreadId''
               else resolve_chain P origin n (chain @ [current]) next_id
           | _ \<Rightarrow> app_failA ''spawned-subagent ancestry has a missing parentThreadId'')))))))"

declare resolve_chain.simps [simp del]

definition resolve_thread_delivery :: "peer \<Rightarrow> string \<Rightarrow> json act" where
  "resolve_thread_delivery P origin =
     bindA (unlessA (origin = []) (App AppServerError ''origin thread identity must be non-empty'')) (\<lambda>_.
     resolve_chain P origin 64 [] origin)"

section \<open>Diagnosis\<close>

definition doctor :: "peer \<Rightarrow> string \<Rightarrow> string option \<Rightarrow> json act" where
  "doctor P socket thread_id = (\<lambda>w.
     let result = [(''socket'', JStr socket), (''codex_home'', JStr (codex_home P)),
                   (''server'', if is_obj (server_info w) then server_info w else JObj [])] in
     (case thread_id of
        None \<Rightarrow> retA (JObj (result @ [(''goals_checked'', JBool False)]))
      | Some tid \<Rightarrow>
          bindA (read_observation P tid True) (\<lambda>ob.
          retA (JObj (result @ [(''goals_checked'', JBool True),
            (''observation'', JObj [(''thread_id'', JStr (obs_thread_id ob)),
               (''runtime_status'', JStr (runtime_status ob)), (''is_loaded'', JBool (is_loaded ob)),
               (''goal_status'', opt_json JStr (goal_status ob))])])))) w)"

end
