(* ===== verification/Service_Reports.thy ===== *)
theory Service_Reports
  imports App_Server
begin

text \<open>
  What the service reports about a monitor and its retry policy (\<open>service.py\<close>, lines 79 to 320, 358 to
  437, 956 to 1110, 1536 to 1940): wake report, status, decision status, the summaries for the current
  task. A stored witness item, evidence or outcome is an object, as the evaluators write it.
\<close>

section \<open>Names\<close>

fun monitor_state_value :: "MonitorState \<Rightarrow> string" where
  "monitor_state_value REGISTERING = ''registering''"
| "monitor_state_value DEFER_INTENT = ''defer_intent''"
| "monitor_state_value PAUSING = ''pausing''"
| "monitor_state_value ARMED = ''armed''"
| "monitor_state_value CLAIMED = ''claimed''"
| "monitor_state_value ADMISSION_IN_PROGRESS = ''admission_in_progress''"
| "monitor_state_value QUEUE_ACCEPTED = ''queue_accepted''"
| "monitor_state_value CANCEL_REQUESTED = ''cancel_requested''"
| "monitor_state_value CANCELLATION_IN_PROGRESS = ''cancellation_in_progress''"
| "monitor_state_value ACTIVATING = ''activating''"
| "monitor_state_value FIRED = ''fired''"
| "monitor_state_value RECORDED = ''recorded''"
| "monitor_state_value DELIVERY_REJECTED = ''delivery_rejected''"
| "monitor_state_value DELIVERY_UNCERTAIN = ''delivery_uncertain''"
| "monitor_state_value DELIVERY_MODIFIED = ''delivery_modified''"
| "monitor_state_value DELIVERY_CAPABILITY_UNAVAILABLE = ''delivery_capability_unavailable''"
| "monitor_state_value CANCELLATION_TOO_LATE = ''cancellation_too_late''"
| "monitor_state_value CANCELLED = ''cancelled''"
| "monitor_state_value EXPIRED = ''expired''"
| "monitor_state_value SUPERSEDED = ''superseded''"
| "monitor_state_value UNLOADED_TARGET = ''unloaded_target''"
| "monitor_state_value OBSERVER_FAILED = ''observer_failed''"
| "monitor_state_value SATISFIED_REQUIRES_AUTHORIZATION = ''satisfied_requires_authorization''"
| "monitor_state_value ACTIVATION_UNCERTAIN = ''activation_uncertain''"
| "monitor_state_value ACTIVATION_FAILED = ''activation_failed''"
| "monitor_state_value MIS_TARGETED_ACTIVATION = ''mis_targeted_activation''"
| "monitor_state_value DAEMON_UNAVAILABLE = ''daemon_unavailable''"
| "monitor_state_value DEFER_ABANDONED = ''defer_abandoned''"
| "monitor_state_value PAUSE_UNCERTAIN = ''pause_uncertain''"
| "monitor_state_value PAUSE_REJECTED = ''pause_rejected''"
| "monitor_state_value MIS_TARGETED_PAUSE = ''mis_targeted_pause''"

fun mode_value :: "MonitorMode \<Rightarrow> string" where
  "mode_value LEGACY = ''legacy''"
| "mode_value DEFERRED = ''deferred''"

fun delivery_state_value :: "ThreadDeliveryState \<Rightarrow> string" where
  "delivery_state_value TD_UNATTEMPTED = ''unattempted''"
| "delivery_state_value TD_ADMISSION_IN_PROGRESS = ''admission_in_progress''"
| "delivery_state_value TD_QUEUE_ACCEPTED = ''queue_accepted''"
| "delivery_state_value TD_RECORDED = ''recorded''"
| "delivery_state_value TD_REJECTED = ''delivery_rejected''"
| "delivery_state_value TD_UNCERTAIN = ''delivery_uncertain''"
| "delivery_state_value TD_MODIFIED = ''delivery_modified''"
| "delivery_state_value TD_CANCEL_REQUESTED = ''cancel_requested''"
| "delivery_state_value TD_CANCELLATION_IN_PROGRESS = ''cancellation_in_progress''"
| "delivery_state_value TD_CANCELLED = ''cancelled''"
| "delivery_state_value TD_CANCELLATION_TOO_LATE = ''cancellation_too_late''"

section \<open>Order and retries of a reconciliation\<close>

fun reconcile_rank :: "MonitorState \<Rightarrow> nat" where
  "reconcile_rank CLAIMED = 0"
| "reconcile_rank ADMISSION_IN_PROGRESS = 1"
| "reconcile_rank CANCEL_REQUESTED = 2"
| "reconcile_rank CANCELLATION_IN_PROGRESS = 3"
| "reconcile_rank ARMED = 4"
| "reconcile_rank QUEUE_ACCEPTED = 5"
| "reconcile_rank _ = 99"

definition reconcile_priority :: "MonitorRecord \<Rightarrow> nat \<times> rat" where
  "reconcile_priority rec = (reconcile_rank (mon_state rec), mon_created_at rec)"

definition retryable_delivery_states :: "MonitorState set" where
  "retryable_delivery_states =
     {ADMISSION_IN_PROGRESS, CANCEL_REQUESTED, CANCELLATION_IN_PROGRESS, QUEUE_ACCEPTED}"

definition delivery_retry_due :: "MonitorRecord \<Rightarrow> rat \<Rightarrow> bool" where
  "delivery_retry_due rec now \<longleftrightarrow>
     mon_state rec \<notin> retryable_delivery_states
     \<or> (case jget ''retry_after'' (mon_reconciliation rec) of
          JInt i \<Rightarrow> of_int i \<le> now | JFloat f \<Rightarrow> pf_le f (Fin now) | _ \<Rightarrow> True)"

definition DELIVERY_RETRY_BASE_SECONDS :: rat where "DELIVERY_RETRY_BASE_SECONDS = 5"
definition DELIVERY_RETRY_MAX_SECONDS :: rat where "DELIVERY_RETRY_MAX_SECONDS = 60"

text \<open>\<open>int(previous)\<close> raises for a float that is not finite.\<close>

definition next_delivery_retry :: "json \<Rightarrow> rat \<Rightarrow> (int \<times> rat) res" where
  "next_delivery_retry reconciliation now =
     (let previous = (if is_obj reconciliation \<and> jhas ''retry_count'' reconciliation
                      then jget ''retry_count'' reconciliation else JInt 0) in
      bindE (if is_number previous then bindE (py_int previous) (\<lambda>i. Inr (i + 1)) else Inr 1) (\<lambda>count.
      let power = min (max 0 (count - 1)) 4 in
      Inr (count, now + min (DELIVERY_RETRY_BASE_SECONDS * 2 ^ nat power) DELIVERY_RETRY_MAX_SECONDS)))"

definition clear_delivery_retry :: "json \<Rightarrow> json" where
  "clear_delivery_retry v = JObj (apop ''retry_after'' (apop ''retry_count'' (entries v)))"

section \<open>The binding facts of a condition\<close>

definition picked :: "string list \<Rightarrow> json \<Rightarrow> (string \<times> json) list" where
  "picked ks v = map (\<lambda>k. (k, jget k v)) ks"

definition present :: "(string \<times> json) list \<Rightarrow> (string \<times> json) list" where
  "present kvs = filter (\<lambda>kv. snd kv \<noteq> JNull) kvs"

definition leaf_binding_summary :: "string \<Rightarrow> json \<Rightarrow> (string \<times> json) list" where
  "leaf_binding_summary ty c =
     (if ty = ''time'' then picked [''deadline_utc''] c
      else if ty = ''gpu_stable'' then
        picked [''devices'', ''max_utilization_percent'', ''stable_for_seconds''] c
      else if ty = ''pid_exit'' then
        [(''identity'', if is_obj (jget ''identity'' c) then jget ''identity'' c else JObj [])]
      else if ty = ''tmux_exit'' then
        picked [''target_kind'', ''socket'', ''server_pid'', ''target_id'', ''session_id''] c
      else if ty = ''log_pattern'' then
        [(''path'', jget ''path'' c),
         (''pattern_names'', JList (map (jget ''name'') (filter is_obj (list_items (jget ''patterns'' c))))),
         (''identity'', jget ''identity'' c), (''offset'', jget ''offset'' c),
         (''missing_at_arm'', JBool (truthy (jget ''missing_at_arm'' c)))]
      else if ty = ''thread_idle'' then
        picked [''thread_id'', ''accept_already_idle'', ''armed_runtime_status''] c
      else if ty = ''native_worker_terminal'' then
        picked [''task_name'', ''root_thread_id'', ''child_thread_id'', ''invocation_id'', ''armed_status''] c
      else if ty = ''git_ref_change'' then
        present (picked [''worktree_root'', ''common_dir'', ''object_format'', ''ref'', ''direct_oid'',
          ''peeled_commit'', ''head_target''] (jget ''binding'' c))
      else if ty \<in> {''command_terminal'', ''worker_terminal''} then picked [''reservation_id''] c
      else if ty = ''heartbeat_stale'' then picked [''reservation_id'', ''stale_after_seconds''] c
      else [])"

function condition_binding_summary :: "json \<Rightarrow> json" where
  "condition_binding_summary c =
     (let ty = (if jhas ''type'' c then py_str (jget ''type'' c) else []) in
      JObj ((''type'', JStr ty) #
        (if ty \<in> {''all'', ''any''} then
           [(''children'', JList (map (\<lambda>child. if is_obj child then condition_binding_summary child else JNull)
              (filter is_obj (list_items (jget ''children'' c)))))]
         else leaf_binding_summary ty c)))"
  by pat_completeness auto
termination
  by (relation "measure size") (auto intro: jget_items_size)

declare condition_binding_summary.simps [simp del]

section \<open>Compacting decisions\<close>

definition nonempty_value :: "json \<Rightarrow> bool" where
  "nonempty_value v \<longleftrightarrow> v \<noteq> JNull \<and> v \<noteq> JList [] \<and> v \<noteq> JObj []"

definition no_success :: "(string \<times> json) list" where
  "no_success = [(''task_success'', JBool False), (''lead_accepted'', JBool False)]"

definition decision_terminal_payload :: "json \<Rightarrow> json" where
  "decision_terminal_payload t = JObj
     (filter (\<lambda>kv. nonempty_value (snd kv))
        (picked [''kind'', ''status'', ''outcome'', ''producer_task_id'', ''command_digest'', ''exit_code'',
                 ''signal'', ''reason'', ''candidate_oid'', ''producer_at'', ''host_received_at'',
                 ''log_paths'', ''artifact_paths''] t) @ no_success)"

definition decision_heartbeat :: "json \<Rightarrow> (string \<times> json) list" where
  "decision_heartbeat hb = present (picked [''sequence'', ''host_received_at''] hb)"

text \<open>A heartbeat, a terminal payload and an attestation are carried when they are objects.\<close>

definition event_facts :: "json \<Rightarrow> (string \<times> json) list" where
  "event_facts e =
     (if is_obj (jget ''last_heartbeat'' e) \<and> decision_heartbeat (jget ''last_heartbeat'' e) \<noteq> []
      then [(''last_heartbeat'', JObj (decision_heartbeat (jget ''last_heartbeat'' e)))] else [])
     @ (if is_obj (jget ''terminal_event'' e)
        then [(''terminal_event'', decision_terminal_payload (jget ''terminal_event'' e))] else [])
     @ (if is_obj (jget ''git_attestation'' e) \<and> entries (jget ''git_attestation'' e) \<noteq> []
        then [(''git_attestation'', jget ''git_attestation'' e)] else [])"

definition decision_event_status :: "json \<Rightarrow> json" where
  "decision_event_status e = JObj
     (present (picked [''reservation_id'', ''kind'', ''producer_id'', ''state''] e) @ event_facts e
      @ present (picked [''cancelled_at'', ''expired_at''] e) @ no_success)"

definition decision_witness :: "json \<Rightarrow> json" where
  "decision_witness item =
     (if jget ''type'' item \<notin> {JStr ''command_terminal'', JStr ''worker_terminal''} then item
      else JObj (present (picked [''type'', ''reservation_id'', ''producer_id'', ''classification'',
                                  ''task_success'', ''lead_accepted''] item)
                 @ event_facts item))"

section \<open>The wake report\<close>

definition MAX_REARM_CHAIN :: nat where "MAX_REARM_CHAIN = 20"
definition WAKE_JOURNAL_TAIL_LINES :: nat where "WAKE_JOURNAL_TAIL_LINES = 20"
definition DECISION_JOURNAL_TAIL_RUNS :: nat where "DECISION_JOURNAL_TAIL_RUNS = 8"
definition POLL_YIELD_FLOOR_SECONDS :: rat where "POLL_YIELD_FLOOR_SECONDS = 180"

definition stored_reason :: "MonitorRecord \<Rightarrow> WakeReason" where
  "stored_reason rec = (case mon_wake_reason rec of
     Some w \<Rightarrow> w
   | None \<Rightarrow>
       if mon_mode rec = DEFERRED
          \<and> \<not> witness_authorizes_continuation (mon_witness rec) (mon_heuristic rec)
       then UNAUTHORIZED_EVIDENCE else CONDITION)"

definition waited_seconds :: "MonitorRecord \<Rightarrow> rat \<Rightarrow> rat option" where
  "waited_seconds rec fired_at = map_option (\<lambda>a. max 0 (fired_at - a)) (mon_armed_at rec)"

definition wake_report :: "MonitorRecord \<Rightarrow> rat \<Rightarrow> (string \<times> json) list" where
  "wake_report rec fired_at =
     (let reason = stored_reason rec; waited = waited_seconds rec fired_at;
          tail = journal_tail (mon_condition rec) WAKE_JOURNAL_TAIL_LINES in
      [(''wake_reason'', JStr (wake_reason_value reason)), (''witness'', JList (mon_witness rec)),
       (''armed_at'', opt_json jnum (mon_armed_at rec)), (''fired_at'', jnum fired_at),
       (''waited_seconds'', opt_json jnum waited), (''evaluation_count'', JInt (mon_evaluations rec)),
       (''avoided_poll_turns'', opt_json (\<lambda>w. JInt \<lfloor>w / POLL_YIELD_FLOOR_SECONDS\<rfloor>) waited)]
      @ (if reason = WAKE_OBSERVER_FAILED then [(''failure_detail'', mon_evidence rec)] else [])
      @ (if list_ex (\<lambda>item. jget ''type'' item \<in> {JStr ''command_terminal'', JStr ''worker_terminal''})
              (mon_witness rec) then no_success else [])
      @ (if tail \<noteq> [] then [(''journal_tail'', JList (map JStr tail))] else []))"

definition observation_summary :: "TargetObservation \<Rightarrow> json" where
  "observation_summary ob = JObj
     [(''thread_id'', JStr (obs_thread_id ob)), (''runtime_status'', JStr (runtime_status ob)),
      (''is_loaded'', JBool (is_loaded ob)), (''goal_status'', opt_json JStr (goal_status ob)),
      (''goal'', opt_json goal_as_dict (obs_goal ob))]"

definition thread_observation_summary :: "TargetObservation \<Rightarrow> json" where
  "thread_observation_summary ob = JObj
     [(''thread_id'', JStr (obs_thread_id ob)), (''runtime_status'', JStr (runtime_status ob)),
      (''is_loaded'', JBool (is_loaded ob))]"

section \<open>Status\<close>

definition target_thread :: "MonitorRecord \<Rightarrow> string" where
  "target_thread rec = (case mon_guard rec of
     Some g \<Rightarrow> guard_thread_id g
   | None \<Rightarrow>
       if jhas ''thread_id'' (mon_delivery rec) then py_str (jget ''thread_id'' (mon_delivery rec)) else [])"

definition monitor_status_dict :: "MonitorRecord \<Rightarrow> DeliveryKind \<Rightarrow> (string \<times> json) list" where
  "monitor_status_dict rec kind =
     [(''monitor_id'', JStr (mon_id rec)), (''idempotency_key'', opt_json JStr (mon_ikey rec)),
      (''target'', case mon_guard rec of
         Some g \<Rightarrow> guard_as_dict g | None \<Rightarrow> JObj [(''thread_id'', JStr (target_thread rec))]),
      (''condition'', mon_condition rec), (''state'', JStr (monitor_state_value (mon_state rec))),
      (''mode'', JStr (mode_value (mon_mode rec))), (''idle_barrier'', JBool (mon_idle_barrier rec)),
      (''allow_heuristic_continuation'', JBool (mon_heuristic rec)),
      (''expires_at'', jnum (mon_expires_at rec)), (''evidence'', mon_evidence rec),
      (''witness'', JList (mon_witness rec)), (''outcome'', mon_outcome rec),
      (''activation_snapshot'', mon_activation rec), (''created_at'', jnum (mon_created_at rec)),
      (''updated_at'', jnum (mon_updated_at rec)),
      (''wake_reason'', opt_json (\<lambda>w. JStr (wake_reason_value w)) (mon_wake_reason rec)),
      (''rearm_of'', opt_json JStr (mon_rearm_of rec)), (''evaluation_count'', JInt (mon_evaluations rec)),
      (''armed_at'', opt_json jnum (mon_armed_at rec)), (''delivery_kind'', JStr (delivery_kind_value kind)),
      (''delivery'', mon_delivery rec),
      (''delivery_state'', opt_json (\<lambda>s. JStr (delivery_state_value s)) (mon_delivery_state rec)),
      (''admission_attempted_at'', opt_json jnum (mon_admission_at rec)),
      (''queue_receipt'', mon_receipt rec), (''reconciliation'', mon_reconciliation rec),
      (''delivery_outcome'', mon_delivery_outcome rec),
      (''target_status_observed_at'', opt_json jnum (mon_status_seen_at rec))]"

text \<open>The chain of predecessors: at most 20, and no monitor twice.\<close>

fun rearm_chain :: "peer \<Rightarrow> nat \<Rightarrow> string list \<Rightarrow> string option \<Rightarrow> string list act" where
  "rearm_chain P left seen None = retA []"
| "rearm_chain P 0 seen (Some parent) = retA []"
| "rearm_chain P (Suc left) seen (Some parent) =
     (if parent \<in> set seen then retA []
      else
        bindA (readA P (get_monitor parent)) (\<lambda>ancestor.
        bindA (rearm_chain P left (parent # seen)
                 (case ancestor of None \<Rightarrow> None | Some a \<Rightarrow> mon_rearm_of a)) (\<lambda>chain.
        retA (parent # chain))))"

definition rearm_chain_of :: "peer \<Rightarrow> MonitorRecord \<Rightarrow> string list act" where
  "rearm_chain_of P rec = rearm_chain P MAX_REARM_CHAIN [mon_id rec] (mon_rearm_of rec)"

text \<open>\<open>except (ConflictError, ValidationError, TypeError, ValueError)\<close>.\<close>

fun binding_exception :: "py_error \<Rightarrow> bool" where
  "binding_exception (ValidationError _) = True"
| "binding_exception (ConflictError _) = True"
| "binding_exception TypeError = True"
| "binding_exception ValueError = True"
| "binding_exception _ = False"

definition corrupt_marker :: "MonitorRecord \<Rightarrow> string list \<Rightarrow> string list \<Rightarrow> json" where
  "corrupt_marker rec expected observed = JObj
     ([(''state'', JStr ''corrupt''),
       (''expected_reservation_ids'', if jhas ''expected_reservation_ids'' (mon_evidence rec)
          then jget ''expected_reservation_ids'' (mon_evidence rec) else JList (map JStr expected)),
       (''observed_reservation_ids'', if jhas ''observed_reservation_ids'' (mon_evidence rec)
          then jget ''observed_reservation_ids'' (mon_evidence rec) else JList (map JStr observed))]
      @ no_success)"

definition rendered_events :: "MonitorRecord \<Rightarrow> bool \<Rightarrow> EventReservationRecord list \<Rightarrow> json list" where
  "rendered_events rec decision events =
     (let named = map (\<lambda>w. py_str (jget ''reservation_id'' w))
            (filter (\<lambda>w. is_obj w \<and> truthy (jget ''reservation_id'' w)) (mon_witness rec));
          abnormal = (\<lambda>e. er_terminal e \<noteq> JNull \<or> er_attestation e \<noteq> JNull
                          \<or> er_cancelled_at e \<noteq> None \<or> er_expired_at e \<noteq> None) in
      map (\<lambda>e. if decision then decision_event_status (event_status_dict e) else event_status_dict e)
        (filter (\<lambda>e. \<not> decision \<or> length events \<le> 1 \<or> er_id e \<in> set named \<or> abnormal e) events))"

definition terminal_status_fields :: "peer \<Rightarrow> MonitorRecord \<Rightarrow> bool \<Rightarrow> (string \<times> json) list act" where
  "terminal_status_fields P rec decision =
     bindA (case event_condition_bindings (mon_condition rec) of
              Inr bs \<Rightarrow> retA bs
            | Inl (ValidationError _) \<Rightarrow> retA []
            | Inl e \<Rightarrow> failA (Py e)) (\<lambda>expected.
     bindA (if expected \<noteq> [] then retA True else pyA (contains_event_condition (mon_condition rec)))
       (\<lambda>has_events.
     if \<not> has_events then retA []
     else
       bindA (catchA (readA P (events_for_monitor (digests P) (mon_id rec)))
                (\<lambda>e. case e of Py err \<Rightarrow> if binding_exception err then retA [] else failA e
                            | _ \<Rightarrow> failA e)) (\<lambda>events.
       let actual = map (\<lambda>e. (er_id e, kind_value (er_kind e))) events;
           rendered = rendered_events rec decision events in
       retA (if expected = [] \<or> actual \<noteq> expected then
               let marker = corrupt_marker rec (map fst expected) (map er_id events) in
               if length expected = 1 then [(''terminal_event'', marker)]
               else [(''terminal_events'', JList [marker])]
             else if length expected = 1 then [(''terminal_event'', hd rendered)]
             else if rendered \<noteq> [] then [(''terminal_events'', JList rendered)] else []))))"

definition supervision :: "peer \<Rightarrow> string act" where
  "supervision P =
     bindA (daemon_is_healthy P) (\<lambda>healthy. retA (if healthy then ''healthy'' else ''unsupervised''))"

text \<open>\<open>trusted\<close> is the thread of a trusted caller, whose look at the status is recorded.\<close>

definition observed_record :: "peer \<Rightarrow> string \<Rightarrow> string option \<Rightarrow> MonitorRecord act" where
  "observed_record P mid trusted =
     bindA (case trusted of
              None \<Rightarrow> readA P (get_monitor mid)
            | Some thread \<Rightarrow>
                bindA (nowA P) (\<lambda>now. ledgerA P (record_target_status_observed mid thread now))) (\<lambda>found.
     case found of
       None \<Rightarrow> failA (Py (ValidationError ''unknown monitor''))
     | Some rec \<Rightarrow> retA rec)"

definition status :: "peer \<Rightarrow> string \<Rightarrow> string option \<Rightarrow> json act" where
  "status P mid trusted =
     bindA (observed_record P mid trusted) (\<lambda>rec.
     bindA (pyA (delivery_kind rec)) (\<lambda>kind.
     bindA (pyA (elide_condition_journals (mon_condition rec))) (\<lambda>condition.
     bindA (rearm_chain_of P rec) (\<lambda>chain.
     bindA (terminal_status_fields P rec False) (\<lambda>terminal.
     bindA (if mon_state rec \<in> {ARMED, CLAIMED} then supervision P else retA ''not_required'') (\<lambda>sup.
     let value = aset ''condition'' condition (monitor_status_dict rec kind)
                 @ (if chain \<noteq> [] then [(''rearm_chain'', JList (map JStr chain))] else []);
         value = (if terminal = [] then value else value @ terminal @ no_success) in
     retA (JObj (value @ [(''supervision'', JStr sup)]))))))))"

section \<open>The decision report\<close>

text \<open>\<open>int(float(v) // 180)\<close>: the floor quotient of a value that is not finite is NaN.\<close>

definition poll_turns :: "json \<Rightarrow> json res" where
  "poll_turns v = bindE (py_float v) (\<lambda>f.
     case f of Fin r \<Rightarrow> Inr (JInt \<lfloor>r / POLL_YIELD_FLOOR_SECONDS\<rfloor>) | _ \<Rightarrow> Inl ValueError)"

definition object_or_empty :: "json \<Rightarrow> json" where
  "object_or_empty v = (if is_obj v then v else JObj [])"

definition reported_reason :: "MonitorRecord \<Rightarrow> json \<Rightarrow> json" where
  "reported_reason rec report = (case mon_wake_reason rec of
     Some w \<Rightarrow> JStr (wake_reason_value w) | None \<Rightarrow> jget ''wake_reason'' report)"

definition witness_fields :: "MonitorRecord \<Rightarrow> json \<Rightarrow> (string \<times> json) list" where
  "witness_fields rec report =
     (let items = (case jget ''witness'' report of JList ws \<Rightarrow> ws | _ \<Rightarrow> mon_witness rec);
          shown = map decision_witness (filter is_obj items);
          any = (\<lambda>k b. list_ex (\<lambda>w. jget k w = JBool b) shown) in
      if items = [] then []
      else [(''witness'', JList shown)]
        @ (if any ''task_success'' False then [(''task_success'', JBool False)]
           else if any ''task_success'' True then [(''task_success'', JBool True)] else [])
        @ (if any ''lead_accepted'' False then [(''lead_accepted'', JBool False)] else []))"

definition failure_fields :: "MonitorRecord \<Rightarrow> json \<Rightarrow> (string \<times> json) list" where
  "failure_fields rec report =
     (let detail = (if is_obj (jget ''failure_detail'' report) then jget ''failure_detail'' report
                    else if reported_reason rec report = JStr (wake_reason_value WAKE_OBSERVER_FAILED)
                    then mon_evidence rec else JNull) in
      if is_obj detail \<and> entries detail \<noteq> [] then [(''failure_detail'', detail)] else [])"

definition decision_fired_at :: "MonitorRecord \<Rightarrow> json \<Rightarrow> json" where
  "decision_fired_at rec report =
     (let reason = truthy (reported_reason rec report);
          first = jget ''fired_at'' report;
          second = (if first = JNull \<and> reason then opt_json jnum (mon_admission_at rec) else first) in
      if second = JNull \<and> reason \<and> mon_state rec = FIRED then jget ''at'' report else second)"

definition decision_waited :: "MonitorRecord \<Rightarrow> json \<Rightarrow> json res" where
  "decision_waited rec report =
     (let stored = jget ''waited_seconds'' report; fired = decision_fired_at rec report in
      if stored \<noteq> JNull then Inr stored
      else case mon_armed_at rec of
          None \<Rightarrow> Inr JNull
        | Some armed \<Rightarrow>
            if fired = JNull then Inr JNull
            else bindE (py_float fired) (\<lambda>f. Inr (JFloat (pf_max0 (pf_sub f (Fin armed))))))"

definition timing_fields :: "MonitorRecord \<Rightarrow> json \<Rightarrow> (string \<times> json) list res" where
  "timing_fields rec report =
     bindE (decision_waited rec report) (\<lambda>waited.
     bindE (if jget ''avoided_poll_turns'' report \<noteq> JNull then Inr (jget ''avoided_poll_turns'' report)
            else if waited \<noteq> JNull then poll_turns waited else Inr (JInt 0)) (\<lambda>turns.
     Inr (present [(''armed_at'', opt_json jnum (mon_armed_at rec)),
                   (''fired_at'', decision_fired_at rec report), (''waited_seconds'', waited)]
          @ [(''evaluation_count'', JInt (mon_evaluations rec)), (''avoided_poll_turns'', turns)])))"

definition or_json :: "json \<Rightarrow> json \<Rightarrow> json" where
  "or_json a b = (if a \<noteq> JNull then a else b)"

definition report_only_keys :: "string list" where
  "report_only_keys =
     [''armed_at'', ''avoided_poll_turns'', ''evaluation_count'', ''fired_at'', ''journal_tail'',
      ''lead_accepted'', ''task_success'', ''waited_seconds'', ''wake_reason'', ''witness'']"

definition receipt_fields :: "MonitorRecord \<Rightarrow> (string \<times> json) list" where
  "receipt_fields rec =
     (let kept = present (picked [''item_id'', ''client_user_message_id''] (mon_receipt rec)) in
      if is_obj (mon_receipt rec) \<and> kept \<noteq> [] then [(''queue_receipt'', JObj kept)] else [])"

definition delivery_diagnosis :: "MonitorRecord \<Rightarrow> DeliveryKind \<Rightarrow> json \<Rightarrow> (string \<times> json) list" where
  "delivery_diagnosis rec kind final =
     (if kind \<noteq> THREAD \<or> mon_delivery_state rec = Some TD_RECORDED then []
      else
        let diagnostic = filter (\<lambda>kv. fst kv \<notin> set report_only_keys \<and> nonempty_value (snd kv)) (entries final);
            reconciliation = filter (\<lambda>kv. nonempty_value (snd kv)) (entries (mon_reconciliation rec)) in
        (if diagnostic \<noteq> [] then [(''diagnostic'', JObj diagnostic)] else [])
        @ (if reconciliation \<noteq> [] then [(''reconciliation'', JObj reconciliation)] else [])
        @ receipt_fields rec)"

definition delivery_state_text :: "MonitorRecord \<Rightarrow> json" where
  "delivery_state_text rec = JStr (case mon_delivery_state rec of
     Some s \<Rightarrow> delivery_state_value s | None \<Rightarrow> monitor_state_value (mon_state rec))"

definition decision_delivery :: "MonitorRecord \<Rightarrow> DeliveryKind \<Rightarrow> json \<Rightarrow> json" where
  "decision_delivery rec kind report =
     (let final = (if is_obj (mon_delivery_outcome rec) then mon_delivery_outcome rec else report);
          reconciled = (\<lambda>k. jget k (object_or_empty (mon_reconciliation rec)));
          class = (if truthy (jget ''kind'' final) then jget ''kind'' final else reconciled ''classification'');
          observed = or_json (jget ''observed_pointer_count'' final) (reconciled ''observed_pointer_count'') in
      JObj (present
        ([(''kind'', JStr (delivery_kind_value kind)), (''state'', delivery_state_text rec)]
         @ (if kind = THREAD then
              [(''delivery_id'', jget ''delivery_id'' (mon_delivery rec)),
               (''origin_thread_id'', jget ''origin_thread_id'' (mon_delivery rec)),
               (''target_thread_id'', jget ''thread_id'' (mon_delivery rec))]
            else (case mon_guard rec of
                    None \<Rightarrow> []
                  | Some g \<Rightarrow> [(''origin_thread_id'', JStr (guard_thread_id g)),
                              (''target_thread_id'', JStr (guard_thread_id g))]))
         @ (if truthy class then [(''classification'', class)] else [])
         @ [(''observed_pointer_count'', observed),
            (''target_status_observed_at'', opt_json jnum (mon_status_seen_at rec))]
         @ delivery_diagnosis rec kind final)))"

definition journal_fields :: "MonitorRecord \<Rightarrow> (string \<times> json) list res" where
  "journal_fields rec =
     bindE (compact_journal_tail (mon_condition rec) DECISION_JOURNAL_TAIL_RUNS) (\<lambda>(runs, dropped).
     Inr ((if runs \<noteq> [] then
             [(''journal_tail'', JList (map (\<lambda>r. JObj [(''line'', JStr (fst r)),
                 (''repeat_count'', JInt (int (snd r)))]) runs))] else [])
          @ (if runs \<noteq> [] \<or> dropped \<noteq> 0 then [(''journal_dropped'', JInt dropped)] else [])))"

definition decision_status :: "peer \<Rightarrow> string \<Rightarrow> string option \<Rightarrow> json act" where
  "decision_status P mid trusted =
     bindA (observed_record P mid trusted) (\<lambda>rec.
     let report = object_or_empty (mon_outcome rec); reason = reported_reason rec report in
     bindA (pyA (timing_fields rec report)) (\<lambda>timing.
     bindA (pyA (delivery_kind rec)) (\<lambda>kind.
     bindA (terminal_status_fields P rec True) (\<lambda>terminal.
     bindA (pyA (journal_fields rec)) (\<lambda>journal.
     bindA (rearm_chain_of P rec) (\<lambda>chain.
     bindA (if mon_state rec \<in> {ARMED, CLAIMED} then bindA (supervision P) (\<lambda>s. retA [(''supervision'', JStr s)])
            else retA []) (\<lambda>sup.
     retA (JObj (aupdate
       ([(''monitor_id'', JStr (mon_id rec)), (''state'', JStr (monitor_state_value (mon_state rec)))]
        @ (if truthy reason then [(''wake_reason'', reason)] else [])
        @ witness_fields rec report @ failure_fields rec report @ timing
        @ [(''delivery'', decision_delivery rec kind report)])
       ((if terminal = [] then [] else terminal @ no_success) @ journal
        @ (if chain \<noteq> [] then [(''rearm_chain'', JList (map JStr chain))] else []) @ sup))))))))))"

definition list_decisions :: "peer \<Rightarrow> json list act" where
  "list_decisions P =
     bindA (readA P (list_monitors True)) (\<lambda>recs.
     mapA (\<lambda>rec. decision_status P (mon_id rec) None) recs)"

section \<open>Monitors of the current task\<close>

definition first_present :: "json \<Rightarrow> json \<Rightarrow> string \<Rightarrow> (string \<times> json) list" where
  "first_present outcome reconciliation k =
     (let v = or_json (jget k outcome) (jget k reconciliation) in
      if v = JNull then []
      else [(k, if k = ''error'' then JStr (py_take 512 (py_str v)) else v)])"

definition reconciliation_fields :: "json \<Rightarrow> (string \<times> json) list" where
  "reconciliation_fields rc =
     (let compact = present (picked [''classification'', ''runtime_status'', ''interrupted'',
            ''history_matches'', ''queue_matches'', ''observed_pointer_count'', ''absence_kind'', ''stall'',
            ''pre_resume_item_count'', ''resume_attempted_at'', ''deletion_attempted_at''] rc) in
      present (picked [''at'', ''last_online_at'', ''resume_attempted_at'', ''deletion_attempted_at''] rc)
      @ (if compact \<noteq> [] then [(''reconciliation'', JObj compact)] else []))"

definition current_monitor_delivery :: "MonitorRecord \<Rightarrow> DeliveryKind \<Rightarrow> json" where
  "current_monitor_delivery rec kind =
     (let outcome = object_or_empty (mon_delivery_outcome rec);
          rc = object_or_empty (mon_reconciliation rec);
          class = (if truthy (jget ''kind'' outcome) then jget ''kind'' outcome
                   else jget ''classification'' rc) in
      JObj ([(''kind'', JStr (delivery_kind_value kind)), (''state'', delivery_state_text rec)]
        @ (if kind = THREAD then
             present (picked [''delivery_id'', ''origin_thread_id''] (mon_delivery rec))
             @ present [(''target_thread_id'', jget ''thread_id'' (mon_delivery rec))]
           else (case mon_guard rec of
                   None \<Rightarrow> [] | Some g \<Rightarrow> [(''target_thread_id'', JStr (guard_thread_id g))]))
        @ present [(''classification'', class)]
        @ concat (map (first_present outcome rc)
            [''absence_kind'', ''observed_pointer_count'', ''stall'', ''online_absence_seconds'', ''error''])
        @ receipt_fields rec @ reconciliation_fields rc
        @ present [(''target_status_observed_at'', opt_json jnum (mon_status_seen_at rec))]))"

definition current_monitor_summary :: "peer \<Rightarrow> MonitorRecord \<Rightarrow> json act" where
  "current_monitor_summary P rec =
     bindA (pyA (delivery_kind rec)) (\<lambda>kind.
     bindA (if is_terminal (mon_state rec) then retA ''not_required'' else supervision P) (\<lambda>sup.
     retA (JObj
       ([(''monitor_id'', JStr (mon_id rec)), (''idempotency_key'', opt_json JStr (mon_ikey rec)),
         (''state'', JStr (monitor_state_value (mon_state rec))),
         (''condition'', condition_binding_summary (mon_condition rec)),
         (''delivery'', current_monitor_delivery rec kind), (''supervision'', JStr sup),
         (''created_at'', jnum (mon_created_at rec)), (''updated_at'', jnum (mon_updated_at rec)),
         (''expires_at'', jnum (mon_expires_at rec))]
        @ present [(''armed_at'', opt_json jnum (mon_armed_at rec)),
                   (''admission_attempted_at'', opt_json jnum (mon_admission_at rec)),
                   (''target_status_observed_at'', opt_json jnum (mon_status_seen_at rec))]))))"

definition targets_thread :: "string \<Rightarrow> MonitorRecord \<Rightarrow> bool res" where
  "targets_thread thread rec = bindE (delivery_kind rec) (\<lambda>k.
     Inr (k = THREAD \<and> jget ''thread_id'' (mon_delivery rec) = JStr thread))"

definition list_for_target :: "peer \<Rightarrow> string \<Rightarrow> json list act" where
  "list_for_target P thread =
     bindA (readA P (list_monitors True)) (\<lambda>recs.
     bindA (mapA (\<lambda>rec.
              bindA (pyA (targets_thread thread rec)) (\<lambda>mine.
              if mine then bindA (current_monitor_summary P rec) (\<lambda>v. retA [v]) else retA [])) recs) (\<lambda>parts.
     retA (concat parts)))"

section \<open>The registration response\<close>

function receipt_leaves :: "json \<Rightarrow> json list" where
  "receipt_leaves condition =
     (if jget ''type'' condition = JStr ''receipt_success'' then [condition]
      else case jget ''children'' condition of
        JList _ \<Rightarrow>
          concat (map (\<lambda>c. if is_obj c then receipt_leaves c else [])
            (list_items (jget ''children'' condition)))
      | _ \<Rightarrow> [])"
  by pat_completeness auto
termination
  by (relation "measure size") (auto intro!: jget_items_size [of _ "''children''"])

declare receipt_leaves.simps [simp del]

definition receipt_instructions :: "json \<Rightarrow> json list res" where
  "receipt_instructions condition =
     map_res (\<lambda>leaf. bindE (jindex ''path'' leaf) (\<lambda>p. bindE (jindex ''token'' leaf) (\<lambda>t.
       Inr (JObj [(''path'', JStr (py_str p)), (''token'', JStr (py_str t))])))) (receipt_leaves condition)"

definition response_delivery :: "MonitorRecord \<Rightarrow> DeliveryKind \<Rightarrow> json" where
  "response_delivery rec kind =
     (let text = (\<lambda>k. if jhas k (mon_delivery rec) then py_str (jget k (mon_delivery rec)) else []);
          goal_thread = (case mon_guard rec of None \<Rightarrow> [] | Some g \<Rightarrow> guard_thread_id g) in
      JObj ([(''kind'', JStr (delivery_kind_value kind)),
         (''origin_thread_id'', JStr (if kind = THREAD then text ''origin_thread_id'' else goal_thread)),
         (''target_thread_id'', JStr (if kind = THREAD then text ''thread_id'' else goal_thread))]
        @ (if truthy (jget ''delivery_id'' (mon_delivery rec)) then
             [(''delivery_id'', JStr (py_str (jget ''delivery_id'' (mon_delivery rec))))] else [])))"

definition response_targeting :: "MonitorRecord \<Rightarrow> DeliveryKind \<Rightarrow> (string \<times> json) list" where
  "response_targeting rec kind =
     (if kind = THREAD then
        let bound = (jget ''origin_binding'' (mon_delivery rec) = JStr ''trusted_mcp_caller'') in
        [(''targeting'', JObj
           [(''kind'', JStr (if bound then ''trusted_mcp_caller'' else ''best_effort_exact_local_thread_id'')),
            (''authenticated_current_task'', JBool bound),
            (''same_thread_fifo_release_authorized'', JBool True)])]
      else if mon_mode rec = DEFERRED then
        [(''targeting'', JObj [(''kind'', JStr ''best_effort_explicit_thread_id''),
            (''authenticated_current_task'', JBool False)])]
      else [])"

text \<open>\<open>expiry\<close> is the text \<open>f"{expires_at:.0f}"\<close>.\<close>

definition response_progress :: "string \<Rightarrow> MonitorRecord \<Rightarrow> (string \<times> json) list" where
  "response_progress expiry rec =
     (if mon_state rec = ARMED then
        [(''next_action'', JStr (''end turn; wait for ''
            @ py_str (jget ''type'' (condition_binding_summary (mon_condition rec)))
            @ ''; observation expires '' @ expiry @ ''; separate''))]
      else if truthy (mon_outcome rec) then [(''outcome'', mon_outcome rec)]
      else if truthy (mon_evidence rec) then [(''evidence'', mon_evidence rec)] else [])"

definition registration_response :: "peer \<Rightarrow> MonitorRecord \<Rightarrow> json act" where
  "registration_response P rec =
     bindA (pyA (delivery_kind rec)) (\<lambda>kind.
     bindA (if mon_state rec \<in> {ARMED, CLAIMED} then supervision P else retA ''not_required'') (\<lambda>sup.
     bindA (pyA (receipt_instructions (mon_condition rec))) (\<lambda>receipts.
     retA (JObj
       ([(''monitor_id'', JStr (mon_id rec)), (''idempotency_key'', opt_json JStr (mon_ikey rec)),
         (''state'', JStr (monitor_state_value (mon_state rec))),
         (''condition'', condition_binding_summary (mon_condition rec)),
         (''expires_at'', jnum (mon_expires_at rec)), (''delivery'', response_delivery rec kind),
         (''supervision'', JStr sup)]
        @ response_targeting rec kind @ response_progress (rounded_text P (mon_expires_at rec)) rec
        @ (case mon_rearm_of rec of None \<Rightarrow> [] | Some m \<Rightarrow> [(''rearm_of'', JStr m)])
        @ (if receipts \<noteq> [] then [(''receipt_instructions'', JList receipts)] else []))))))"

end
