(* ===== verification/Service_Delivery.thy ===== *)
theory Service_Delivery
  imports Service_Reports
begin

text \<open>
  Advancing one thread delivery (\<open>_finish_thread_delivery\<close>, lines 2272 to 2815 of \<open>service.py\<close>): the one
  queue-add attempt, the resume of an unloaded target, the reconciliation of history and queue, the
  removal a cancellation asks for, and every error path. \<open>rec\<close> is the record the code holds, which may be
  older than the row.
\<close>

section \<open>Writing a delivery\<close>

definition write_delivery ::
    "peer \<Rightarrow> string \<Rightarrow> MonitorState list \<Rightarrow> MonitorState \<Rightarrow> ThreadDeliveryState \<Rightarrow> json option
     \<Rightarrow> (string \<times> json) list option \<Rightarrow> rat \<Rightarrow> MonitorRecord option act" where
  "write_delivery P mid expected st ds rc outcome now =
     ledgerA P (update_thread_delivery mid expected st ds None rc (map_option JObj outcome) now)"

definition with_fields :: "json \<Rightarrow> (string \<times> json) list \<Rightarrow> json" where
  "with_fields v kvs = JObj (aupdate (entries v) kvs)"

fun cancelling_state :: "MonitorState \<Rightarrow> ThreadDeliveryState" where
  "cancelling_state CANCEL_REQUESTED = TD_CANCEL_REQUESTED"
| "cancelling_state _ = TD_CANCELLATION_IN_PROGRESS"

fun admitted_state :: "MonitorState \<Rightarrow> ThreadDeliveryState" where
  "admitted_state ADMISSION_IN_PROGRESS = TD_ADMISSION_IN_PROGRESS"
| "admitted_state _ = TD_QUEUE_ACCEPTED"

fun pending_state :: "MonitorState \<Rightarrow> ThreadDeliveryState" where
  "pending_state ADMISSION_IN_PROGRESS = TD_ADMISSION_IN_PROGRESS"
| "pending_state QUEUE_ACCEPTED = TD_QUEUE_ACCEPTED"
| "pending_state CANCEL_REQUESTED = TD_CANCEL_REQUESTED"
| "pending_state _ = TD_CANCELLATION_IN_PROGRESS"

section \<open>The error path\<close>

definition retry_fields :: "json \<Rightarrow> rat \<Rightarrow> (string \<times> json) list res" where
  "retry_fields rc now = bindE (next_delivery_retry rc now) (\<lambda>(count, after).
     Inr [(''retry_count'', JInt count), (''retry_after'', jnum after)])"

definition delivery_unavailable ::
    "peer \<Rightarrow> rat \<Rightarrow> MonitorRecord \<Rightarrow> app_kind \<Rightarrow> string \<Rightarrow> MonitorRecord option act" where
  "delivery_unavailable P now rec kind msg =
     (if mon_state rec = CLAIMED then
        (if kind = AppServerTransportError then
           write_delivery P (mon_id rec) [CLAIMED] CLAIMED TD_UNATTEMPTED
             (Some (JObj [(''classification'', JStr ''preflight_transport_unavailable''),
                (''error'', JStr msg), (''at'', jnum now)])) None now
         else
           write_delivery P (mon_id rec) [CLAIMED] DELIVERY_CAPABILITY_UNAVAILABLE TD_REJECTED None
             (Some [(''kind'', JStr ''delivery_capability_unavailable''), (''error'', JStr msg),
                    (''at'', jnum now)]) now)
      else
        bindA (pyA (retry_fields (mon_reconciliation rec) now)) (\<lambda>retry.
        write_delivery P (mon_id rec)
          [ADMISSION_IN_PROGRESS, QUEUE_ACCEPTED, CANCEL_REQUESTED, CANCELLATION_IN_PROGRESS]
          (mon_state rec) (pending_state (mon_state rec))
          (Some (with_fields (mon_reconciliation rec)
             ([(''classification'', JStr ''app_server_offline''), (''error'', JStr msg),
               (''last_online_at'', JNull), (''at'', jnum now)] @ retry))) None now))"

text \<open>A statement of the session: an app-server error ends it with the record held at that point.\<close>

definition in_session ::
    "peer \<Rightarrow> rat \<Rightarrow> MonitorRecord \<Rightarrow> 'a act \<Rightarrow> ('a \<Rightarrow> MonitorRecord option act) \<Rightarrow> MonitorRecord option act" where
  "in_session P now rec m rest =
     tryA m (\<lambda>e. case e of App kind msg \<Rightarrow> delivery_unavailable P now rec kind msg | Py err \<Rightarrow> failA (Py err))
       rest"

section \<open>Absence\<close>

definition seconds_of :: "json \<Rightarrow> pyfloat res" where
  "seconds_of rc =
     (if jhas ''online_absence_seconds'' rc then py_float (jget ''online_absence_seconds'' rc)
      else Inr (Fin 0))"

definition absence_seconds :: "json \<Rightarrow> json \<Rightarrow> rat \<Rightarrow> pyfloat res" where
  "absence_seconds rc prior now =
     bindE (seconds_of rc) (\<lambda>s.
     let last_seen = jget ''last_online_at'' prior in
     if is_number last_seen \<or> is_bool last_seen then
       bindE (py_float last_seen) (\<lambda>l. Inr (pf_add s (pf_max0 (pf_sub (Fin now) l))))
     else Inr s)"

section \<open>A cancelled delivery\<close>

definition removable_item :: "json \<Rightarrow> MonitorRecord \<Rightarrow> string option" where
  "removable_item ob rec =
     (case List.find (\<lambda>i. is_obj i \<and> is_str (jget ''item_id'' i)) (list_items (jget ''queue'' ob)) of
        Some i \<Rightarrow> str_of (jget ''item_id'' i)
      | None \<Rightarrow> str_of (jget ''item_id'' (mon_receipt rec)))"

definition remove_item ::
    "peer \<Rightarrow> rat \<Rightarrow> MonitorRecord \<Rightarrow> string \<Rightarrow> string \<Rightarrow> json \<Rightarrow> MonitorRecord option act" where
  "remove_item P now rec thread item rc0 =
     (let rc = with_fields rc0 [(''deletion_attempted_at'', jnum now), (''deletion_item_id'', JStr item)];
          unsettled_write = (\<lambda>rc'. write_delivery P (mon_id rec) [CANCELLATION_IN_PROGRESS]
             CANCELLATION_IN_PROGRESS TD_CANCELLATION_IN_PROGRESS (Some rc') None now) in
      bindA (ledgerA P (begin_thread_cancellation (mon_id rec) rc now)) (\<lambda>begun.
      if begun = None then retA None
      else
        tryA (with_client P (delete_thread_delivery P thread item))
          (\<lambda>e. case e of
             App _ msg \<Rightarrow>
               bindA (pyA (retry_fields (mon_reconciliation rec) now)) (\<lambda>retry.
               unsettled_write (with_fields rc
                 ([(''deletion_result'', JStr ''transport_uncertain''), (''deletion_error'', JStr msg)] @ retry)))
           | Py err \<Rightarrow> failA (Py err))
          (\<lambda>deleted.
             if deleted then
               write_delivery P (mon_id rec) [CANCELLATION_IN_PROGRESS] CANCELLED TD_CANCELLED
                 (Some (with_fields rc [(''deletion_result'', JStr ''removed'')]))
                 (Some [(''kind'', JStr ''cancelled''), (''at'', jnum now)]) now
             else unsettled_write (with_fields rc [(''deletion_result'', JStr ''not_found'')]))))"

definition keep_cancelling :: "peer \<Rightarrow> rat \<Rightarrow> MonitorRecord \<Rightarrow> json \<Rightarrow> MonitorRecord option act" where
  "keep_cancelling P now rec rc =
     write_delivery P (mon_id rec) [mon_state rec] (mon_state rec) (cancelling_state (mon_state rec))
       (Some rc) None now"

definition reconcile_cancelling ::
    "peer \<Rightarrow> rat \<Rightarrow> MonitorRecord \<Rightarrow> string \<Rightarrow> json \<Rightarrow> json \<Rightarrow> MonitorRecord option act" where
  "reconcile_cancelling P now rec thread ob rc =
     (let cls = jget ''classification'' ob; item = removable_item ob rec;
          end_as = (\<lambda>st ds outcome rc'. write_delivery P (mon_id rec) [mon_state rec] st ds (Some rc')
             (Some (outcome @ [(''at'', jnum now)])) now) in
      if cls = JStr ''delivery_modified'' then
        end_as DELIVERY_MODIFIED TD_MODIFIED [(''kind'', JStr ''delivery_modified'')] rc
      else if cls = JStr ''recorded'' then
        end_as CANCELLATION_TOO_LATE TD_CANCELLATION_TOO_LATE [(''kind'', JStr ''cancellation_too_late'')] rc
      else if cls = JStr ''queued'' \<and> mon_state rec = CANCEL_REQUESTED \<and> item \<noteq> None then
        remove_item P now rec thread (the item) rc
      else if cls = JStr ''absent'' then
        bindA (pyA (absence_seconds rc (mon_reconciliation rec) now)) (\<lambda>seconds.
        let rc' = with_fields rc [(''online_absence_seconds'', JFloat seconds), (''last_online_at'', jnum now)] in
        if pf_le (Fin 60) seconds then
          end_as DELIVERY_UNCERTAIN TD_UNCERTAIN
            [(''kind'', JStr ''cancellation_uncertain''), (''absence_kind'', JStr ''unresolved_absence'')] rc'
        else keep_cancelling P now rec rc')
      else if cls = JStr ''queued'' then
        keep_cancelling P now rec
          (with_fields rc [(''online_absence_seconds'', jnum 0), (''last_online_at'', jnum now)])
      else keep_cancelling P now rec rc)"

section \<open>Resuming an unloaded target\<close>

definition item_index :: "json \<Rightarrow> json list \<Rightarrow> nat option" where
  "item_index item_id queue =
     map_option fst (List.find (\<lambda>ix. jget ''item_id'' (snd ix) = item_id) (List.enumerate 0 queue))"

definition ahead_ids :: "json list \<Rightarrow> (string \<times> json) list" where
  "ahead_ids items =
     [(''pre_resume_item_count'', JInt (int (length items))),
      (''pre_resume_item_ids'', JList (map (\<lambda>i. JStr (py_str (jget ''item_id'' i))) items))]"

text \<open>What is recorded before a resume is sent; the attempt is recorded only when it will be made.\<close>

definition resume_snapshot :: "json \<Rightarrow> json list \<Rightarrow> rat \<Rightarrow> (string \<times> json) list" where
  "resume_snapshot item_id queue now = (case item_index item_id queue of
     None \<Rightarrow> (''classification'', JStr ''pre_resume_pointer_absent'') # ahead_ids queue
             @ [(''resume_attempted_at'', JNull)]
   | Some n \<Rightarrow> (''classification'', JStr ''pre_resume_snapshot'') # ahead_ids (take n queue)
             @ [(''resume_attempted_at'', jnum now)])"

definition write_accepted ::
    "peer \<Rightarrow> string \<Rightarrow> json \<Rightarrow> rat \<Rightarrow> MonitorRecord option act" where
  "write_accepted P mid rc now =
     write_delivery P mid [QUEUE_ACCEPTED] QUEUE_ACCEPTED TD_QUEUE_ACCEPTED (Some rc) None now"

definition resume_failed :: "string \<Rightarrow> (string \<times> json) list" where
  "resume_failed msg =
     [(''resume_result'', JStr ''transport_uncertain''), (''resume_error'', JStr msg)]"

definition pre_resume ::
    "peer \<Rightarrow> rat \<Rightarrow> MonitorRecord \<Rightarrow> string \<Rightarrow> json \<Rightarrow> (MonitorRecord \<Rightarrow> MonitorRecord option act)
     \<Rightarrow> MonitorRecord option act" where
  "pre_resume P now rec thread item_id rest =
     in_session P now rec (list_thread_queue P thread) (\<lambda>queue.
     let snapshot = JObj (resume_snapshot item_id queue now @ [(''at'', jnum now)]) in
     bindA (write_accepted P (mon_id rec) snapshot now) (\<lambda>updated.
     let rec' = (case updated of None \<Rightarrow> rec | Some r \<Rightarrow> r) in
     if item_index item_id queue = None then rest rec'
     else
       tryA (resume_thread_delivery P thread)
         (\<lambda>e. case e of
            App _ msg \<Rightarrow>
              bindA (write_accepted P (mon_id rec') (with_fields snapshot (resume_failed msg)) now)
                (\<lambda>_. rest rec')
          | Py err \<Rightarrow> failA (Py err))
         (\<lambda>_. rest rec')))"

text \<open>The same for a delivery whose acknowledgement was lost and recovered from the queue.\<close>

definition recovered_resume ::
    "peer \<Rightarrow> rat \<Rightarrow> string \<Rightarrow> string \<Rightarrow> json \<Rightarrow> json \<Rightarrow> (json \<Rightarrow> MonitorRecord option act)
     \<Rightarrow> MonitorRecord option act" where
  "recovered_resume P now mid thread item_id rc rest =
     (let failed = (\<lambda>rc' e. case e of
            App _ msg \<Rightarrow>
              let rc2 = with_fields rc' (resume_failed msg) in
              bindA (write_accepted P mid rc2 now) (\<lambda>_. rest rc2)
          | Py err \<Rightarrow> failA (Py err)) in
      tryA (with_client P (list_thread_queue P thread)) (failed rc) (\<lambda>queue.
      let rc1 = with_fields rc (resume_snapshot item_id queue now) in
      bindA (write_accepted P mid rc1 now) (\<lambda>persisted.
      if persisted = None then retA None
      else if item_index item_id queue = None then rest rc1
      else tryA (resume_thread_delivery P thread) (failed rc1) (\<lambda>_. rest rc1))))"

section \<open>An admitted delivery\<close>

definition recovered_receipt :: "string \<Rightarrow> string \<Rightarrow> string \<Rightarrow> json" where
  "recovered_receipt item delivery_id digest = JObj
     [(''item_id'', JStr item), (''client_user_message_id'', JStr delivery_id),
      (''pointer_digest'', JStr digest), (''recovered_from_queue'', JBool True)]"

definition reconcile_queued ::
    "peer \<Rightarrow> rat \<Rightarrow> MonitorRecord \<Rightarrow> string \<Rightarrow> string \<Rightarrow> string \<Rightarrow> json \<Rightarrow> json \<Rightarrow> MonitorRecord option act" where
  "reconcile_queued P now rec thread delivery_id digest ob rc0 =
     (let rc = with_fields rc0 ([(''online_absence_seconds'', jnum 0), (''last_online_at'', jnum now)]
            @ (if truthy (jget ''interrupted'' ob) then [(''stall'', JStr ''stalled_interrupted'')] else []));
          finish = (\<lambda>rc'. write_delivery P (mon_id rec) [ADMISSION_IN_PROGRESS, QUEUE_ACCEPTED]
             QUEUE_ACCEPTED TD_QUEUE_ACCEPTED (Some rc') None now);
          first = (case list_items (jget ''queue'' ob) of [] \<Rightarrow> JNull | i # _ \<Rightarrow> i) in
      if mon_receipt rec \<noteq> JNull then finish rc
      else if \<not> nonempty_str (jget ''item_id'' first) then
        app_failA ''queued delivery observation has no stable queue item identity''
      else
        bindA (ledgerA P (record_thread_queue_ack (mon_id rec)
                 (recovered_receipt (py_str (jget ''item_id'' first)) delivery_id digest) now)) (\<lambda>accepted.
        if accepted = None then retA None
        else if jget ''runtime_status'' ob = JStr ''notLoaded'' then
          recovered_resume P now (mon_id rec) thread (jget ''item_id'' first) rc finish
        else finish rc))"

definition possible_causes :: json where
  "possible_causes = JList (map JStr [''user_delete'', ''app_server_crash'', ''archive'', ''storage_failure''])"

definition reconcile_admitted ::
    "peer \<Rightarrow> rat \<Rightarrow> MonitorRecord \<Rightarrow> string \<Rightarrow> string \<Rightarrow> string \<Rightarrow> json \<Rightarrow> json \<Rightarrow> MonitorRecord option act" where
  "reconcile_admitted P now rec thread delivery_id digest ob rc =
     (let cls = jget ''classification'' ob;
          count = (if jhas ''observed_pointer_count'' ob then jget ''observed_pointer_count'' ob else JInt 0);
          pending = [ADMISSION_IN_PROGRESS, QUEUE_ACCEPTED] in
      if cls = JStr ''delivery_modified'' then
        write_delivery P (mon_id rec) pending DELIVERY_MODIFIED TD_MODIFIED (Some rc)
          (Some [(''kind'', JStr ''delivery_modified''), (''observed_pointer_count'', count),
                 (''at'', jnum now)]) now
      else if cls = JStr ''recorded'' then
        write_delivery P (mon_id rec) pending RECORDED TD_RECORDED (Some rc)
          (Some ([(''kind'', JStr ''recorded''), (''observed_pointer_count'', count), (''at'', jnum now)]
                 @ wake_report rec now)) now
      else if cls = JStr ''queued'' then reconcile_queued P now rec thread delivery_id digest ob rc
      else
        bindA (pyA (absence_seconds rc (mon_reconciliation rec) now)) (\<lambda>seconds.
        let rc' = with_fields rc [(''online_absence_seconds'', JFloat seconds), (''last_online_at'', jnum now)] in
        if pf_le (Fin 60) seconds then
          write_delivery P (mon_id rec) pending DELIVERY_UNCERTAIN TD_UNCERTAIN (Some rc')
            (Some [(''kind'', JStr ''delivery_uncertain''), (''absence_kind'', JStr ''unresolved_absence''),
                   (''possible_causes'', possible_causes), (''at'', jnum now)]) now
        else
          write_delivery P (mon_id rec) pending (mon_state rec) (admitted_state (mon_state rec))
            (Some rc') None now))"

section \<open>The whole step\<close>

definition delivery_text :: "MonitorRecord \<Rightarrow> string \<Rightarrow> string" where
  "delivery_text rec k =
     (if jhas k (mon_delivery rec) then py_str (jget k (mon_delivery rec)) else [])"

definition settle_delivery ::
    "peer \<Rightarrow> rat \<Rightarrow> MonitorRecord \<Rightarrow> string \<Rightarrow> string \<Rightarrow> string \<Rightarrow> json \<Rightarrow> MonitorRecord option act" where
  "settle_delivery P now rec thread delivery_id digest ob =
     (let rc = clear_delivery_retry
            (with_fields (mon_reconciliation rec) (entries ob @ [(''at'', jnum now)])) in
      if mon_state rec \<in> {CANCEL_REQUESTED, CANCELLATION_IN_PROGRESS} then
        reconcile_cancelling P now rec thread ob rc
      else reconcile_admitted P now rec thread delivery_id digest ob rc)"

definition observe_delivery ::
    "peer \<Rightarrow> rat \<Rightarrow> string \<Rightarrow> string \<Rightarrow> string \<Rightarrow> MonitorRecord \<Rightarrow> MonitorRecord option act" where
  "observe_delivery P now thread delivery_id digest rec =
     in_session P now rec (inspect_thread_delivery P thread delivery_id digest)
       (settle_delivery P now rec thread delivery_id digest)"

text \<open>The sole queue-add, sent only after the admission that consumes it is committed.\<close>

definition admit_delivery ::
    "peer \<Rightarrow> rat \<Rightarrow> MonitorRecord \<Rightarrow> string \<Rightarrow> string \<Rightarrow> string \<Rightarrow> string \<Rightarrow> MonitorRecord option act" where
  "admit_delivery P now rec thread delivery_id pointer digest =
     in_session P now rec (preflight_thread_delivery P thread) (\<lambda>capability.
     bindA (ledgerA P (begin_thread_admission (mon_id rec) capability now)) (\<lambda>admitted.
     case admitted of
       None \<Rightarrow> retA None
     | Some r \<Rightarrow>
         tryA (add_thread_delivery P thread delivery_id pointer)
           (\<lambda>e. case e of
              App kind msg \<Rightarrow>
                if kind \<in> {AppServerRejectedError, AppServerUnsupportedMethodError} then
                  write_delivery P (mon_id r) [ADMISSION_IN_PROGRESS] DELIVERY_REJECTED TD_REJECTED None
                    (Some [(''kind'', JStr ''queue_admission_rejected''), (''error'', JStr msg),
                           (''at'', jnum now)]) now
                else
                  bindA (write_delivery P (mon_id r) [ADMISSION_IN_PROGRESS] ADMISSION_IN_PROGRESS
                    TD_ADMISSION_IN_PROGRESS
                    (Some (JObj [(''classification'', JStr ''admission_transport_uncertain''),
                       (''error'', JStr msg), (''online_absence_seconds'', jnum 0),
                       (''last_online_at'', JNull), (''at'', jnum now)])) None now) (\<lambda>u.
                  observe_delivery P now thread delivery_id digest (case u of None \<Rightarrow> r | Some r' \<Rightarrow> r'))
            | Py err \<Rightarrow> failA (Py err))
           (\<lambda>receipt.
              bindA (ledgerA P (record_thread_queue_ack (mon_id r) receipt now)) (\<lambda>accepted.
              case accepted of
                None \<Rightarrow> retA None
              | Some r2 \<Rightarrow>
                  if truthy (jget ''loaded'' capability) then
                    observe_delivery P now thread delivery_id digest r2
                  else
                    pre_resume P now r2 thread (jget ''item_id'' receipt)
                      (observe_delivery P now thread delivery_id digest)))))"

definition finish_thread_delivery :: "peer \<Rightarrow> MonitorRecord \<Rightarrow> MonitorRecord option act" where
  "finish_thread_delivery P rec =
     (let thread = delivery_text rec ''thread_id''; delivery_id = delivery_text rec ''delivery_id'';
          pointer = delivery_text rec ''pointer''; digest = delivery_text rec ''pointer_digest'' in
      if thread = [] \<or> delivery_id = [] \<or> pointer = [] \<or> digest = [] then
        ledger_timesA P (\<lambda>t0 now. update_thread_delivery (mon_id rec) [mon_state rec] DELIVERY_REJECTED
          TD_REJECTED None None
          (Some (JObj [(''kind'', JStr ''invalid_stored_delivery_envelope''), (''at'', jnum t0)])) now)
      else
        bindA (nowA P) (\<lambda>now.
        in_session P now rec (connect P True) (\<lambda>_.
          if mon_state rec = CLAIMED then admit_delivery P now rec thread delivery_id pointer digest
          else observe_delivery P now thread delivery_id digest rec)))"

end
