(* ===== verification/Service_Reconcile.thy ===== *)
theory Service_Reconcile
  imports Service_Delivery
begin

text \<open>
  The reconciliation loop of the service (\<open>service.py\<close>, lines 991 to 1030, 1943 to 2271 and 2817 to
  2957): evaluating and claiming, the one goal activation, recovery after a restart, isolation of
  failures, cancellation and receipts.
\<close>

section \<open>Observations for an evaluation\<close>

definition read_child :: "peer \<Rightarrow> bool \<Rightarrow> string \<Rightarrow> (string \<times> json) act" where
  "read_child P fail_on_error child =
     tryA (read_observation P child False)
       (\<lambda>e. case e of
          App _ _ \<Rightarrow> if fail_on_error then failA e else retA (child, JNull)
        | Py _ \<Rightarrow> failA e)
       (\<lambda>ob. retA (child, thread_observation_summary ob))"

definition read_thread_observations :: "peer \<Rightarrow> bool \<Rightarrow> string list \<Rightarrow> (string \<times> json) list act" where
  "read_thread_observations P fail_on_error targets = mapA (read_child P fail_on_error) targets"

definition read_native_worker_observations :: "peer \<Rightarrow> native_key list \<Rightarrow> (native_key \<times> json) list act" where
  "read_native_worker_observations P requests =
     mapA (\<lambda>key. case key of (root_id, task, child, invocation) \<Rightarrow>
       bindA (observe_native_worker P root_id task child invocation) (\<lambda>v. retA (key, v))) requests"

section \<open>Evaluating and claiming\<close>

text \<open>The evaluator's error carries the condition as it was; only the exception propagates.\<close>

definition evaluateA :: "peer \<Rightarrow> ObserverContext \<Rightarrow> json \<Rightarrow> (Evaluation \<times> json) act" where
  "evaluateA P C condition = machineA (\<lambda>h. case evaluate_condition C (machine P) condition h of
     (Inl (e, _), h') \<Rightarrow> (Inl e, h') | (Inr x, h') \<Rightarrow> (Inr x, h'))"

text \<open>What is observed of an event condition; a broken contract is evidence, other errors propagate.\<close>

definition observe_event_condition ::
    "peer \<Rightarrow> ObserverContext \<Rightarrow> json \<Rightarrow> (json \<times> path_evals \<times> string option) act" where
  "observe_event_condition P C condition =
     tryA (bindA (pyA (event_condition_bindings condition)) (\<lambda>bindings.
           bindA (unlessA (bindings = [])
             (Py (ValidationError ''event condition contains no bindable reservation''))) (\<lambda>_.
           machineA (observe_external_condition_leaves C (machine P) condition))))
       (\<lambda>e. case e of
          Py (ValidationError msg) \<Rightarrow> retA (condition, [], Some msg) | _ \<Rightarrow> failA e)
       (\<lambda>(observed, external). retA (observed, external, None))"

definition claim_with ::
    "peer \<Rightarrow> MonitorRecord \<Rightarrow> json \<Rightarrow> Evaluation \<Rightarrow> WakeReason option \<Rightarrow> MonitorRecord option act" where
  "claim_with P rec condition ev reason =
     ledger_timesA P (claim (mon_id rec) condition (ev_evidence ev) (ev_witness ev) reason)"

text \<open>The decision on the observer path; an expiry is decided here for waking monitors only.\<close>

definition observer_decision :: "MonitorRecord \<Rightarrow> bool \<Rightarrow> Evaluation \<Rightarrow> rat \<Rightarrow> claim_decision" where
  "observer_decision rec thread ev now =
     (let waking = (mon_mode rec = DEFERRED \<or> thread) in
      if ev_value ev = TRUE then
        Claimed (if waking then
                   Some (if thread \<or> witness_authorizes_continuation (ev_witness ev) (mon_heuristic rec)
                         then CONDITION else UNAUTHORIZED_EVIDENCE)
                 else None)
      else if ev_fatal ev then (if waking then Claimed (Some WAKE_OBSERVER_FAILED) else ObserverFailed)
      else if waking \<and> mon_expires_at rec \<le> now then Claimed (Some WAKE_EXPIRED)
      else StayArmed)"

definition consume_evaluation ::
    "peer \<Rightarrow> MonitorRecord \<Rightarrow> bool \<Rightarrow> json \<Rightarrow> Evaluation \<Rightarrow> MonitorRecord option act" where
  "consume_evaluation P rec thread condition ev =
     bindA (nowA P) (\<lambda>now.
     case observer_decision rec thread ev now of
       Claimed reason \<Rightarrow> claim_with P rec condition ev reason
     | ObserverFailed \<Rightarrow>
         ledger_timesA P (\<lambda>t0. transition (mon_id rec) [ARMED] OBSERVER_FAILED
           (no_updates\<lparr>up_evidence := Some (ev_evidence ev), up_witness := Some (ev_witness ev),
              up_outcome := Some (JObj [(''kind'', JStr ''observer_identity_failed''), (''at'', jnum t0)])\<rparr>))
     | _ \<Rightarrow> retA None)"

definition evaluate_and_claim :: "peer \<Rightarrow> ObserverContext \<Rightarrow> MonitorRecord \<Rightarrow> MonitorRecord option act" where
  "evaluate_and_claim P C rec =
     bindA (pyA (contains_event_condition (mon_condition rec))) (\<lambda>has_events.
     if has_events then
       bindA (observe_event_condition P C (mon_condition rec)) (\<lambda>(observed, external, contract).
       ledger_nowA P (evaluate_and_claim_event_monitor (digests P) (mon_id rec) (mon_evaluations rec)
         observed external contract))
     else
       bindA (evaluateA P C (mon_condition rec)) (\<lambda>(ev, condition).
       bindA (ledger_nowA P (update_evaluation (mon_id rec) condition (ev_evidence ev) (ev_witness ev)))
         (\<lambda>updated.
       if updated = None then retA None
       else
         bindA (pyA (delivery_kind rec)) (\<lambda>kind.
         consume_evaluation P rec (kind = THREAD) condition ev))))"

section \<open>Activating a goal\<close>

definition outcomeA ::
    "peer \<Rightarrow> string \<Rightarrow> MonitorState \<Rightarrow> MonitorState \<Rightarrow> (string \<times> json) list \<Rightarrow> MonitorRecord option act" where
  "outcomeA P mid expected st kvs =
     ledger_timesA P (\<lambda>t0. transition mid [expected] st
       (no_updates\<lparr>up_outcome := Some (JObj (kvs @ [(''at'', jnum t0)]))\<rparr>))"

definition activation_snapshot :: "TargetObservation \<Rightarrow> rat \<Rightarrow> json" where
  "activation_snapshot ob t0 = JObj
     [(''target'', observation_summary ob), (''goal_snapshot'', object_or_empty (goal_snapshot ob)),
      (''at'', jnum t0)]"

text \<open>What the reply to the activation request makes of the monitor.\<close>

definition conclude_activation ::
    "peer \<Rightarrow> MonitorRecord \<Rightarrow> TargetGuard \<Rightarrow> TargetObservation \<Rightarrow> MonitorRecord option act" where
  "conclude_activation P rec guard returned =
     (if obs_thread_id returned \<noteq> guard_thread_id guard \<or> obs_goal returned \<noteq> Some (guard_goal guard) then
        outcomeA P (mon_id rec) ACTIVATING MIS_TARGETED_ACTIVATION
          [(''kind'', JStr ''mis_targeted_activation''),
           (''captured_thread_id'', JStr (guard_thread_id guard)),
           (''returned_thread_id'', JStr (obs_thread_id returned)),
           (''captured_goal'', goal_as_dict (guard_goal guard)),
           (''returned_goal'', opt_json goal_as_dict (obs_goal returned)),
           (''returned_status'', opt_json JStr (goal_status returned))]
      else if goal_status returned \<noteq> Some ''active'' then
        outcomeA P (mon_id rec) ACTIVATING ACTIVATION_FAILED
          [(''kind'', JStr ''activation_not_confirmed''),
           (''returned_status'', opt_json JStr (goal_status returned))]
      else
        ledger_timesA P (\<lambda>fired_at. transition (mon_id rec) [ACTIVATING] FIRED
          (no_updates\<lparr>up_outcome := Some (JObj
             ([(''kind'', JStr ''activation_confirmed''),
               (''returned_goal'', opt_json goal_as_dict (obs_goal returned)), (''at'', jnum fired_at)]
              @ wake_report rec fired_at))\<rparr>)))"

text \<open>An app-server error before anything was sent: retryable for a deferred monitor.\<close>

definition preflight_failed :: "peer \<Rightarrow> MonitorRecord \<Rightarrow> svc_error \<Rightarrow> MonitorRecord option act" where
  "preflight_failed P rec e = (case e of
     Py _ \<Rightarrow> failA e
   | App _ msg \<Rightarrow>
       if mon_mode rec = DEFERRED then
         bindA (outcomeA P (mon_id rec) CLAIMED CLAIMED
           [(''kind'', JStr ''deferred_preflight_retryable''), (''error'', JStr msg)]) (\<lambda>_. retA None)
       else
         outcomeA P (mon_id rec) CLAIMED ACTIVATION_FAILED
           [(''kind'', JStr ''preflight_failed''), (''error'', JStr msg)])"

text \<open>The only goal request is sent after the row left \<open>CLAIMED\<close> for \<open>ACTIVATING\<close>.\<close>

definition activate_claim ::
    "peer \<Rightarrow> MonitorRecord \<Rightarrow> TargetGuard \<Rightarrow> TargetObservation \<Rightarrow> MonitorRecord option act" where
  "activate_claim P rec guard ob =
     (if \<not> is_loaded ob then
        outcomeA P (mon_id rec) CLAIMED UNLOADED_TARGET
          [(''kind'', JStr ''unloaded_target''), (''observation'', observation_summary ob)]
      else if \<not> activation_eligible ob guard then
        outcomeA P (mon_id rec) CLAIMED SUPERSEDED
          [(''kind'', JStr ''activation_guard_changed''), (''observation'', observation_summary ob)]
      else
        bindA (nowA P) (\<lambda>activation_now.
        if mon_mode rec \<noteq> DEFERRED \<and> mon_expires_at rec \<le> activation_now then
          ledger_nowA P (transition (mon_id rec) [CLAIMED] EXPIRED
            (no_updates\<lparr>up_outcome := Some (JObj [(''kind'', JStr ''expired_before_activation''),
               (''at'', jnum activation_now)])\<rparr>))
        else
          bindA (bindA (nowA P) (\<lambda>t0. ledger_timesA P (begin_activation (mon_id rec) (activation_snapshot ob t0))))
            (\<lambda>activating.
          if activating = None then retA None
          else
            tryA (activate_guarded_goal P (guard_thread_id guard))
              (\<lambda>e. case e of
                 App _ msg \<Rightarrow>
                   outcomeA P (mon_id rec) ACTIVATING ACTIVATION_UNCERTAIN
                     [(''kind'', JStr ''activation_transport_uncertain''), (''error'', JStr msg)]
               | Py _ \<Rightarrow> failA e)
              (conclude_activation P rec guard))))"

definition finish_claim :: "peer \<Rightarrow> MonitorRecord \<Rightarrow> MonitorRecord option act" where
  "finish_claim P rec =
     bindA (pyA (delivery_kind rec)) (\<lambda>kind.
     if kind = THREAD then finish_thread_delivery P rec
     else case mon_guard rec of
       None \<Rightarrow> failA (Py (RuntimeError ''assertion failed''))
     | Some guard \<Rightarrow>
         if mon_mode rec \<noteq> DEFERRED
            \<and> \<not> witness_authorizes_continuation (mon_witness rec) (mon_heuristic rec) then
           outcomeA P (mon_id rec) CLAIMED SATISFIED_REQUIRES_AUTHORIZATION
             [(''kind'', JStr ''satisfied_requires_authorization''), (''witness'', JList (mon_witness rec))]
         else
           tryA (with_client P (read_observation P (guard_thread_id guard) True))
             (preflight_failed P rec) (activate_claim P rec guard))"

section \<open>Failures\<close>

text \<open>\<open>type(error).__name__\<close>.\<close>

fun error_name :: "svc_error \<Rightarrow> string" where
  "error_name (App AppServerError _) = ''AppServerError''"
| "error_name (App AppServerTransportError _) = ''AppServerTransportError''"
| "error_name (App AppServerRejectedError _) = ''AppServerRejectedError''"
| "error_name (App AppServerUnsupportedMethodError _) = ''AppServerUnsupportedMethodError''"
| "error_name (Py (ValidationError _)) = ''ValidationError''"
| "error_name (Py (ConflictError _)) = ''ConflictError''"
| "error_name (Py KeyError) = ''KeyError''"
| "error_name (Py TypeError) = ''TypeError''"
| "error_name (Py ValueError) = ''ValueError''"
| "error_name (Py OverflowError) = ''OverflowError''"
| "error_name (Py (OSError _)) = ''OSError''"
| "error_name (Py (RuntimeError _)) = ''RuntimeError''"
| "error_name (Py RegexError) = ''error''"
| "error_name (Py (DatabaseError _)) = ''DatabaseError''"

fun error_message :: "svc_error \<Rightarrow> string" where
  "error_message (App _ msg) = msg"
| "error_message (Py e) = error_text e"

definition failure_text :: "svc_error \<Rightarrow> json" where
  "failure_text e = JStr (error_name e @ '': '' @ error_message e)"

fun failure_state :: "MonitorState \<Rightarrow> MonitorState option" where
  "failure_state ARMED = Some OBSERVER_FAILED"
| "failure_state CLAIMED = Some ACTIVATION_FAILED"
| "failure_state ACTIVATING = Some ACTIVATION_UNCERTAIN"
| "failure_state _ = None"

definition record_unexpected_failure :: "peer \<Rightarrow> string \<Rightarrow> svc_error \<Rightarrow> MonitorRecord option act" where
  "record_unexpected_failure P mid e =
     bindA (readA P (get_monitor mid)) (\<lambda>current.
     case current of
       None \<Rightarrow> retA None
     | Some rec \<Rightarrow>
         bindA (if mon_mode rec = DEFERRED then retA True
                else bindA (pyA (delivery_kind rec)) (\<lambda>k. retA (k = THREAD))) (\<lambda>waking.
         if waking \<and> mon_state rec \<in> {ARMED, CLAIMED} then
           bindA (outcomeA P mid (mon_state rec) (mon_state rec)
             [(''kind'', JStr ''transient_observation_failure_recorded''), (''error'', failure_text e)])
             (\<lambda>_. retA None)
         else case failure_state (mon_state rec) of
             None \<Rightarrow> retA None
           | Some st \<Rightarrow>
               outcomeA P mid (mon_state rec) st
                 [(''kind'', JStr ''unexpected_monitor_failure''), (''error'', failure_text e)]))"

section \<open>Recovery\<close>

definition recover_deferred_if_unlocked :: "peer \<Rightarrow> nat act" where
  "recover_deferred_if_unlocked P =
     catchA
       (bindA (enter_defer_lock P) (\<lambda>_.
        bindA (ledger_timesA P recover_defer_intent) (\<lambda>a.
        bindA (ledger_timesA P recover_pausing) (\<lambda>b. retA (a + b)))))
       (\<lambda>e. if is_runtime_error e then retA 0 else failA e)"

definition recover_after_daemon_start :: "peer \<Rightarrow> nat act" where
  "recover_after_daemon_start P =
     bindA (ledger_timesA P recover_activating) (\<lambda>a.
     bindA (ledger_timesA P recover_registering) (\<lambda>b.
     bindA (recover_deferred_if_unlocked P) (\<lambda>c. retA (a + b + c))))"

section \<open>One pass\<close>

text \<open>Whether a deferred target may be evaluated, with the observations read in the same session.\<close>

definition deferred_target_is_idle ::
    "peer \<Rightarrow> MonitorRecord \<Rightarrow> string list \<Rightarrow> (string \<times> json) list option act" where
  "deferred_target_is_idle P rec children = (case mon_guard rec of
     None \<Rightarrow> failA (Py (RuntimeError ''assertion failed''))
   | Some guard \<Rightarrow>
       bindA (with_client P (read_observation P (guard_thread_id guard) True)) (\<lambda>ob.
       if \<not> is_loaded ob then
         bindA (outcomeA P (mon_id rec) ARMED UNLOADED_TARGET
           [(''kind'', JStr ''unloaded_target_before_deferred_evaluation''),
            (''observation'', observation_summary ob)]) (\<lambda>_. retA None)
       else if \<not> matches_guard ob guard then
         bindA (outcomeA P (mon_id rec) ARMED SUPERSEDED
           [(''kind'', JStr ''deferred_evaluation_guard_changed''),
            (''observation'', observation_summary ob)]) (\<lambda>_. retA None)
       else if runtime_status ob \<noteq> ''idle'' then retA None
       else bindA (read_thread_observations P False children) (\<lambda>obs. retA (Some obs))))"

definition observed_context ::
    "peer \<Rightarrow> (string \<times> json) list \<Rightarrow> (native_key \<times> json) list \<Rightarrow> ObserverContext" where
  "observed_context P threads natives =
     (observer_context P)\<lparr>thread_observations := threads, native_observations := natives\<rparr>"

definition statusA :: "peer \<Rightarrow> MonitorRecord option \<Rightarrow> json list act" where
  "statusA P found = (case found of
     None \<Rightarrow> retA [] | Some rec \<Rightarrow> bindA (status P (mon_id rec) None) (\<lambda>s. retA [s]))"

text \<open>
  The part of the body before the delivery: the receipts it appends and the record that goes on, if one
  does.
\<close>

type_synonym stage = "json list \<times> MonitorRecord option"

definition expired_legacy :: "MonitorRecord \<Rightarrow> rat \<Rightarrow> bool res" where
  "expired_legacy rec now =
     (if \<not> (mon_expires_at rec \<le> now \<and> mon_mode rec = LEGACY) then Inr False
      else bindE (delivery_kind rec) (\<lambda>k.
        if k \<noteq> GOAL then Inr False
        else bindE (contains_event_condition (mon_condition rec)) (\<lambda>c. Inr (\<not> c))))"

definition armed_context :: "peer \<Rightarrow> MonitorRecord \<Rightarrow> (json list + ObserverContext) act" where
  "armed_context P rec =
     (let children = thread_idle_targets (mon_condition rec) in
      bindA (pyA (native_worker_observation_requests None (mon_condition rec))) (\<lambda>natives.
      if mon_mode rec = DEFERRED then
        (if \<not> mon_idle_barrier rec then
           bindA (outcomeA P (mon_id rec) ARMED OBSERVER_FAILED
             [(''kind'', JStr ''deferred_idle_barrier_missing'')]) (\<lambda>failed.
           bindA (statusA P failed) (\<lambda>ts. retA (Inl ts)))
         else
           bindA (deferred_target_is_idle P rec children) (\<lambda>obs.
           case obs of
             Some threads \<Rightarrow> retA (Inr (observed_context P threads []))
           | None \<Rightarrow>
               bindA (readA P (get_monitor (mon_id rec))) (\<lambda>current.
               bindA (case current of
                        Some r \<Rightarrow> if mon_state r \<noteq> ARMED then statusA P current else retA []
                      | None \<Rightarrow> retA []) (\<lambda>ts. retA (Inl ts)))))
      else if children \<noteq> [] \<or> natives \<noteq> [] then
        bindA (with_client P (read_thread_observations P False children)) (\<lambda>threads.
        bindA (read_native_worker_observations P natives) (\<lambda>ns.
        retA (Inr (observed_context P threads ns))))
      else retA (Inr (observed_context P [] []))))"

definition claim_stage :: "peer \<Rightarrow> rat \<Rightarrow> MonitorRecord \<Rightarrow> stage act" where
  "claim_stage P now rec =
     bindA (pyA (expired_legacy rec now)) (\<lambda>expired.
     if expired then
       bindA (ledger_nowA P (transition (mon_id rec) [mon_state rec] EXPIRED
         (no_updates\<lparr>up_outcome := Some (JObj [(''kind'', JStr ''expired''), (''at'', jnum now)])\<rparr>))) (\<lambda>e.
       bindA (statusA P e) (\<lambda>ts. retA (ts, None)))
     else if mon_state rec \<noteq> ARMED then retA ([], Some rec)
     else
       bindA (armed_context P rec) (\<lambda>ready.
       case ready of
         Inl ts \<Rightarrow> retA (ts, None)
       | Inr C \<Rightarrow>
           bindA (evaluate_and_claim P C rec) (\<lambda>claimed.
           bindA (statusA P claimed) (\<lambda>ts.
           retA (ts, case claimed of
              Some r \<Rightarrow> if mon_state r = CLAIMED then Some r else None | None \<Rightarrow> None)))))"

definition delivery_stage :: "peer \<Rightarrow> MonitorRecord \<Rightarrow> json list act" where
  "delivery_stage P rec =
     bindA (pyA (delivery_kind rec)) (\<lambda>kind.
     bindA (if kind = THREAD then finish_thread_delivery P rec else finish_claim P rec) (statusA P))"

text \<open>The exception handler; what it raises ends the pass.\<close>

definition isolate :: "peer \<Rightarrow> string \<Rightarrow> svc_error \<Rightarrow> json list act" where
  "isolate P mid e = bindA (record_unexpected_failure P mid e) (statusA P)"

definition reconcilable_states :: "MonitorState set" where
  "reconcilable_states =
     {ARMED, CLAIMED, ADMISSION_IN_PROGRESS, QUEUE_ACCEPTED, CANCEL_REQUESTED, CANCELLATION_IN_PROGRESS}"

definition reconcile_record :: "peer \<Rightarrow> rat \<Rightarrow> MonitorRecord \<Rightarrow> json list act" where
  "reconcile_record P now rec =
     (if mon_state rec \<notin> reconcilable_states \<or> \<not> delivery_retry_due rec now then retA []
      else
        tryA (claim_stage P now rec) (isolate P (mon_id rec)) (\<lambda>(ts, next_record).
        case next_record of
          None \<Rightarrow> retA ts
        | Some r \<Rightarrow>
            bindA (catchA (delivery_stage P r) (isolate P (mon_id r))) (\<lambda>ts2. retA (ts @ ts2))))"

definition reconcile_order :: "MonitorRecord list \<Rightarrow> MonitorRecord list" where
  "reconcile_order recs = sort_key (\<lambda>r. fst (reconcile_priority r)) (sort_key (\<lambda>r. snd (reconcile_priority r)) recs)"

definition reconcile_once :: "peer \<Rightarrow> json list act" where
  "reconcile_once P =
     bindA (recover_deferred_if_unlocked P) (\<lambda>_.
     bindA (nowA P) (\<lambda>now.
     bindA (ledgerA P (expire_events now)) (\<lambda>_.
     bindA (readA P (list_monitors False)) (\<lambda>recs.
     bindA (mapA (reconcile_record P now) (reconcile_order recs)) (\<lambda>parts.
     retA (concat parts))))))"

section \<open>Cancelling and receipts\<close>

text \<open>\<open>ledger.cancel\<close> reads and writes in two transactions.\<close>

definition cancel_monitor :: "peer \<Rightarrow> string \<Rightarrow> json act" where
  "cancel_monitor P mid =
     bindA (readA P (get_monitor mid)) (\<lambda>seen.
     bindA (ledger_timesA P (cancel_from seen mid)) (\<lambda>cancelled.
     case cancelled of
       Some rec \<Rightarrow> status P (mon_id rec) None
     | None \<Rightarrow>
         bindA (readA P (get_monitor mid)) (\<lambda>current.
         case current of
           None \<Rightarrow> failA (Py (ValidationError ''unknown monitor''))
         | Some rec \<Rightarrow> status P (mon_id rec) None)))"

definition publish_receipt :: "peer \<Rightarrow> string \<Rightarrow> string \<Rightarrow> string \<Rightarrow> json act" where
  "publish_receipt P mid token receipt_status =
     bindA (readA P (get_monitor mid)) (\<lambda>found.
     case found of
       None \<Rightarrow> failA (Py (ValidationError ''unknown monitor''))
     | Some rec \<Rightarrow>
         (case List.find (\<lambda>leaf. jget ''token'' leaf = JStr token) (receipt_leaves (mon_condition rec)) of
            None \<Rightarrow> failA (Py (ValidationError ''receipt token does not match this monitor''))
          | Some leaf \<Rightarrow>
              bindA (pyA (jindex ''path'' leaf)) (\<lambda>path.
              bindA (nowA P) (\<lambda>now.
              bindA (pyA (receipt_payload mid token receipt_status JNull now)) (\<lambda>payload.
              bindA (atomic_write_json P (py_str path) payload 384) (\<lambda>_.
              retA (JObj [(''monitor_id'', JStr mid), (''receipt_path'', JStr (py_str path)),
                          (''status'', JStr receipt_status)])))))))"

end
