(* ===== verification/Lifecycle.thy ===== *)
theory Lifecycle
  imports Monitor_Properties
begin

text \<open>
  The abstract state machine of a monitor. \<open>service.py\<close> and \<open>ledger.py\<close> have no table of transitions: a
  state is written where the code reaches the write, by a compare-and-set that names the states it may
  leave. \<open>next_states\<close> is the table these writes add up to; a ledger call is lawful (\<open>moves_by\<close>) when
  every state it may leave leads to the one it writes. (The pass expires a legacy goal from whatever state
  it read, so every state the pass looks at leads to \<open>EXPIRED\<close>.)
\<close>

section \<open>The machine\<close>

fun next_states :: "MonitorState \<Rightarrow> MonitorState list" where
  "next_states REGISTERING = [ARMED, DAEMON_UNAVAILABLE, SUPERSEDED, CANCELLED]"
| "next_states DEFER_INTENT =
     [PAUSING, ARMED, DAEMON_UNAVAILABLE, EXPIRED, SUPERSEDED, DEFER_ABANDONED, CANCELLED]"
| "next_states PAUSING = [ARMED, PAUSE_UNCERTAIN, MIS_TARGETED_PAUSE, PAUSE_REJECTED]"
| "next_states ARMED =
     [ARMED, CLAIMED, OBSERVER_FAILED, EXPIRED, UNLOADED_TARGET, SUPERSEDED, CANCELLED]"
| "next_states CLAIMED =
     [CLAIMED, ACTIVATING, ADMISSION_IN_PROGRESS, ACTIVATION_FAILED, UNLOADED_TARGET, SUPERSEDED, EXPIRED,
      SATISFIED_REQUIRES_AUTHORIZATION, DELIVERY_CAPABILITY_UNAVAILABLE, DELIVERY_REJECTED, CANCELLED]"
| "next_states ACTIVATING = [FIRED, MIS_TARGETED_ACTIVATION, ACTIVATION_FAILED, ACTIVATION_UNCERTAIN]"
| "next_states s =
     (if s \<in> {ADMISSION_IN_PROGRESS, QUEUE_ACCEPTED, CANCEL_REQUESTED, CANCELLATION_IN_PROGRESS}
      then [ADMISSION_IN_PROGRESS, QUEUE_ACCEPTED, CANCEL_REQUESTED, CANCELLATION_IN_PROGRESS, RECORDED,
            DELIVERY_REJECTED, DELIVERY_MODIFIED, DELIVERY_UNCERTAIN, CANCELLED, CANCELLATION_TOO_LATE, EXPIRED]
      else [])"

definition lawful_step :: "MonitorState \<Rightarrow> MonitorState \<Rightarrow> bool" where
  "lawful_step a b \<longleftrightarrow> b \<in> set (next_states a)"

abbreviation follows :: "MonitorState \<Rightarrow> MonitorState \<Rightarrow> bool" where
  "follows \<equiv> lawful_step\<^sup>*\<^sup>*"

text \<open>The phase of a state never decreases; the four states of a delivery in progress share one.\<close>

fun phase :: "MonitorState \<Rightarrow> nat" where
  "phase REGISTERING = 0"
| "phase DEFER_INTENT = 0"
| "phase PAUSING = 1"
| "phase ARMED = 2"
| "phase CLAIMED = 3"
| "phase ADMISSION_IN_PROGRESS = 4"
| "phase QUEUE_ACCEPTED = 4"
| "phase CANCEL_REQUESTED = 4"
| "phase CANCELLATION_IN_PROGRESS = 4"
| "phase ACTIVATING = 4"
| "phase _ = 5"

lemma phase_terminal: "phase s = 5 \<longleftrightarrow> is_terminal s"
  by (cases s) simp_all

lemma lawful_phase: "lawful_step a b \<Longrightarrow> phase a \<le> phase b"
  by (cases a) (auto simp: lawful_step_def)

lemma follows_phase: "follows a b \<Longrightarrow> phase a \<le> phase b"
  by (induction rule: rtranclp_induct) (auto dest: lawful_phase)

lemma lawful_not_terminal: "lawful_step a b \<Longrightarrow> \<not> is_terminal a"
  by (cases a) (auto simp: lawful_step_def)

lemma follows_terminal: "follows a b \<Longrightarrow> is_terminal a \<Longrightarrow> b = a"
  by (induction rule: converse_rtranclp_induct) (auto dest: lawful_not_terminal)

text \<open>A set of states no step leaves is not left in any number of steps.\<close>

definition closed :: "(MonitorState \<Rightarrow> bool) \<Rightarrow> bool" where
  "closed S \<longleftrightarrow> (\<forall>a b. S a \<longrightarrow> lawful_step a b \<longrightarrow> S b)"

lemma follows_closed: "follows a b \<Longrightarrow> closed S \<Longrightarrow> S a \<Longrightarrow> S b"
  by (induction rule: rtranclp_induct) (auto simp: closed_def)

section \<open>Lawful calls\<close>

text \<open>With \<open>may\<close> the steps allowed; a new monitor, and a write that leaves the state alone, always are.\<close>

fun moves_by :: "(MonitorState \<Rightarrow> MonitorState \<Rightarrow> bool) \<Rightarrow> ledger_call \<Rightarrow> bool" where
  "moves_by may (Transition mid expected st u now) = list_all (\<lambda>a. may a st) expected"
| "moves_by may (UpdateDelivery mid expected st ds receipt rc outcome now) = list_all (\<lambda>a. may a st) expected"
| "moves_by may (Recover old st kind t0 now) = may old st"
| "moves_by may c = True"

lemma moves_by_any: "moves_by (\<lambda>_ _. True) c"
  by (cases c) (simp_all add: list_all_iff)

lemma any_step [simp]: "list_all (moves_by (\<lambda>_ _. True)) cs" "lawful_step \<le> (\<lambda>_ _. True)"
  by (auto simp: list_all_iff moves_by_any)

definition state_moved :: "monitor_row \<Rightarrow> monitor_row \<Rightarrow> bool" where
  "state_moved r r' \<longleftrightarrow> mon_id r' = mon_id r \<and> follows (mon_state r) (mon_state r')"

interpretation state_order: row_order state_moved
  by unfold_locales (auto simp: state_moved_def)

lemma decided_step: "lawful_step ARMED (decision_state d)"
  by (cases d) (simp_all add: lawful_step_def)

lemma writes_move:
  "lawful_step (mon_state r) st \<Longrightarrow> state_moved r (transition_row st u now r)"
  "lawful_step (mon_state r) st \<Longrightarrow> state_moved r (delivery_row st ds receipt rc outcome now r)"
  "lawful_step (mon_state r) st \<Longrightarrow> state_moved r (recover_row st kind t0 now r)"
  "mon_state r = CLAIMED \<Longrightarrow> state_moved r (admission_row d now r)"
  "mon_state r = ARMED \<Longrightarrow> state_moved r (evaluated_row c ev dd now r)"
  using decided_step [of dd]
  by (auto simp: state_moved_def transition_row_def delivery_row_def recover_row_def admission_row_def
      evaluated_row_def lawful_step_def)

text \<open>The simulation: a lawful call moves each row along the machine.\<close>

lemma lawful_call_moves:
  assumes ok: "monitors_ok L" and c: "moves_by lawful_step c"
  shows "grows state_moved (monitors L) (monitors (call E c L))"
proof (cases c)
  case (CreateMonitor g now)
  then show ?thesis
    using create_monitors [of E g now L] by (auto simp: state_order.grows_refl state_order.grows_append)
next
  case (Transition mid expected st u now)
  with c show ?thesis
    using transition_effect [of mid expected st u now L]
    by (simp add: list_all_iff) (rule state_order.grows_update, auto intro: writes_move)
next
  case (UpdateDelivery mid expected st ds receipt rc outcome now)
  with c show ?thesis
    using delivery_effect [of mid expected st ds receipt rc outcome now L]
    by (simp add: list_all_iff) (rule state_order.grows_update, auto intro: writes_move)
next
  case (BeginAdmission mid cap now)
  then show ?thesis
    using admission_effect [of mid cap now L]
    by (auto simp: state_order.grows_refl intro!: state_order.grows_update writes_move)
next
  case (ObserveStatus mid thread now)
  then show ?thesis
    using status_effect [OF ok, of mid thread now]
    by (auto simp: state_order.grows_refl state_moved_def intro!: state_order.grows_update)
next
  case (EvaluateAndClaim mid n observed ext contract now)
  have "grows state_moved (monitors L) (sql_update (\<lambda>r. mon_id r = mid \<and> mon_state r = ARMED \<and> mon_evaluations r = n)
             (evaluated_row (canon observed) ev d now) (monitors L))" for ev d
    by (rule state_order.grows_update) (simp add: writes_move)
  with EvaluateAndClaim show ?thesis
    using evaluate_effect [of E mid n observed ext contract now L]
    by (auto simp: state_order.grows_refl)
next
  case (Recover old st kind t0 now)
  with c show ?thesis
    by (simp add: recover_def) (rule state_order.grows_update, simp add: writes_move)
qed (simp_all add: reservation_calls_monitors state_order.grows_refl)

lemma lawful_calls_move:
  "monitors_ok L \<Longrightarrow> list_all (moves_by lawful_step) cs \<Longrightarrow> grows state_moved (monitors L) (monitors (calls E cs L))"
proof (induction cs arbitrary: L)
  case (Cons c cs)
  then have "grows state_moved (monitors (call E c L)) (monitors (calls E cs (call E c L)))"
    by (simp add: call_keeps_monitors_ok)
  with Cons.prems show ?case
    using state_order.grows_trans [OF lawful_call_moves [of L c E]] by (simp add: calls_def)
qed (simp add: calls_def state_order.grows_refl)

section \<open>Counting monitors\<close>

definition held :: "(monitor_row \<Rightarrow> bool) \<Rightarrow> ledger \<Rightarrow> nat" where
  "held q L = length (filter q (monitors L))"

abbreviation in_states :: "MonitorState set \<Rightarrow> monitor_row \<Rightarrow> bool" where
  "in_states S r \<equiv> mon_state r \<in> S"

lemma held_bound: "held q L \<le> length (monitors L)"
  by (simp add: held_def)

lemma held_grows:
  assumes "grows moved (monitors L) (monitors L')" "\<And>r r'. moved r r' \<Longrightarrow> q r \<Longrightarrow> q r'"
  shows "held q L \<le> held q L'"
proof -
  let ?m = "monitors L" and ?n = "monitors L'"
  have "length (filter q ?m) \<le> length (filter q (take (length ?m) ?n))"
    using assms(1) unfolding grows_def
    by (induction rule: list_all2_induct) (auto dest: assms(2))
  also have "\<dots> \<le> length (filter q ?n)"
    by (metis append_take_drop_id filter_append le_add1 length_append)
  finally show ?thesis by (simp add: held_def)
qed

text \<open>An UPDATE that keeps what is counted and hits one row that was not adds one at least.\<close>

lemma held_update:
  assumes r: "r \<in> set rows" "p r" "\<not> q r" and f: "\<And>r. q (f r)"
  shows "length (filter q rows) + 1 \<le> length (filter q (sql_update p f rows))"
proof -
  have keep: "length (filter q xs) \<le> length (filter q (sql_update p f xs))" for xs
    by (induction xs) (auto simp: sql_update_def f)
  obtain as bs where rows: "rows = as @ r # bs"
    using r(1) by (auto dest: split_list)
  show ?thesis
    using keep [of as] keep [of bs] r(2,3) f by (simp add: rows sql_update_def)
qed

text \<open>The monitors in a closed set of states are never fewer after lawful calls, and one more after a
  transition that enters the set.\<close>

lemma lawful_calls_hold:
  assumes "closed (\<lambda>s. s \<in> S)" "monitors_ok L" "list_all (moves_by lawful_step) cs"
  shows "held (in_states S) L \<le> held (in_states S) (calls E cs L)"
  using lawful_calls_move [OF assms(2,3)]
  by (rule held_grows) (auto simp: state_moved_def dest: follows_closed [OF _ assms(1)])

lemma transition_enters:
  assumes run: "transition mid expected st u now L = (Inr (Some rec), L')"
    and S: "S \<inter> set expected = {}" "st \<in> S"
  shows "held (in_states S) L + 1 \<le> held (in_states S) L'"
proof -
  let ?hit = "\<lambda>r. mon_id r = mid \<and> mon_state r \<in> set expected"
  have "sql_count ?hit (monitors L) \<noteq> 0"
    using run by (auto simp: transition_def update_monitor_def Let_def split: if_splits)
  then obtain r where "r \<in> set (monitors L)" "?hit r"
    by (auto simp: sql_count_0)
  then have "length (filter (in_states S) (monitors L)) + 1
      \<le> length (filter (in_states S) (sql_update ?hit (transition_row st u now) (monitors L)))"
    using S by (intro held_update) (auto simp: transition_row_def)
  with transition_effect [of mid expected st u now L] run show ?thesis
    by (simp add: held_def)
qed

section \<open>Returned records\<close>

text \<open>The record a write returns is in the state it wrote.\<close>

lemma delivery_returns:
  assumes "monitors_ok L" "update_thread_delivery mid expected st ds receipt rc outcome now L = (Inr (Some rec), L')"
  shows "mon_state rec = st"
  using assms(2) monitor_from_row_sel(6)
  by (fastforce simp: update_thread_delivery_def update_monitor_is_cas [OF assms(1)] after_commit_def
      delivery_row_def split: if_splits option.splits sum.splits)

lemma admission_returns:
  assumes "monitors_ok L" "begin_thread_admission mid cap now L = (Inr (Some rec), L')"
  shows "mon_state rec = ADMISSION_IN_PROGRESS"
proof -
  obtain r where r: "get_monitor_row mid L = Some r" "admission_check r = Inr True"
    and L': "L' = admitted mid cap now r L" and read: "read_back mid L' = Inr (Some rec)"
    using admission_record [OF assms(2)] by blast
  have "get_monitor_row mid L'
      = Some (admission_row (jset ''capability_at_admission'' cap (mon_delivery r)) now r)"
    using r(1) get_monitor_row_Some [OF r(1)] admission_check_Inr(1,2) [OF r(2)]
    by (simp add: L' admitted_def get_monitor_row_update)
  then show ?thesis
    using read monitor_from_row_sel(6)
    by (fastforce simp: read_back_def after_commit_def admission_row_def split: sum.splits)
qed

end
