(* ===== verification/Action_Facts.thy ===== *)
theory Action_Facts
  imports Service_Reconcile Lifecycle
begin

text \<open>
  A calculus for what an action of the service may do to the world. \<open>along R m\<close>: every run of \<open>m\<close>, an
  error included, moves the world along \<open>R\<close>. \<open>action_order\<close> needs \<open>R\<close> to be a preorder; \<open>ledger_order\<close>
  adds what every operation of the service does (questions, files, ledger calls whose writes take the
  steps of \<open>may\<close>, the machine's or any), \<open>service_order\<close> the messages whose methods \<open>R\<close> lets pass.
\<close>

definition along :: "(world \<Rightarrow> world \<Rightarrow> bool) \<Rightarrow> 'a act \<Rightarrow> bool" where
  "along R m \<longleftrightarrow> (\<forall>w. R w (snd (m w)))"

lemma alongI: "(\<And>w. R w (snd (m w))) \<Longrightarrow> along R m"
  by (simp add: along_def)

lemma alongD: "along R m \<Longrightarrow> R w (snd (m w))"
  by (simp add: along_def)

lemma along_weaken: "along R m \<Longrightarrow> (\<And>v w. R v w \<Longrightarrow> S v w) \<Longrightarrow> along S m"
  by (simp add: along_def)

section \<open>Preorders\<close>

locale action_order =
  fixes R :: "world \<Rightarrow> world \<Rightarrow> bool"
  assumes R_refl: "R w w"
    and R_trans: "R u v \<Longrightarrow> R v w \<Longrightarrow> R u w"
begin

lemma along_steps:
  "along R (retA x)" "along R (failA e)" "along R (unlessA b e)" "along R (pyA r)"
  by (auto simp: along_def retA_def failA_def unlessA_def pyA_def R_refl split: sum.split)

lemma along_bind:
  assumes "along R m" "\<And>x. along R (f x)"
  shows "along R (bindA m f)"
proof (rule alongI)
  fix w
  show "R w (snd (bindA m f w))"
    using alongD [OF assms(1), of w] alongD [OF assms(2)]
    by (cases "m w"; cases "fst (m w)") (auto simp: bindA_def intro: R_trans)
qed

lemma along_catch:
  assumes "along R m" "\<And>e. along R (h e)"
  shows "along R (catchA m h)"
proof (rule alongI)
  fix w
  show "R w (snd (catchA m h w))"
    using alongD [OF assms(1), of w] alongD [OF assms(2)]
    by (cases "m w"; cases "fst (m w)") (auto simp: catchA_def intro: R_trans)
qed

lemma along_try:
  assumes "along R m" "\<And>e. along R (h e)" "\<And>x. along R (f x)"
  shows "along R (tryA m h f)"
proof (rule alongI)
  fix w
  show "R w (snd (tryA m h f w))"
    using alongD [OF assms(1), of w] alongD [OF assms(2)] alongD [OF assms(3)]
    by (cases "m w"; cases "fst (m w)") (auto simp: tryA_def intro: R_trans)
qed

lemma along_try_value:
  assumes m: "along R m" and h: "\<And>e. along R (h e)" and f: "\<And>x w. fst (m w) = Inr x \<Longrightarrow> along R (f x)"
  shows "along R (tryA m h f)"
proof (rule alongI)
  fix w
  obtain r w' where run: "m w = (r, w')" by (cases "m w")
  with alongD [OF m, of w] have "R w w'" by simp
  then show "R w (snd (tryA m h f w))"
    using run alongD [OF h, of w'] alongD [OF f, of w _ w']
    by (cases r) (auto simp: tryA_def intro: R_trans)
qed

lemma along_map: "(\<And>x. along R (f x)) \<Longrightarrow> along R (mapA f xs)"
  by (induction xs) (simp_all add: along_steps along_bind)

lemma along_at: "(\<And>v. along R (m v)) \<Longrightarrow> along R (\<lambda>w. m w w)"
  by (simp add: along_def)

lemma along_after: "(\<And>w. R w (f w)) \<Longrightarrow> along R m \<Longrightarrow> along R (\<lambda>w. m (f w))"
  unfolding along_def by (blast intro: R_trans)

lemma along_case_option:
  "along R a \<Longrightarrow> (\<And>x. v = Some x \<Longrightarrow> along R (b x)) \<Longrightarrow> along R (case v of None \<Rightarrow> a | Some x \<Rightarrow> b x)"
  by (cases v) simp_all

lemma along_case_sum:
  "(\<And>x. along R (a x)) \<Longrightarrow> (\<And>y. along R (b y)) \<Longrightarrow> along R (case v of Inl x \<Rightarrow> a x | Inr y \<Rightarrow> b y)"
  by (cases v) simp_all

lemma along_case_error:
  "(\<And>k s. along R (a k s)) \<Longrightarrow> (\<And>e. along R (b e)) \<Longrightarrow> along R (case v of App k s \<Rightarrow> a k s | Py e \<Rightarrow> b e)"
  by (cases v) simp_all

lemma along_case_prod: "(\<And>x y. along R (a x y)) \<Longrightarrow> along R (case v of (x, y) \<Rightarrow> a x y)"
  by (cases v) simp

lemma along_if: "(c \<Longrightarrow> along R a) \<Longrightarrow> (\<not> c \<Longrightarrow> along R b) \<Longrightarrow> along R (if c then a else b)"
  by simp

lemma along_let: "along R (a t) \<Longrightarrow> along R (let x = t in a x)"
  by (simp add: Let_def)

lemma along_case_json:
  assumes "along R n" "\<And>b. along R (tb b)" "\<And>i. along R (ti i)" "\<And>f. along R (tf f)" "\<And>s. along R (ts s)"
    "\<And>l. along R (tlist l)" "\<And>ob. along R (tob ob)"
  shows "along R (case v of JNull \<Rightarrow> n | JBool b \<Rightarrow> tb b | JInt i \<Rightarrow> ti i | JFloat f \<Rightarrow> tf f
     | JStr s \<Rightarrow> ts s | JList l \<Rightarrow> tlist l | JObj ob \<Rightarrow> tob ob)"
  using assms by (cases v) simp_all

lemma along_case_py:
  assumes "\<And>s. along R (a s)" "\<And>s. along R (b s)" "along R c" "along R d" "along R m" "along R f"
    "\<And>s. along R (g s)" "\<And>s. along R (h s)" "along R i" "\<And>s. along R (j s)"
  shows "along R (case v of ValidationError s \<Rightarrow> a s | ConflictError s \<Rightarrow> b s | KeyError \<Rightarrow> c
     | TypeError \<Rightarrow> d | ValueError \<Rightarrow> m | OverflowError \<Rightarrow> f | OSError s \<Rightarrow> g s | RuntimeError s \<Rightarrow> h s
     | RegexError \<Rightarrow> i | DatabaseError s \<Rightarrow> j s)"
  using assms by (cases v) simp_all

lemma along_if_at: "along R a \<Longrightarrow> along R b \<Longrightarrow> along R (\<lambda>w. if c w then a w else b w)"
  by (simp add: along_def)

lemma along_case_decision:
  "along R a \<Longrightarrow> (\<And>x. along R (b x)) \<Longrightarrow> along R c \<Longrightarrow> along R d \<Longrightarrow>
     along R (case v of StayArmed \<Rightarrow> a | Claimed x \<Rightarrow> b x | ObserverFailed \<Rightarrow> c | Expired \<Rightarrow> d)"
  by (cases v) simp_all

lemmas along_rules = along_steps along_bind along_catch along_try along_map along_case_option
  along_case_sum along_case_error along_case_prod along_if along_let along_case_json
  along_case_py along_case_decision

end

section \<open>Ledger operations as calls\<close>

text \<open>\<open>f\<close> changes the tables by calls whose writes take steps of \<open>may\<close>.\<close>

definition as_calls :: "(MonitorState \<Rightarrow> MonitorState \<Rightarrow> bool) \<Rightarrow> digest_env \<Rightarrow> 'a ledger_op \<Rightarrow> bool" where
  "as_calls may E f \<longleftrightarrow> (\<forall>L. \<exists>cs. list_all (moves_by may) cs \<and> snd (f L) = calls E cs L)"

lemma calls_one: "calls E [c] L = call E c L"
  by (simp add: calls_def)

lemma calls_none: "calls E [] L = L"
  by (simp add: calls_def)

lemma calls_append: "calls E (cs @ ds) L = calls E ds (calls E cs L)"
  by (simp add: calls_def)

lemma as_callsI: "(\<And>L. snd (f L) = call E c L) \<Longrightarrow> moves_by may c \<Longrightarrow> as_calls may E f"
  unfolding as_calls_def by (metis calls_one list.pred_inject)

lemma free_ops_as_calls:
  "as_calls may E (begin_thread_admission mid cap now)"
  "as_calls may E (record_target_status_observed mid thread now)"
  "as_calls may E (evaluate_and_claim_event_monitor E mid n observed ext contract now)"
  "as_calls may E (expire_events now)" "as_calls may E (create_or_get E g now)"
  "as_calls may E (cancel_event E rid now)"
  "as_calls may E (reserve_event E salt rid ikey k producer semantic token expires now)"
  "as_calls may E (publish_event_heartbeat E rid token hb now)"
  "as_calls may E (publish_terminal_event E rid token ev att now)"
  by (rule as_callsI, rule call.simps [symmetric], simp)+

lemma writes_as_calls:
  "list_all (\<lambda>a. may a st) expected \<Longrightarrow> as_calls may E (transition mid expected st u now)"
  "list_all (\<lambda>a. may a st) expected \<Longrightarrow> as_calls may E (update_thread_delivery mid expected st ds receipt rc outcome now)"
  "may old st \<Longrightarrow> as_calls may E (recover old st kind t0 now)"
  by (rule as_callsI, rule call.simps [symmetric], simp)+

text \<open>The named transitions are instances of these.\<close>

lemma named_ops_as_calls:
  assumes "lawful_step \<le> may"
  shows
  "as_calls may E (update_evaluation mid condition evidence witness now)" "as_calls may E (arm mid now)"
  "as_calls may E (begin_pause mid pre t0 now)" "as_calls may E (arm_deferred mid conf t0 now)"
  "as_calls may E (arm_paused_deferred mid conf t0 now)"
  "as_calls may E (claim mid condition evidence witness reason t0 now)"
  "as_calls may E (begin_activation mid snapshot t0 now)"
  "as_calls may E (record_thread_queue_ack mid receipt now)"
  "as_calls may E (begin_thread_cancellation mid rc now)"
  "as_calls may E (recover_activating t0 now)" "as_calls may E (recover_registering t0 now)"
  "as_calls may E (recover_defer_intent t0 now)" "as_calls may E (recover_pausing t0 now)"
  unfolding update_evaluation_def arm_def begin_pause_def arm_deferred_def arm_paused_deferred_def
    claim_def begin_activation_def record_thread_queue_ack_def begin_thread_cancellation_def
    recover_activating_def recover_registering_def recover_defer_intent_def recover_pausing_def
  by (rule writes_as_calls, simp add: predicate2D [OF assms] lawful_step_def)+

lemma cancel_as_calls:
  assumes "lawful_step \<le> may"
  shows "as_calls may E (cancel_from seen mid t0 now)"
  unfolding as_calls_def
proof
  fix L
  have "\<exists>cs. list_all (moves_by may) cs \<and>
      snd (transition mid [REGISTERING, DEFER_INTENT, ARMED, CLAIMED] CANCELLED u now L) = calls E cs L" for u
    using writes_as_calls(1) [of may CANCELLED "[REGISTERING, DEFER_INTENT, ARMED, CLAIMED]" E mid u now]
    by (simp add: as_calls_def predicate2D [OF assms] lawful_step_def)
  moreover have "\<exists>cs. list_all (moves_by may) cs \<and>
      snd (update_thread_delivery mid [s] CANCEL_REQUESTED ds a b c now L) = calls E cs L"
    if "s \<in> {ADMISSION_IN_PROGRESS, QUEUE_ACCEPTED}" for s ds a b c
    using writes_as_calls(2) [of may CANCEL_REQUESTED "[s]" E mid ds a b c now] that
    by (auto simp: as_calls_def predicate2D [OF assms] lawful_step_def)
  moreover have "\<exists>cs. list_all (moves_by may) cs \<and> L = calls E cs L"
    using calls_none by (metis list.pred_inject(1))
  ultimately show "\<exists>cs. list_all (moves_by may) cs \<and> snd (cancel_from seen mid t0 now L) = calls E cs L"
    by (simp add: cancel_from_def Let_def split: option.split sum.split)
qed

text \<open>
  A record in whose state every delivery in progress may be left: the record of one, or any record when
  \<open>may\<close> allows everything.
\<close>

definition delivering_states :: "MonitorState list" where
  "delivering_states = [ADMISSION_IN_PROGRESS, QUEUE_ACCEPTED, CANCEL_REQUESTED, CANCELLATION_IN_PROGRESS]"

definition steady :: "(MonitorState \<Rightarrow> MonitorState \<Rightarrow> bool) \<Rightarrow> MonitorRecord \<Rightarrow> bool" where
  "steady may rec \<longleftrightarrow> (\<forall>a \<in> set delivering_states. may a (mon_state rec))"

lemma steady_any [simp]: "steady (\<lambda>_ _. True) rec"
  by (simp add: steady_def)

section \<open>The effects of the service\<close>

locale ledger_order = action_order R for R :: "world \<Rightarrow> world \<Rightarrow> bool" +
  fixes P :: peer and may :: "MonitorState \<Rightarrow> MonitorState \<Rightarrow> bool"
  assumes tick: "ticks w \<le> t \<Longrightarrow> R w (w\<lparr>ticks := t\<rparr>)"
    and quiet: "R w (w\<lparr>asked := h\<rparr>)" "R w (w\<lparr>request_id := i\<rparr>)" "R w (w\<lparr>server_info := v\<rparr>)"
      "R w (w\<lparr>files := fs\<rparr>)" "R w (w\<lparr>spawned := k\<rparr>)"
    and machine_steps: "lawful_step \<le> may"
    and other_moves: "list_all (moves_by may) (other_calls P t)"
    and ledger_moves: "list_all (moves_by may) cs \<Longrightarrow> R w (w\<lparr>tables := calls (digests P) cs (tables w)\<rparr>)"
begin

lemma may_step: "lawful_step a b \<Longrightarrow> may a b"
  using machine_steps by auto

text \<open>The steps the service takes by name.\<close>

lemma named_steps:
  "may REGISTERING DAEMON_UNAVAILABLE" "may REGISTERING SUPERSEDED"
  "may DEFER_INTENT DAEMON_UNAVAILABLE" "may DEFER_INTENT EXPIRED" "may DEFER_INTENT SUPERSEDED"
  "may PAUSING PAUSE_UNCERTAIN" "may PAUSING MIS_TARGETED_PAUSE" "may PAUSING PAUSE_REJECTED"
  "may ARMED ARMED" "may ARMED OBSERVER_FAILED" "may ARMED UNLOADED_TARGET" "may ARMED SUPERSEDED"
  "may CLAIMED CLAIMED" "may CLAIMED ACTIVATION_FAILED" "may CLAIMED UNLOADED_TARGET"
  "may CLAIMED SUPERSEDED" "may CLAIMED EXPIRED" "may CLAIMED SATISFIED_REQUIRES_AUTHORIZATION"
  "may CLAIMED DELIVERY_CAPABILITY_UNAVAILABLE"
  "may ACTIVATING FIRED" "may ACTIVATING MIS_TARGETED_ACTIVATION" "may ACTIVATING ACTIVATION_FAILED"
  "may ACTIVATING ACTIVATION_UNCERTAIN"
  by (simp_all add: may_step lawful_step_def)

text \<open>The writes of a delivery in progress, each from the states its guard names.\<close>

lemma delivery_steps:
  "may ADMISSION_IN_PROGRESS ADMISSION_IN_PROGRESS" "may ADMISSION_IN_PROGRESS QUEUE_ACCEPTED"
  "may ADMISSION_IN_PROGRESS DELIVERY_REJECTED" "may ADMISSION_IN_PROGRESS DELIVERY_MODIFIED"
  "may ADMISSION_IN_PROGRESS RECORDED" "may ADMISSION_IN_PROGRESS DELIVERY_UNCERTAIN"
  "may QUEUE_ACCEPTED QUEUE_ACCEPTED" "may QUEUE_ACCEPTED DELIVERY_MODIFIED"
  "may QUEUE_ACCEPTED RECORDED" "may QUEUE_ACCEPTED DELIVERY_UNCERTAIN"
  "may CANCELLATION_IN_PROGRESS CANCELLATION_IN_PROGRESS" "may CANCELLATION_IN_PROGRESS CANCELLED"
  by (simp_all add: may_step lawful_step_def)

lemma cancelling_steps:
  assumes "s \<in> {CANCEL_REQUESTED, CANCELLATION_IN_PROGRESS}"
  shows "may s s" "may s DELIVERY_MODIFIED" "may s CANCELLATION_TOO_LATE" "may s DELIVERY_UNCERTAIN"
  using assms by (auto simp: may_step lawful_step_def)

lemma pass_steps:
  "s \<in> reconcilable_states \<Longrightarrow> may s EXPIRED" "s \<in> reconcilable_states \<Longrightarrow> s \<noteq> ARMED \<Longrightarrow> may s DELIVERY_REJECTED"
  "failure_state s = Some st \<Longrightarrow> may s st"
  by (auto simp: may_step lawful_step_def reconcilable_states_def elim: failure_state.elims)

lemma guarded_steps: "list_all p []" "p s \<Longrightarrow> list_all p ss \<Longrightarrow> list_all p (s # ss)"
  by simp_all

lemma delivering_steady: "mon_state rec \<in> set delivering_states \<Longrightarrow> steady may rec"
  by (auto simp: steady_def delivering_states_def may_step lawful_step_def)

lemmas ledger_ops_as_calls = free_ops_as_calls named_ops_as_calls [OF machine_steps]
  cancel_as_calls [OF machine_steps] writes_as_calls guarded_steps named_steps delivery_steps

lemma along_others: "along R (others P)"
proof (rule alongI)
  fix w
  have "R (w\<lparr>tables := calls (digests P) (other_calls P (ticks w)) (tables w)\<rparr>) (snd (others P w))"
    using tick [of "w\<lparr>tables := calls (digests P) (other_calls P (ticks w)) (tables w)\<rparr>" "ticks w + 1"]
    by (simp add: others_def)
  then show "R w (snd (others P w))"
    by (rule R_trans [OF ledger_moves [OF other_moves]])
qed

lemma along_now: "along R (nowA P)"
  by (simp add: along_def nowA_def tick)

lemma along_sense: "along R (senseA answer)"
proof (rule alongI)
  fix w :: world
  show "R w (snd (senseA answer w))"
    by (cases "answer (ticks w)") (simp_all add: senseA_def act_simps tick)
qed

lemma along_ledger: "as_calls may (digests P) f \<Longrightarrow> along R (ledgerA P f)"
  unfolding ledgerA_def
proof (rule along_bind [OF along_others], rule alongI)
  fix x and w :: world
  assume "as_calls may (digests P) f"
  then obtain cs where "list_all (moves_by may) cs" "snd (f (tables w)) = calls (digests P) cs (tables w)"
    unfolding as_calls_def by blast
  with ledger_moves [of cs w] show "R w (snd (case f (tables w) of (r, L) \<Rightarrow> pyA r (w\<lparr>tables := L\<rparr>)))"
    by (cases "f (tables w)"; cases "fst (f (tables w))") (simp_all add: act_simps)
qed

lemma along_ledger_now: "(\<And>now. as_calls may (digests P) (f now)) \<Longrightarrow> along R (ledger_nowA P f)"
  unfolding ledger_nowA_def by (intro along_bind along_now along_ledger)

lemma along_ledger_times: "(\<And>t0 now. as_calls may (digests P) (f t0 now)) \<Longrightarrow> along R (ledger_timesA P f)"
  unfolding ledger_timesA_def by (intro along_bind along_now along_ledger)

lemma along_read: "along R (readA P f)"
  unfolding readA_def by (rule along_bind [OF along_others], rule along_at) (rule along_rules)

lemma along_machine: "along R (machineA m)"
proof (rule alongI)
  fix w
  show "R w (snd (machineA m w))"
    by (cases "m (asked w)"; cases "fst (m (asked w))") (simp_all add: machineA_def act_simps quiet)
qed

lemmas along_basic = along_rules along_others along_now along_sense along_ledger along_ledger_now
  along_ledger_times along_read along_machine ledger_ops_as_calls

end

text \<open>The same with the messages whose method and parameters \<open>ok\<close> accepts.\<close>

locale service_order = ledger_order +
  fixes ok :: "string \<Rightarrow> json \<Rightarrow> bool"
  assumes sends: "ok m ps \<Longrightarrow> R w (w\<lparr>wire := Written n m ps # wire w\<rparr>)"

end
