(* ===== verification/App_Facts.thy ===== *)
theory App_Facts
  imports Action_Facts
begin

text \<open>
  The operations of the app-server client along a \<open>service_order\<close>: each moves the world only by the
  methods it may send. \<open>reader_order\<close> lets the methods that only read pass, \<open>session_order\<close> a whole session.
\<close>

context service_order
begin

lemma along_check_socket: "along R (check_socket P)"
  unfolding check_socket_def
  by (rule alongI) (auto simp: act_simps R_refl split: socket_stat.split)

lemma along_send: "ok m ps \<Longrightarrow> along R (send P n m ps)"
  unfolding send_def by (rule alongI) (auto simp: act_simps sends split: write_result.split)

lemma along_request: "ok m ps \<Longrightarrow> along R (request P m ps)"
  unfolding request_def Let_def
proof (rule alongI)
  fix w :: world
  assume m: "ok m ps"
  have "along R (\<lambda>w'. case r of Inl e \<Rightarrow> failA e w' | Inr v \<Rightarrow> retA v w')" for r :: "svc_error + json"
    by (cases r) (simp_all add: along_steps)
  then have "along R (\<lambda>w'. case await_reply m (request_id w) (incoming P (wire w')) of
      Inl e \<Rightarrow> failA e w' | Inr v \<Rightarrow> retA v w')"
    by (rule along_at)
  then have "along R (bindA (send P (Some (request_id w)) m ps) (\<lambda>_. bindA (others P) (\<lambda>_. \<lambda>w'.
      case await_reply m (request_id w) (incoming P (wire w')) of
        Inl e \<Rightarrow> failA e w' | Inr v \<Rightarrow> retA v w')))"
    by (intro along_bind along_send along_others m)
  then show "R w (snd (bindA (send P (Some (request_id w)) m ps) (\<lambda>_. bindA (others P) (\<lambda>_. \<lambda>w'.
      case await_reply m (request_id w) (incoming P (wire w')) of
        Inl e \<Rightarrow> failA e w' | Inr v \<Rightarrow> retA v w')) (w\<lparr>request_id := request_id w + 1\<rparr>)))"
    by (rule R_trans [OF quiet(2) [of w] alongD [of R]])
qed

lemma along_store_info: "along R m \<Longrightarrow> along R (\<lambda>w. m (w\<lparr>server_info := v\<rparr>))"
  by (rule along_after [OF quiet(3)])

lemma along_fresh: "along R m \<Longrightarrow> along R (\<lambda>w. m (w\<lparr>request_id := i, server_info := v\<rparr>))"
proof (rule along_after)
  show "R w (w\<lparr>request_id := i, server_info := v\<rparr>)" for w :: world
    using R_trans [OF quiet(2) [of w i] quiet(3) [of "w\<lparr>request_id := i\<rparr>" v]] by simp
qed

lemma along_runtime_status: "along R (runtime_status_of thread msg)"
  unfolding runtime_status_of_def by (auto simp: along_steps split: json.splits prod.splits bool.splits)

lemma along_goal_marker: "along R (goal_marker goal msg)"
  unfolding goal_marker_def by (intro along_rules)

lemma along_exact_thread: "along R (exact_thread result thread)"
  unfolding exact_thread_def by (intro along_rules)

lemma along_queue_items: "along R (queue_items result)"
  unfolding queue_items_def by (intro along_rules)

lemma along_one_text: "along R (one_text parts a b c)"
proof -
  have "along R (if \<not> is_obj value \<or> jget ''type'' value \<noteq> JStr ''text'' then app_failA b
      else (case jget ''text'' value of JStr t \<Rightarrow> retA t | _ \<Rightarrow> app_failA c))" for "value"
    by (intro along_rules)
  then show ?thesis
    unfolding one_text_def by (auto simp: along_steps split: json.splits list.splits)
qed

lemma along_pointers: "along R (queued_pointer item)" "along R (history_pointer item)"
  unfolding queued_pointer_def history_pointer_def by (rule along_one_text)+

lemma along_codex_version: "along R (codex_version server thread)"
  unfolding codex_version_def by (intro along_rules)

lemma along_queue_entry: "along R (queue_entry E numbered)"
  unfolding queue_entry_def by (intro along_rules along_pointers)

lemma along_history_entry: "along R (history_entry E one item)"
  unfolding history_entry_def by (intro along_rules along_pointers)

lemma along_turn_history: "along R (turn_history E delivery_id one)"
  unfolding turn_history_def by (intro along_rules along_history_entry)

lemma along_goal_set_observation: "along R (goal_set_observation result)"
  unfolding goal_set_observation_def by (intro along_rules along_goal_marker)

lemma along_check_native: "along R (check_native_result task child invocation result)"
  unfolding check_native_result_def native_identity_def by (intro along_rules)

lemmas along_client = along_request along_runtime_status along_goal_marker along_exact_thread
  along_queue_items along_pointers along_codex_version along_queue_entry along_history_entry
  along_turn_history along_goal_set_observation along_check_native

lemma along_goal_set:
  "ok ''thread/goal/set'' (activation_params thread) \<Longrightarrow> along R (activate_guarded_goal P thread)"
  "ok ''thread/goal/set'' (pause_params thread) \<Longrightarrow> along R (pause_guarded_goal P thread)"
  unfolding activate_guarded_goal_def pause_guarded_goal_def by (intro along_rules along_client; simp)+

lemma along_resume: "(\<And>ps. ok ''thread/resume'' ps) \<Longrightarrow> along R (resume_thread_delivery P thread)"
  unfolding resume_thread_delivery_def by (intro along_rules along_client; simp)

lemma along_delete: "(\<And>ps. ok ''thread/queue/delete'' ps) \<Longrightarrow> along R (delete_thread_delivery P thread item)"
  unfolding delete_thread_delivery_def by (intro along_rules along_client; simp)

lemma along_add: "(\<And>ps. ok ''thread/queue/add'' ps) \<Longrightarrow> along R (add_thread_delivery P thread delivery_id pointer)"
  unfolding add_thread_delivery_def by (intro along_rules along_client; simp)

lemma along_observe_native:
  "(\<And>ps. ok ''thread/agent/observe'' ps) \<Longrightarrow> along R (observe_native_worker P root_id task child invocation)"
  unfolding observe_native_worker_def by (intro along_rules along_client; simp)

end

locale reader_order = service_order +
  assumes reads: "ok ''thread/read'' ps" "ok ''thread/goal/get'' ps" "ok ''thread/queue/list'' ps"
begin

lemma along_read_observation: "along R (read_observation P thread goal)"
  unfolding read_observation_def by (intro along_rules along_client reads)

lemma along_list_queue: "along R (list_thread_queue P thread)"
  unfolding list_thread_queue_def by (intro along_rules along_client reads)

lemma along_preflight: "along R (preflight_thread_delivery P thread)"
proof -
  have "along R (\<lambda>w. bindA (codex_version (server_info w) t)
      (\<lambda>version. retA (capability_json thread status t n version (server_info w))) w)" for t status n
    by (rule along_at) (intro along_rules along_client)
  then show ?thesis
    unfolding preflight_thread_delivery_def by (intro along_rules along_client reads)
qed

lemma along_inspect: "along R (inspect_thread_delivery P thread delivery_id digest)"
  unfolding inspect_thread_delivery_def by (intro along_rules along_client reads along_list_queue)

lemma along_resolve_chain: "along R (resolve_chain P origin left chain current)"
proof (induction left arbitrary: chain current)
  case 0
  show ?case by (subst resolve_chain.simps) (simp add: along_steps)
next
  case (Suc n)
  show ?case
    by (subst resolve_chain.simps, simp only: nat.case)
      (intro along_rules along_client reads along_preflight Suc.IH)
qed

lemma along_resolve: "along R (resolve_thread_delivery P origin)"
  unfolding resolve_thread_delivery_def by (intro along_rules along_resolve_chain)

lemmas along_reads = along_read_observation along_list_queue along_preflight along_inspect along_resolve

end

locale session_order = reader_order +
  assumes session: "ok ''initialize'' ps" "ok ''initialized'' ps"
    and dials: "R w (w\<lparr>wire := Dial # wire w\<rparr>)"
begin

lemma along_dial: "along R (dial P)"
  unfolding dial_def by (rule alongI) (auto simp: act_simps dials split: dial_result.split)

lemma along_connect: "along R (connect P experimental)"
  unfolding connect_def
  by (intro along_rules along_check_socket along_dial along_fresh along_others along_request session
      along_store_info along_send)

lemma along_session: "along R body \<Longrightarrow> along R (with_client P body)"
  unfolding with_client_def by (intro along_bind along_connect)

end

end
