(* ===== verification/Service_Facts.thy ===== *)
theory Service_Facts
  imports App_Facts
begin

text \<open>
  The steps of the service along an order: reports, one delivery, one claim, one pass. \<open>courier_order\<close>
  lets the service's methods pass other than the goal request and the queue-add; \<open>delivery_order\<close> adds
  the activation of a claim and the admission of a delivery, each as a whole, because the ledger pays for
  its message.
\<close>

context ledger_order
begin

lemma along_process_alive: "along R (process_alive P pid)"
  unfolding process_alive_def by (intro along_basic)

lemma along_decoded: "along R (decodedA r)"
  unfolding decodedA_def by (intro along_basic)

lemma along_read_heartbeat: "along R (read_heartbeat P)"
  unfolding read_heartbeat_def by (rule along_sense)

lemma along_healthy: "along R (daemon_is_healthy P)"
  unfolding daemon_is_healthy_def
  by (intro along_basic along_read_heartbeat along_decoded along_process_alive)

lemma along_lock_held_by: "along R (daemon_lock_is_held_by P pid)"
  unfolding daemon_lock_is_held_by_def process_owns_flock_def by (intro along_basic)

lemma along_unready_reason: "along R (delivery_daemon_unready_reason P)"
  unfolding delivery_daemon_unready_reason_def unready_after_facts_def
  by (intro along_basic along_read_heartbeat along_decoded along_process_alive along_lock_held_by)

lemma along_supervision: "along R (supervision P)"
  unfolding supervision_def by (intro along_basic along_healthy)

lemma along_observed_record: "along R (observed_record P mid trusted)"
  unfolding observed_record_def by (intro along_basic)

lemma along_rearm_chain: "along R (rearm_chain P left seen parent)"
proof (induction left arbitrary: seen parent)
  case 0
  show ?case by (cases parent) (simp_all add: along_steps)
next
  case (Suc left)
  show ?case
    by (cases parent) (simp_all add: along_steps, intro conjI impI along_basic Suc.IH)
qed

lemma along_terminal_fields: "along R (terminal_status_fields P rec decision)"
  unfolding terminal_status_fields_def by (intro along_basic)

lemma along_status: "along R (status P mid trusted)"
  unfolding status_def rearm_chain_of_def
  by (intro along_basic along_observed_record along_rearm_chain along_terminal_fields along_supervision)

lemma along_decision_status: "along R (decision_status P mid trusted)"
  unfolding decision_status_def rearm_chain_of_def
  by (intro along_basic along_observed_record along_rearm_chain along_terminal_fields along_supervision)

lemma along_current_monitor_summary: "along R (current_monitor_summary P rec)"
  unfolding current_monitor_summary_def by (intro along_basic along_supervision)

lemma along_lists: "along R (list_decisions P)" "along R (list_for_target P thread)"
  unfolding list_decisions_def list_for_target_def
  by (intro along_basic along_decision_status along_current_monitor_summary)+

lemma along_registration_response: "along R (registration_response P rec)"
  unfolding registration_response_def by (intro along_basic along_supervision)

lemma along_statusA: "along R (statusA P found)"
  unfolding statusA_def by (intro along_basic along_status)

lemma along_cancel_monitor: "along R (cancel_monitor P mid)"
  unfolding cancel_monitor_def by (intro along_basic along_status)

lemma along_write_file: "along R m \<Longrightarrow> along R (\<lambda>w. m (w\<lparr>files := f w\<rparr>))"
  by (rule along_after [OF quiet(4)])

lemma along_output: "along R (validate_private_output_path P path)"
  unfolding validate_private_output_path_def by (rule along_sense)

lemma along_atomic_write: "along R (atomic_write_json P path v mode)"
  unfolding atomic_write_json_def by (intro along_basic along_output along_write_file)

lemma along_publish_receipt: "along R (publish_receipt P mid token st)"
  unfolding publish_receipt_def by (intro along_basic along_atomic_write)

lemma along_outcome: "may expected st \<Longrightarrow> along R (outcomeA P mid expected st kvs)"
  unfolding outcomeA_def by (intro along_basic)

lemma along_claim_with: "along R (claim_with P rec condition ev reason)"
  unfolding claim_with_def by (intro along_basic)

lemma along_consume: "along R (consume_evaluation P rec thread condition ev)"
  unfolding consume_evaluation_def by (intro along_basic along_claim_with)

lemma along_observe_event: "along R (observe_event_condition P C condition)"
  unfolding observe_event_condition_def by (intro along_basic)

lemma along_evaluate_and_claim: "along R (evaluate_and_claim P C rec)"
  unfolding evaluate_and_claim_def evaluateA_def
  by (intro along_basic along_observe_event along_consume)

lemma along_unexpected_failure: "along R (record_unexpected_failure P mid e)"
  unfolding record_unexpected_failure_def
  by (intro along_basic along_outcome; (elim conjE insertE emptyE)?; simp add: named_steps pass_steps)

lemma along_isolate: "along R (isolate P mid e)"
  unfolding isolate_def by (intro along_basic along_unexpected_failure along_statusA)

lemma along_recovery: "along R (recover_deferred_if_unlocked P)" "along R (recover_after_daemon_start P)"
proof -
  show deferred: "along R (recover_deferred_if_unlocked P)"
    unfolding recover_deferred_if_unlocked_def enter_defer_lock_def by (intro along_basic)
  show "along R (recover_after_daemon_start P)"
    unfolding recover_after_daemon_start_def by (intro along_basic deferred)
qed

lemmas along_reports = along_status along_decision_status along_lists along_registration_response
  along_statusA along_cancel_monitor along_publish_receipt along_supervision

end

context reader_order
begin

lemma along_thread_observations:
  "along R (read_child P fail child)" "along R (read_thread_observations P fail targets)"
proof -
  show child: "along R (read_child P fail child)" for child
    unfolding read_child_def by (intro along_basic along_read_observation)
  show "along R (read_thread_observations P fail targets)"
    unfolding read_thread_observations_def by (intro along_basic child)
qed

lemma along_native_observations:
  "(\<And>ps. ok ''thread/agent/observe'' ps) \<Longrightarrow> along R (read_native_worker_observations P requests)"
  unfolding read_native_worker_observations_def
  by (intro along_basic along_observe_native)

end

locale courier_order = session_order +
  assumes methods: "ok ''thread/resume'' ps" "ok ''thread/queue/delete'' ps" "ok ''thread/agent/observe'' ps"
begin

lemma along_write:
  "list_all (\<lambda>a. may a st) expected \<Longrightarrow> along R (write_delivery P mid expected st ds rc outcome now)"
  unfolding write_delivery_def by (intro along_basic)

lemma along_unavailable:
  assumes "mon_state rec = CLAIMED \<or> steady may rec"
  shows "along R (delivery_unavailable P now rec kind msg)"
  using assms unfolding delivery_unavailable_def
  by (intro along_basic along_write) (simp_all add: steady_def delivering_states_def)

lemma along_in_session:
  "mon_state rec = CLAIMED \<or> steady may rec \<Longrightarrow> along R m \<Longrightarrow> (\<And>x. along R (f x)) \<Longrightarrow> along R (in_session P now rec m f)"
  unfolding in_session_def by (intro along_basic along_unavailable)

lemma along_remove_item: "along R (remove_item P now rec thread item rc)"
  unfolding remove_item_def Let_def
  by (intro along_basic along_write along_session along_delete methods)

lemma along_reconcile_cancelling:
  assumes "mon_state rec \<in> {CANCEL_REQUESTED, CANCELLATION_IN_PROGRESS}"
  shows "along R (reconcile_cancelling P now rec thread ob rc)"
  unfolding reconcile_cancelling_def keep_cancelling_def Let_def
  by (intro along_basic along_write along_remove_item cancelling_steps [OF assms])

lemma along_write_accepted: "along R (write_accepted P mid rc now)"
  unfolding write_accepted_def by (intro along_write ledger_ops_as_calls)

lemma along_pre_resume:
  "mon_state rec = CLAIMED \<or> steady may rec \<Longrightarrow> (\<And>r. along R (rest r)) \<Longrightarrow> along R (pre_resume P now rec thread item rest)"
  unfolding pre_resume_def
  by (intro along_basic along_in_session along_list_queue along_write_accepted along_resume methods)

lemma along_recovered_resume:
  "(\<And>r. along R (rest r)) \<Longrightarrow> along R (recovered_resume P now mid thread item rc rest)"
  unfolding recovered_resume_def Let_def
  by (intro along_basic along_session along_list_queue along_write_accepted along_resume methods)

lemma along_reconcile_queued: "along R (reconcile_queued P now rec thread delivery_id digest ob rc)"
  unfolding reconcile_queued_def Let_def by (intro along_basic along_write along_recovered_resume)

lemma along_reconcile_admitted:
  assumes "steady may rec"
  shows "along R (reconcile_admitted P now rec thread delivery_id digest ob rc)"
proof -
  have "may ADMISSION_IN_PROGRESS (mon_state rec)" "may QUEUE_ACCEPTED (mon_state rec)"
    using assms by (simp_all add: steady_def delivering_states_def)
  then show ?thesis
    unfolding reconcile_admitted_def by (intro along_basic along_write along_reconcile_queued)
qed

lemma along_observe_delivery:
  "steady may rec \<Longrightarrow> along R (observe_delivery P now thread delivery_id digest rec)"
  unfolding observe_delivery_def settle_delivery_def
  by (intro along_basic along_in_session along_inspect along_reconcile_cancelling
      along_reconcile_admitted disjI2)

lemma along_admit:
  "(\<And>ps. ok ''thread/queue/add'' ps) \<Longrightarrow> (\<And>r. steady may r) \<Longrightarrow>
     along R (admit_delivery P now rec thread delivery_id pointer digest)"
  unfolding admit_delivery_def
  by (intro along_basic along_in_session along_preflight along_add along_write along_observe_delivery
      along_pre_resume disjI2)

lemma along_finish:
  assumes "mon_state rec = CLAIMED \<or> steady may rec" "may (mon_state rec) DELIVERY_REJECTED"
    and "\<And>now thread delivery_id pointer digest. mon_state rec = CLAIMED \<Longrightarrow>
      along R (admit_delivery P now rec thread delivery_id pointer digest)"
  shows "along R (finish_thread_delivery P rec)"
  unfolding finish_thread_delivery_def
  by (intro along_basic along_in_session along_connect along_observe_delivery assms)
    (use assms(1) in \<open>blast+\<close>)

lemma along_deferred_idle: "along R (deferred_target_is_idle P rec children)"
  unfolding deferred_target_is_idle_def
  by (intro along_basic along_session along_read_observation along_outcome along_thread_observations)

lemma along_armed_context: "along R (armed_context P rec)"
  unfolding armed_context_def
  by (intro along_basic along_session along_outcome along_thread_observations along_deferred_idle
      along_native_observations methods along_statusA)

lemma along_claim_stage:
  "mon_state rec \<in> reconcilable_states \<Longrightarrow> along R (claim_stage P now rec)"
  unfolding claim_stage_def
  by (intro along_basic along_armed_context along_evaluate_and_claim along_statusA pass_steps)

lemma along_conclude: "along R (conclude_activation P rec guard returned)"
  unfolding conclude_activation_def by (intro along_basic along_outcome)

lemma along_activate:
  "ok ''thread/goal/set'' (activation_params (guard_thread_id guard)) \<Longrightarrow> along R (activate_claim P rec guard ob)"
  unfolding activate_claim_def
  by (intro along_basic along_outcome along_goal_set along_conclude)

lemma along_preflight_failed: "along R (preflight_failed P rec e)"
  unfolding preflight_failed_def by (intro along_basic along_outcome)

end

text \<open>What a stage hands on: the claim it made, or the record it was given.\<close>

lemma claim_stage_next:
  assumes "fst (claim_stage P now rec w) = Inr (ts, Some r)"
  shows "mon_state r = CLAIMED \<or> r = rec \<and> mon_state rec \<noteq> ARMED"
  using assms unfolding claim_stage_def
  by (auto simp: bindA_def retA_def split: prod.splits sum.splits if_splits option.splits)

locale delivery_order = courier_order +
  assumes activate: "along R (activate_claim P rec guard ob)"
    and admit: "mon_state rec = CLAIMED \<Longrightarrow> along R (admit_delivery P now rec thread delivery_id pointer digest)"
begin

lemma along_finish_delivery:
  "mon_state rec \<in> reconcilable_states \<Longrightarrow> mon_state rec \<noteq> ARMED \<Longrightarrow> along R (finish_thread_delivery P rec)"
  using delivering_steady [of rec]
  by (intro along_finish admit pass_steps) (auto simp: reconcilable_states_def delivering_states_def)

lemma along_finish_claim:
  "mon_state rec \<in> reconcilable_states \<Longrightarrow> mon_state rec \<noteq> ARMED \<Longrightarrow> along R (finish_claim P rec)"
  unfolding finish_claim_def
  by (intro along_basic along_finish_delivery along_outcome along_session along_read_observation
      along_preflight_failed activate)

lemma along_delivery_stage:
  "mon_state rec \<in> reconcilable_states \<Longrightarrow> mon_state rec \<noteq> ARMED \<Longrightarrow> along R (delivery_stage P rec)"
  unfolding delivery_stage_def
  by (intro along_basic along_finish_delivery along_finish_claim along_statusA)

lemma along_reconcile_record: "along R (reconcile_record P now rec)"
proof (cases "mon_state rec \<in> reconcilable_states")
  case True
  have "along R (case x of (ts, next_record) \<Rightarrow> (case next_record of
      None \<Rightarrow> retA ts
    | Some r \<Rightarrow> bindA (catchA (delivery_stage P r) (isolate P (mon_id r))) (\<lambda>ts2. retA (ts @ ts2))))"
    if "fst (claim_stage P now rec w) = Inr x" for x w
  proof (cases x)
    case (Pair ts found)
    have "mon_state r \<in> reconcilable_states \<and> mon_state r \<noteq> ARMED" if "found = Some r" for r
      using claim_stage_next [of P now rec w ts r] that Pair \<open>fst (claim_stage P now rec w) = Inr x\<close> True
      by (auto simp: reconcilable_states_def)
    then show ?thesis
      unfolding Pair prod.case by (intro along_basic along_isolate along_delivery_stage; blast)
  qed
  then show ?thesis
    unfolding reconcile_record_def using True
    by (simp only: simp_thms not_True_eq_False)
      (intro along_if along_steps along_try_value along_claim_stage along_isolate; blast)
qed (simp add: reconcile_record_def along_steps)

lemma along_pass: "along R (reconcile_once P)"
  unfolding reconcile_once_def by (intro along_basic along_recovery along_reconcile_record)

end

end
