(* ===== verification/Service_Events.thy ===== *)
theory Service_Events
  imports Service_Reconcile
begin

text \<open>
  The service's entry points for terminal events (\<open>service.py\<close>, lines 773 to 953): reserving an event with
  the Git scope of its worker, reading and cancelling it, and publishing heartbeats and terminal events,
  with the attestation of a delivered candidate. A request is an object.
\<close>

section \<open>Git errors as exceptions of the service\<close>

fun git_exception :: "git_error \<Rightarrow> py_error" where
  "git_exception (GitValueError _) = ValueError"
| "git_exception GitOSError = OSError ''git''"
| "git_exception _ = RuntimeError ''git''"

definition gitA :: "'a git \<Rightarrow> 'a act" where
  "gitA m = machineA (\<lambda>h. case m h of
     (Inl e, h') \<Rightarrow> (Inl (git_exception e), h') | (Inr x, h') \<Rightarrow> (Inr x, h'))"

definition scope_dict :: "GitDeliveryScope \<Rightarrow> json" where
  "scope_dict sc = JObj
     [(''worktree_root'', JStr (sc_worktree_root sc)), (''common_dir'', JStr (sc_common_dir sc)),
      (''object_format'', JStr (sc_object_format sc)), (''baseline_commit'', JStr (sc_baseline_commit sc)),
      (''producer_task_id'', JStr (sc_producer_task_id sc)),
      (''allowed_prefixes'', JList (map JStr (sc_allowed_prefixes sc)))]"

definition attestation_dict :: "GitAttestation \<Rightarrow> (string \<times> json) list" where
  "attestation_dict a =
     [(''status'', JStr (attestation_value (at_status a))),
      (''candidate_commit'', opt_json JStr (at_candidate_commit a)),
      (''path_count'', JInt (int (at_path_count a))), (''paths'', JList (map JStr (at_paths a))),
      (''paths_digest'', opt_json JStr (at_paths_digest a)),
      (''paths_truncated'', JBool (at_paths_truncated a)),
      (''path_bytes_truncated'', JBool (at_path_bytes_truncated a)), (''error'', opt_json JStr (at_error a))]"

section \<open>Reserving\<close>

definition bindable :: "EventReservationRecord \<Rightarrow> json" where
  "bindable rec = JObj [(''type'', JStr (kind_value (er_kind rec))), (''reservation_id'', JStr (er_id rec))]"

definition with_condition :: "EventReservationRecord \<Rightarrow> (string \<times> json) list" where
  "with_condition rec = aset ''monitor_condition'' (bindable rec) (entries (event_status_dict rec))"

text \<open>
  The scope of a worker that delivers from a worktree, whose common directory must be the repository it
  names. A path that does not resolve cannot be the common directory, which exists.
\<close>

definition frozen_semantic :: "peer \<Rightarrow> Reservation \<Rightarrow> (string \<times> json) list act" where
  "frozen_semantic P r =
     (case (rsv_kind r, worktree r) of
        (WORKER_TERMINAL, Some wt) \<Rightarrow>
          bindA (gitA (capture_worktree_scope (machine P) wt (py_str (opt_json JStr (baseline_commit r)))
                   (py_str (opt_json JStr (rsv_task_id r))) (allowed_path_prefixes r))) (\<lambda>scope.
          bindA (machineA (askO (Resolve (py_str (opt_json JStr (repository r))))
                   (\<lambda>h. resolve_path (machine P) h (py_str (opt_json JStr (repository r)))))) (\<lambda>repo.
          if repo \<noteq> Some (sc_common_dir scope) then
            failA (Py (ValidationError ''worker reservation repository does not match the Git common directory''))
          else retA (aset ''git_scope'' (scope_dict scope) (reservation_semantic r))))
      | _ \<Rightarrow> retA (reservation_semantic r))"

definition publisher_descriptor :: "EventReservationRecord \<Rightarrow> string \<Rightarrow> json" where
  "publisher_descriptor rec token = JObj
     [(''schema'', JInt 1), (''reservation_id'', JStr (er_id rec)),
      (''kind'', JStr (kind_value (er_kind rec))), (''publish_token'', JStr token)]"

definition producer_of :: "Reservation \<Rightarrow> string option" where
  "producer_of r = (case producer_identity r of
     Some p \<Rightarrow> if p = [] then rsv_task_id r else Some p | None \<Rightarrow> rsv_task_id r)"

text \<open>The identity and the token are new at this call; the token's salt is drawn by the ledger.\<close>

definition freshA :: "(nat \<Rightarrow> string) \<Rightarrow> string act" where
  "freshA source = senseA (\<lambda>t. Inr (source t))"

definition selected_descriptor :: "peer \<Rightarrow> string option \<Rightarrow> string option act" where
  "selected_descriptor P descriptor = (case descriptor of
     None \<Rightarrow> retA None
   | Some path \<Rightarrow> bindA (validate_private_output_path P path) (\<lambda>s. retA (Some s)))"

definition hand_over ::
    "peer \<Rightarrow> string option \<Rightarrow> EventReservationRecord \<Rightarrow> bool \<Rightarrow> string \<Rightarrow> json act" where
  "hand_over P selected rec created token =
     (let response = with_condition rec @ [(''created'', JBool created)] in
      if \<not> created then retA (JObj response)
      else
        let shown = response @ [(''publish_token'', JStr token)] in
        (case selected of
           None \<Rightarrow> retA (JObj shown)
         | Some path \<Rightarrow>
             bindA (atomic_write_json P path (publisher_descriptor rec token) 384) (\<lambda>_.
             retA (JObj (shown @ [(''publisher_descriptor'', JStr path)])))))"

definition reserve_terminal_event :: "peer \<Rightarrow> json \<Rightarrow> string option \<Rightarrow> json act" where
  "reserve_terminal_event P request_value descriptor =
     bindA (selected_descriptor P descriptor) (\<lambda>selected.
     bindA (nowA P) (\<lambda>observed_at.
     bindA (if truthy (jget ''reservation_id'' request_value)
            then retA (py_str (jget ''reservation_id'' request_value)) else freshA (fresh_uuid P)) (\<lambda>rid.
     bindA (pyA (normalize_reservation (digests P)
              (jset ''reservation_id'' (JStr rid) request_value) (jnum observed_at))) (\<lambda>r.
     case producer_of r of
       None \<Rightarrow> failA (Py (ValidationError ''terminal reservation requires a producer identity''))
     | Some producer \<Rightarrow>
         bindA (frozen_semantic P r) (\<lambda>semantic.
         bindA (freshA (fresh_token P)) (\<lambda>token.
         bindA (freshA (fresh_token P)) (\<lambda>salt.
         bindA (ledgerA P (reserve_event (digests P) salt rid (rsv_idempotency_key r) (rsv_kind r) producer
                  (JObj semantic) token (rsv_expires_at r) observed_at)) (\<lambda>(rec, created).
         hand_over P selected rec created token))))))))"

section \<open>Reading and cancelling\<close>

definition event_status :: "peer \<Rightarrow> string \<Rightarrow> json act" where
  "event_status P rid =
     bindA (ledger_nowA P expire_events) (\<lambda>_.
     bindA (readA P (get_event (digests P) rid)) (\<lambda>found.
     case found of
       None \<Rightarrow> failA (Py (ValidationError ''unknown event reservation''))
     | Some rec \<Rightarrow> retA (JObj (with_condition rec))))"

definition preflight_worker_publisher_descriptor ::
    "peer \<Rightarrow> payload_env \<Rightarrow> string \<Rightarrow> string \<Rightarrow> json act" where
  "preflight_worker_publisher_descriptor P F path task =
     bindA (pyA (load_worker_publisher_descriptor F path)) (\<lambda>(rid, token).
     bindA (readA P (verify_event_publish_token (digests P) rid token)) (\<lambda>rec.
     bindA (unlessA (jget ''producer_task_id'' (er_semantic rec) \<noteq> JStr task)
       (Py (ValidationError ''worker publisher producer task identity does not match reservation''))) (\<lambda>_.
     bindA (unlessA (er_kind rec \<noteq> WORKER_TERMINAL)
       (Py (ValidationError ''publisher descriptor reservation kind is invalid''))) (\<lambda>_.
     bindA (unlessA (er_state rec \<notin> {RES_RESERVED, RES_BOUND})
       (Py (ValidationError ''worker publisher reservation is not live''))) (\<lambda>_.
     retA (JObj [(''compatible'', JBool True), (''reservation_id'', JStr (er_id rec)),
       (''kind'', JStr (kind_value (er_kind rec))), (''producer_task_id'', JStr task),
       (''token_fingerprint'', JStr (take 12 (er_digest rec)))]))))))"

definition cancel_terminal_event :: "peer \<Rightarrow> string \<Rightarrow> json act" where
  "cancel_terminal_event P rid =
     bindA (ledger_nowA P (cancel_event (digests P) rid)) (\<lambda>rec. retA (event_status_dict rec))"

section \<open>Publishing\<close>

text \<open>The ledger stamps the validated heartbeat with the same time again, which changes nothing.\<close>

definition service_publish_heartbeat :: "peer \<Rightarrow> string \<Rightarrow> string \<Rightarrow> json \<Rightarrow> json act" where
  "service_publish_heartbeat P rid token heartbeat =
     bindA (nowA P) (\<lambda>now.
     bindA (pyA (normalize_heartbeat (digests P) heartbeat (jnum now))) (\<lambda>_.
     bindA (ledgerA P (publish_event_heartbeat (digests P) rid token heartbeat now)) (\<lambda>rec.
     retA (event_status_dict rec))))"

text \<open>A worker's event must name the task frozen with its reservation; the scope frozen with it, if any.\<close>

definition frozen_scope :: "EventReservationRecord \<Rightarrow> TerminalEvent \<Rightarrow> json option res" where
  "frozen_scope rec ev = (case ev of
     CommandEvent _ \<Rightarrow> Inr None
   | WorkerEvent w \<Rightarrow>
       let raw = jget ''git_scope'' (er_semantic rec);
           task = jget ''producer_task_id'' (if is_obj raw then raw else er_semantic rec) in
       if task \<noteq> JStr (wrk_task_id w) then
         raise_validation ''worker terminal producer task identity does not match the frozen reservation scope''
       else Inr (if is_obj raw then Some raw else None))"

definition delivered :: "TerminalEvent \<Rightarrow> string option option" where
  "delivered ev = (case ev of
     WorkerEvent w \<Rightarrow> if wrk_outcome w = DELIVERED then Some (candidate_oid w) else None
   | _ \<Rightarrow> None)"

text \<open>\<open>tuple(value)\<close> of the stored list of texts.\<close>

definition text_items :: "json \<Rightarrow> string list res" where
  "text_items v = (case v of JList vs \<Rightarrow> Inr (map py_str vs) | _ \<Rightarrow> Inl TypeError)"

definition scope_from_dict :: "json \<Rightarrow> GitDeliveryScope res" where
  "scope_from_dict v =
     bindE (jindex ''worktree_root'' v) (\<lambda>root_dir. bindE (jindex ''common_dir'' v) (\<lambda>common.
     bindE (jindex ''object_format'' v) (\<lambda>fmt. bindE (jindex ''baseline_commit'' v) (\<lambda>base.
     bindE (jindex ''producer_task_id'' v) (\<lambda>task. bindE (jindex ''allowed_prefixes'' v) (\<lambda>ps.
     bindE (text_items ps) (\<lambda>prefixes.
     Inr \<lparr>sc_worktree_root = py_str root_dir, sc_common_dir = py_str common, sc_object_format = py_str fmt,
          sc_baseline_commit = py_str base, sc_producer_task_id = py_str task,
          sc_allowed_prefixes = prefixes\<rparr>)))))))"

definition attest_delivery :: "peer \<Rightarrow> json option \<Rightarrow> string option \<Rightarrow> json act" where
  "attest_delivery P scope candidate = (case scope of
     None \<Rightarrow> failA (Py (ValidationError ''delivered worker terminal requires complete frozen delivery scope''))
   | Some v \<Rightarrow>
       bindA (pyA (scope_from_dict v)) (\<lambda>sc.
       bindA (machineA (\<lambda>h. case attest_candidate (machine P) (digests P) sc
                                    (py_str (opt_json JStr candidate)) h of (a, h') \<Rightarrow> (Inr a, h'))) (\<lambda>a.
       retA (JObj (attestation_dict a @ [(''lead_accepted'', JBool False)])))))"

text \<open>
  The candidate is attested before the ledger checks the capability: a caller without the token makes
  the service run Git.
\<close>

definition service_publish_terminal :: "peer \<Rightarrow> string \<Rightarrow> string \<Rightarrow> json \<Rightarrow> json act" where
  "service_publish_terminal P rid token event =
     bindA (readA P (get_event (digests P) rid)) (\<lambda>found.
     case found of
       None \<Rightarrow> failA (Py (ValidationError ''unknown event reservation''))
     | Some rec \<Rightarrow>
         bindA (nowA P) (\<lambda>now.
         bindA (pyA (normalize_terminal_event (digests P) (EventMapping event) (Some (er_kind rec)) (jnum now))) (\<lambda>ev.
         bindA (pyA (frozen_scope rec ev)) (\<lambda>scope.
         bindA (case delivered ev of
                  Some candidate \<Rightarrow>
                    if er_terminal rec = JNull then attest_delivery P scope candidate else retA JNull
                | None \<Rightarrow> retA JNull) (\<lambda>attestation.
         bindA (ledgerA P (publish_terminal_event (digests P) rid token (EventValue ev) attestation now)) (\<lambda>published.
         retA (event_status_dict published)))))))"

end
