(* ===== verification/Service_Register.thy ===== *)
theory Service_Register
  imports Service_Events
begin

text \<open>
  Arming a monitor (\<open>service.py\<close>, lines 358 to 377, 437 to 771 and 953 to 1534): the goal-independent wait
  with its bounded preparation, the legacy registration of a paused goal, and the pause protocol of
  \<open>defer\<close>. A condition is an object; an expiry of \<open>register\<close> is a finite number or not a number at all, which
  that entry does not check and the two others do.
\<close>

section \<open>Checks shared by the entries\<close>

abbreviation invalidA :: "string \<Rightarrow> 'a act" where
  "invalidA m \<equiv> failA (Py (ValidationError m))"

abbreviation requireA :: "bool \<Rightarrow> string \<Rightarrow> unit act" where
  "requireA holds m \<equiv> unlessA (\<not> holds) (Py (ValidationError m))"

text \<open>A number above zero, finite where the entry asks for it.\<close>

definition positive_seconds :: "json \<Rightarrow> string \<Rightarrow> rat res" where
  "positive_seconds v msg =
     (if \<not> is_number v then raise_validation msg
      else bindE (py_float v) (\<lambda>f. case f of
          Fin r \<Rightarrow> if r \<le> 0 then raise_validation msg else Inr r
        | _ \<Rightarrow> raise_validation msg))"

definition validate_rearm_of :: "peer \<Rightarrow> string option \<Rightarrow> unit act" where
  "validate_rearm_of P rearm = (case rearm of
     None \<Rightarrow> retA ()
   | Some mid \<Rightarrow>
       bindA (requireA (mid \<noteq> []) ''rearm_of must be a non-empty monitor id when provided'') (\<lambda>_.
       bindA (readA P (get_monitor mid)) (\<lambda>referenced.
       case referenced of
         None \<Rightarrow> invalidA ''rearm_of names an unknown monitor''
       | Some rec \<Rightarrow>
           requireA (is_terminal (mon_state rec) \<or> mon_state rec = QUEUE_ACCEPTED)
             ''rearm_of must name a monitor with a consumed trigger and delivery attempt'')))"

definition reject_self_wait :: "json \<Rightarrow> string \<Rightarrow> string list act" where
  "reject_self_wait condition thread =
     (let children = thread_idle_targets condition in
      bindA (requireA (thread \<notin> set children) ''thread_idle must not name the monitor's own target thread'')
        (\<lambda>_. retA children))"

definition binding_of :: "EventReservationRecord \<Rightarrow> string \<times> string" where
  "binding_of e = (er_id e, kind_value (er_kind e))"

text \<open>A keyed replay whose stored or bound reservations are not those of the request fails closed.\<close>

definition validate_event_replay :: "peer \<Rightarrow> MonitorRecord \<Rightarrow> json \<Rightarrow> unit act" where
  "validate_event_replay P rec condition =
     bindA (pyA (event_condition_bindings condition)) (\<lambda>requested.
     tryA (bindA (pyA (event_condition_bindings (mon_condition rec))) (\<lambda>stored.
           bindA (readA P (events_for_monitor (digests P) (mon_id rec))) (\<lambda>events.
           retA (stored, map binding_of events))))
       (\<lambda>e. case e of
          Py err \<Rightarrow>
            if binding_exception err
            then invalidA ''idempotent replay cannot validate the stored event binding set'' else failA e
        | App _ _ \<Rightarrow> failA e)
       (\<lambda>(stored, actual).
          requireA (requested = stored \<and> actual = stored)
            ''idempotent replay requires the exact event binding set''))"

definition different_semantics :: string where
  "different_semantics = ''idempotency key already belongs to a monitor with different semantics''"

definition no_event_daemon :: string where
  "no_event_daemon = ''event monitor requires an exact event-capable daemon before arming''"

definition prepareA ::
    "peer \<Rightarrow> ObserverContext \<Rightarrow> string \<Rightarrow> string \<Rightarrow> json \<Rightarrow> json act" where
  "prepareA P C mid token condition = machineA (prepare_condition C (machine P) mid token condition)"

text \<open>A result that an \<open>assert\<close> says is there.\<close>

definition assertA :: "'a option \<Rightarrow> 'a act" where
  "assertA found = (case found of None \<Rightarrow> failA (Py (RuntimeError ''assertion failed'')) | Some x \<Rightarrow> retA x)"

text \<open>\<open>expires_at\<close> and \<open>now\<close> are two readings of the clock.\<close>

definition createA :: "peer \<Rightarrow> rat \<Rightarrow> (rat \<Rightarrow> registration) \<Rightarrow> (MonitorRecord \<times> bool) act" where
  "createA P seconds g =
     bindA (nowA P) (\<lambda>t0.
     bindA (nowA P) (\<lambda>now. ledgerA P (create_or_get (digests P) (g (t0 + seconds)) now)))"

section \<open>Reads before arming\<close>

definition PREARM_REGISTRATION_BUDGET_SECONDS :: rat where "PREARM_REGISTRATION_BUDGET_SECONDS = 25"

text \<open>The method an unsupported-method error names.\<close>

definition unsupported_method :: "string \<Rightarrow> string" where
  "unsupported_method msg = drop (length ''app-server does not support required method: '') msg"

definition prearm_failure :: "string \<Rightarrow> app_kind \<Rightarrow> string \<Rightarrow> bool \<Rightarrow> PreArmRegistrationError" where
  "prearm_failure st kind msg attempted =
     \<lparr>stage = st,
      error_kind = (case kind of
        AppServerUnsupportedMethodError \<Rightarrow> ''unsupported_condition''
      | AppServerTransportError \<Rightarrow> ''transport_failure''
      | AppServerRejectedError \<Rightarrow> ''app_server_rejected''
      | AppServerError \<Rightarrow> ''invalid_observation''),
      prearm_error = py_take 512 msg, safe_to_retry = (kind = AppServerTransportError),
      retry_attempted = attempted,
      required_capability =
        (if kind = AppServerUnsupportedMethodError then Some (unsupported_method msg) else None),
      budget_seconds = None\<rparr>"

definition prearm_timeout :: "string \<Rightarrow> bool \<Rightarrow> PreArmRegistrationError" where
  "prearm_timeout st attempted =
     \<lparr>stage = st, error_kind = ''timeout'', prearm_error = ''pre-arm registration budget expired'',
      safe_to_retry = True, retry_attempted = attempted, required_capability = None,
      budget_seconds = Some PREARM_REGISTRATION_BUDGET_SECONDS\<rparr>"

definition attemptA :: "'a act \<Rightarrow> (svc_error + 'a) act" where
  "attemptA m w = (case m w of (r, w') \<Rightarrow> (Inr r, w'))"

text \<open>
  One attempt, ended by the timer or by its outcome; \<open>again\<close> is the next iteration. A cancelled attempt is
  modelled with everything it would have sent.
\<close>

definition prearm_attempt ::
    "peer \<Rightarrow> string \<Rightarrow> rat \<Rightarrow> bool \<Rightarrow> 'a act \<Rightarrow> (PreArmRegistrationError + 'a \<times> bool) act
     \<Rightarrow> (PreArmRegistrationError + 'a \<times> bool) act" where
  "prearm_attempt P st deadline attempted body again =
     bindA (monotonicA P) (\<lambda>m.
     if deadline - m \<le> 0 then retA (Inl (prearm_timeout st attempted))
     else
       bindA (attemptA (with_client P body)) (\<lambda>outcome.
       bindA (senseA (\<lambda>t. Inr (timer_fires P t))) (\<lambda>fired.
       if fired then retA (Inl (prearm_timeout st attempted))
       else case outcome of
           Inr x \<Rightarrow> retA (Inr (x, attempted))
         | Inl (App kind msg) \<Rightarrow>
             if kind = AppServerTransportError \<and> \<not> attempted then again
             else retA (Inl (prearm_failure st kind msg attempted))
         | Inl (Py e) \<Rightarrow> failA (Py e))))"

text \<open>The loop runs a third time never: the second attempt has \<open>attempted\<close> set.\<close>

definition prearm_read ::
    "peer \<Rightarrow> string \<Rightarrow> rat \<Rightarrow> bool \<Rightarrow> 'a act \<Rightarrow> (PreArmRegistrationError + 'a \<times> bool) act" where
  "prearm_read P st deadline attempted body =
     prearm_attempt P st deadline attempted body
       (prearm_attempt P st deadline True body (failA (Py (RuntimeError ''unreachable''))))"

definition prearm_then ::
    "(PreArmRegistrationError + 'a) act \<Rightarrow> ('a \<Rightarrow> (PreArmRegistrationError + 'b) act)
     \<Rightarrow> (PreArmRegistrationError + 'b) act" where
  "prearm_then m f = bindA m (\<lambda>r. case r of Inl e \<Rightarrow> retA (Inl e) | Inr x \<Rightarrow> f x)"

section \<open>The goal-independent wait\<close>

definition wait_semantic :: "string \<Rightarrow> json \<Rightarrow> rat \<Rightarrow> string option \<Rightarrow> (string \<times> json) list" where
  "wait_semantic thread condition seconds rearm =
     [(''thread_id'', JStr thread), (''condition'', condition), (''expires_in_seconds'', jnum seconds)]
     @ (case rearm of None \<Rightarrow> [] | Some m \<Rightarrow> [(''rearm_of'', JStr m)])"

text \<open>What the resolution of the target gave: the delivery thread and the chain to it.\<close>

definition resolved_target :: "string \<Rightarrow> json \<Rightarrow> (string \<times> string list) act" where
  "resolved_target thread capability =
     bindA (requireA (jget ''origin_thread_id'' capability = JStr thread)
       ''thread delivery resolved a different origin'') (\<lambda>_.
     let target = jget ''delivery_thread_id'' capability; chain = list_items (jget ''relay_chain'' capability) in
     bindA (requireA (nonempty_str target \<and> chain \<noteq> [] \<and> list_all nonempty_str chain)
       ''thread delivery resolution is malformed'') (\<lambda>_.
     retA (py_str target, map py_str chain)))"

definition prepare_observations ::
    "peer \<Rightarrow> string list \<Rightarrow> native_key list \<Rightarrow> ((string \<times> json) list \<times> (native_key \<times> json) list) act" where
  "prepare_observations P children natives =
     bindA (read_thread_observations P True children) (\<lambda>threads.
     bindA (read_native_worker_observations P natives) (\<lambda>observed. retA (threads, observed)))"

definition thread_registration ::
    "string \<Rightarrow> string \<Rightarrow> (string \<times> json) list \<Rightarrow> json \<Rightarrow> json \<Rightarrow> string option \<Rightarrow> (string \<times> string) list
     \<Rightarrow> rat \<Rightarrow> registration" where
  "thread_registration mid key semantic delivery condition rearm bindings expires_at =
     \<lparr>reg_id = mid, reg_ikey = Some key, reg_semantic = JObj (semantic @ [(''delivery'', delivery)]),
      reg_target = None, reg_condition = condition, reg_heuristic = False, reg_expires_at = expires_at,
      reg_delivery = delivery, reg_mode = LEGACY, reg_idle_barrier = False, reg_state = REGISTERING,
      reg_rearm_of = rearm, reg_bindings = bindings\<rparr>"

text \<open>The last check before arming: the daemon must still be able to deliver.\<close>

definition arm_delivery :: "peer \<Rightarrow> MonitorRecord \<Rightarrow> MonitorRecord act" where
  "arm_delivery P rec =
     bindA (senseA (delivery_readiness P)) (\<lambda>ready.
     if \<not> ready then
       bindA (delivery_daemon_unready_reason P) (\<lambda>reason.
       bindA (outcomeA P (mon_id rec) REGISTERING DAEMON_UNAVAILABLE
         [(''kind'', JStr ''delivery_daemon_mismatch_before_arm''),
          (''reason'', JStr (case reason of None \<Rightarrow> ''readiness_changed'' | Some s \<Rightarrow> s))]) assertA)
     else bindA (ledger_nowA P (arm (mon_id rec))) assertA)"

definition start_if_armed :: "peer \<Rightarrow> bool \<Rightarrow> MonitorRecord \<Rightarrow> unit act" where
  "start_if_armed P start rec =
     (if start \<and> mon_state rec = ARMED then bindA (senseA (daemon_starter P)) (\<lambda>_. retA ()) else retA ())"

definition replay_wait ::
    "peer \<Rightarrow> (string \<times> json) list \<Rightarrow> json \<Rightarrow> MonitorRecord \<Rightarrow> json act" where
  "replay_wait P semantic condition existing =
     bindA (pyA (delivery_kind existing)) (\<lambda>kind.
     bindA (requireA (kind = THREAD
         \<and> json_eq (mon_semantic existing) (JObj (semantic @ [(''delivery'', mon_delivery existing)])))
       different_semantics) (\<lambda>_.
     bindA (validate_event_replay P existing condition) (\<lambda>_.
     registration_response P existing)))"

definition create_wait ::
    "peer \<Rightarrow> string \<Rightarrow> string \<Rightarrow> (string \<times> json) list \<Rightarrow> json \<Rightarrow> json \<Rightarrow> ObserverContext \<Rightarrow> rat
     \<Rightarrow> string option \<Rightarrow> bool \<Rightarrow> rat \<Rightarrow> bool \<Rightarrow> (PreArmRegistrationError + json) act" where
  "create_wait P mid key semantic delivery condition C seconds rearm start deadline attempted =
     bindA (monotonicA P) (\<lambda>m.
     if deadline \<le> m then retA (Inl (prearm_timeout ''prepare_condition'' attempted))
     else
       bindA (freshA (fresh_token P)) (\<lambda>token.
       bindA (prepareA P C mid token condition) (\<lambda>prepared.
       bindA (pyA (event_condition_bindings prepared)) (\<lambda>bindings.
       bindA (monotonicA P) (\<lambda>m2.
       if deadline \<le> m2 then retA (Inl (prearm_timeout ''prepare_condition'' attempted))
       else
         bindA (createA P seconds (thread_registration mid key semantic delivery prepared rearm bindings))
           (\<lambda>(rec, _).
         bindA (arm_delivery P rec) (\<lambda>armed.
         bindA (start_if_armed P start armed) (\<lambda>_.
         bindA (registration_response P armed) (\<lambda>response. retA (Inr response))))))))))"

definition prepare_wait ::
    "peer \<Rightarrow> string \<Rightarrow> bool \<Rightarrow> json \<Rightarrow> rat \<Rightarrow> string \<Rightarrow> (string \<times> json) list \<Rightarrow> string option \<Rightarrow> bool
     \<Rightarrow> rat \<Rightarrow> json \<times> bool \<Rightarrow> (PreArmRegistrationError + json) act" where
  "prepare_wait P thread trusted condition seconds key semantic rearm start deadline resolved =
     bindA (resolved_target thread (fst resolved)) (\<lambda>(target, chain).
     bindA (freshA (fresh_uuid P)) (\<lambda>mid.
     bindA (pyA (build_thread_delivery (digests P) (name_uuid P) mid target (fst resolved) (Some thread)
              (Some chain) (if trusted then ''trusted_mcp_caller'' else ''explicit_local_target''))) (\<lambda>delivery.
     bindA (reject_self_wait condition target) (\<lambda>children.
     bindA (pyA (native_worker_observation_requests (Some target) condition)) (\<lambda>natives.
     bindA (requireA (natives = [] \<or> trusted)
       ''native_worker_terminal requires the trusted current root binding'') (\<lambda>_.
     prearm_then (prearm_read P ''prepare_condition'' deadline (snd resolved)
                    (prepare_observations P children natives)) (\<lambda>((threads, observed), attempted).
     create_wait P mid key semantic delivery condition
       ((observer_context P)\<lparr>native_root_thread_id := Some target, thread_observations := threads,
                             native_observations := observed\<rparr>)
       seconds rearm start deadline attempted)))))))"

definition wait_ready :: "peer \<Rightarrow> json \<Rightarrow> unit act" where
  "wait_ready P condition =
     bindA (senseA (delivery_readiness P)) (\<lambda>ready.
     if \<not> ready then
       bindA (delivery_daemon_unready_reason P) (\<lambda>_.
       invalidA ''thread delivery requires an exact delivery-capable daemon before arming'')
     else
       bindA (pyA (event_condition_bindings condition)) (\<lambda>bindings.
       bindA (if bindings = [] then retA True else senseA (event_readiness P)) (\<lambda>events_ready.
       requireA events_ready no_event_daemon)))"

definition wait_for_event ::
    "peer \<Rightarrow> string \<Rightarrow> json \<Rightarrow> json \<Rightarrow> string \<Rightarrow> string option \<Rightarrow> bool \<Rightarrow> bool
     \<Rightarrow> (PreArmRegistrationError + json) act" where
  "wait_for_event P thread condition expires key rearm start trusted =
     bindA (requireA (thread \<noteq> []) ''thread_id must be non-empty'') (\<lambda>_.
     bindA (requireA (key \<noteq> []) ''idempotency_key is required for thread delivery'') (\<lambda>_.
     bindA (pyA (positive_seconds expires ''expires_in_seconds must be finite and greater than zero'')) (\<lambda>seconds.
     bindA (validate_rearm_of P rearm) (\<lambda>_.
     let semantic = wait_semantic thread condition seconds rearm in
     bindA (readA P (get_by_idempotency_key key)) (\<lambda>existing.
     case existing of
       Some rec \<Rightarrow> bindA (replay_wait P semantic condition rec) (\<lambda>response. retA (Inr response))
     | None \<Rightarrow>
         bindA (wait_ready P condition) (\<lambda>_.
         bindA (monotonicA P) (\<lambda>m.
         let deadline = m + PREARM_REGISTRATION_BUDGET_SECONDS in
         prearm_then (prearm_read P ''resolve_delivery_target'' deadline False
                        (resolve_thread_delivery P thread))
           (prepare_wait P thread trusted condition seconds key semantic rearm start deadline))))))))"

definition wait_for_current_event ::
    "peer \<Rightarrow> string \<Rightarrow> json \<Rightarrow> json \<Rightarrow> string \<Rightarrow> string option \<Rightarrow> bool
     \<Rightarrow> (PreArmRegistrationError + json) act" where
  "wait_for_current_event P thread condition expires key rearm start =
     wait_for_event P thread condition expires key rearm start True"

section \<open>Installed capabilities\<close>

definition core_unknown :: "string \<Rightarrow> json" where
  "core_unknown reason = JObj [(''native_worker_observation'', probe_report ''indeterminate'' reason)]"

definition runtime_capabilities :: "peer \<Rightarrow> json act" where
  "runtime_capabilities P =
     bindA (delivery_daemon_unready_reason P) (\<lambda>reason.
     bindA (catchA
       (with_client P (bindA (native_worker_observation_capability P) (\<lambda>probe. \<lambda>w.
          retA (JObj [(''native_worker_observation'', probe),
            (''server'', if is_obj (server_info w) then server_info w else JObj [])]) w)))
       (\<lambda>e. case e of
          App AppServerTransportError _ \<Rightarrow> retA (core_unknown ''transport_failure'')
        | App _ _ \<Rightarrow> retA (core_unknown ''invalid_probe_response'')
        | Py _ \<Rightarrow> failA e)) (\<lambda>core.
     retA (JObj [(''plugin'', JObj [(''source_identity'', JStr (source_identity (runtime P)))]),
       (''daemon'', JObj [(''delivery_ready'', JBool (reason = None)),
                          (''reason'', opt_json JStr reason)]),
       (''core'', core)])))"

end
