(* ===== verification/Service_Goals.thy ===== *)
theory Service_Goals
  imports Service_Register
begin

text \<open>
  Attaching a monitor to a goal (\<open>service.py\<close>, lines 953 to 980 and 1111 to 1534): the registration of a
  paused goal, and the pause protocol of \<open>defer\<close>, which sends at most one pause request and arms only what
  it has observed paused.
\<close>

section \<open>Eligibility\<close>

definition registration_eligible :: "TargetObservation \<Rightarrow> bool" where
  "registration_eligible ob \<longleftrightarrow> is_loaded ob \<and> goal_status ob = Some ''paused'' \<and> obs_goal ob \<noteq> None"

definition defer_eligible :: "TargetObservation \<Rightarrow> bool" where
  "defer_eligible ob \<longleftrightarrow>
     is_loaded ob \<and> goal_status ob \<in> {Some ''active'', Some ''paused''} \<and> obs_goal ob \<noteq> None"

definition same_guard :: "TargetObservation \<Rightarrow> TargetObservation \<Rightarrow> bool" where
  "same_guard a b \<longleftrightarrow>
     obs_thread_id a = obs_thread_id b \<and> is_loaded a \<and> is_loaded b
     \<and> goal_status a = Some ''paused'' \<and> goal_status b = Some ''paused''
     \<and> obs_goal a \<noteq> None \<and> obs_goal a = obs_goal b"

definition guard_for :: "string \<Rightarrow> GoalMarker \<Rightarrow> TargetGuard" where
  "guard_for thread goal = \<lparr>guard_thread_id = thread, guard_goal = goal\<rparr>"

definition goal_semantic ::
    "TargetGuard \<Rightarrow> json \<Rightarrow> rat \<Rightarrow> bool \<Rightarrow> string option \<Rightarrow> json" where
  "goal_semantic guard condition seconds heuristic rearm = JObj
     ([(''thread_id'', JStr (guard_thread_id guard)), (''guard'', guard_as_dict guard),
       (''condition'', condition), (''expires_in_seconds'', jnum seconds),
       (''allow_heuristic_continuation'', JBool heuristic)]
      @ (case rearm of None \<Rightarrow> [] | Some m \<Rightarrow> [(''rearm_of'', JStr m)]))"

text \<open>The loaded target's goal, or the error that tells the caller not to make one.\<close>

definition loaded_goal :: "string \<Rightarrow> TargetObservation \<Rightarrow> GoalMarker act" where
  "loaded_goal msg ob = (case (is_loaded ob, obs_goal ob) of
     (True, Some goal) \<Rightarrow> retA goal | _ \<Rightarrow> invalidA msg)"

text \<open>A keyed replay: the same mode, meaning and bindings.\<close>

definition replay_goal ::
    "peer \<Rightarrow> MonitorMode \<Rightarrow> json \<Rightarrow> json \<Rightarrow> MonitorRecord \<Rightarrow> unit act" where
  "replay_goal P mode semantic condition existing =
     bindA (requireA (mon_mode existing = mode \<and> json_eq (mon_semantic existing) semantic)
       different_semantics) (\<lambda>_.
     validate_event_replay P existing condition)"

section \<open>Registering a paused goal\<close>

definition goal_registration ::
    "string \<Rightarrow> string option \<Rightarrow> json \<Rightarrow> TargetGuard \<Rightarrow> json \<Rightarrow> bool \<Rightarrow> MonitorMode \<Rightarrow> MonitorState
     \<Rightarrow> string option \<Rightarrow> (string \<times> string) list \<Rightarrow> rat \<Rightarrow> registration" where
  "goal_registration mid key semantic guard condition heuristic mode st rearm bindings expires_at =
     \<lparr>reg_id = mid, reg_ikey = key, reg_semantic = semantic, reg_target = Some guard,
      reg_condition = condition, reg_heuristic = heuristic, reg_expires_at = expires_at,
      reg_delivery = JNull, reg_mode = mode, reg_idle_barrier = (mode = DEFERRED), reg_state = st,
      reg_rearm_of = rearm, reg_bindings = bindings\<rparr>"

text \<open>The second reading of the target, after the intent is durable.\<close>

definition arm_goal ::
    "peer \<Rightarrow> string \<Rightarrow> TargetObservation \<Rightarrow> (string \<times> string) list \<Rightarrow> MonitorRecord \<Rightarrow> MonitorRecord act" where
  "arm_goal P thread first bindings rec =
     bindA (read_observation P thread True) (\<lambda>second.
     if same_guard first second then
       bindA (if bindings = [] then retA True else senseA (event_readiness P)) (\<lambda>ready.
       if \<not> ready then
         bindA (outcomeA P (mon_id rec) REGISTERING DAEMON_UNAVAILABLE
           [(''kind'', JStr ''event_daemon_mismatch_before_arm'')]) assertA
       else bindA (ledger_nowA P (arm (mon_id rec))) assertA)
     else
       bindA (outcomeA P (mon_id rec) REGISTERING SUPERSEDED
         [(''kind'', JStr ''registration_guard_changed''), (''first'', observation_summary first),
          (''second'', observation_summary second)]) assertA)"

text \<open>The identities, the observations and the condition of a new goal monitor.\<close>

definition prepared_goal ::
    "peer \<Rightarrow> json \<Rightarrow> string list \<Rightarrow> (string \<times> json \<times> (string \<times> string) list) act" where
  "prepared_goal P condition children =
     bindA (freshA (fresh_uuid P)) (\<lambda>mid.
     bindA (freshA (fresh_token P)) (\<lambda>token.
     bindA (read_thread_observations P False children) (\<lambda>threads.
     bindA (prepareA P (observed_context P threads []) mid token condition) (\<lambda>prepared.
     bindA (pyA (event_condition_bindings prepared)) (\<lambda>bindings. retA (mid, prepared, bindings))))))"

definition register_new ::
    "peer \<Rightarrow> string \<Rightarrow> json \<Rightarrow> rat \<Rightarrow> bool \<Rightarrow> string option \<Rightarrow> string option \<Rightarrow> TargetObservation
     \<Rightarrow> TargetGuard \<Rightarrow> string list \<Rightarrow> MonitorRecord act" where
  "register_new P thread condition seconds heuristic key rearm first guard children =
     bindA (prepared_goal P condition children) (\<lambda>(mid, prepared, bindings).
     bindA (createA P seconds (goal_registration mid key
              (goal_semantic guard condition seconds heuristic rearm) guard prepared heuristic LEGACY
              REGISTERING rearm bindings)) (\<lambda>(rec, created).
     if created then arm_goal P thread first bindings rec else retA rec))"

text \<open>
  The type test of \<open>register\<close>, and its conversion, later, to the float that is stored. A float that is not
  finite passes the test here, unlike in the two other entries; it has no stored form in the model, which
  stops at the conversion.
\<close>

definition above_zero :: "json \<Rightarrow> bool" where
  "above_zero v \<longleftrightarrow> (case v of
     JInt i \<Rightarrow> 0 < i | JFloat f \<Rightarrow> \<not> pf_le f (Fin 0) | _ \<Rightarrow> False)"

definition stored_seconds :: "json \<Rightarrow> rat res" where
  "stored_seconds v = bindE (py_float v) (\<lambda>f. case f of Fin r \<Rightarrow> Inr r | _ \<Rightarrow> Inl ValueError)"

definition register_session ::
    "peer \<Rightarrow> string \<Rightarrow> json \<Rightarrow> json \<Rightarrow> bool \<Rightarrow> string option \<Rightarrow> string option \<Rightarrow> MonitorRecord act" where
  "register_session P thread condition expires heuristic key rearm =
     bindA (read_observation P thread True) (\<lambda>first.
     bindA (loaded_goal ''target must be locally loaded and own a non-null goal. Do not create a goal to satisfy this precondition.'' first) (\<lambda>goal.
     bindA (requireA (registration_eligible first)
       ''target must be locally loaded and own a paused goal at registration'') (\<lambda>_.
     bindA (reject_self_wait condition thread) (\<lambda>children.
     let guard = guard_for thread goal in
     bindA (pyA (stored_seconds expires)) (\<lambda>seconds.
     bindA (case key of None \<Rightarrow> retA None | Some k \<Rightarrow> readA P (get_by_idempotency_key k)) (\<lambda>existing.
     case existing of
       Some rec \<Rightarrow>
         bindA (replay_goal P LEGACY (goal_semantic guard condition seconds heuristic rearm) condition rec)
           (\<lambda>_. retA rec)
     | None \<Rightarrow> register_new P thread condition seconds heuristic key rearm first guard children))))))"

definition register ::
    "peer \<Rightarrow> string \<Rightarrow> json \<Rightarrow> json \<Rightarrow> bool \<Rightarrow> string option \<Rightarrow> string option \<Rightarrow> bool \<Rightarrow> json act" where
  "register P thread condition expires heuristic key rearm start =
     bindA (requireA (thread \<noteq> []) ''thread_id must be non-empty'') (\<lambda>_.
     bindA (requireA (above_zero expires) ''expires_in_seconds must be greater than zero'') (\<lambda>_.
     bindA (requireA (key \<noteq> Some []) ''idempotency_key must be non-empty when provided'') (\<lambda>_.
     bindA (validate_rearm_of P rearm) (\<lambda>_.
     bindA (pyA (event_condition_bindings condition)) (\<lambda>bindings.
     bindA (if bindings = [] then retA True else senseA (event_readiness P)) (\<lambda>ready.
     bindA (requireA ready no_event_daemon) (\<lambda>_.
     bindA (with_client P (register_session P thread condition expires heuristic key rearm)) (\<lambda>rec.
     bindA (start_if_armed P start rec) (\<lambda>_.
     registration_response P rec)))))))))"

section \<open>The pause protocol\<close>

text \<open>How a protocol ends: the record, and whether the caller is told to end its turn.\<close>

type_synonym pause_end = "MonitorRecord \<times> bool"

definition endsA :: "bool \<Rightarrow> MonitorRecord option \<Rightarrow> pause_end act" where
  "endsA armed found = bindA (assertA found) (\<lambda>rec. retA (rec, armed))"

text \<open>A transition of a row the protocol created; if another process moved it, its record.\<close>

definition settled_or_current :: "peer \<Rightarrow> string \<Rightarrow> MonitorRecord option \<Rightarrow> pause_end act" where
  "settled_or_current P mid found = (case found of
     Some rec \<Rightarrow> retA (rec, False)
   | None \<Rightarrow> bindA (readA P (get_monitor mid)) (endsA False))"

definition validate_pause_observation ::
    "peer \<Rightarrow> MonitorRecord \<Rightarrow> TargetObservation \<Rightarrow> string \<Rightarrow> MonitorRecord option act" where
  "validate_pause_observation P rec ob source = (case mon_guard rec of
     None \<Rightarrow> failA (Py (RuntimeError ''assertion failed''))
   | Some guard \<Rightarrow>
       if \<not> is_loaded ob then
         outcomeA P (mon_id rec) PAUSING PAUSE_UNCERTAIN
           [(''kind'', JStr (''pause_'' @ source @ ''_unloaded'')), (source, observation_summary ob)]
       else if obs_thread_id ob \<noteq> guard_thread_id guard \<or> obs_goal ob \<noteq> Some (guard_goal guard) then
         outcomeA P (mon_id rec) PAUSING MIS_TARGETED_PAUSE
           [(''kind'', JStr ''mis_targeted_pause''), (''source'', JStr source),
            (''captured_goal'', goal_as_dict (guard_goal guard)), (source, observation_summary ob)]
       else if goal_status ob \<noteq> Some ''paused'' then
         outcomeA P (mon_id rec) PAUSING PAUSE_REJECTED
           [(''kind'', JStr ''pause_rejected''), (''source'', JStr source),
            (''returned_status'', opt_json JStr (goal_status ob)), (source, observation_summary ob)]
       else retA None)"

definition pause_uncertain :: "peer \<Rightarrow> string \<Rightarrow> string \<Rightarrow> svc_error \<Rightarrow> pause_end act" where
  "pause_uncertain P mid kind e =
     bindA (outcomeA P mid PAUSING PAUSE_UNCERTAIN
       [(''kind'', JStr kind), (''error'', failure_text e)]) (endsA False)"

text \<open>After the reply to the pause: confirmed by a second reading, then armed.\<close>

definition arm_confirmed :: "peer \<Rightarrow> MonitorRecord \<Rightarrow> TargetObservation \<Rightarrow> pause_end act" where
  "arm_confirmed P rec confirmed =
     bindA (validate_pause_observation P rec confirmed ''confirmation'') (\<lambda>ended.
     case ended of
       Some r \<Rightarrow> retA (r, False)
     | None \<Rightarrow>
         bindA (ledger_timesA P (arm_deferred (mon_id rec) (observation_summary confirmed))) (endsA True))"

definition confirm_pause :: "peer \<Rightarrow> string \<Rightarrow> MonitorRecord \<Rightarrow> TargetObservation \<Rightarrow> pause_end act" where
  "confirm_pause P thread rec returned =
     bindA (validate_pause_observation P rec returned ''response'') (\<lambda>ended.
     case ended of
       Some r \<Rightarrow> retA (r, False)
     | None \<Rightarrow>
         tryA (read_observation P thread True)
           (pause_uncertain P (mon_id rec) ''pause_reobservation_uncertain'')
           (arm_confirmed P rec))"

text \<open>The only pause request, sent after the row left \<open>DEFER_INTENT\<close> for \<open>PAUSING\<close>.\<close>

definition pause_active :: "peer \<Rightarrow> string \<Rightarrow> MonitorRecord \<Rightarrow> TargetObservation \<Rightarrow> pause_end act" where
  "pause_active P thread rec first =
     bindA (ledger_timesA P (begin_pause (mon_id rec) (observation_summary first))) (\<lambda>pausing.
     if pausing = None then bindA (readA P (get_monitor (mon_id rec))) (endsA False)
     else
       tryA (pause_guarded_goal P thread)
         (pause_uncertain P (mon_id rec) ''pause_send_or_response_uncertain'')
         (confirm_pause P thread rec))"

definition arm_paused :: "peer \<Rightarrow> string \<Rightarrow> MonitorRecord \<Rightarrow> TargetObservation \<Rightarrow> pause_end act" where
  "arm_paused P thread rec first =
     bindA (read_observation P thread True) (\<lambda>confirmed.
     if \<not> same_guard first confirmed then
       bindA (outcomeA P (mon_id rec) DEFER_INTENT SUPERSEDED
         [(''kind'', JStr ''paused_guard_changed''), (''first'', observation_summary first),
          (''second'', observation_summary confirmed)]) (endsA False)
     else
       bindA (ledger_timesA P (arm_paused_deferred (mon_id rec) (observation_summary confirmed))) (endsA True))"

text \<open>Whether a daemon is ready, with the text of the exception that says it is not.\<close>

definition defer_readiness :: "peer \<Rightarrow> (string \<times> string) list \<Rightarrow> (bool \<times> json) act" where
  "defer_readiness P bindings =
     tryA (senseA (if bindings \<noteq> [] then event_readiness P else daemon_readiness P))
       (\<lambda>e. retA (False, failure_text e)) (\<lambda>ready. retA (ready, JNull))"

definition defer_created ::
    "peer \<Rightarrow> string \<Rightarrow> TargetObservation \<Rightarrow> (string \<times> string) list \<Rightarrow> MonitorRecord \<Rightarrow> pause_end act" where
  "defer_created P thread first bindings rec =
     bindA (defer_readiness P bindings) (\<lambda>(ready, readiness_error).
     if \<not> ready then
       bindA (outcomeA P (mon_id rec) DEFER_INTENT DAEMON_UNAVAILABLE
         [(''kind'', JStr ''daemon_unavailable_before_pause''), (''error'', readiness_error)])
         (settled_or_current P (mon_id rec))
     else
       bindA (nowA P) (\<lambda>now.
       if mon_expires_at rec \<le> now then
         bindA (ledger_nowA P (transition (mon_id rec) [DEFER_INTENT] EXPIRED
           (no_updates\<lparr>up_outcome := Some (JObj [(''kind'', JStr ''expired_before_pause''),
              (''at'', jnum now)])\<rparr>))) (settled_or_current P (mon_id rec))
       else if goal_status first = Some ''paused'' then arm_paused P thread rec first
       else pause_active P thread rec first))"

text \<open>The lock that keeps the daemon's recovery away is held from here to the end.\<close>

definition defer_locked ::
    "peer \<Rightarrow> string \<Rightarrow> json \<Rightarrow> rat \<Rightarrow> bool \<Rightarrow> string \<Rightarrow> string option \<Rightarrow> TargetObservation \<Rightarrow> TargetGuard
     \<Rightarrow> string list \<Rightarrow> pause_end act" where
  "defer_locked P thread condition seconds heuristic key rearm first guard children =
     bindA (prepared_goal P condition children) (\<lambda>(mid, prepared, bindings).
     bindA (catchA (enter_defer_lock P) (\<lambda>e. case e of
              Py (RuntimeError msg) \<Rightarrow> invalidA msg | _ \<Rightarrow> failA e)) (\<lambda>_.
     bindA (createA P seconds (goal_registration mid (Some key)
              (goal_semantic guard condition seconds heuristic rearm) guard prepared heuristic DEFERRED
              DEFER_INTENT rearm bindings)) (\<lambda>(rec, created).
     if \<not> created then retA (rec, mon_state rec = ARMED)
     else defer_created P thread first bindings rec)))"

definition defer_session ::
    "peer \<Rightarrow> string \<Rightarrow> json \<Rightarrow> rat \<Rightarrow> bool \<Rightarrow> string \<Rightarrow> string option \<Rightarrow> pause_end act" where
  "defer_session P thread condition seconds heuristic key rearm =
     bindA (read_observation P thread True) (\<lambda>first.
     bindA (loaded_goal ''defer target must be locally loaded and own a non-null goal. Do not create a goal to satisfy this precondition.'' first) (\<lambda>goal.
     bindA (reject_self_wait condition thread) (\<lambda>children.
     let guard = guard_for thread goal in
     bindA (readA P (get_by_idempotency_key key)) (\<lambda>existing.
     case existing of
       Some rec \<Rightarrow>
         bindA (replay_goal P DEFERRED (goal_semantic guard condition seconds heuristic rearm) condition rec)
           (\<lambda>_. retA (rec, mon_state rec = ARMED))
     | None \<Rightarrow>
         bindA (requireA (defer_eligible first) ''defer target must own an active or paused goal'') (\<lambda>_.
         defer_locked P thread condition seconds heuristic key rearm first guard children)))))"

definition defer_response :: "peer \<Rightarrow> pause_end \<Rightarrow> json act" where
  "defer_response P ended =
     bindA (registration_response P (fst ended)) (\<lambda>response.
     retA (if snd ended
           then JObj (aset ''next_action'' (JStr ''end_current_turn'') (entries response)) else response))"

definition defer_goal ::
    "peer \<Rightarrow> string \<Rightarrow> json \<Rightarrow> json \<Rightarrow> bool \<Rightarrow> string \<Rightarrow> string option \<Rightarrow> json act" where
  "defer_goal P thread condition expires heuristic key rearm =
     bindA (requireA (thread \<noteq> []) ''thread_id must be non-empty'') (\<lambda>_.
     bindA (pyA (positive_seconds expires ''expires_in_seconds must be a finite number greater than zero'')) (\<lambda>seconds.
     bindA (requireA (key \<noteq> []) ''idempotency_key must be non-empty'') (\<lambda>_.
     bindA (validate_rearm_of P rearm) (\<lambda>_.
     bindA (pyA (event_condition_bindings condition)) (\<lambda>_.
     bindA (with_client P (defer_session P thread condition seconds heuristic key rearm))
       (defer_response P))))))"

end
