(* ===== verification/Daemon.thy ===== *)
theory Daemon
  imports Service_Goals
begin

text \<open>
  The daemon (\<open>daemon.py\<close>): the epoch checks that refuse a downgrade, the polling loop, and its end after a
  grace period without a live monitor. The task that refreshes the heartbeat between two passes writes the
  same file with the same content as the loop and is not modelled.
\<close>

section \<open>Epoch checks\<close>

definition assert_event_schema_compatible :: "peer \<Rightarrow> int \<Rightarrow> unit act" where
  "assert_event_schema_compatible P epoch =
     bindA (readA P event_capability_required) (\<lambda>required.
     unlessA (required \<and> epoch \<noteq> EVENT_CAPABILITY_EPOCH)
       (Py (RuntimeError ''bound event reservations require the exact event schema epoch'')))"

definition assert_delivery_schema_compatible :: "peer \<Rightarrow> int \<Rightarrow> unit act" where
  "assert_delivery_schema_compatible P epoch =
     bindA (readA P delivery_capability_required) (\<lambda>required.
     unlessA (required \<and> epoch \<noteq> DELIVERY_CAPABILITY_EPOCH)
       (Py (RuntimeError ''nonterminal thread deliveries require the exact delivery schema epoch'')))"

definition thread_records :: "ledger \<Rightarrow> MonitorRecord list res" where
  "thread_records L =
     bindE (list_monitors True L) (\<lambda>recs.
     foldE (\<lambda>rec found. bindE (delivery_kind rec) (\<lambda>k.
       Inr (if k = THREAD then found @ [rec] else found))) recs [])"

text \<open>No queue of the app-server may still hold a pointer of this ledger.\<close>

definition refuse_queued_pointer :: "peer \<Rightarrow> MonitorRecord \<Rightarrow> unit act" where
  "refuse_queued_pointer P rec =
     bindA (with_client P (inspect_thread_delivery P (delivery_text rec ''thread_id'')
              (delivery_text rec ''delivery_id'') (delivery_text rec ''pointer_digest''))) (\<lambda>ob.
     bindA (pyA (py_int (jget ''queue_matches'' ob))) (\<lambda>matches.
     bindA (pyA (py_int (jget ''queue_modified'' ob))) (\<lambda>modified.
     unlessA (matches + modified \<noteq> 0)
       (Py (RuntimeError ''matching queue pointer requires the exact delivery schema epoch'')))))"

definition assert_delivery_runtime_compatible :: "peer \<Rightarrow> int \<Rightarrow> unit act" where
  "assert_delivery_runtime_compatible P epoch =
     (if epoch = DELIVERY_CAPABILITY_EPOCH then retA ()
      else
        bindA (assert_delivery_schema_compatible P epoch) (\<lambda>_.
        bindA (readA P thread_records) (\<lambda>recs.
        bindA (mapA (refuse_queued_pointer P) recs) (\<lambda>_. retA ()))))"

section \<open>The loop\<close>

definition IDLE_GRACE_SECONDS :: rat where "IDLE_GRACE_SECONDS = 60"

definition nothing_live :: "peer \<Rightarrow> bool act" where
  "nothing_live P = bindA (readA P (list_monitors False)) (\<lambda>recs. retA (recs = []))"

text \<open>
  What a pass decides: keep polling with this deadline, or stop. Retirement is announced in the heartbeat
  first, then the ledger is read once more.
\<close>

datatype verdict = Poll "rat option" | Stop

definition retire :: "peer \<Rightarrow> verdict act" where
  "retire P =
     bindA (write_heartbeat P False) (\<lambda>_.
     bindA (nothing_live P) (\<lambda>idle.
     if idle then retA Stop else bindA (write_heartbeat P True) (\<lambda>_. retA (Poll None))))"

definition idle_verdict :: "peer \<Rightarrow> rat option \<Rightarrow> verdict act" where
  "idle_verdict P deadline =
     bindA (nothing_live P) (\<lambda>idle.
     if \<not> idle then retA (Poll None)
     else
       bindA (monotonicA P) (\<lambda>m. case deadline of
           None \<Rightarrow> retA (Poll (Some (m + IDLE_GRACE_SECONDS)))
         | Some d \<Rightarrow> if d \<le> m then retire P else retA (Poll (Some d))))"

definition daemon_pass :: "peer \<Rightarrow> json list act" where
  "daemon_pass P =
     bindA (write_heartbeat P True) (\<lambda>_.
     bindA (reconcile_once P) (\<lambda>ts.
     bindA (write_heartbeat P True) (\<lambda>_. retA ts)))"

text \<open>\<open>None\<close>: still polling after that many passes.\<close>

fun daemon_loop :: "peer \<Rightarrow> bool \<Rightarrow> nat \<Rightarrow> rat option \<Rightarrow> int option act" where
  "daemon_loop P once 0 deadline = retA None"
| "daemon_loop P once (Suc n) deadline =
     bindA (daemon_pass P) (\<lambda>_.
     if once then retA (Some 0)
     else
       bindA (idle_verdict P deadline) (\<lambda>v. case v of
           Stop \<Rightarrow> retA (Some 0)
         | Poll d \<Rightarrow> bindA (others P) (\<lambda>_. daemon_loop P once n d)))"

definition run_daemon :: "peer \<Rightarrow> rat \<Rightarrow> bool \<Rightarrow> nat \<Rightarrow> int option act" where
  "run_daemon P interval once fuel =
     bindA (unlessA (interval \<le> 0) (Py ValueError)) (\<lambda>_.
     bindA (assert_event_schema_compatible P EVENT_CAPABILITY_EPOCH) (\<lambda>_.
     bindA (assert_delivery_schema_compatible P DELIVERY_CAPABILITY_EPOCH) (\<lambda>_.
     bindA (senseA (daemon_lock (runtime P))) (\<lambda>_.
     bindA (recover_after_daemon_start P) (\<lambda>_. daemon_loop P once fuel None)))))"

text \<open>The exit status of the process: 2 for a \<open>RuntimeError\<close>, such as a lock another daemon holds.\<close>

definition daemon_main :: "peer \<Rightarrow> rat \<Rightarrow> bool \<Rightarrow> nat \<Rightarrow> int option act" where
  "daemon_main P interval once fuel =
     catchA (run_daemon P interval once fuel)
       (\<lambda>e. if is_runtime_error e then retA (Some 2) else failA e)"

end
