(* ===== verification/Tools.thy ===== *)
theory Tools
  imports Daemon
begin

text \<open>
  The two front ends: the MCP tools (\<open>mcp_server.py\<close>) and the operator's command line (\<open>cli.py\<close>). Both only
  select an operation of the service. The framework gives each tool arguments of the declared types; the
  arguments of the command line are parsed. The commands that unpack a payload into keyword arguments
  (\<open>wait-for-event\<close>, \<open>defer-goal-until-event\<close>) take values of any type and are left out.
\<close>

section \<open>Producer payloads\<close>

text \<open>\<open>Path(value)\<close> of a popped entry.\<close>

definition descriptor_path :: "json \<Rightarrow> string option res" where
  "descriptor_path v = (case v of JNull \<Rightarrow> Inr None | JStr s \<Rightarrow> Inr (Some s) | _ \<Rightarrow> Inl TypeError)"

definition reserve_from_payload :: "peer \<Rightarrow> payload_env \<Rightarrow> string \<Rightarrow> json act" where
  "reserve_from_payload P F path =
     bindA (pyA (load_private_json_payload F path)) (\<lambda>payload.
     bindA (pyA (descriptor_path (jget ''publisher_descriptor_path'' payload))) (\<lambda>descriptor.
     reserve_terminal_event P (JObj (apop ''publisher_descriptor_path'' (entries payload))) descriptor))"

text \<open>A missing entry is a \<open>KeyError\<close>; the capability never is an argument of a tool.\<close>

definition publish_from_payload ::
    "payload_env \<Rightarrow> string \<Rightarrow> string \<Rightarrow> (string \<Rightarrow> string \<Rightarrow> json \<Rightarrow> json act) \<Rightarrow> json act" where
  "publish_from_payload F path k publish =
     bindA (pyA (load_private_json_payload F path)) (\<lambda>payload.
     bindA (pyA (jindex ''reservation_id'' payload)) (\<lambda>rid.
     bindA (pyA (jindex ''publish_token'' payload)) (\<lambda>token.
     bindA (pyA (jindex k payload)) (\<lambda>v. publish (py_str rid) (py_str token) v))))"

definition heartbeat_from_payload :: "peer \<Rightarrow> payload_env \<Rightarrow> string \<Rightarrow> json act" where
  "heartbeat_from_payload P F path = publish_from_payload F path ''heartbeat'' (service_publish_heartbeat P)"

definition terminal_from_payload :: "peer \<Rightarrow> payload_env \<Rightarrow> string \<Rightarrow> json act" where
  "terminal_from_payload P F path = publish_from_payload F path ''terminal_event'' (service_publish_terminal P)"

section \<open>The tools\<close>

text \<open>
  The request's \<open>threadId\<close>, \<open>None\<close> where there is no context, no request or no such attribute.
\<close>

definition trusted_thread_id :: "json option \<Rightarrow> string option" where
  "trusted_thread_id caller = (case caller of
     Some (JStr s) \<Rightarrow> if py_strip s = [] then None else Some (py_strip s) | _ \<Rightarrow> None)"

definition callerA :: "json option \<Rightarrow> string \<Rightarrow> string act" where
  "callerA caller msg = (case trusted_thread_id caller of None \<Rightarrow> invalidA msg | Some t \<Rightarrow> retA t)"

definition prearm_answer :: "PreArmRegistrationError + json \<Rightarrow> json" where
  "prearm_answer r = (case r of Inl e \<Rightarrow> prearm_as_dict e | Inr v \<Rightarrow> v)"

definition tool_wait_for_event ::
    "peer \<Rightarrow> json option \<Rightarrow> json \<Rightarrow> pyfloat \<Rightarrow> string \<Rightarrow> string option \<Rightarrow> json act" where
  "tool_wait_for_event P caller condition expires key rearm =
     bindA (callerA caller ''wait_for_event requires the trusted Codex caller thread identity'') (\<lambda>thread.
     bindA (wait_for_current_event P thread condition (JFloat expires) key rearm True) (\<lambda>r.
     retA (prearm_answer r)))"

definition tool_status :: "peer \<Rightarrow> json option \<Rightarrow> string \<Rightarrow> string \<Rightarrow> json act" where
  "tool_status P caller mid view =
     (if view = ''decision'' then decision_status P mid (trusted_thread_id caller)
      else if view = ''audit'' then status P mid (trusted_thread_id caller)
      else invalidA ''view must be decision or audit'')"

definition tool_current_monitors :: "peer \<Rightarrow> json option \<Rightarrow> json act" where
  "tool_current_monitors P caller =
     bindA (callerA caller ''wake_me_up_current_monitors requires the trusted Codex caller thread identity'')
       (\<lambda>thread. bindA (list_for_target P thread) (\<lambda>vs. retA (JList vs)))"

datatype tool_call =
    WaitForEvent json pyfloat string "string option"
  | Capabilities
  | DeferGoal string json pyfloat string bool "string option"
  | WakeMeUp string json pyfloat bool "string option" "string option"
  | ToolStatus string string
  | CurrentMonitors
  | ToolCancel string
  | PublishReceipt string string string
  | EventReserve string
  | EventStatus string
  | EventCancel string
  | EventHeartbeat string
  | EventPublish string

text \<open>\<open>wake_me_up_defer\<close> is \<open>defer_goal_until_event\<close> under another description.\<close>

fun run_tool :: "peer \<Rightarrow> payload_env \<Rightarrow> json option \<Rightarrow> tool_call \<Rightarrow> json act" where
  "run_tool P F caller (WaitForEvent condition expires key rearm) =
     tool_wait_for_event P caller condition expires key rearm"
| "run_tool P F caller Capabilities = runtime_capabilities P"
| "run_tool P F caller (DeferGoal thread condition expires key heuristic rearm) =
     defer_goal P thread condition (JFloat expires) heuristic key rearm"
| "run_tool P F caller (WakeMeUp thread condition expires heuristic key rearm) =
     register P thread condition (JFloat expires) heuristic key rearm True"
| "run_tool P F caller (ToolStatus mid view) = tool_status P caller mid view"
| "run_tool P F caller CurrentMonitors = tool_current_monitors P caller"
| "run_tool P F caller (ToolCancel mid) = cancel_monitor P mid"
| "run_tool P F caller (PublishReceipt mid token st) = publish_receipt P mid token st"
| "run_tool P F caller (EventReserve path) = reserve_from_payload P F path"
| "run_tool P F caller (EventStatus rid) = event_status P rid"
| "run_tool P F caller (EventCancel rid) = cancel_terminal_event P rid"
| "run_tool P F caller (EventHeartbeat path) = heartbeat_from_payload P F path"
| "run_tool P F caller (EventPublish path) = terminal_from_payload P F path"

section \<open>The command line\<close>

definition doctor_report :: "peer \<Rightarrow> string \<Rightarrow> string \<Rightarrow> string option \<Rightarrow> json act" where
  "doctor_report P runtime_dir socket thread_id =
     bindA (connect P False) (\<lambda>_.
     bindA (doctor P socket thread_id) (\<lambda>result.
     retA (JObj (entries result @
       [(''runtime_root'', JStr runtime_dir),
        (''goals_feature_note'',
           JStr (if thread_id \<notin> {None, Some []} then ''verified against the supplied target''
                 else ''supply --thread-id to verify goals''))]))))"

text \<open>A manual pass takes the daemon's lock.\<close>

definition manual_reconcile :: "peer \<Rightarrow> json act" where
  "manual_reconcile P =
     bindA (senseA (daemon_lock (runtime P))) (\<lambda>_.
     bindA (recover_after_daemon_start P) (\<lambda>_.
     bindA (reconcile_once P) (\<lambda>reports. retA (JList reports))))"

definition worker_publish :: "peer \<Rightarrow> payload_env \<Rightarrow> string \<Rightarrow> string \<Rightarrow> json act" where
  "worker_publish P F descriptor payload =
     bindA (pyA (load_private_json_payload F payload)) (\<lambda>event.
     bindA (pyA (worker_publication (digests P) F descriptor event)) (\<lambda>(rid, token).
     service_publish_terminal P rid token event))"

definition compatible :: "string \<Rightarrow> int \<Rightarrow> json" where
  "compatible k epoch = JObj [(''compatible'', JBool True), (k, JInt epoch)]"

datatype cli_command =
    Doctor "string option"
  | ListAll
  | CliStatus string
  | CliCancel string
  | Reconcile bool
  | Receipt string string string
  | CliReserve string
  | CliEventStatus string
  | CliEventCancel string
  | CliHeartbeat string
  | CliPublish string
  | WorkerPreflight string string
  | WorkerPublish string string
  | EventCompatibility int
  | DeliveryCompatibility int

definition not_confirmed :: string where
  "not_confirmed = ''reconcile is diagnostic only; pass --unsafe-with-daemon after confirming no daemon owns the runtime''"

fun run_command :: "peer \<Rightarrow> payload_env \<Rightarrow> string \<Rightarrow> string \<Rightarrow> cli_command \<Rightarrow> json act" where
  "run_command P F runtime_dir socket (Doctor thread_id) = doctor_report P runtime_dir socket thread_id"
| "run_command P F runtime_dir socket ListAll = bindA (list_decisions P) (\<lambda>vs. retA (JList vs))"
| "run_command P F runtime_dir socket (CliStatus mid) = status P mid None"
| "run_command P F runtime_dir socket (CliCancel mid) = cancel_monitor P mid"
| "run_command P F runtime_dir socket (Reconcile confirmed) =
     bindA (unlessA (\<not> confirmed) (Py (RuntimeError not_confirmed))) (\<lambda>_. manual_reconcile P)"
| "run_command P F runtime_dir socket (Receipt mid token st) = publish_receipt P mid token st"
| "run_command P F runtime_dir socket (CliReserve path) = reserve_from_payload P F path"
| "run_command P F runtime_dir socket (CliEventStatus rid) = event_status P rid"
| "run_command P F runtime_dir socket (CliEventCancel rid) = cancel_terminal_event P rid"
| "run_command P F runtime_dir socket (CliHeartbeat path) = heartbeat_from_payload P F path"
| "run_command P F runtime_dir socket (CliPublish path) = terminal_from_payload P F path"
| "run_command P F runtime_dir socket (WorkerPreflight descriptor task) =
     preflight_worker_publisher_descriptor P F descriptor task"
| "run_command P F runtime_dir socket (WorkerPublish descriptor payload) = worker_publish P F descriptor payload"
| "run_command P F runtime_dir socket (EventCompatibility epoch) =
     bindA (assert_event_schema_compatible P epoch) (\<lambda>_. retA (compatible ''supported_event_epoch'' epoch))"
| "run_command P F runtime_dir socket (DeliveryCompatibility epoch) =
     bindA (assert_delivery_runtime_compatible P epoch) (\<lambda>_.
     retA (compatible ''supported_delivery_epoch'' epoch))"

text \<open>What is printed and the exit status; every exception of an operation is status 2.\<close>

definition cli_main ::
    "peer \<Rightarrow> payload_env \<Rightarrow> string \<Rightarrow> string \<Rightarrow> cli_command \<Rightarrow> (json option \<times> int) act" where
  "cli_main P F runtime_dir socket cmd =
     tryA (run_command P F runtime_dir socket cmd) (\<lambda>_. retA (None, 2)) (\<lambda>v. retA (Some v, 0))"

end
