(* ===== verification/Front_Facts.thy ===== *)
theory Front_Facts
  imports Service_Facts Tools
begin

text \<open>
  The entry points along an order: the event operations and what only touches the ledger, the wait, the
  goal operations, the daemon's loop, and the two front ends.
\<close>

section \<open>Kinds of tools and commands\<close>

text \<open>The tool that pauses, the tools that need no app-server, the command that runs a pass.\<close>

fun pausing_tool :: "tool_call \<Rightarrow> bool" where
  "pausing_tool (DeferGoal _ _ _ _ _ _) = True"
| "pausing_tool _ = False"

fun local_tool :: "tool_call \<Rightarrow> bool" where
  "local_tool (WaitForEvent _ _ _ _) = False"
| "local_tool Capabilities = False"
| "local_tool (DeferGoal _ _ _ _ _ _) = False"
| "local_tool (WakeMeUp _ _ _ _ _ _) = False"
| "local_tool _ = True"

fun passing_command :: "cli_command \<Rightarrow> bool" where
  "passing_command (Reconcile _) = True"
| "passing_command _ = False"

section \<open>Entry points\<close>

context ledger_order
begin

lemma along_assert: "along R (assertA found)"
  unfolding assertA_def by (intro along_basic)

lemma along_require: "along R (requireA b msg)"
  by (rule along_steps)

lemma along_fresh_text: "along R (freshA source)"
  unfolding freshA_def by (rule along_sense)

lemma along_git: "along R (gitA m)"
  unfolding gitA_def by (rule along_machine)

lemma along_frozen: "along R (frozen_semantic P r)"
  unfolding frozen_semantic_def
  by (cases "rsv_kind r"; cases "worktree r") (simp_all add: along_steps along_bind along_git along_machine along_if)

lemma along_reserve: "along R (reserve_terminal_event P v descriptor)"
  unfolding reserve_terminal_event_def selected_descriptor_def hand_over_def Let_def
  by (intro along_basic along_output along_fresh_text along_frozen along_atomic_write)

lemma along_event_status: "along R (event_status P rid)"
  unfolding event_status_def by (intro along_basic)

lemma along_worker_preflight: "along R (preflight_worker_publisher_descriptor P F path task)"
  unfolding preflight_worker_publisher_descriptor_def by (intro along_basic)

lemma along_cancel_event: "along R (cancel_terminal_event P rid)"
  unfolding cancel_terminal_event_def by (intro along_basic)

lemma along_publish_heartbeat: "along R (service_publish_heartbeat P rid token hb)"
  unfolding service_publish_heartbeat_def by (intro along_basic)

lemma along_attest: "along R (attest_delivery P scope candidate)"
  unfolding attest_delivery_def by (intro along_basic)

lemma along_publish_terminal: "along R (service_publish_terminal P rid token ev)"
  unfolding service_publish_terminal_def by (intro along_basic along_attest)

lemma along_rearm_of: "along R (validate_rearm_of P rearm)"
  unfolding validate_rearm_of_def by (intro along_basic)

lemma along_self_wait: "along R (reject_self_wait condition thread)"
  unfolding reject_self_wait_def by (intro along_basic)

lemma along_event_replay: "along R (validate_event_replay P rec condition)"
  unfolding validate_event_replay_def by (intro along_basic)

lemma along_create: "along R (createA P seconds g)"
  unfolding createA_def by (intro along_basic)

lemma along_prepare: "along R (prepareA P C mid token condition)"
  unfolding prepareA_def by (rule along_machine)

lemma along_monotonic: "along R (monotonicA P)"
  unfolding monotonicA_def by (rule along_sense)

lemma along_arm_delivery: "along R (arm_delivery P rec)"
  unfolding arm_delivery_def by (intro along_basic along_unready_reason along_outcome along_assert)

lemma along_start: "along R (start_if_armed P start rec)"
  unfolding start_if_armed_def by (intro along_basic)

lemma along_replay_wait: "along R (replay_wait P semantic condition rec)"
  unfolding replay_wait_def by (intro along_basic along_event_replay along_registration_response)

lemma along_create_wait:
  "along R (create_wait P mid key semantic delivery condition C seconds rearm start deadline attempted)"
  unfolding create_wait_def
  by (intro along_basic along_monotonic along_fresh_text along_prepare along_create along_arm_delivery
      along_start along_registration_response)

lemma along_wait_ready: "along R (wait_ready P condition)"
  unfolding wait_ready_def by (intro along_basic along_unready_reason)

lemma along_resolved: "along R (resolved_target thread capability)"
  unfolding resolved_target_def by (intro along_basic)

lemma along_prearm_then: "along R m \<Longrightarrow> (\<And>x. along R (f x)) \<Longrightarrow> along R (prearm_then m f)"
  unfolding prearm_then_def by (intro along_basic)

lemma along_replay_goal: "along R (replay_goal P mode semantic condition rec)"
  unfolding replay_goal_def by (intro along_basic along_event_replay)

lemma along_pause_ends:
  "along R (endsA armed found)" "along R (settled_or_current P mid found)"
  "along R (validate_pause_observation P rec ob source)" "along R (pause_uncertain P mid kind e)"
proof -
  show ends: "along R (endsA armed found)" for armed found
    unfolding endsA_def by (intro along_basic along_assert)
  show "along R (settled_or_current P mid found)"
    unfolding settled_or_current_def by (intro along_basic ends)
  show "along R (validate_pause_observation P rec ob source)"
    unfolding validate_pause_observation_def by (intro along_basic along_outcome)
  show "along R (pause_uncertain P mid kind e)"
    unfolding pause_uncertain_def by (intro along_basic along_outcome ends)
qed

lemma along_write_heartbeat: "along R (write_heartbeat P accepting)"
  unfolding write_heartbeat_def by (intro along_basic along_atomic_write)

lemma along_idle_verdict: "along R (idle_verdict P deadline)"
  unfolding idle_verdict_def retire_def nothing_live_def
  by (intro along_basic along_write_heartbeat along_monotonic)

lemma along_epochs:
  "along R (assert_event_schema_compatible P epoch)" "along R (assert_delivery_schema_compatible P epoch)"
  unfolding assert_event_schema_compatible_def assert_delivery_schema_compatible_def by (intro along_basic)+

lemma along_caller: "along R (callerA caller msg)"
  unfolding callerA_def by (intro along_basic)

lemma along_payloads:
  "along R (reserve_from_payload P F path)" "along R (heartbeat_from_payload P F path)"
  "along R (terminal_from_payload P F path)" "along R (worker_publish P F descriptor path)"
  unfolding reserve_from_payload_def heartbeat_from_payload_def terminal_from_payload_def
    publish_from_payload_def worker_publish_def
  by (intro along_basic along_reserve along_publish_heartbeat along_publish_terminal)+

lemma along_tool_reads: "along R (tool_status P caller mid view)" "along R (tool_current_monitors P caller)"
  unfolding tool_status_def tool_current_monitors_def
  by (intro along_basic along_reports along_caller)+

lemma along_local_tool: "local_tool c \<Longrightarrow> along R (run_tool P F caller c)"
  by (cases c) (simp_all add: along_tool_reads along_reports along_payloads along_event_status along_cancel_event)

end

context session_order
begin

lemma along_attempt: "along R m \<Longrightarrow> along R (attemptA m)"
  unfolding along_def attemptA_def by (simp split: prod.split) (metis prod.collapse snd_conv)

lemma along_prearm_attempt:
  "along R body \<Longrightarrow> along R again \<Longrightarrow> along R (prearm_attempt P st deadline attempted body again)"
  unfolding prearm_attempt_def
  by (intro along_basic along_monotonic along_attempt along_session)

lemma along_prearm: "along R body \<Longrightarrow> along R (prearm_read P st deadline attempted body)"
  unfolding prearm_read_def by (intro along_prearm_attempt along_steps)

lemma along_prepare_wait:
  assumes "\<And>ps. ok ''thread/agent/observe'' ps"
  shows "along R (prepare_wait P thread trusted condition seconds key semantic rearm start deadline resolved)"
proof -
  have "along R ((case seen of (threads, observed) \<Rightarrow>
      create_wait P mid key semantic delivery condition
        (C\<lparr>native_root_thread_id := r, thread_observations := threads, native_observations := observed\<rparr>)
        seconds rearm start deadline) attempted)" for seen mid delivery C r attempted
    by (cases seen) (simp add: along_create_wait)
  then show ?thesis
    unfolding prepare_wait_def prepare_observations_def
    by (intro along_basic along_resolved along_fresh_text along_self_wait along_prearm_then along_prearm
        along_thread_observations along_native_observations assms)
qed

lemma along_wait:
  "(\<And>ps. ok ''thread/agent/observe'' ps) \<Longrightarrow> along R (wait_for_event P thread condition expires key rearm start trusted)"
  unfolding wait_for_event_def
  by (intro along_basic along_rearm_of along_replay_wait along_wait_ready along_monotonic
      along_prearm_then along_prearm along_resolve along_prepare_wait)

lemma along_prepared_goal: "along R (prepared_goal P condition children)"
  unfolding prepared_goal_def
  by (intro along_basic along_fresh_text along_thread_observations along_prepare)

lemma along_loaded_goal: "along R (loaded_goal msg ob)"
  unfolding loaded_goal_def by (cases "is_loaded ob"; cases "obs_goal ob") (simp_all add: along_steps)

lemma along_register: "along R (register P thread condition expires heuristic key rearm start)"
  unfolding register_def register_session_def register_new_def arm_goal_def
  by (intro along_basic along_rearm_of along_session along_read_observation along_self_wait along_loaded_goal
      along_replay_goal along_prepared_goal along_create along_outcome along_assert along_start
      along_registration_response)

lemma along_capabilities:
  assumes observe: "\<And>ps. ok ''thread/agent/observe'' ps"
  shows "along R (runtime_capabilities P)"
proof -
  have probe: "along R (native_worker_observation_capability P)"
    unfolding native_worker_observation_capability_def
    by (rule along_try [OF along_request [OF observe]])
      (auto simp: along_steps split: svc_error.split app_kind.split)
  have "along R (\<lambda>w. retA (JObj [(''native_worker_observation'', v),
      (''server'', if is_obj (server_info w) then server_info w else JObj [])]) w)" for v
    by (rule along_at) (rule along_steps)
  then have session: "along R (with_client P (bindA (native_worker_observation_capability P) (\<lambda>v. \<lambda>w.
      retA (JObj [(''native_worker_observation'', v),
        (''server'', if is_obj (server_info w) then server_info w else JObj [])]) w)))"
    by (intro along_session along_bind probe)
  have failed: "along R (case e of App AppServerTransportError _ \<Rightarrow> retA (core_unknown ''transport_failure'')
        | App _ _ \<Rightarrow> retA (core_unknown ''invalid_probe_response'') | Py _ \<Rightarrow> failA e)" for e
    by (auto simp: along_steps split: svc_error.split app_kind.split)
  show ?thesis
    unfolding runtime_capabilities_def
    by (intro along_bind along_unready_reason along_catch session failed along_steps)
qed

lemma along_doctor: "along R (doctor_report P runtime_dir socket thread_id)"
proof -
  have "along R (case thread_id of
        None \<Rightarrow> retA (JObj ([(''socket'', JStr socket), (''codex_home'', JStr (codex_home P)),
            (''server'', if is_obj (server_info v) then server_info v else JObj [])]
            @ [(''goals_checked'', JBool False)]))
      | Some tid \<Rightarrow> bindA (read_observation P tid True) (\<lambda>ob.
          retA (JObj ([(''socket'', JStr socket), (''codex_home'', JStr (codex_home P)),
            (''server'', if is_obj (server_info v) then server_info v else JObj [])] @
            [(''goals_checked'', JBool True),
            (''observation'', JObj [(''thread_id'', JStr (obs_thread_id ob)),
               (''runtime_status'', JStr (runtime_status ob)), (''is_loaded'', JBool (is_loaded ob)),
               (''goal_status'', opt_json JStr (goal_status ob))])]))))" for v :: world
    by (intro along_rules along_read_observation)
  then have "along R (doctor P socket thread_id)"
    unfolding doctor_def Let_def by (auto intro!: alongI dest: alongD)
  then show ?thesis
    unfolding doctor_report_def by (intro along_rules along_connect)
qed

lemma along_delivery_epoch: "along R (assert_delivery_runtime_compatible P epoch)"
  unfolding assert_delivery_runtime_compatible_def refuse_queued_pointer_def
  by (intro along_basic along_epochs along_session along_inspect)

lemma along_arm_confirmed: "along R (arm_confirmed P rec confirmed)"
  unfolding arm_confirmed_def by (intro along_basic along_pause_ends)

lemma along_confirm_pause: "along R (confirm_pause P thread rec returned)"
  unfolding confirm_pause_def
  by (intro along_basic along_pause_ends along_read_observation along_arm_confirmed)

lemma along_arm_paused: "along R (arm_paused P thread rec first)"
  unfolding arm_paused_def by (intro along_basic along_pause_ends along_read_observation along_outcome)

lemma along_defer_readiness: "along R (defer_readiness P bindings)"
  unfolding defer_readiness_def by (intro along_basic)

lemma along_pause_active:
  "ok ''thread/goal/set'' (pause_params thread) \<Longrightarrow> along R (pause_active P thread rec first)"
  unfolding pause_active_def
  by (intro along_basic along_pause_ends along_goal_set along_confirm_pause)

lemma along_defer_response: "along R (defer_response P ended)"
  unfolding defer_response_def by (intro along_basic along_registration_response)

lemma along_defer:
  "(\<And>rec first. along R (pause_active P thread rec first)) \<Longrightarrow>
     along R (defer_goal P thread condition expires heuristic key rearm)"
  unfolding defer_goal_def defer_session_def defer_locked_def defer_created_def enter_defer_lock_def
  by (intro along_basic along_rearm_of along_session along_read_observation along_self_wait along_loaded_goal
      along_replay_goal along_prepared_goal along_create along_outcome along_pause_ends along_arm_paused
      along_defer_readiness along_defer_response)

lemma along_tool_wait:
  "(\<And>ps. ok ''thread/agent/observe'' ps) \<Longrightarrow> along R (tool_wait_for_event P caller condition expires key rearm)"
  unfolding tool_wait_for_event_def wait_for_current_event_def
  by (intro along_basic along_caller along_wait)

lemma along_reading_tool:
  assumes "\<And>ps. ok ''thread/agent/observe'' ps" "\<not> pausing_tool c"
  shows "along R (run_tool P F caller c)"
  using assms(2) along_local_tool [of c]
  by (cases c) (simp_all add: along_tool_wait along_capabilities along_register assms(1))

lemma along_reading_command: "\<not> passing_command c \<Longrightarrow> along R (run_command P F runtime_dir socket c)"
  by (cases c) (simp_all add: along_bind along_steps along_doctor along_reports along_payloads
      along_event_status along_cancel_event along_worker_preflight along_epochs along_delivery_epoch)

end

context delivery_order
begin

lemma along_daemon_pass: "along R (daemon_pass P)"
  unfolding daemon_pass_def by (intro along_basic along_write_heartbeat along_pass)

lemma along_daemon_loop: "along R (daemon_loop P once n deadline)"
proof (induction n arbitrary: deadline)
  case (Suc n)
  have answer: "along R (case v of Stop \<Rightarrow> retA (Some 0)
      | Poll d \<Rightarrow> bindA (others P) (\<lambda>_. daemon_loop P once n d))" for v
    by (cases v) (simp_all add: along_steps along_bind along_others Suc.IH)
  show ?case
    unfolding daemon_loop.simps by (intro along_rules along_daemon_pass along_idle_verdict answer)
qed (simp add: along_steps)

lemma along_run_daemon: "along R (run_daemon P interval once n)"
  unfolding run_daemon_def by (intro along_basic along_epochs along_recovery along_daemon_loop)

lemma along_daemon_main: "along R (daemon_main P interval once n)"
  unfolding daemon_main_def by (intro along_basic along_run_daemon)

lemma along_run_tool:
  assumes "\<And>thread rec first. along R (pause_active P thread rec first)"
  shows "along R (run_tool P F caller c)"
  using along_reading_tool [OF methods(3), of c] along_defer [OF assms]
  by (cases "pausing_tool c"; cases c) simp_all

lemma along_manual_reconcile: "along R (manual_reconcile P)"
  unfolding manual_reconcile_def by (intro along_basic along_recovery along_pass)

lemma along_run_command: "along R (run_command P F runtime_dir socket c)"
  using along_reading_command [of c]
  by (cases c) (simp_all add: along_bind along_steps along_manual_reconcile)

lemma along_cli_main: "along R (cli_main P F runtime_dir socket c)"
  unfolding cli_main_def by (intro along_basic along_run_command)

end

end
