(* ===== verification/Service_Orders.thy ===== *)
theory Service_Orders
  imports Front_Facts
begin

text \<open>
  The orders the service moves the world along: ledger histories, an untouched wire, sessions that only
  read, and those that count. A graded order \<open>R k\<close> lets \<open>k\<close> messages be sent on credit: \<open>spends p k\<close>
  counts the messages that satisfy \<open>p\<close>.
\<close>

section \<open>Graded orders\<close>

locale graded_order =
  fixes R :: "nat \<Rightarrow> world \<Rightarrow> world \<Rightarrow> bool"
  assumes graded_refl: "R 0 w w"
    and graded_trans: "R a u v \<Longrightarrow> R b v w \<Longrightarrow> R (a + b) u w"
    and graded_le: "R a u v \<Longrightarrow> a \<le> b \<Longrightarrow> R b u v"
begin

lemma credit: "along (R 0) m \<Longrightarrow> along (R k) m"
  by (erule along_weaken) (rule graded_le, assumption, simp)

lemma graded_bind:
  assumes "along (R a) m" "\<And>x. along (R b) (f x)"
  shows "along (R (a + b)) (bindA m f)"
proof (rule alongI)
  fix w
  show "R (a + b) w (snd (bindA m f w))"
    using alongD [OF assms(1), of w] alongD [OF assms(2)]
    by (cases "m w"; cases "fst (m w)")
      (auto simp: bindA_def intro: graded_trans graded_le [of a _ _ "a + b"])
qed

lemma graded_try:
  assumes "along (R a) m" "\<And>e. along (R b) (h e)" "\<And>x. along (R b) (f x)"
  shows "along (R (a + b)) (tryA m h f)"
proof (rule alongI)
  fix w
  show "R (a + b) w (snd (tryA m h f w))"
    using alongD [OF assms(1), of w] alongD [OF assms(2)] alongD [OF assms(3)]
    by (cases "m w"; cases "fst (m w)") (auto simp: tryA_def intro: graded_trans)
qed

lemma spend_first: "along (R k) m \<Longrightarrow> (\<And>x. along (R 0) (f x)) \<Longrightarrow> along (R k) (bindA m f)"
  using graded_bind [of k m 0 f] by simp

lemma spend_later: "along (R 0) m \<Longrightarrow> (\<And>x. along (R k) (f x)) \<Longrightarrow> along (R k) (bindA m f)"
  using graded_bind [of 0 m k f] by simp

lemma spend_try:
  "along (R k) m \<Longrightarrow> (\<And>e. along (R 0) (h e)) \<Longrightarrow> (\<And>x. along (R 0) (f x)) \<Longrightarrow> along (R k) (tryA m h f)"
  using graded_try [of k m 0 h f] by simp

lemma spend_handled:
  "along (R 0) m \<Longrightarrow> (\<And>e. along (R k) (h e)) \<Longrightarrow> (\<And>x. along (R k) (f x)) \<Longrightarrow> along (R k) (tryA m h f)"
  using graded_try [of 0 m k h f] by simp

lemma credit_cases:
  "along (R k) a \<Longrightarrow> along (R k) b \<Longrightarrow> along (R k) (if c then a else b)"
  "along (R k) a \<Longrightarrow> (\<And>x. along (R k) (g x)) \<Longrightarrow> along (R k) (case v of None \<Rightarrow> a | Some x \<Rightarrow> g x)"
  "(\<And>x y. along (R k) (h x y)) \<Longrightarrow> along (R k) (case p of (x, y) \<Rightarrow> h x y)"
  by (simp, cases v, simp_all, cases p, simp)

end

sublocale graded_order \<subseteq> action_order "R 0"
  by unfold_locales (use graded_refl graded_trans [of 0 _ _ 0] in auto)

text \<open>A request is one message, whatever comes back.\<close>

locale metered_order = graded_order R + service_order "R 0" P may ok
    for R :: "nat \<Rightarrow> world \<Rightarrow> world \<Rightarrow> bool" and P :: peer and may :: "MonitorState \<Rightarrow> MonitorState \<Rightarrow> bool"
      and ok :: "string \<Rightarrow> json \<Rightarrow> bool" +
  assumes one_message: "R 1 w (w\<lparr>wire := Written n m ps # wire w\<rparr>)"
begin

lemma metered_send: "along (R 1) (send P n m ps)"
  unfolding send_def by (rule alongI) (auto simp: act_simps one_message simp del: One_nat_def split: write_result.split)

lemma metered_request: "along (R 1) (request P m ps)"
proof (rule alongI)
  fix w :: world
  let ?rest = "\<lambda>_. bindA (others P) (\<lambda>_. \<lambda>w'. case await_reply m (request_id w) (incoming P (wire w')) of
        Inl e \<Rightarrow> failA e w' | Inr v \<Rightarrow> retA v w')"
  have "along (R 0) (\<lambda>w'. case r of Inl e \<Rightarrow> failA e w' | Inr v \<Rightarrow> retA v w')" for r :: "svc_error + json"
    by (cases r) (simp_all add: along_steps)
  then have "along (R 0) (\<lambda>w'. case await_reply m (request_id w) (incoming P (wire w')) of
        Inl e \<Rightarrow> failA e w' | Inr v \<Rightarrow> retA v w')"
    by (rule along_at)
  then have "along (R 0) (?rest x)" for x
    by (rule along_bind [OF along_others])
  then have "along (R 1) (bindA (send P (Some (request_id w)) m ps) ?rest)"
    by (rule spend_first [OF metered_send])
  from alongD [OF this, of "w\<lparr>request_id := request_id w + 1\<rparr>"]
  have "R (0 + 1) w (snd (bindA (send P (Some (request_id w)) m ps) ?rest (w\<lparr>request_id := request_id w + 1\<rparr>)))"
    by (rule graded_trans [OF quiet(2)])
  then show "R 1 w (snd (request P m ps w))"
    by (simp add: request_def Let_def)
qed

lemma metered_goal_set:
  "along (R 1) (activate_guarded_goal P thread)" "along (R 1) (pause_guarded_goal P thread)"
  unfolding activate_guarded_goal_def pause_guarded_goal_def
  by (intro spend_first metered_request along_rules along_client)+

lemma metered_add: "along (R 1) (add_thread_delivery P thread delivery_id pointer)"
  unfolding add_thread_delivery_def by (intro spend_first metered_request along_rules along_client)

end

section \<open>Histories of the ledger\<close>

definition history_step :: "peer \<Rightarrow> world \<Rightarrow> world \<Rightarrow> bool" where
  "history_step P w w' \<longleftrightarrow> (\<exists>cs. tables w' = calls (digests P) cs (tables w))"

interpretation history: courier_order "history_step P" P "\<lambda>_ _. True" "\<lambda>_ _. True" for P
proof
  show "history_step P u w" if "history_step P u v" "history_step P v w" for u v w
    using that by (auto simp: history_step_def simp flip: calls_append)
  show "history_step P w w" for w
    unfolding history_step_def by (rule exI [of _ "[]"]) (simp add: calls_none)
qed (unfold history_step_def, auto intro: exI [of _ "[]"] simp: calls_none)

interpretation histories: delivery_order "history_step P" P "\<lambda>_ _. True" "\<lambda>_ _. True" for P
  by unfold_locales (simp_all add: history.along_admit history.along_activate)

section \<open>Operations that stay off the wire\<close>

definition same_wire :: "world \<Rightarrow> world \<Rightarrow> bool" where
  "same_wire v w \<longleftrightarrow> wire w = wire v"

interpretation untouched: action_order same_wire
  by unfold_locales (simp_all add: same_wire_def)

interpretation off_wire: ledger_order same_wire P "\<lambda>_ _. True" for P
  by unfold_locales (simp_all add: same_wire_def)

section \<open>Sessions that only read\<close>

definition reading_method :: "string \<Rightarrow> bool" where
  "reading_method m \<longleftrightarrow> m \<in> {''initialize'', ''initialized'', ''thread/read'', ''thread/goal/get'',
     ''thread/queue/list'', ''thread/agent/observe''}"

fun reading_event :: "wire_event \<Rightarrow> bool" where
  "reading_event Dial = True"
| "reading_event (Written i m ps) = reading_method m"

definition only_reads :: "world \<Rightarrow> world \<Rightarrow> bool" where
  "only_reads v w \<longleftrightarrow> (\<exists>es. wire w = es @ wire v \<and> list_all reading_event es)"

interpretation reading: session_order only_reads P "\<lambda>_ _. True" "\<lambda>m _. reading_method m" for P
proof
  show "only_reads u w" if "only_reads u v" "only_reads v w" for u v w
    using that unfolding only_reads_def by (auto intro: exI [where x = "_ @ _"])
  show "only_reads w w" for w
    by (simp add: only_reads_def)
qed (unfold only_reads_def reading_method_def, auto intro: exI [of _ "[_]"] simp: reading_method_def)

text \<open>The messages of \<open>defer\<close> for a thread: the reads, and its pause.\<close>

fun pausing_event :: "string \<Rightarrow> wire_event \<Rightarrow> bool" where
  "pausing_event thread Dial = True"
| "pausing_event thread (Written i m ps) =
     (reading_method m \<or> m = ''thread/goal/set'' \<and> ps = pause_params thread)"

definition only_pauses :: "string \<Rightarrow> world \<Rightarrow> world \<Rightarrow> bool" where
  "only_pauses thread v w \<longleftrightarrow> (\<exists>es. wire w = es @ wire v \<and> list_all (pausing_event thread) es)"

interpretation pausing: session_order "only_pauses thread" P "\<lambda>_ _. True"
    "\<lambda>m ps. reading_method m \<or> m = ''thread/goal/set'' \<and> ps = pause_params thread" for thread P
proof
  show "only_pauses thread u w" if "only_pauses thread u v" "only_pauses thread v w" for u v w
    using that unfolding only_pauses_def by (auto intro: exI [where x = "_ @ _"])
  show "only_pauses thread w w" for w
    by (simp add: only_pauses_def)
qed (unfold only_pauses_def reading_method_def, auto intro: exI [of _ "[_]"] simp: reading_method_def)

text \<open>The messages of a pass: the reads, the delivery's own, and activations; never a pause.\<close>

fun delivery_event :: "wire_event \<Rightarrow> bool" where
  "delivery_event Dial = True"
| "delivery_event (Written i m ps) =
     (reading_method m \<or> m \<in> {''thread/resume'', ''thread/queue/add'', ''thread/queue/delete''}
      \<or> m = ''thread/goal/set'' \<and> jget ''status'' ps = JStr ''active'')"

definition only_delivers :: "world \<Rightarrow> world \<Rightarrow> bool" where
  "only_delivers v w \<longleftrightarrow> (\<exists>es. wire w = es @ wire v \<and> list_all delivery_event es)"

interpretation delivering: courier_order only_delivers P "\<lambda>_ _. True" "\<lambda>m ps. delivery_event (Written None m ps)" for P
proof
  show "only_delivers u w" if "only_delivers u v" "only_delivers v w" for u v w
    using that unfolding only_delivers_def by (auto intro: exI [where x = "_ @ _"])
  show "only_delivers w w" for w
    by (simp add: only_delivers_def)
  show "only_delivers w (w\<lparr>wire := Written n m ps # wire w\<rparr>)" if "delivery_event (Written None m ps)" for n m ps w
    using that by (auto simp: only_delivers_def intro: exI [of _ "[_]"])
qed (auto simp: only_delivers_def reading_method_def intro: exI [of _ "[Dial]"])

interpretation passes: delivery_order only_delivers P "\<lambda>_ _. True" "\<lambda>m ps. delivery_event (Written None m ps)" for P
  by unfold_locales (simp_all add: delivering.along_admit delivering.along_activate activation_params_def jget_def)

section \<open>Counting messages\<close>

definition spent :: "(wire_event \<Rightarrow> bool) \<Rightarrow> world \<Rightarrow> nat" where
  "spent p w = length (filter p (wire w))"

definition spends :: "(wire_event \<Rightarrow> bool) \<Rightarrow> nat \<Rightarrow> world \<Rightarrow> world \<Rightarrow> bool" where
  "spends p k v w \<longleftrightarrow> spent p w \<le> spent p v + k"

text \<open>The messages whose method and parameters satisfy \<open>p\<close>.\<close>

fun costs :: "(string \<Rightarrow> json \<Rightarrow> bool) \<Rightarrow> wire_event \<Rightarrow> bool" where
  "costs p Dial = False"
| "costs p (Written i m ps) = p m ps"

abbreviation goal_set :: "wire_event \<Rightarrow> bool" where
  "goal_set \<equiv> costs (\<lambda>m _. m = ''thread/goal/set'')"

interpretation spending: graded_order "spends p" for p
  by unfold_locales (simp_all add: spends_def)

interpretation goal_sets: courier_order "spends goal_set 0" P "\<lambda>_ _. True" "\<lambda>m _. m \<noteq> ''thread/goal/set''" for P
  by unfold_locales (auto simp: spends_def spent_def)

interpretation goal_meter: metered_order "spends goal_set" P "\<lambda>_ _. True" "\<lambda>m _. m \<noteq> ''thread/goal/set''" for P
  by unfold_locales (simp add: spends_def spent_def)

text \<open>The pause protocol and the activation of a claim send one goal request at most.\<close>

lemma pause_spends: "along (spends goal_set 1) (pause_active P thread rec first)"
  unfolding pause_active_def
  by (rule spending.spend_later [OF goal_sets.along_ledger_times [OF named_ops_as_calls(3) [OF any_step(2)]]],
      rule spending.credit_cases(1) [OF spending.credit spending.spend_try [OF goal_meter.metered_goal_set(2)]])
    (intro goal_sets.along_basic goal_sets.along_pause_ends goal_sets.along_confirm_pause)+

lemma defer_session_spends:
  "along (spends goal_set 1) (defer_session P thread condition seconds heuristic key rearm)"
proof -
  have created: "along (spends goal_set 1) (defer_created P thread first bindings rec)" for first bindings rec
    unfolding defer_created_def
    by (rule spending.spend_later [OF goal_sets.along_defer_readiness], intro spending.credit_cases,
        rule spending.credit, intro TrueI goal_sets.along_basic goal_sets.along_outcome goal_sets.along_pause_ends,
        rule spending.spend_later [OF goal_sets.along_now], intro spending.credit_cases pause_spends;
        rule spending.credit,
        intro goal_sets.along_basic goal_sets.along_pause_ends goal_sets.along_arm_paused)
  have locked: "along (spends goal_set 1)
      (defer_locked P thread condition seconds heuristic key rearm first guard children)" for first guard children
    unfolding defer_locked_def
    by (rule spending.spend_later [OF goal_sets.along_prepared_goal], rule spending.credit_cases(3),
        rule spending.credit_cases(3), rule spending.spend_later, unfold enter_defer_lock_def,
        intro goal_sets.along_basic, rule spending.spend_later [OF goal_sets.along_create],
        rule spending.credit_cases(3), rule spending.credit_cases(1) [OF spending.credit created],
        rule spending.along_steps)
  show ?thesis
    unfolding defer_session_def Let_def
    by (rule spending.spend_later [OF goal_sets.along_read_observation],
        rule spending.spend_later [OF goal_sets.along_loaded_goal],
        rule spending.spend_later [OF goal_sets.along_self_wait],
        rule spending.spend_later [OF goal_sets.along_read], rule spending.credit_cases,
        rule spending.spend_later [OF goal_sets.along_require], rule locked,
        rule spending.credit, intro goal_sets.along_basic goal_sets.along_replay_goal)
qed

lemma defer_spends: "along (spends goal_set 1) (defer_goal P thread condition expires heuristic key rearm)"
proof -
  have "along (spends goal_set 1) (with_client P (defer_session P thread condition seconds heuristic key rearm))"
    for seconds
    unfolding with_client_def by (rule spending.spend_later [OF goal_sets.along_connect defer_session_spends])
  then have "along (spends goal_set 1) (bindA (with_client P (defer_session P thread condition seconds heuristic key rearm))
      (defer_response P))" for seconds
    by (rule spending.spend_first) (rule goal_sets.along_defer_response)
  then show ?thesis
    unfolding defer_goal_def
    by (intro spending.spend_later [OF goal_sets.along_require] spending.spend_later [OF goal_sets.along_rearm_of]
        spending.spend_later [OF spending.along_steps(4)])
qed

lemma activation_spends: "along (spends goal_set 1) (activate_claim P rec guard ob)"
proof -
  have send: "along (spends goal_set 1) (tryA (activate_guarded_goal P thread)
      (\<lambda>e. case e of App kind msg \<Rightarrow> outcomeA P mid s1 s2 (kvs msg) | Py err \<Rightarrow> failA e)
      (conclude_activation P rec guard))" for thread mid s1 s2 kvs
    by (rule spending.spend_try [OF goal_meter.metered_goal_set(1)])
      (intro TrueI goal_sets.along_basic goal_sets.along_outcome goal_sets.along_conclude)+
  have begun: "along (spends goal_set 1) (bindA (bindA (nowA P) (\<lambda>t0. ledger_timesA P
      (begin_activation (mon_id rec) (activation_snapshot ob t0)))) (\<lambda>activating.
      if activating = None then retA None else send activating))"
    if "\<And>x. along (spends goal_set 1) (send x)" for send :: "MonitorRecord option \<Rightarrow> MonitorRecord option act"
    by (rule spending.spend_later, intro goal_sets.along_basic,
        rule spending.credit_cases(1) [OF spending.credit that], rule spending.along_steps)
  show ?thesis
    unfolding activate_claim_def
    by (rule spending.credit_cases(1) [OF spending.credit [OF goal_sets.along_outcome [OF TrueI]]],
        rule spending.credit_cases(1) [OF spending.credit [OF goal_sets.along_outcome [OF TrueI]]],
        rule spending.spend_later [OF goal_sets.along_now],
        rule spending.credit_cases(1) [OF spending.credit begun [OF send]], intro goal_sets.along_basic)
qed

lemma finish_claim_spends: "along (spends goal_set 1) (finish_claim P rec)"
  unfolding finish_claim_def
  by (rule spending.spend_later, rule goal_sets.along_basic, intro spending.credit_cases,
      rule spending.credit [OF goal_sets.along_finish [OF _ _ goal_sets.along_admit]], simp_all only: steady_any simp_thms, simp, rule spending.credit, intro goal_sets.along_basic,
      rule spending.credit, intro goal_sets.along_outcome TrueI,
      rule spending.spend_handled, intro goal_sets.along_session goal_sets.along_read_observation,
      rule spending.credit, rule goal_sets.along_preflight_failed, rule activation_spends)

end
