(* ===== verification/Service_Budgets.thy ===== *)
theory Service_Budgets
  imports Service_Orders
begin

text \<open>
  Messages paid for by the ledger. A \<open>budget\<close> counts the monitors that satisfy \<open>q\<close> against the messages
  that satisfy \<open>p\<close>: the admissions against the queue-adds, the activations against the monitors that left
  \<open>CLAIMED\<close> for \<open>ACTIVATING\<close>, the pauses against those past \<open>DEFER_INTENT\<close>.
\<close>

section \<open>Records returned by a write\<close>

text \<open>
  An order that is only claimed from a ledger with unique identities: there the record a write returns is
  the row it wrote, so the chain from the admission to the last observation holds a delivery in progress.
\<close>

lemma ledgerA_run:
  "ledgerA P f w =
     (let L = calls (digests P) (other_calls P (ticks w)) (tables w);
          w' = w\<lparr>tables := snd (f L), ticks := ticks w + 1\<rparr> in
      case fst (f L) of Inl e \<Rightarrow> (Inl (Py e), w') | Inr x \<Rightarrow> (Inr x, w'))"
  by (simp add: ledgerA_def bindA_def others_def act_simps Let_def split: prod.split sum.split)

locale guarded_order = courier_order +
  assumes gate: "(monitors_ok (tables v) \<Longrightarrow> R v w) \<Longrightarrow> R v w"
begin

lemma along_returned:
  assumes f: "as_calls may (digests P) f"
    and ret: "\<And>L r L'. monitors_ok L \<Longrightarrow> f L = (Inr (Some r), L') \<Longrightarrow> mon_state r \<in> set delivering_states"
    and none: "along R (g None)" and some: "\<And>r. steady may r \<Longrightarrow> along R (g (Some r))"
  shows "along R (bindA (ledgerA P f) g)"
proof (rule alongI, rule gate)
  fix w :: world
  assume ok: "monitors_ok (tables w)"
  let ?L = "calls (digests P) (other_calls P (ticks w)) (tables w)"
  obtain r L' where run: "f ?L = (r, L')" by (cases "f ?L")
  let ?w = "w\<lparr>tables := L', ticks := ticks w + 1\<rparr>"
  have m: "R w ?w"
    using alongD [OF along_ledger [OF f], of w] run by (auto simp: ledgerA_run Let_def split: sum.splits)
  show "R w (snd (bindA (ledgerA P f) g w))"
  proof (cases r)
    case (Inr x)
    have "R ?w (snd (g x ?w))"
    proof (cases x)
      case None
      with none show ?thesis by (simp add: alongD)
    next
      case (Some rec)
      with ret [OF calls_keep_monitors_ok [OF ok]] run Inr have "steady may rec"
        by (intro delivering_steady) auto
      with Some show ?thesis by (simp add: alongD [OF some])
    qed
    with m run Inr R_trans show ?thesis by (auto simp: bindA_def ledgerA_run Let_def)
  qed (use m run in \<open>simp add: bindA_def ledgerA_run Let_def\<close>)
qed

lemma along_written:
  assumes "list_all (\<lambda>a. may a st) expected" "st \<in> set delivering_states"
    "along R (g None)" "\<And>r. steady may r \<Longrightarrow> along R (g (Some r))"
  shows "along R (bindA (write_delivery P mid expected st ds rc outcome now) g)"
  unfolding write_delivery_def
  by (rule along_returned [OF writes_as_calls(2) [where expected = expected]])
    (use assms delivery_returns in auto)

lemma along_acknowledged:
  assumes "along R (g None)" "\<And>r. steady may r \<Longrightarrow> along R (g (Some r))"
  shows "along R (bindA (ledgerA P (record_thread_queue_ack mid receipt now)) g)"
  by (rule along_returned)
    (use assms in \<open>auto intro: ledger_ops_as_calls simp: record_thread_queue_ack_def delivering_states_def dest: delivery_returns\<close>)

lemma along_resumed:
  assumes rec: "steady may rec" and rest: "\<And>r. steady may r \<Longrightarrow> along R (rest r)"
  shows "along R (pre_resume P now rec thread item rest)"
proof -
  have "along R (if item_index item queue = None then rest r
      else tryA (resume_thread_delivery P thread)
        (\<lambda>e. case e of App _ msg \<Rightarrow>
            bindA (write_accepted P (mon_id r) (snap msg) now) (\<lambda>_. rest r) | Py err \<Rightarrow> failA (Py err))
        (\<lambda>_. rest r))" if "steady may r" for r queue snap
    by (intro along_basic along_write_accepted along_resume methods rest that)
  then show ?thesis
    unfolding pre_resume_def Let_def write_accepted_def
    by (intro along_in_session along_list_queue along_written disjI2 rec ledger_ops_as_calls)
      (simp_all add: delivering_states_def rec)
qed

lemma along_tracked_admit:
  assumes add: "\<And>ps. ok ''thread/queue/add'' ps" and rec: "mon_state rec = CLAIMED"
  shows "along R (admit_delivery P now rec thread delivery_id pointer digest)"
proof -
  have failed: "along R (case e of App kind msg \<Rightarrow>
       if kind \<in> {AppServerRejectedError, AppServerUnsupportedMethodError} then
         write_delivery P (mon_id r) [ADMISSION_IN_PROGRESS] DELIVERY_REJECTED TD_REJECTED None (rejected msg) now
       else bindA (write_delivery P (mon_id r) [ADMISSION_IN_PROGRESS] ADMISSION_IN_PROGRESS
           TD_ADMISSION_IN_PROGRESS (lost msg) None now)
         (\<lambda>u. observe_delivery P now thread delivery_id digest (case u of None \<Rightarrow> r | Some r' \<Rightarrow> r'))
     | Py err \<Rightarrow> failA (Py err))" if "steady may r" for e r rejected lost
    by (intro along_case_error along_if along_steps along_write along_written ledger_ops_as_calls)
      (simp_all add: delivering_states_def along_observe_delivery that)
  show ?thesis
    unfolding admit_delivery_def
    by (intro along_in_session along_preflight along_returned along_case_option along_steps along_try
        along_add add failed along_acknowledged ledger_ops_as_calls disjI1 rec)
      (auto simp: along_steps delivering_states_def dest: admission_returns
        intro!: along_if along_observe_delivery along_resumed)
qed

end
section \<open>Budgets\<close>

definition pays :: "(monitor_row \<Rightarrow> bool) \<Rightarrow> (wire_event \<Rightarrow> bool) \<Rightarrow> nat \<Rightarrow> world \<Rightarrow> world \<Rightarrow> bool" where
  "pays q p k v w \<longleftrightarrow> (monitors_ok (tables v) \<longrightarrow>
     monitors_ok (tables w) \<and> spent p w + held q (tables v) \<le> spent p v + k + held q (tables w))"

interpretation paying: graded_order "pays q p" for q p
  by unfold_locales (auto simp: pays_def)

locale budget =
  fixes q :: "monitor_row \<Rightarrow> bool" and p :: "string \<Rightarrow> json \<Rightarrow> bool"
    and P :: peer and may :: "MonitorState \<Rightarrow> MonitorState \<Rightarrow> bool"
  assumes steps_allowed: "lawful_step \<le> may"
    and others_allowed: "list_all (moves_by may) (other_calls P t)"
    and growth: "monitors_ok L \<Longrightarrow> list_all (moves_by may) cs \<Longrightarrow> held q L \<le> held q (calls (digests P) cs L)"
    and free: "reading_method m \<or> m \<in> {''thread/resume'', ''thread/queue/delete''} \<Longrightarrow> \<not> p m ps"

sublocale budget \<subseteq> guarded_order "pays q (costs p) 0" P may "\<lambda>m ps. \<not> p m ps"
proof
  show "pays q (costs p) 0 w (w\<lparr>tables := calls (digests P) cs (tables w)\<rparr>)"
    if "list_all (moves_by may) cs" for w cs
    using growth [OF _ that] by (auto simp: pays_def spent_def calls_keep_monitors_ok)
qed (auto simp: pays_def spent_def steps_allowed others_allowed free reading_method_def)

sublocale budget \<subseteq> metered_order "pays q (costs p)" P may "\<lambda>m ps. \<not> p m ps"
  by unfold_locales (auto simp: pays_def spent_def)

context budget
begin

text \<open>A write that adds to what is counted pays for one message of what follows it.\<close>

lemma paid_write:
  assumes f: "as_calls may (digests P) f"
    and more: "\<And>L r L'. monitors_ok L \<Longrightarrow> f L = (Inr (Some r), L') \<Longrightarrow> held q L + 1 \<le> held q L'"
    and none: "along (pays q (costs p) 0) (g None)" and some: "\<And>r. along (pays q (costs p) 1) (g (Some r))"
  shows "along (pays q (costs p) 0) (bindA (ledgerA P f) g)"
proof (rule alongI, rule gate)
  fix w :: world
  assume ok: "monitors_ok (tables w)"
  let ?L = "calls (digests P) (other_calls P (ticks w)) (tables w)"
  obtain r L' where run: "f ?L = (r, L')" by (cases "f ?L")
  let ?w = "w\<lparr>tables := L', ticks := ticks w + 1\<rparr>"
  have m: "pays q (costs p) 0 w ?w"
    using alongD [OF along_ledger [OF f], of w] run by (auto simp: ledgerA_run Let_def split: sum.splits)
  show "pays q (costs p) 0 w (snd (bindA (ledgerA P f) g w))"
  proof (cases r)
    case (Inr x)
    have "pays q (costs p) 0 w (snd (g x ?w))"
    proof (cases x)
      case None
      with none m show ?thesis by (auto intro: R_trans dest: alongD)
    next
      case (Some rec)
      have "held q (tables w) + 1 \<le> held q L'"
        using growth [OF ok others_allowed, of "ticks w"] run Inr Some
          more [OF calls_keep_monitors_ok [OF ok, of "digests P" "other_calls P (ticks w)"], of rec L']
        by simp
      moreover have "pays q (costs p) 1 ?w (snd (g x ?w))"
        using alongD [OF some, of ?w rec] Some by simp
      ultimately show ?thesis
        using m ok by (auto simp: pays_def spent_def)
    qed
    with run Inr show ?thesis by (simp add: bindA_def ledgerA_run Let_def)
  qed (use m run in \<open>simp add: bindA_def ledgerA_run Let_def\<close>)
qed

end

section \<open>Admissions pay for queue-adds\<close>

abbreviation queue_add :: "wire_event \<Rightarrow> bool" where
  "queue_add \<equiv> costs (\<lambda>m _. m = ''thread/queue/add'')"

definition admissions :: "ledger \<Rightarrow> nat" where
  "admissions L = length (filter (\<lambda>r. mon_admission_at r \<noteq> None) (monitors L))"

interpretation admitting: budget "\<lambda>r. mon_admission_at r \<noteq> None" "\<lambda>m _. m = ''thread/queue/add''" P "\<lambda>_ _. True" for P
proof
  show "held (\<lambda>r. mon_admission_at r \<noteq> None) L \<le> held (\<lambda>r. mon_admission_at r \<noteq> None) (calls (digests P) cs L)"
    if "monitors_ok L" for L cs
    using calls_move_monitors [OF that] by (rule held_grows) (auto simp: monitor_moved_def)
qed (auto simp: reading_method_def)

lemma admission_counts:
  assumes "begin_thread_admission mid cap now L = (Inr (Some rec), L')"
  shows "held (\<lambda>r. mon_admission_at r \<noteq> None) L + 1 \<le> held (\<lambda>r. mon_admission_at r \<noteq> None) L'"
proof -
  obtain r where r: "get_monitor_row mid L = Some r" "admission_check r = Inr True"
    and L': "L' = admitted mid cap now r L"
    using admission_record [OF assms] by blast
  show ?thesis
    unfolding held_def L' admitted_def
    using held_update [of r "monitors L" "\<lambda>r. mon_id r = mid \<and> mon_state r = CLAIMED \<and> mon_admission_at r = None"
        "\<lambda>r. mon_admission_at r \<noteq> None" "admission_row (jset ''capability_at_admission'' cap (mon_delivery r)) now"]
      get_monitor_row_Some [OF r(1)] admission_check_Inr [OF r(2)]
    by (simp add: admission_row_def)
qed

lemma admit_pays:
  "along (pays (\<lambda>r. mon_admission_at r \<noteq> None) queue_add 0) (admit_delivery P now rec thread delivery_id pointer digest)"
  unfolding admit_delivery_def
  by (intro admitting.along_in_session admitting.along_preflight admitting.paid_write free_ops_as_calls
        admission_counts;
      simp only: option.case steady_any simp_thms,
      (intro admitting.metered_add paying.spend_try admitting.along_basic admitting.along_write TrueI
        admitting.along_observe_delivery admitting.along_pre_resume; simp)?)

interpretation admissions_pay: delivery_order "pays (\<lambda>r. mon_admission_at r \<noteq> None) queue_add 0" P "\<lambda>_ _. True"
    "\<lambda>m _. m \<noteq> ''thread/queue/add''" for P
  by unfold_locales (rule admitting.along_activate, simp, rule admit_pays)

section \<open>Processes that run the service\<close>

text \<open>
  The other processes of a peer, kept to the calls the service itself makes. The orders below hold of the
  state machine, so they need it of every process.
\<close>

definition abiding :: "peer \<Rightarrow> peer" where
  "abiding P = P\<lparr>other_calls := \<lambda>t. filter (moves_by lawful_step) (other_calls P t)\<rparr>"

lemma abiding_calls [simp]: "list_all (moves_by lawful_step) (other_calls (abiding P) t)"
  by (simp add: abiding_def list_all_iff)

lemma abiding_same: "(\<And>t. list_all (moves_by lawful_step) (other_calls P t)) \<Longrightarrow> abiding P = P"
  by (simp add: abiding_def list_all_iff)

text \<open>The whole service along the machine.\<close>

definition lawful_history :: "peer \<Rightarrow> world \<Rightarrow> world \<Rightarrow> bool" where
  "lawful_history P v w \<longleftrightarrow> (monitors_ok (tables v) \<longrightarrow>
     (\<exists>cs. list_all (moves_by lawful_step) cs \<and> tables w = calls (digests P) cs (tables v)))"

interpretation lawful: guarded_order "lawful_history (abiding P)" "abiding P" lawful_step "\<lambda>_ _. True" for P
proof
  show "lawful_history (abiding P) u w"
    if "lawful_history (abiding P) u v" "lawful_history (abiding P) v w" for u v w
    using that unfolding lawful_history_def
    by (metis calls_append calls_keep_monitors_ok list_all_append)
  show "lawful_history (abiding P) w w" for w
    unfolding lawful_history_def by (auto intro: exI [of _ "[]"] simp: calls_none)
qed (unfold lawful_history_def, auto intro: exI [of _ "[]"] simp: calls_none)

interpretation lawful_service: delivery_order "lawful_history (abiding P)" "abiding P" lawful_step "\<lambda>_ _. True" for P
  by unfold_locales (simp_all add: lawful.along_tracked_admit lawful.along_activate)

section \<open>Activations and pauses\<close>

text \<open>The states a monitor is in only if its goal was to be activated, and those past the pause.\<close>

definition activation_states :: "MonitorState set" where
  "activation_states =
     {ACTIVATING, FIRED, ACTIVATION_UNCERTAIN, ACTIVATION_FAILED, MIS_TARGETED_ACTIVATION}"

definition pause_states :: "MonitorState set" where
  "pause_states = - {REGISTERING, DEFER_INTENT}"

lemma closed_states: "closed (\<lambda>s. s \<in> activation_states)" "closed (\<lambda>s. s \<in> pause_states)"
proof -
  have "b \<in> activation_states" if "a \<in> activation_states" "lawful_step a b" for a b
    using that by (auto simp: activation_states_def lawful_step_def)
  moreover have "b \<in> pause_states" if "lawful_step a b" for a b
    using that by (cases a) (auto simp: pause_states_def lawful_step_def)
  ultimately show "closed (\<lambda>s. s \<in> activation_states)" "closed (\<lambda>s. s \<in> pause_states)"
    by (auto simp: closed_def)
qed

definition sets_goal :: "string \<Rightarrow> string \<Rightarrow> json \<Rightarrow> bool" where
  "sets_goal wanted m ps \<longleftrightarrow> m = ''thread/goal/set'' \<and> jget ''status'' ps = JStr wanted"

abbreviation activation :: "wire_event \<Rightarrow> bool" where
  "activation \<equiv> costs (sets_goal ''active'')"

abbreviation pause :: "wire_event \<Rightarrow> bool" where
  "pause \<equiv> costs (sets_goal ''paused'')"

lemma goal_params:
  "sets_goal s ''thread/goal/set'' (activation_params thread) \<longleftrightarrow> s = ''active''"
  "sets_goal s ''thread/goal/set'' (pause_params thread) \<longleftrightarrow> s = ''paused''"
  by (auto simp: sets_goal_def activation_params_def pause_params_def jget_def)

interpretation activating: budget "in_states activation_states" "sets_goal ''active''" "abiding P" lawful_step for P
  by unfold_locales (auto simp: sets_goal_def reading_method_def intro: lawful_calls_hold closed_states)

interpretation pausing_once: budget "in_states pause_states" "sets_goal ''paused''" "abiding P" lawful_step for P
  by unfold_locales (auto simp: sets_goal_def reading_method_def intro: lawful_calls_hold closed_states)

text \<open>The two writes that pay.\<close>

lemma activation_entered:
  "begin_activation mid snapshot t0 now L = (Inr (Some r), L') \<Longrightarrow>
     held (in_states activation_states) L + 1 \<le> held (in_states activation_states) L'"
  unfolding begin_activation_def by (erule transition_enters) (auto simp: activation_states_def)

lemma pause_entered:
  "begin_pause mid pre t0 now L = (Inr (Some r), L') \<Longrightarrow>
     held (in_states pause_states) L + 1 \<le> held (in_states pause_states) L'"
  unfolding begin_pause_def by (erule transition_enters) (auto simp: pause_states_def)

lemma bind_assoc: "bindA (bindA m f) g = bindA m (\<lambda>x. bindA (f x) g)"
  by (auto simp: bindA_def fun_eq_iff split: prod.split sum.split)

lemma claim_activation_pays:
  "along (pays (in_states activation_states) activation 0) (activate_claim (abiding P) rec guard ob)"
proof -
  have sent: "along (pays (in_states activation_states) activation 1) (tryA (activate_guarded_goal (abiding P) thread)
      (\<lambda>e. case e of App kind msg \<Rightarrow> outcomeA (abiding P) mid ACTIVATING ACTIVATION_UNCERTAIN (kvs msg) | Py err \<Rightarrow> failA e)
      (conclude_activation (abiding P) rec guard))" for thread mid kvs
    by (intro paying.spend_try activating.metered_goal_set activating.along_basic activating.along_outcome
        activating.along_conclude)
  show ?thesis
    unfolding activate_claim_def ledger_timesA_def bind_assoc
    by (intro activating.along_outcome paying.along_if activating.paid_write paying.along_bind
          activating.along_now activating.along_ledger_now activating.ledger_ops_as_calls activation_entered)
      (simp_all add: paying.along_steps sent del: One_nat_def)
qed

lemma pause_pays:
  "along (pays (in_states pause_states) pause 0) (pause_active (abiding P) thread rec first)"
proof -
  have sent: "along (pays (in_states pause_states) pause 1) (tryA (pause_guarded_goal (abiding P) thread)
      (pause_uncertain (abiding P) mid kind) (confirm_pause (abiding P) thread rec))" for mid kind
    by (intro paying.spend_try pausing_once.metered_goal_set pausing_once.along_pause_ends
        pausing_once.along_confirm_pause)
  show ?thesis
    unfolding pause_active_def ledger_timesA_def bind_assoc
    by (intro pausing_once.paid_write paying.along_bind pausing_once.along_now
          pausing_once.ledger_ops_as_calls pause_entered)
      (simp_all add: sent paying.along_bind pausing_once.along_read pausing_once.along_pause_ends del: One_nat_def)
qed

interpretation activations_pay: delivery_order "pays (in_states activation_states) activation 0" "abiding P"
    lawful_step "\<lambda>m ps. \<not> sets_goal ''active'' m ps" for P
  by unfold_locales (rule claim_activation_pays, rule activating.along_tracked_admit, simp_all add: sets_goal_def)

interpretation pauses_pay: delivery_order "pays (in_states pause_states) pause 0" "abiding P"
    lawful_step "\<lambda>m ps. \<not> sets_goal ''paused'' m ps" for P
  by unfold_locales
    (rule pausing_once.along_activate, simp add: goal_params, rule pausing_once.along_tracked_admit,
      simp_all add: sets_goal_def)

end
