(* ===== verification/Service_Properties.thy ===== *)
theory Service_Properties
  imports Service_Budgets
begin

text \<open>
  What the service as a whole may do: the calls it makes on the ledger, and the messages it sends.
\<close>

section \<open>Runs of the service\<close>

text \<open>A tool of the MCP server, a command of the command line, or a daemon with its number of passes.\<close>

datatype service_step =
    Tool "json option" tool_call
  | Command string string cli_command
  | DaemonRun rat bool nat

fun step_world :: "peer \<Rightarrow> payload_env \<Rightarrow> service_step \<Rightarrow> world \<Rightarrow> world" where
  "step_world P F (Tool caller c) w = snd (run_tool P F caller c w)"
| "step_world P F (Command runtime_dir socket c) w = snd (cli_main P F runtime_dir socket c w)"
| "step_world P F (DaemonRun interval once n) w = snd (daemon_main P interval once n w)"

definition service_run :: "peer \<Rightarrow> payload_env \<Rightarrow> service_step list \<Rightarrow> world \<Rightarrow> world" where
  "service_run P F steps w = fold (step_world P F) steps w"

definition fresh_world :: world where
  "fresh_world = \<lparr>tables = empty_ledger, wire = [], asked = [], ticks = 0, request_id = 1,
     server_info = JNull, files = [], spawned = 0\<rparr>"

context delivery_order
begin

lemma along_service_step:
  assumes "\<And>thread rec first. along R (pause_active P thread rec first)"
  shows "R w (step_world P F s w)"
  using alongD [OF along_run_tool [OF assms]] alongD [OF along_cli_main] alongD [OF along_daemon_main]
  by (cases s) simp_all

lemma along_service_run:
  assumes "\<And>thread rec first. along R (pause_active P thread rec first)"
  shows "R w (service_run P F steps w)"
  unfolding service_run_def
proof (induction steps arbitrary: w)
  case (Cons s steps)
  from along_service_step [OF assms] Cons.IH show ?case
    unfolding fold_simps by (rule R_trans)
qed (simp add: R_refl)

end


text \<open>C2. Queue-adds are paid for: in any run of the service, the requests that start a turn in a thread
  never outnumber the monitors whose one admission is recorded in the ledger.\<close>

theorem queue_adds_paid:
  "spent queue_add (service_run P F steps fresh_world) \<le> admissions (tables (service_run P F steps fresh_world))
   \<and> admissions (tables (service_run P F steps fresh_world))
     \<le> length (monitors (tables (service_run P F steps fresh_world)))"
proof -
  have "pays (\<lambda>r. mon_admission_at r \<noteq> None) queue_add 0 fresh_world (service_run P F steps fresh_world)"
    by (rule admissions_pay.along_service_run, rule admitting.along_pause_active) simp
  then show ?thesis
    by (simp add: pays_def fresh_world_def spent_def admissions_def held_def empty_ledger_def monitors_ok_def)
qed

section \<open>Messages\<close>


text \<open>C12. Attaching a monitor to a goal sends at most one goal request, and it is the pause of the very
  thread named; everything else it sends is a read.\<close>

theorem defer_pauses_once:
  "only_pauses thread w (snd (defer_goal P thread condition expires heuristic key rearm w))
   \<and> spent goal_set (snd (defer_goal P thread condition expires heuristic key rearm w)) \<le> spent goal_set w + 1"
proof
  show "only_pauses thread w (snd (defer_goal P thread condition expires heuristic key rearm w))"
    by (rule alongD, rule pausing.along_defer, rule pausing.along_pause_active) simp
  show "spent goal_set (snd (defer_goal P thread condition expires heuristic key rearm w)) \<le> spent goal_set w + 1"
    using alongD [OF defer_spends] by (simp add: spends_def)
qed

text \<open>A daemon or a manual pass never pauses a goal: all it sends is reads, the queue operations of a
  delivery, and activations; finishing one claim sends at most one goal request.\<close>

lemma activation_sent_once:
  "only_delivers w (snd (daemon_main P interval once n w))
   \<and> spent goal_set (snd (finish_claim P rec w)) \<le> spent goal_set w + 1"
  using alongD [OF passes.along_daemon_main] alongD [OF finish_claim_spends] by (simp add: spends_def)

end
