(* ===== verification/Peer_Samples.thy ===== *)
theory Peer_Samples
  imports Service_Properties Git_Properties
begin

text \<open>
  A concrete environment for the witnesses: an app-server with an idle root thread \<open>t1\<close>, which one spawned
  thread \<open>t2\<close> names as its parent, a clock of forty seconds between two questions, locks that are free
  and no other process.
\<close>

fun sample_reply :: "string \<Rightarrow> json \<Rightarrow> json" where
  "sample_reply m ps =
     (if m = ''initialize'' then JObj [(''codexHome'', JStr ''/home''), (''userAgent'', JStr ''codex/1'')]
      else if m = ''thread/read'' then
        JObj [(''thread'', JObj
          ([(''id'', jget ''threadId'' ps), (''status'', JObj [(''type'', JStr ''idle'')]),
            (''canAcceptDirectInput'', JBool True),
            (''cliVersion'', JStr ''1.0'')]
           @ (if jget ''threadId'' ps = JStr ''t2''
              then [(''source'', JObj [(''subAgent'', JObj [(''thread_spawn'', JObj [])])]),
                    (''parentThreadId'', JStr ''t1'')]
              else [])))]
      else if m = ''thread/goal/get'' then JObj [(''goal'', JNull)]
      else JObj [(''data'', JList [])])"

fun sample_incoming :: "wire_event list \<Rightarrow> ws_event list" where
  "sample_incoming (Written (Some i) m ps # es) =
     [WsText (Some (JObj [(''id'', JInt i), (''result'', sample_reply m ps)]))]"
| "sample_incoming es = []"

definition sample_output :: output_view where
  "sample_output = \<lparr>ov_made = Inr (), ov_parent = Some (True, 7, 448), ov_selected = ''/run/heartbeat'',
     ov_destination = DestMissing\<rparr>"

definition sample_runtime :: runtime_host where
  "sample_runtime =
     \<lparr>heartbeat_file = (\<lambda>_. NoFile), heartbeat_exists = (\<lambda>_. False), signal_zero = (\<lambda>_ _. Inr ()),
      lock_at = (\<lambda>_. None), locks_table = (\<lambda>_. None), start_lock = (\<lambda>_. Inr ()), defer_lock = (\<lambda>_. Inr ()),
      daemon_lock = (\<lambda>_. Inr ()), spawn_answer = (\<lambda>_. Inr ()), output_at = (\<lambda>_ _. sample_output),
      temporary_file = (\<lambda>_ _. Inr ()), heartbeat_path = ''/run/heartbeat'', process_id = 9,
      monotonic = (\<lambda>t. 40 * of_nat t), source_identity = ''src'', effective_user = 7\<rparr>"

definition sample_context :: ObserverContext where
  "sample_context = \<lparr>runtime_root = ''/run'', iso_time = (\<lambda>_. None), regex = (\<lambda>_. None),
     thread_observations = [], native_root_thread_id = None, native_observations = []\<rparr>"

definition sample_peer :: peer where
  "sample_peer =
     \<lparr>socket_stat_of = (\<lambda>_. SocketFound True 7 0 True), dial_answer = (\<lambda>_. DialOk),
      write_answer = (\<lambda>_. WriteOk), incoming = sample_incoming, codex_home = ''/home'',
      resolve_home = (\<lambda>s. s), process_uid = 7, digests = hex_env, other_calls = (\<lambda>_. []),
      wall_clock = (\<lambda>t. of_nat t), machine = sample_host, runtime = sample_runtime,
      timer_fires = (\<lambda>_. False), fresh_uuid = (\<lambda>_. ''u1''), fresh_token = (\<lambda>_. ''tok''),
      name_uuid = (\<lambda>s. s), rounded_text = (\<lambda>_. ''0''), daemon_starter = (\<lambda>_. Inr True),
      daemon_readiness = (\<lambda>_. Inr True), event_readiness = (\<lambda>_. Inr True),
      delivery_readiness = (\<lambda>_. Inr True), observer_context = sample_context\<rparr>"


section \<open>A daemon with nothing to do\<close>

definition idle_world :: "nat \<Rightarrow> (string \<times> json) list \<Rightarrow> world" where
  "idle_world t fs = fresh_world\<lparr>ticks := t, files := fs\<rparr>"

abbreviation beat :: "nat \<Rightarrow> bool \<Rightarrow> string \<times> json" where
  "beat t accepting \<equiv> (''/run/heartbeat'', heartbeat_json sample_runtime (of_nat t) accepting)"

lemma heartbeat_runs:
  "write_heartbeat sample_peer accepting (idle_world t fs) = (Inr (), idle_world (t + 3) (beat t accepting # fs))"
  by (simp add: write_heartbeat_def atomic_write_json_def validate_private_output_path_def bindA_def nowA_def
      senseA_def act_simps sample_peer_def sample_runtime_def sample_output_def checked_output_def
      idle_world_def fresh_world_def)

lemma nothing_live_runs:
  "nothing_live sample_peer (idle_world t fs) = (Inr True, idle_world (t + 1) fs)"
  by (simp add: nothing_live_def readA_def bindA_def others_def act_simps sample_peer_def
      idle_world_def fresh_world_def calls_def list_monitors_def empty_ledger_def)

lemma reconcile_runs:
  "reconcile_once sample_peer (idle_world t fs) = (Inr [], idle_world (t + 10) fs)"
  by (simp add: reconcile_once_def recover_deferred_if_unlocked_def catchA_def enter_defer_lock_def
      readA_def bindA_def others_def act_simps sample_peer_def sample_runtime_def senseA_def ledgerA_def
      ledger_timesA_def nowA_def recover_def recover_defer_intent_def recover_pausing_def expire_events_def
      sql_update_def sql_count_def reconcile_order_def
      idle_world_def fresh_world_def calls_def list_monitors_def empty_ledger_def)

lemma pass_runs:
  "daemon_pass sample_peer (idle_world t fs)
   = (Inr [], idle_world (t + 16) (beat (t + 13) True # beat t True # fs))"
  by (simp add: daemon_pass_def bindA_def heartbeat_runs reconcile_runs act_simps ac_simps)

lemma clock_runs: "monotonicA sample_peer (idle_world t fs) = (Inr (40 * of_nat t), idle_world (t + 1) fs)"
  by (simp add: monotonicA_def senseA_def act_simps sample_peer_def sample_runtime_def idle_world_def)

lemma sleep_runs: "others sample_peer (idle_world t fs) = (Inr (), idle_world (t + 1) fs)"
  by (simp add: others_def sample_peer_def idle_world_def fresh_world_def calls_def)

lemma daemon_runs:
  "daemon_loop sample_peer False 2 None (idle_world 0 []) = (Inr (Some 0), idle_world 41
     [beat 37 False, beat 32 True, beat 19 True, beat 13 True, beat 0 True])"
  by (simp add: numeral_2_eq_2 bindA_def pass_runs idle_verdict_def retire_def nothing_live_runs clock_runs
      sleep_runs heartbeat_runs act_simps IDLE_GRACE_SECONDS_def)

section \<open>A spawned thread\<close>

lemma resolve_runs:
  "case fst (resolve_thread_delivery sample_peer ''t2'' fresh_world) of
     Inr v \<Rightarrow> jget ''relay_chain'' v = JList [JStr ''t2'', JStr ''t1''] | Inl e \<Rightarrow> False"
  by code_simp

end
