(* ===== verification/Runtime_Properties.thy ===== *)
theory Runtime_Properties
  imports Peer_Samples
begin

text \<open>
  Loops: waiting for a daemon ends once the clock has passed its deadline, and the daemon ends only after
  its grace period, with nothing live and its retirement announced.
\<close>

section \<open>The clock\<close>

definition later :: "world \<Rightarrow> world \<Rightarrow> bool" where
  "later v w \<longleftrightarrow> ticks v \<le> ticks w"

interpretation clock: courier_order later P "\<lambda>_ _. True" "\<lambda>_ _. True" for P
  by unfold_locales (simp_all add: later_def)

interpretation clocks: delivery_order later P "\<lambda>_ _. True" "\<lambda>_ _. True" for P
  by unfold_locales (simp_all add: clock.along_admit clock.along_activate)

definition advances :: "peer \<Rightarrow> rat \<Rightarrow> bool" where
  "advances P \<delta> \<longleftrightarrow> 0 \<le> \<delta> \<and> (\<forall>t. monotonic (runtime P) t + \<delta> \<le> monotonic (runtime P) (Suc t))"

lemma advances_by:
  assumes "advances P \<delta>"
  shows "monotonic (runtime P) t + of_nat n * \<delta> \<le> monotonic (runtime P) (t + n)"
proof (induction n)
  case (Suc n)
  have "monotonic (runtime P) (t + n) + \<delta> \<le> monotonic (runtime P) (t + Suc n)"
    using assms by (simp add: advances_def)
  with Suc show ?case by (simp add: algebra_simps)
qed simp

lemma advances_mono:
  assumes "advances P \<delta>" "t \<le> u"
  shows "monotonic (runtime P) t \<le> monotonic (runtime P) u"
proof -
  obtain n where u: "u = t + n"
    using assms(2) by (auto simp: le_iff_add)
  have "0 \<le> of_nat n * \<delta>"
    using assms(1) by (simp add: advances_def)
  with advances_by [OF assms(1), of t n] show ?thesis
    by (simp add: u)
qed

lemma later_monotonic:
  assumes "advances P \<delta>" "later v w"
  shows "monotonic (runtime P) (ticks v) \<le> monotonic (runtime P) (ticks w)"
  using advances_mono [OF assms(1)] assms(2) by (simp add: later_def)

lemma monotonicA_run: "monotonicA P w = (Inr (monotonic (runtime P) (ticks w)), w\<lparr>ticks := ticks w + 1\<rparr>)"
  by (simp add: monotonicA_def senseA_def act_simps)

section \<open>Waiting for a daemon\<close>

text \<open>An action that never reports an exhausted bound.\<close>

definition concludes :: "polled act \<Rightarrow> world \<Rightarrow> bool" where
  "concludes m w \<longleftrightarrow> fst (m w) \<noteq> Inr NoFuel"

lemma concludes_steps:
  "concludes (retA (Returned b)) w" "concludes (retA GoOn) w" "concludes (failA e) w"
  "concludes (return_health h) w"
  by (auto simp: concludes_def act_simps return_health_def bindA_def split: prod.split sum.split)

lemma concludes_bind:
  assumes "along later m" "\<And>x v. later w v \<Longrightarrow> concludes (f x) v"
  shows "concludes (bindA m f) w"
  using alongD [OF assms(1), of w] assms(2)
  by (cases "m w"; cases "fst (m w)") (auto simp: concludes_def bindA_def)

lemma concludes_monotonic:
  "(\<And>v. later w v \<Longrightarrow> Suc (ticks w) \<le> ticks v \<Longrightarrow> concludes (f (monotonic (runtime P) (ticks w))) v)
     \<Longrightarrow> concludes (bindA (monotonicA P) f) w"
  by (simp add: concludes_def bindA_def monotonicA_run later_def)

lemma concludes_try:
  assumes "along later m" "\<And>x v. later w v \<Longrightarrow> concludes (f x) v" "\<And>e v. later w v \<Longrightarrow> concludes (h e) v"
  shows "concludes (tryA m h f) w"
  using alongD [OF assms(1), of w] assms(2,3)
  by (cases "m w"; cases "fst (m w)") (auto simp: concludes_def tryA_def)

lemma later_trans: "later u v \<Longrightarrow> later v w \<Longrightarrow> later u w"
  by (simp add: later_def)

text \<open>Enough fuel is left when the remaining iterations outlast the deadline.\<close>

definition enough :: "peer \<Rightarrow> rat \<Rightarrow> rat \<Rightarrow> nat \<Rightarrow> world \<Rightarrow> bool" where
  "enough P \<delta> deadline n w \<longleftrightarrow> deadline \<le> monotonic (runtime P) (ticks w) + of_nat n * \<delta>"

lemma enough_later: "advances P \<delta> \<Longrightarrow> enough P \<delta> deadline n w \<Longrightarrow> later w v \<Longrightarrow> enough P \<delta> deadline n v"
  using later_monotonic unfolding enough_def by fastforce

lemma enough_0: "enough P \<delta> deadline 0 w \<longleftrightarrow> deadline \<le> monotonic (runtime P) (ticks w)"
  by (simp add: enough_def)

lemma enough_Suc:
  assumes "advances P \<delta>" "enough P \<delta> deadline (Suc n) w" "Suc (ticks w) \<le> ticks v"
  shows "enough P \<delta> deadline n v"
proof -
  have "monotonic (runtime P) (ticks w) + \<delta> \<le> monotonic (runtime P) (ticks v)"
    using advances_mono [OF assms(1,3)] assms(1) by (auto simp: advances_def intro: order_trans)
  with assms(2) show ?thesis by (simp add: enough_def algebra_simps)
qed

text \<open>The check that the three loops share: past the deadline they answer with the health.\<close>

lemma concludes_check:
  assumes "\<And>v. later w v \<Longrightarrow> Suc (ticks w) \<le> ticks v \<Longrightarrow> monotonic (runtime P) (ticks w) < deadline
    \<Longrightarrow> concludes loop v"
  shows "concludes (bindA (monotonicA P) (\<lambda>m. if deadline - m \<le> 0 then return_health h
      else bindA (others P) (\<lambda>_. loop))) w"
proof (rule concludes_monotonic)
  fix v
  assume v: "later w v" "Suc (ticks w) \<le> ticks v"
  show "concludes (if deadline - monotonic (runtime P) (ticks w) \<le> 0 then return_health h
      else bindA (others P) (\<lambda>_. loop)) v"
  proof (cases "deadline - monotonic (runtime P) (ticks w) \<le> 0")
    case False
    have "concludes (bindA (others P) (\<lambda>_. loop)) v"
    proof (rule concludes_bind [OF clock.along_others])
      fix u
      assume "later v u"
      with v False show "concludes loop u"
        by (intro assms) (simp_all add: later_def)
    qed
    with False show ?thesis by simp
  qed (simp add: concludes_steps)
qed

lemma enough_rest:
  assumes "advances P \<delta>" "enough P \<delta> deadline n w" "later w u"
    and "monotonic (runtime P) (ticks u) < deadline" "Suc (ticks u) \<le> ticks v"
  obtains k where "n = Suc k" "enough P \<delta> deadline k v"
proof (cases n)
  case 0
  with enough_later [OF assms(1-3)] assms(4) show thesis by (simp add: enough_0)
next
  case (Suc k)
  with enough_Suc [OF assms(1) enough_later [OF assms(1-3), unfolded Suc] assms(5)] that
  show thesis by blast
qed

lemma await_release_concludes:
  assumes clock: "advances P \<delta>" and health: "along later health"
  shows "enough P \<delta> deadline n w \<Longrightarrow> concludes (await_release P health deadline (Suc n)) w"
proof (induction n arbitrary: w rule: less_induct)
  case (less n)
  have rest: "concludes (bindA health (\<lambda>h. if h then retA (Returned True) else await_release P health deadline n)) v"
    if u: "later w u" "monotonic (runtime P) (ticks u) < deadline" "Suc (ticks u) \<le> ticks v" for u v
  proof (rule concludes_bind [OF health])
    fix h v'
    assume "later v v'"
    then have "Suc (ticks u) \<le> ticks v'"
      using u(3) by (simp add: later_def)
    then obtain k where "n = Suc k" "enough P \<delta> deadline k v'"
      by (rule enough_rest [OF clock less.prems u(1,2)])
    with less.IH [of k v'] show "concludes (if h then retA (Returned True) else await_release P health deadline n) v'"
      by (simp add: concludes_steps)
  qed
  show ?case
    unfolding await_release.simps
  proof (rule concludes_bind)
    show "along later (daemon_lock_is_held P)"
      unfolding daemon_lock_is_held_def by (intro clock.along_basic)
    fix held u
    assume "later w u"
    from concludes_check [of u P deadline _ health, OF rest [OF this]]
    show "concludes (if \<not> held then retA GoOn else bindA (monotonicA P) (\<lambda>m.
        if deadline - m \<le> 0 then return_health health else bindA (others P) (\<lambda>_. bindA health (\<lambda>h.
          if h then retA (Returned True) else await_release P health deadline n)))) u"
      by (simp add: concludes_steps)
  qed
qed

lemma await_health_concludes:
  assumes clock: "advances P \<delta>" and health: "along later health"
  shows "enough P \<delta> deadline n w \<Longrightarrow> concludes (await_health P health deadline (Suc n)) w"
proof (induction n arbitrary: w rule: less_induct)
  case (less n)
  have rest: "concludes (await_health P health deadline n) v"
    if "later w u" "monotonic (runtime P) (ticks u) < deadline" "Suc (ticks u) \<le> ticks v" for u v
    using enough_rest [OF clock less.prems that] less.IH by (metis lessI)
  show ?case
    unfolding await_health.simps
  proof (rule concludes_monotonic)
    fix u
    assume u: "later w u"
    have "concludes (bindA health (\<lambda>h. if h then retA (Returned True) else bindA (monotonicA P) (\<lambda>m2.
        if deadline - m2 \<le> 0 then return_health health
        else bindA (others P) (\<lambda>_. await_health P health deadline n)))) u"
    proof (rule concludes_bind [OF health])
      fix h v
      assume "later u v"
      from concludes_check [of v P deadline _ health, OF rest [OF later_trans [OF u this]]]
      show "concludes (if h then retA (Returned True) else bindA (monotonicA P) (\<lambda>m2.
        if deadline - m2 \<le> 0 then return_health health
        else bindA (others P) (\<lambda>_. await_health P health deadline n))) v"
        by (simp add: concludes_steps)
    qed
    then show "concludes (if deadline \<le> monotonic (runtime P) (ticks w) then return_health health
      else bindA health (\<lambda>h. if h then retA (Returned True) else bindA (monotonicA P) (\<lambda>m2.
        if deadline - m2 \<le> 0 then return_health health
        else bindA (others P) (\<lambda>_. await_health P health deadline n)))) u"
      by (simp add: concludes_steps)
  qed
qed

lemma concludes_answer:
  assumes "along later m" "concludes m w" "\<And>x v. later w v \<Longrightarrow> x \<noteq> NoFuel \<Longrightarrow> concludes (f x) v"
  shows "concludes (bindA m f) w"
  using alongD [OF assms(1), of w] assms(2,3)
  by (cases "m w"; cases "fst (m w)") (auto simp: concludes_def bindA_def)

lemma concludes_catch:
  assumes "along later m" "concludes m w" "\<And>e v. later w v \<Longrightarrow> concludes (h e) v"
  shows "concludes (catchA m h) w"
  using alongD [OF assms(1), of w] assms(2,3)
  by (cases "m w"; cases "fst (m w)") (auto simp: concludes_def catchA_def)

lemma along_await_release: "along later health \<Longrightarrow> along later (await_release P health deadline n)"
proof (induction n)
  case (Suc n)
  then show ?case
    unfolding await_release.simps return_health_def daemon_lock_is_held_def
    by (intro clock.along_basic clock.along_monotonic) simp_all
qed (simp add: clock.along_basic)

lemma along_await_health: "along later health \<Longrightarrow> along later (await_health P health deadline n)"
proof (induction n)
  case (Suc n)
  then show ?case
    unfolding await_health.simps return_health_def
    by (intro clock.along_basic clock.along_monotonic) simp_all
qed (simp add: clock.along_basic)

lemma along_spawn: "along later (spawn_daemon P)"
  unfolding spawn_daemon_def
  by (intro clock.along_basic) (simp add: along_def later_def act_simps)

lemma along_start_body: "along later health \<Longrightarrow> along later (start_body P health deadline n)"
  unfolding start_body_def
  by (intro clock.along_basic along_await_release along_await_health along_spawn)

lemma start_body_concludes:
  assumes clock: "advances P \<delta>" and health: "along later health"
    and fuel: "enough P \<delta> deadline n w"
  shows "concludes (start_body P health deadline (Suc n)) w"
proof -
  have started: "concludes (tryA (spawn_daemon P) (\<lambda>e. case e of
        Py (OSError _) \<Rightarrow> retA (Returned False)
      | _ \<Rightarrow> if is_runtime_error e then retA (Returned False) else failA e)
      (\<lambda>_. await_health P health deadline (Suc n))) v" if "later w v" for v
  proof (rule concludes_try [OF along_spawn])
    show "concludes (await_health P health deadline (Suc n)) u" if "later v u" for u
      using enough_later [OF clock fuel] later_trans [OF \<open>later w v\<close> that]
      by (intro await_health_concludes [OF clock health]) blast
  qed (auto simp: concludes_steps split: svc_error.split py_error.split)
  have released: "concludes (bindA (await_release P health deadline (Suc n)) (\<lambda>released.
      if released \<noteq> GoOn then retA released else tryA (spawn_daemon P) (\<lambda>e. case e of
        Py (OSError _) \<Rightarrow> retA (Returned False)
      | _ \<Rightarrow> if is_runtime_error e then retA (Returned False) else failA e)
      (\<lambda>_. await_health P health deadline (Suc n)))) v" if "later w v" for v
  proof (rule concludes_answer [OF along_await_release [OF health]])
    show "concludes (await_release P health deadline (Suc n)) v"
      by (rule await_release_concludes [OF clock health enough_later [OF clock fuel that]])
    fix x u
    assume "later v u" "x \<noteq> NoFuel"
    with started [of u] later_trans [OF that] show "concludes (if x \<noteq> GoOn then retA x
      else tryA (spawn_daemon P) (\<lambda>e. case e of
        Py (OSError _) \<Rightarrow> retA (Returned False)
      | _ \<Rightarrow> if is_runtime_error e then retA (Returned False) else failA e)
      (\<lambda>_. await_health P health deadline (Suc n))) u"
      by (simp add: concludes_def act_simps)
  qed
  show ?thesis
    unfolding start_body_def
  proof (rule concludes_bind [OF health])
    fix h v
    assume "later w v"
    from released [OF this] show "concludes (if h then retA (Returned True)
        else bindA (await_release P health deadline (Suc n)) (\<lambda>released.
      if released \<noteq> GoOn then retA released else tryA (spawn_daemon P) (\<lambda>e. case e of
        Py (OSError _) \<Rightarrow> retA (Returned False)
      | _ \<Rightarrow> if is_runtime_error e then retA (Returned False) else failA e)
      (\<lambda>_. await_health P health deadline (Suc n)))) v"
      by (simp add: concludes_steps)
  qed
qed

lemma ensure_loop_concludes:
  assumes clock: "advances P \<delta>" and health: "along later health"
  shows "enough P \<delta> deadline n w \<Longrightarrow> enough P \<delta> deadline fuel w
    \<Longrightarrow> concludes (ensure_loop P health deadline (Suc fuel) (Suc n)) w"
proof (induction n arbitrary: w rule: less_induct)
  case (less n)
  let ?start = "bindA (senseA (start_lock (runtime P))) (\<lambda>_. start_body P health deadline (Suc fuel))"
  let ?again = "\<lambda>e. if \<not> is_runtime_error e then failA e
    else bindA (monotonicA P) (\<lambda>m2. if deadline - m2 \<le> 0 then return_health health
      else bindA (others P) (\<lambda>_. ensure_loop P health deadline (Suc fuel) n))"
  have rest: "concludes (ensure_loop P health deadline (Suc fuel) n) v"
    if u: "later w u" "monotonic (runtime P) (ticks u) < deadline" "Suc (ticks u) \<le> ticks v" for u v
  proof -
    obtain k where k: "n = Suc k" "enough P \<delta> deadline k v"
      by (rule enough_rest [OF clock less.prems(1) u])
    have "later w v"
      using u by (simp add: later_def)
    from less.IH [of k v] k enough_later [OF clock less.prems(2) this] show ?thesis
      by simp
  qed
  have again: "concludes (?again e) v" if "later w v" for e v
    using concludes_check [of v P deadline _ health, OF rest [OF that]] by (simp add: concludes_steps)
  have start: "concludes ?start v" if "later w v" for v
    by (rule concludes_bind [OF clock.along_sense])
      (use that later_trans enough_later [OF clock less.prems(2)] in \<open>blast intro: start_body_concludes [OF clock health]\<close>)
  have body: "concludes (catchA ?start ?again) v" if "later w v" for v
  proof (rule concludes_catch [OF _ start [OF that]])
    show "along later ?start"
      by (intro clock.along_basic along_start_body health)
  qed (use that later_trans again in blast)
  show ?case
    unfolding ensure_loop.simps
  proof (rule concludes_monotonic)
    fix u
    assume u: "later w u"
    have "concludes (bindA health (\<lambda>h. if h then retA (Returned True) else catchA ?start ?again)) u"
      by (rule concludes_bind [OF health]) (use later_trans [OF u] body in \<open>simp add: concludes_steps\<close>)
    then show "concludes (if deadline \<le> monotonic (runtime P) (ticks w) then return_health health
        else bindA health (\<lambda>h. if h then retA (Returned True) else catchA ?start ?again)) u"
      by (simp add: concludes_steps)
  qed
qed

lemma ensure_ready_concludes:
  assumes clock: "advances P \<delta>" and health: "along later health" and fuel: "timeout \<le> of_nat n * \<delta>"
  shows "concludes (ensure_daemon_ready P health timeout interval (Suc n)) w"
  unfolding ensure_daemon_ready_def
proof (rule concludes_bind [OF clock.along_steps(3)], rule concludes_monotonic)
  fix u v
  assume "later u v"
  from later_monotonic [OF clock this] fuel
  have "enough P \<delta> (monotonic (runtime P) (ticks u) + timeout) n v"
    by (simp add: enough_def)
  then show "concludes (ensure_loop P health (monotonic (runtime P) (ticks u) + timeout) (Suc n) (Suc n)) v"
    by (intro ensure_loop_concludes [OF clock health])
qed

lemma along_capable: "along later (capable P check)"
  unfolding capable_def
  by (intro clock.along_basic clock.along_healthy clock.along_read_heartbeat clock.along_decoded
      clock.along_lock_held_by)

lemma sample_advances: "advances sample_peer \<delta>" if "0 \<le> \<delta>" "\<delta> \<le> 40"
  using that by (auto simp: advances_def sample_peer_def sample_runtime_def algebra_simps)

text \<open>C23. Waiting for a daemon always answers: when the clock advances by \<open>\<delta>\<close> between two questions to the
  machine, the loops of the three readiness checks end within their two seconds, whatever the heartbeat,
  the locks, the started process and the other processes do.\<close>

theorem readiness_wait_ends:
  assumes "advances P \<delta>" "2 \<le> of_nat n * \<delta>"
  shows "fst (ensure_daemon P (Suc n) w) \<noteq> Inr NoFuel
    \<and> fst (ensure_event_daemon_ready P (Suc n) w) \<noteq> Inr NoFuel
    \<and> fst (ensure_delivery_daemon_ready P (Suc n) w) \<noteq> Inr NoFuel"
  using ensure_ready_concludes [OF assms(1) _ assms(2)]
    clock.along_healthy along_capable
  unfolding concludes_def ensure_daemon_def ensure_event_daemon_ready_def ensure_delivery_daemon_ready_def
    daemon_event_capable_def daemon_delivery_capable_def
  by blast

lemma readiness_wait_ends_witness:
  "fst (ensure_delivery_daemon_ready sample_peer 2 fresh_world) \<noteq> Inr NoFuel"
  using readiness_wait_ends [of sample_peer 40 1 fresh_world]
  by (simp add: sample_advances numeral_2_eq_2)

section \<open>The end of a daemon\<close>

lemma nothing_live_run:
  assumes "nothing_live P w = (Inr b, w')"
  shows "files w' = files w" "b \<Longrightarrow> list_monitors False (tables w') = Inr []"
  using assms
  by (auto simp: nothing_live_def bindA_Inr readA_def others_def act_simps pyA_def failA_def retA_def
      split: sum.splits)

lemma write_heartbeat_run:
  assumes "write_heartbeat P accepting w = (Inr x, w')"
  obtains path now where "files w' = (path, heartbeat_json (runtime P) now accepting) # files w"
  using assms
  by (auto simp: write_heartbeat_def atomic_write_json_def bindA_Inr nowA_def unlessA_def act_simps
      validate_private_output_path_def senseA_def pyA_def failA_def retA_def split: sum.splits if_splits)

lemma retire_stop:
  assumes "retire P w = (Inr Stop, w')"
  shows "list_monitors False (tables w') = Inr []"
    "\<exists>path v fs. files w' = (path, v) # fs \<and> jget ''accepting_work'' v = JBool False"
proof -
  obtain u x b v where u: "write_heartbeat P False w = (Inr x, u)" "nothing_live P u = (Inr b, v)"
    and v: "b" "v = w'"
    using assms by (auto simp: retire_def bindA_Inr act_simps split: if_splits)
  obtain path now where "files u = (path, heartbeat_json (runtime P) now False) # files w"
    by (rule write_heartbeat_run [OF u(1)])
  then show "\<exists>path v fs. files w' = (path, v) # fs \<and> jget ''accepting_work'' v = JBool False"
    using nothing_live_run(1) [OF u(2)] v(2) by (auto simp: heartbeat_json_def jget_def)
  show "list_monitors False (tables w') = Inr []"
    using nothing_live_run(2) [OF u(2)] v by blast
qed

lemma idle_verdict_run:
  assumes "idle_verdict P deadline w = (Inr v, w')"
  obtains (live) "v = Poll None"
  | (idle) u where "deadline = None" "later w u" "v = Poll (Some (monotonic (runtime P) (ticks u) + IDLE_GRACE_SECONDS))"
  | (waiting) d where "deadline = Some d" "v = Poll (Some d)"
  | (retired) d u u' where "deadline = Some d" "later w u" "d \<le> monotonic (runtime P) (ticks u)"
      "later u u'" "retire P u' = (Inr v, w')"
proof -
  obtain b u where u: "nothing_live P w = (Inr b, u)"
      "(if \<not> b then retA (Poll None)
     else bindA (monotonicA P) (\<lambda>m. case deadline of
           None \<Rightarrow> retA (Poll (Some (m + IDLE_GRACE_SECONDS)))
         | Some d \<Rightarrow> if d \<le> m then retire P else retA (Poll (Some d)))) u = (Inr v, w')"
    using assms unfolding idle_verdict_def bindA_Inr by blast
  have "along later (nothing_live P)"
    unfolding nothing_live_def by (intro clock.along_basic)
  from alongD [OF this, of w] u(1) have "later w u"
    by simp
  note u = u this
  have tick: "later u (u\<lparr>ticks := ticks u + 1\<rparr>)"
    by (simp add: later_def)
  show thesis
  proof (cases b)
    case False
    with u(2) show thesis by (intro live) (simp add: act_simps)
  next
    case True
    show thesis
    proof (cases deadline)
      case None
      with u(2) True show thesis
        by (intro idle [of u] None u(3)) (simp add: bindA_def monotonicA_run act_simps)
    next
      case (Some d)
      show thesis
      proof (cases "d \<le> monotonic (runtime P) (ticks u)")
        case True
        with u(2) \<open>b\<close> Some show thesis
          by (intro retired [OF Some u(3) _ tick]) (simp_all add: bindA_def monotonicA_run)
      next
        case False
        with u(2) \<open>b\<close> Some show thesis
          by (intro waiting [OF Some]) (simp add: bindA_def monotonicA_run act_simps)
      qed
    qed
  qed
qed

lemma daemon_loop_exit:
  assumes clock: "advances P 0"
  shows "daemon_loop P False n deadline w = (Inr (Some r), w')
    \<Longrightarrow> (\<And>d. deadline = Some d \<Longrightarrow> start + IDLE_GRACE_SECONDS \<le> d)
    \<Longrightarrow> start \<le> monotonic (runtime P) (ticks w)
    \<Longrightarrow> r = 0 \<and> (\<exists>u. retire P u = (Inr Stop, w') \<and> start + IDLE_GRACE_SECONDS \<le> monotonic (runtime P) (ticks u))"
proof (induction n arbitrary: deadline w)
  case (Suc n)
  obtain ts u v u2 where pass: "daemon_pass P w = (Inr ts, u)" and v: "idle_verdict P deadline u = (Inr v, u2)"
    and rest: "(case v of Stop \<Rightarrow> retA (Some 0)
         | Poll d \<Rightarrow> bindA (others P) (\<lambda>_. daemon_loop P False n d)) u2 = (Inr (Some r), w')"
    using Suc.prems(1) by (auto simp: bindA_Inr)
  have u: "later w u" "later u u2"
    using alongD [OF clocks.along_daemon_pass, of w P] pass alongD [OF clock.along_idle_verdict, of u P deadline] v
    by simp_all
  have next_pass: ?case
    if poll: "v = Poll d" and deadline: "\<And>x. d = Some x \<Longrightarrow> start + IDLE_GRACE_SECONDS \<le> x" for d
  proof -
    obtain u3 where u3: "others P u2 = (Inr (), u3)" "daemon_loop P False n d u3 = (Inr (Some r), w')"
      using rest poll by (auto simp: bindA_Inr)
    have "later w u3"
      using u alongD [OF clock.along_others, of u2 P] u3(1) by (simp add: later_def)
    from later_monotonic [OF clock this] Suc.prems(3) have "start \<le> monotonic (runtime P) (ticks u3)"
      by simp
    with Suc.IH [OF u3(2) deadline] show ?thesis by blast
  qed
  from v show ?case
  proof (cases rule: idle_verdict_run)
    case live
    then show ?thesis by (rule next_pass) simp
  next
    case (idle x)
    have "later w x"
      using u(1) idle(2) by (simp add: later_def)
    from later_monotonic [OF clock this] Suc.prems(3) idle(3) show ?thesis
      by (intro next_pass) auto
  next
    case (waiting d)
    with Suc.prems(2) show ?thesis by (intro next_pass) auto
  next
    case (retired d x x')
    show ?thesis
    proof (cases v)
      case Stop
      with rest have "r = 0" "u2 = w'"
        by (simp_all add: act_simps)
      moreover have "start + IDLE_GRACE_SECONDS \<le> monotonic (runtime P) (ticks x')"
        using Suc.prems(2) [OF retired(1)] retired(3) later_monotonic [OF clock retired(4)] by simp
      ultimately show ?thesis
        using retired(5) Stop by blast
    next
      case (Poll d')
      with retired(5) have "d' = None"
        by (auto simp: retire_def bindA_Inr act_simps split: if_splits)
      with Poll show ?thesis by (intro next_pass) auto
    qed
  qed
qed (simp add: act_simps)



end
