(* ===== verification/App_Properties.thy ===== *)
theory App_Properties
  imports Peer_Samples
begin

text \<open>
  The conversation with the app-server: which reply answers a request, how far the resolution of a spawned
  thread goes, and how often arming a wait connects.
\<close>

section \<open>Requests and replies\<close>

text \<open>What the receive loop skips while it waits for the reply to request \<open>i\<close>.\<close>

fun skipped :: "int \<Rightarrow> ws_event \<Rightarrow> bool" where
  "skipped i (WsText (Some payload)) = (\<not> (is_obj payload \<and> json_eq (jget ''id'' payload) (JInt i)))"
| "skipped i WsOther = True"
| "skipped i _ = False"

definition answers :: "int \<Rightarrow> json \<Rightarrow> json \<Rightarrow> bool" where
  "answers i payload v \<longleftrightarrow> is_obj payload \<and> json_eq (jget ''id'' payload) (JInt i)
     \<and> \<not> jhas ''error'' payload \<and> jget ''result'' payload = v \<and> is_obj v"

lemma reply_result_Inr: "reply_result m payload = Inr v \<longleftrightarrow>
    \<not> jhas ''error'' payload \<and> jget ''result'' payload = v \<and> is_obj v"
  by (auto simp: reply_result_def)

definition answered :: "int \<Rightarrow> ws_event list \<Rightarrow> json \<Rightarrow> bool" where
  "answered i es v \<longleftrightarrow> (\<exists>pre payload post. es = pre @ WsText (Some payload) # post
     \<and> list_all (skipped i) pre \<and> answers i payload v)"

lemma answered_Nil: "\<not> answered i [] v"
  by (simp add: answered_def)

lemma answered_Cons:
  "answered i (e # es) v \<longleftrightarrow>
     (\<exists>payload. e = WsText (Some payload) \<and> answers i payload v) \<or> skipped i e \<and> answered i es v"
proof
  assume "answered i (e # es) v"
  then obtain pre payload post where "e # es = pre @ WsText (Some payload) # post"
    "list_all (skipped i) pre" "answers i payload v"
    unfolding answered_def by blast
  then show "(\<exists>payload. e = WsText (Some payload) \<and> answers i payload v) \<or> skipped i e \<and> answered i es v"
    by (cases pre) (auto simp: answered_def)
next
  assume "(\<exists>payload. e = WsText (Some payload) \<and> answers i payload v) \<or> skipped i e \<and> answered i es v"
  then show "answered i (e # es) v"
  proof (elim disjE exE conjE)
    fix payload
    assume "e = WsText (Some payload)" "answers i payload v"
    then show ?thesis
      unfolding answered_def by (intro exI [of _ "[]"]) simp
  next
    assume e: "skipped i e" and "answered i es v"
    then obtain pre payload post where "es = pre @ WsText (Some payload) # post"
      "list_all (skipped i) pre" "answers i payload v"
      unfolding answered_def by blast
    with e show ?thesis
      unfolding answered_def by (intro exI [of _ "e # pre"]) simp
  qed
qed

lemma await_reply_Inr: "await_reply m i es = Inr v \<longleftrightarrow> answered i es v"
  by (induction m i es rule: await_reply.induct)
    (auto simp: answered_Nil answered_Cons answers_def reply_result_Inr)

text \<open>C21. A request is one message with an identity of its own, and it returns a result exactly when the
  app-server sent, before it closed and after nothing but other messages, the response with that identity
  and without an error.\<close>

theorem request_answered:
  "wire (snd (request P m ps w)) = Written (Some (request_id w)) m ps # wire w
   \<and> request_id (snd (request P m ps w)) = request_id w + 1
   \<and> (fst (request P m ps w) = Inr v \<longleftrightarrow> write_answer P (wire w) = WriteOk \<and>
       answered (request_id w) (incoming P (Written (Some (request_id w)) m ps # wire w)) v)"
  unfolding await_reply_Inr [of m, symmetric]
  by (auto simp: request_def Let_def bindA_def send_def others_def act_simps split: write_result.split sum.split)

section \<open>Resolving a spawned thread\<close>

definition relayed :: "json \<Rightarrow> string \<Rightarrow> string list \<Rightarrow> json" where
  "relayed capability origin chain = JObj (aupdate (entries capability)
     [(''origin_thread_id'', JStr origin), (''delivery_thread_id'', JStr (List.last chain)),
      (''relay_chain'', JList (map JStr chain)), (''relayed_to_root'', JBool (List.last chain \<noteq> origin))])"

lemma jget_relayed:
  "jget ''origin_thread_id'' (relayed capability origin chain) = JStr origin"
  "jget ''delivery_thread_id'' (relayed capability origin chain) = JStr (List.last chain)"
  "jget ''relay_chain'' (relayed capability origin chain) = JList (map JStr chain)"
  "jget ''relayed_to_root'' (relayed capability origin chain) = JBool (List.last chain \<noteq> origin)"
  by (simp_all add: relayed_def jget_def lookup_entries)

lemma resolve_chain_result:
  "resolve_chain P origin left chain current w = (Inr v, w') \<Longrightarrow> distinct chain \<Longrightarrow>
     \<exists>ext capability. v = relayed capability origin (chain @ current # ext) \<and> distinct (chain @ current # ext)
       \<and> length ext < left"
proof (induction left arbitrary: chain current w)
  case 0
  then show ?case
    by (subst (asm) resolve_chain.simps) (simp add: act_simps split: if_splits)
next
  case (Suc n)
  from Suc.prems(1) have fresh: "current \<notin> set chain"
    by (subst (asm) resolve_chain.simps) (simp add: act_simps split: if_splits)
  from Suc.prems(1) obtain thread w1 where
    "(if \<not> looks_like_spawned_subagent (jget ''source'' thread) then
        bindA (unlessA (jget ''parentThreadId'' thread \<noteq> JNull)
          (App AppServerError ''non-subagent thread exposed an unsupported parentThreadId'')) (\<lambda>_.
        bindA (preflight_thread_delivery P current) (\<lambda>capability.
        retA (relayed capability origin (chain @ [current]))))
      else (case jget ''parentThreadId'' thread of
         JStr next_id \<Rightarrow>
           if next_id = [] then app_failA ''spawned-subagent ancestry has a missing parentThreadId''
           else resolve_chain P origin n (chain @ [current]) next_id
       | _ \<Rightarrow> app_failA ''spawned-subagent ancestry has a missing parentThreadId'')) w1 = (Inr v, w')"
    unfolding resolve_chain.simps [of P origin "Suc n" chain current] relayed_def last_snoc
    by (simp add: fresh bindA_Inr Let_def) blast
  then consider
    (root_thread) capability where "v = relayed capability origin (chain @ [current])"
  | (spawned) next_id where "resolve_chain P origin n (chain @ [current]) next_id w1 = (Inr v, w')"
    by (auto simp: bindA_Inr act_simps split: if_splits json.splits)
  then show ?case
  proof cases
    case root_thread
    with fresh Suc.prems(2) show ?thesis
      by (intro exI [of _ "[]"] exI [of _ capability]) simp
  next
    case spawned
    from Suc.IH [OF spawned] fresh Suc.prems(2)
    obtain ext capability where "v = relayed capability origin ((chain @ [current]) @ next_id # ext)"
      "distinct ((chain @ [current]) @ next_id # ext)" "length ext < n"
      by auto
    then show ?thesis
      by (intro exI [of _ "next_id # ext"] exI [of _ capability]) simp
  qed
qed

text \<open>C20. A resolution that succeeds gives a chain of different threads, at most 64, from the caller's
  thread to the thread that will receive the delivery.\<close>

theorem relay_chain_bounded:
  assumes "resolve_thread_delivery P origin w = (Inr v, w')"
  shows "\<exists>chain. jget ''relay_chain'' v = JList (map JStr chain) \<and> distinct chain
    \<and> chain \<noteq> [] \<and> length chain \<le> 64 \<and> hd chain = origin \<and> jget ''origin_thread_id'' v = JStr origin
    \<and> jget ''delivery_thread_id'' v = JStr (List.last chain)
    \<and> jget ''relayed_to_root'' v = JBool (List.last chain \<noteq> origin)"
proof -
  from assms obtain u where "resolve_chain P origin 64 [] origin u = (Inr v, w')"
    by (auto simp: resolve_thread_delivery_def bindA_Inr)
  then obtain ext capability where "v = relayed capability origin (origin # ext)" "distinct (origin # ext)"
    "length ext < 64"
    using resolve_chain_result [of P origin 64 "[]" origin u v w'] by auto
  then show ?thesis
    by (intro exI [of _ "origin # ext"]) (simp add: jget_relayed)
qed

lemma relay_chain_bounded_witness:
  "\<exists>v chain. fst (resolve_thread_delivery sample_peer ''t2'' fresh_world) = Inr v
     \<and> jget ''relay_chain'' v = JList (map JStr chain) \<and> hd chain = ''t2'' \<and> length chain \<le> 64"
proof -
  obtain v w' where run: "resolve_thread_delivery sample_peer ''t2'' fresh_world = (Inr v, w')"
    using resolve_runs by (cases "resolve_thread_delivery sample_peer ''t2'' fresh_world") (auto split: sum.splits)
  from relay_chain_bounded [OF this] show ?thesis
    unfolding run by auto
qed

section \<open>Connections\<close>

fun is_dial :: "wire_event \<Rightarrow> bool" where
  "is_dial Dial = True"
| "is_dial (Written i m ps) = False"

interpretation messages: service_order "spends is_dial 0" P "\<lambda>_ _. True" "\<lambda>_ _. True" for P
  by unfold_locales (auto simp: spends_def spent_def)

interpretation dialing: reader_order "spends is_dial 0" P "\<lambda>_ _. True" "\<lambda>_ _. True" for P
  by unfold_locales simp_all

lemma connect_dials: "along (spends is_dial 1) (connect P experimental)"
proof -
  have dial: "along (spends is_dial 1) (dial P)"
    unfolding dial_def by (rule alongI) (auto simp: act_simps spends_def spent_def split: dial_result.split)
  show ?thesis
    unfolding connect_def
    by (rule spending.spend_later [OF messages.along_check_socket], rule spending.spend_first [OF dial])
      (intro messages.along_fresh messages.along_basic messages.along_request messages.along_store_info
        messages.along_send TrueI)
qed

lemma session_dials:
  "along (spends is_dial 0) body \<Longrightarrow> along (spends is_dial 1) (with_client P body)"
  unfolding with_client_def by (rule spending.spend_first [OF connect_dials])

lemma attempt_dials: "along (spends p k) m \<Longrightarrow> along (spends p k) (attemptA m)"
  by (simp add: along_def attemptA_def split_beta)

text \<open>One attempt connects once; what follows it, only when it may be repeated.\<close>

lemma prearm_attempt_dials:
  assumes body: "along (spends is_dial 0) body"
    and again: "\<not> attempted \<Longrightarrow> along (spends is_dial k) again"
  shows "along (spends is_dial (1 + k)) (prearm_attempt P st deadline attempted body again)"
proof -
  have finish: "along (spends is_dial k) (case outcome of
           Inr x \<Rightarrow> retA (Inr (x, attempted))
         | Inl (App kind msg) \<Rightarrow>
             if kind = AppServerTransportError \<and> \<not> attempted then again
             else retA (Inl (prearm_failure st kind msg attempted))
         | Inl (Py e) \<Rightarrow> failA (Py e))" for outcome :: "svc_error + 'a"
    using again spending.credit [OF spending.along_steps(1)] spending.credit [OF spending.along_steps(2)]
    by (auto split: sum.split svc_error.split)
  show ?thesis
    unfolding prearm_attempt_def
    by (rule spending.spend_later [OF messages.along_monotonic], rule spending.credit_cases(1),
        rule spending.credit [OF spending.along_steps(1)],
        rule spending.graded_bind [OF attempt_dials [OF session_dials [OF body]]],
        rule spending.spend_later [OF messages.along_sense], rule spending.credit_cases(1),
        rule spending.credit [OF spending.along_steps(1)], rule finish)
qed

lemma prearm_read_dials:
  assumes body: "along (spends is_dial 0) body"
  shows "along (spends is_dial 2) (prearm_read P st deadline False body)"
    "along (spends is_dial 1) (prearm_read P st deadline True body)"
proof -
  have once: "along (spends is_dial 1) (prearm_attempt P st deadline True body again)" for again
    using prearm_attempt_dials [OF body, of True 0 again] by simp
  then show "along (spends is_dial 1) (prearm_read P st deadline True body)"
    unfolding prearm_read_def .
  show "along (spends is_dial 2) (prearm_read P st deadline False body)"
    using prearm_attempt_dials [where attempted = False, OF body once] unfolding prearm_read_def one_add_one .
qed

text \<open>A read that did not use the retry connected once.\<close>

lemma prearm_attempt_Inr:
  assumes "prearm_attempt P st deadline attempted body again w = (Inr (Inr (x, a)), w')"
  obtains (first) m w1 w2 where "monotonicA P w = (Inr m, w1)"
      "attemptA (with_client P body) w1 = (Inr (Inr x), w2)"
      "senseA (\<lambda>t. Inr (timer_fires P t)) w2 = (Inr False, w')" "a = attempted"
  | (retry) v where "\<not> attempted" "again v = (Inr (Inr (x, a)), w')"
proof -
  obtain m w1 where m: "monotonicA P w = (Inr m, w1)" "\<not> deadline - m \<le> 0"
    and outcome: "bindA (attemptA (with_client P body)) (\<lambda>outcome.
       bindA (senseA (\<lambda>t. Inr (timer_fires P t))) (\<lambda>fired.
       if fired then retA (Inl (prearm_timeout st attempted))
       else case outcome of
           Inr x \<Rightarrow> retA (Inr (x, attempted))
         | Inl (App kind msg) \<Rightarrow>
             if kind = AppServerTransportError \<and> \<not> attempted then again
             else retA (Inl (prearm_failure st kind msg attempted))
         | Inl (Py e) \<Rightarrow> failA (Py e))) w1 = (Inr (Inr (x, a)), w')"
    using assms unfolding prearm_attempt_def bindA_Inr [of "monotonicA P"]
    by (auto simp: act_simps split: if_splits)
  obtain r w2 fired w3 where r: "attemptA (with_client P body) w1 = (Inr r, w2)"
    and fired: "senseA (\<lambda>t. Inr (timer_fires P t)) w2 = (Inr fired, w3)"
    and rest: "(if fired then retA (Inl (prearm_timeout st attempted))
       else case r of
           Inr x \<Rightarrow> retA (Inr (x, attempted))
         | Inl (App kind msg) \<Rightarrow>
             if kind = AppServerTransportError \<and> \<not> attempted then again
             else retA (Inl (prearm_failure st kind msg attempted))
         | Inl (Py e) \<Rightarrow> failA (Py e)) w3 = (Inr (Inr (x, a)), w')"
    using outcome unfolding bindA_Inr by blast
  show thesis
  proof (cases r)
    case (Inl e)
    with rest show thesis
      by (cases e) (auto simp: act_simps split: if_splits intro: retry)
  next
    case (Inr y)
    with rest fired r m(1) show thesis
      by (auto simp: act_simps split: if_splits intro: first)
  qed
qed

lemma prearm_first_dials:
  assumes body: "along (spends is_dial 0) body"
    and run: "prearm_read P st deadline False body w = (Inr (Inr (x, False)), w')"
  shows "spent is_dial w' \<le> spent is_dial w + 1"
  using run unfolding prearm_read_def
proof (cases rule: prearm_attempt_Inr)
  case (first m w1 w2)
  then show ?thesis
    using alongD [OF messages.along_monotonic, of w P]
      alongD [OF attempt_dials [OF session_dials [OF body]], of w1 P]
      alongD [OF messages.along_sense, of w2 "\<lambda>t. Inr (timer_fires P t)"]
    by (simp add: spends_def)
next
  case (retry v)
  from retry(2) show ?thesis
    by (cases rule: prearm_attempt_Inr) simp_all
qed

section \<open>Arming a wait\<close>

lemma prepare_wait_dials:
  "along (spends is_dial (if snd resolved then 1 else 2))
     (prepare_wait P thread trusted condition seconds key semantic rearm start deadline resolved)"
proof -
  have observations: "along (spends is_dial 0) (prepare_observations P children natives)" for children natives
    unfolding prepare_observations_def
    by (intro messages.along_basic dialing.along_thread_observations dialing.along_native_observations TrueI)
  have reads: "along (spends is_dial (if snd resolved then 1 else 2))
      (prearm_read P st deadline (snd resolved) (prepare_observations P children natives))" for st children natives
    using prearm_read_dials [OF observations, of P st deadline children natives] by simp
  have create: "along (spends is_dial 0) ((case seen of (threads, observed) \<Rightarrow> \<lambda>attempted.
      create_wait P mid key semantic delivery condition
        (C\<lparr>native_root_thread_id := r, thread_observations := threads, native_observations := observed\<rparr>)
        seconds rearm start deadline attempted) attempted)" for seen mid delivery C r attempted
    by (cases seen) (simp add: messages.along_create_wait)
  show ?thesis
    unfolding prepare_wait_def prearm_then_def
    by (rule spending.spend_later [OF messages.along_resolved], rule spending.credit_cases(3),
        intro spending.spend_later [OF messages.along_fresh_text] spending.spend_later [OF spending.along_steps(4)]
          spending.spend_later [OF messages.along_self_wait] spending.spend_later [OF messages.along_require],
        rule spending.spend_first [OF reads], intro messages.along_basic create)
qed

lemma resolved_wait_dials:
  assumes body: "along (spends is_dial 0) body"
    and f: "\<And>x attempted. along (spends is_dial (if attempted then 1 else 2)) (f (x, attempted))"
  shows "along (spends is_dial 3) (prearm_then (prearm_read P st deadline False body) f)"
proof (rule alongI)
  fix w
  let ?m = "prearm_read P st deadline False body"
  obtain r w1 where run: "?m w = (r, w1)"
    by (cases "?m w")
  have two: "spent is_dial w1 \<le> spent is_dial w + 2"
    using alongD [OF prearm_read_dials(1) [OF body], of w P st deadline] run by (simp add: spends_def)
  consider (failed) "\<And>y. r \<noteq> Inr (Inr y)" | (read) x attempted where "r = Inr (Inr (x, attempted))"
    by (metis surj_pair)
  then show "spends is_dial 3 w (snd (prearm_then ?m f w))"
  proof cases
    case failed
    with run two show ?thesis
      by (auto simp: prearm_then_def bindA_def act_simps spends_def split: sum.split)
  next
    case (read x attempted)
    have "spent is_dial w1 \<le> spent is_dial w + (if attempted then 2 else 1)"
      using two prearm_first_dials [OF body, of P st deadline w x w1] run read by (cases attempted) simp_all
    then show ?thesis
      using alongD [OF f, of attempted w1 x] run read
      by (cases attempted) (simp_all add: prearm_then_def bindA_def spends_def)
  qed
qed

text \<open>C25. Arming a wait opens at most three connections: one to resolve the target, one to prepare the
  condition, and a single retry that both share.\<close>

theorem wait_connects_thrice:
  "spent is_dial (snd (wait_for_event P thread condition expires key rearm start trusted w)) \<le> spent is_dial w + 3"
proof -
  have prepare: "along (spends is_dial (if attempted then 1 else 2))
      (prepare_wait P thread trusted condition seconds key semantic rearm start deadline (x, attempted))"
    for seconds semantic deadline x attempted
    using prepare_wait_dials [where resolved = "(x, attempted)"] by simp
  have "along (spends is_dial 3) (wait_for_event P thread condition expires key rearm start trusted)"
    unfolding wait_for_event_def Let_def
    by (intro spending.spend_later [OF messages.along_require] spending.spend_later [OF spending.along_steps(4)]
          spending.spend_later [OF messages.along_rearm_of],
        rule spending.spend_later [OF messages.along_read], rule spending.credit_cases(2),
        rule spending.spend_later [OF messages.along_wait_ready],
        rule spending.spend_later [OF messages.along_monotonic],
        rule resolved_wait_dials [OF dialing.along_resolve prepare],
        rule spending.credit, intro messages.along_basic messages.along_replay_wait)
  from alongD [OF this] show ?thesis
    by (simp add: spends_def)
qed

end
