(* ===== verification/Lifecycle_Properties.thy ===== *)
theory Lifecycle_Properties
  imports Peer_Samples
begin

text \<open>
  The service implements the state machine of \<open>Lifecycle\<close>: what holds of its monitors over any run, when
  the other processes of the host are services too.
\<close>

lemma lawful_run:
  assumes "\<And>t. list_all (moves_by lawful_step) (other_calls P t)"
  shows "lawful_history P w (service_run P F steps w)"
proof -
  have "lawful_history (abiding P) w (service_run (abiding P) F steps w)"
    by (rule lawful_service.along_service_run, rule lawful.along_pause_active) simp
  then show ?thesis
    by (simp add: abiding_same assms)
qed

text \<open>C1. Whatever tools, commands and daemons run, a stored monitor only takes steps of the state machine:
  each row of the table is still there, with its identity, in a state its old one leads to, and in no
  earlier phase.\<close>

theorem monitors_follow_machine:
  assumes "\<And>t. list_all (moves_by lawful_step) (other_calls P t)" "monitors_ok (tables w)"
  shows "list_all2 (\<lambda>r r'. mon_id r' = mon_id r \<and> follows (mon_state r) (mon_state r')
      \<and> phase (mon_state r) \<le> phase (mon_state r'))
    (monitors (tables w))
    (take (length (monitors (tables w))) (monitors (tables (service_run P F steps w))))"
proof -
  have "grows state_moved (monitors (tables w)) (monitors (tables (service_run P F steps w)))"
    using lawful_run [OF assms(1), of w F steps] assms(2) lawful_calls_move
    by (auto simp: lawful_history_def)
  then show ?thesis
    unfolding grows_def by (rule list_all2_mono) (auto simp: state_moved_def dest: follows_phase)
qed

text \<open>The witness runs beside a process that retires reservations and cancels a monitor.\<close>

definition busy_peer :: peer where
  "busy_peer = sample_peer\<lparr>other_calls := \<lambda>t. [ExpireEvents (of_nat t),
     Transition ''m1'' [REGISTERING, DEFER_INTENT, ARMED, CLAIMED] CANCELLED no_updates (of_nat t)]\<rparr>"

definition sample_payloads :: payload_env where
  "sample_payloads = \<lparr>open_nofollow = (\<lambda>_. None), effective_uid = 7, json_loads = (\<lambda>_. None)\<rparr>"

definition monitored_world :: "MonitorState \<Rightarrow> world" where
  "monitored_world st = fresh_world\<lparr>tables := monitored_ledger st\<rparr>"

lemma busy_lawful: "list_all (moves_by lawful_step) (other_calls busy_peer t)"
  by (simp add: busy_peer_def lawful_step_def)

lemma monitored_world_ok: "monitors_ok (tables (monitored_world st))"
  by (simp add: monitored_world_def monitored_ledger_def calls_keep_monitors_ok)

lemma monitors_follow_machine_witness:
  "list_all2 (\<lambda>r r'. mon_id r' = mon_id r \<and> follows (mon_state r) (mon_state r')
      \<and> phase (mon_state r) \<le> phase (mon_state r'))
    (monitors (tables (monitored_world ARMED)))
    (take (length (monitors (tables (monitored_world ARMED))))
      (monitors (tables (service_run busy_peer sample_payloads [DaemonRun 1 False 2] (monitored_world ARMED)))))"
  by (rule monitors_follow_machine [OF busy_lawful monitored_world_ok])

text \<open>C5. A monitor that has ended stays as it ended: whatever the service runs, the row keeps its terminal
  state, so no activation, delivery or cancellation reopens it.\<close>

theorem settled_monitors_stay:
  assumes "\<And>t. list_all (moves_by lawful_step) (other_calls P t)" "monitors_ok (tables w)"
    and "get_monitor_row mid (tables w) = Some r" "is_terminal (mon_state r)"
  shows "\<exists>r'. get_monitor_row mid (tables (service_run P F steps w)) = Some r' \<and> mon_state r' = mon_state r"
proof -
  let ?L = "tables (service_run P F steps w)"
  obtain cs where cs: "list_all (moves_by lawful_step) cs" "?L = calls (digests P) cs (tables w)"
    using lawful_run [OF assms(1), of w F steps] assms(2) by (auto simp: lawful_history_def)
  then have "grows state_moved (monitors (tables w)) (monitors ?L)"
    using lawful_calls_move [OF assms(2)] by simp
  then obtain r' where r': "r' \<in> set (monitors ?L)" "state_moved r r'"
    using get_monitor_row_Some [OF assms(3)] state_order.moved_member by blast
  then have "mon_id r' = mid" "mon_state r' = mon_state r"
    using get_monitor_row_Some [OF assms(3)] follows_terminal assms(4) by (auto simp: state_moved_def)
  moreover have "get_monitor_row (mon_id r') ?L = Some r'"
    using r'(1) cs(2) calls_keep_monitors_ok [OF assms(2)] by (simp add: get_monitor_row_in)
  ultimately show ?thesis by auto
qed

lemma monitored_row: "map_option mon_state (get_monitor_row ''m1'' (tables (monitored_world FIRED))) = Some FIRED"
  unfolding monitored_world_def by code_simp

lemma settled_monitors_stay_witness:
  "\<exists>r'. get_monitor_row ''m1'' (tables (service_run busy_peer sample_payloads
       [DaemonRun 1 False 2, DaemonRun 1 True 1] (monitored_world FIRED))) = Some r' \<and> mon_state r' = FIRED"
proof -
  obtain r where r: "get_monitor_row ''m1'' (tables (monitored_world FIRED)) = Some r" "mon_state r = FIRED"
    using monitored_row by auto
  with settled_monitors_stay [OF busy_lawful monitored_world_ok r(1)] show ?thesis by simp
qed



section \<open>A cancellation that is lost\<close>

text \<open>
  Within a delivery in progress the machine allows every order of its four states, because the code does:
  the reconciliation of an unreachable app-server writes back the state it read before it waited. Here a
  cancellation arrives in between; the request is recorded, and then overwritten.
\<close>

definition cancel_race :: "MonitorState list" where
  "cancel_race =
     (let admitted = snd (begin_thread_admission ''m1'' JNull 2 (monitored_ledger CLAIMED)) in
      case get_monitor ''m1'' admitted of
        Inr (Some rec) \<Rightarrow>
          let requested = snd (cancel_from (Some rec) ''m1'' 3 3 admitted);
              w = snd (delivery_unavailable sample_peer 4 rec AppServerTransportError ''offline''
                    (fresh_world\<lparr>tables := requested\<rparr>)) in
          map mon_state (monitors admitted @ monitors requested @ monitors (tables w))
      | _ \<Rightarrow> [])"

lemma cancellation_lost: "cancel_race = [ADMISSION_IN_PROGRESS, CANCEL_REQUESTED, ADMISSION_IN_PROGRESS]"
  by code_simp

end
