(* ===== verification/Claim_Properties.thy ===== *)
theory Claim_Properties
  imports Lifecycle_Properties
begin

text \<open>
  What one evaluation of an armed monitor does when no other process writes in between: the row is decided
  by the observer's table, and keeps what was observed.
\<close>

section \<open>A transition nobody interferes with\<close>

lemma transition_runs:
  assumes ok: "monitors_ok L" and row: "get_monitor_row mid L = Some r" and typed: "monitor_typed r"
    and state: "mon_state r \<in> set expected"
  obtains rec L' where "transition mid expected st u now L = (Inr (Some rec), L')"
    "get_monitor_row mid L' = Some (transition_row st u now r)" "monitors_ok L'"
    "monitor_from_row (transition_row st u now r) = Inr rec"
proof -
  obtain rec where rec: "monitor_from_row (transition_row st u now r) = Inr rec"
    using typed_decodes typed by (metis writes_typed(1))
  let ?L = "L\<lparr>monitors := sql_update (\<lambda>q. mon_id q = mid) (transition_row st u now) (monitors L)\<rparr>"
  have "transition mid expected st u now L = (Inr (Some rec), ?L)"
    using state row rec
    by (auto simp: transition_def update_monitor_is_cas [OF ok monitor_writes_keep(1)] after_commit_def)
  moreover have "get_monitor_row mid ?L = Some (transition_row st u now r)"
    using row get_monitor_row_Some [OF row] by (simp add: get_monitor_row_update)
  moreover have "monitors_ok ?L"
    using ok by (simp add: monitors_ok_def map_sql_update)
  ultimately show thesis
    using rec by (rule that)
qed

lemma alone_ledger:
  assumes "\<And>t. other_calls P t = []" "f (tables w) = (Inr x, L)"
  shows "ledgerA P f w = (Inr x, w\<lparr>tables := L, ticks := ticks w + 1\<rparr>)"
  using assms by (simp add: ledgerA_run calls_none)

text \<open>An action ended with the row \<open>q\<close> in the table, and returned its record if it says so.\<close>

definition leaves_row :: "string \<Rightarrow> monitor_row \<Rightarrow> bool \<Rightarrow> (svc_error + MonitorRecord option) \<times> world \<Rightarrow> bool" where
  "leaves_row mid q returned res \<longleftrightarrow> get_monitor_row mid (tables (snd res)) = Some q
     \<and> (\<exists>rec. monitor_from_row q = Inr rec \<and> fst res = Inr (if returned then Some rec else None))"

lemma alone_write:
  assumes alone: "\<And>t. other_calls P t = []" and ok: "monitors_ok (tables w)"
    and row: "get_monitor_row mid (tables w) = Some r" "monitor_typed r" "mon_state r \<in> set expected"
  shows "\<exists>t0 t. leaves_row mid (transition_row st (u t0) t r) True
    (ledger_timesA P (\<lambda>t0. transition mid expected st (u t0)) w)"
proof -
  let ?a = "wall_clock P (ticks w)" and ?b = "wall_clock P (ticks w + 1)"
  obtain rec L where "transition mid expected st (u ?a) ?b (tables w) = (Inr (Some rec), L)"
      "get_monitor_row mid L = Some (transition_row st (u ?a) ?b r)"
      "monitor_from_row (transition_row st (u ?a) ?b r) = Inr rec"
    by (rule transition_runs [OF ok row])
  then have "leaves_row mid (transition_row st (u ?a) ?b r) True
      (ledger_timesA P (\<lambda>t0. transition mid expected st (u t0)) w)"
    using alone_ledger [OF alone, of "transition mid expected st (u ?a) ?b" "w\<lparr>ticks := ticks w + 2\<rparr>"]
    by (simp add: leaves_row_def ledger_timesA_def bindA_def nowA_def)
  then show ?thesis by blast
qed

section \<open>One evaluation\<close>

text \<open>What the row of an evaluated monitor says: the decision, its reason, and what was observed.\<close>

definition decided :: "claim_decision \<Rightarrow> Evaluation \<Rightarrow> json \<Rightarrow> monitor_row \<Rightarrow> monitor_row \<Rightarrow> bool" where
  "decided d ev condition r r' \<longleftrightarrow> mon_id r' = mon_id r \<and> mon_state r' = decision_state d
     \<and> mon_wake_reason r' = (case d of Claimed (Some reason) \<Rightarrow> Some reason | _ \<Rightarrow> mon_wake_reason r)
     \<and> mon_condition r' = canon condition \<and> mon_evidence r' = canon (ev_evidence ev)
     \<and> mon_witness r' = map canon (ev_witness ev) \<and> mon_evaluations r' = mon_evaluations r + 1"

abbreviation evaluation_updates :: "json \<Rightarrow> Evaluation \<Rightarrow> updates" where
  "evaluation_updates condition ev \<equiv> no_updates\<lparr>up_condition := Some condition,
     up_evidence := Some (ev_evidence ev), up_witness := Some (ev_witness ev), up_evaluated := True\<rparr>"

abbreviation observed_row :: "json \<Rightarrow> Evaluation \<Rightarrow> rat \<Rightarrow> monitor_row \<Rightarrow> monitor_row" where
  "observed_row condition ev now r \<equiv> transition_row ARMED (evaluation_updates condition ev) now r"

lemma decided_rows:
  assumes "mon_state r = ARMED"
  shows "decided StayArmed ev condition r (observed_row condition ev now r)"
    "decided (Claimed reason) ev condition r (transition_row CLAIMED
       (no_updates\<lparr>up_condition := Some condition, up_evidence := Some (ev_evidence ev),
          up_witness := Some (ev_witness ev), up_wake_reason := reason, up_outcome := Some v\<rparr>) t
       (observed_row condition ev now r))"
    "decided ObserverFailed ev condition r (transition_row OBSERVER_FAILED
       (no_updates\<lparr>up_evidence := Some (ev_evidence ev), up_witness := Some (ev_witness ev),
          up_outcome := Some v\<rparr>) t (observed_row condition ev now r))"
  by (cases reason; simp add: decided_def transition_row_def no_updates_def assigned_def)+

lemma consume_decides:
  fixes thread :: bool
  assumes alone: "\<And>t. other_calls P t = []" and ok: "monitors_ok (tables w)" and mid: "mon_id rec = mid"
    and r: "monitor_typed r" "mon_state r = ARMED"
    and row: "get_monitor_row mid (tables w) = Some (observed_row condition ev now r)"
  defines "d \<equiv> observer_decision rec thread ev (wall_clock P (ticks w))"
  shows "\<exists>r'. decided d ev condition r r'
    \<and> leaves_row mid r' (d \<noteq> StayArmed) (consume_evaluation P rec thread condition ev w)"
proof -
  let ?w = "w\<lparr>ticks := ticks w + 1\<rparr>"
  have run: "consume_evaluation P rec thread condition ev w =
     (case d of
        Claimed reason \<Rightarrow> claim_with P rec condition ev reason
      | ObserverFailed \<Rightarrow>
          ledger_timesA P (\<lambda>t0. transition mid [ARMED] OBSERVER_FAILED
            (no_updates\<lparr>up_evidence := Some (ev_evidence ev), up_witness := Some (ev_witness ev),
               up_outcome := Some (JObj [(''kind'', JStr ''observer_identity_failed''), (''at'', jnum t0)])\<rparr>))
      | _ \<Rightarrow> retA None) ?w"
    unfolding mid [symmetric] by (simp add: consume_evaluation_def bindA_def nowA_def d_def)
  have typed: "monitor_typed (observed_row condition ev now r)"
    using r(1) by simp
  then obtain rec1 where rec1: "monitor_from_row (observed_row condition ev now r) = Inr rec1"
    using typed_decodes by blast
  have armed: "mon_state (observed_row condition ev now r) \<in> set [ARMED]"
    by (simp add: transition_row_def)
  note wrote = alone_write [OF alone, of ?w mid "observed_row condition ev now r" "[ARMED]"]
  show ?thesis
  proof (cases d)
    case StayArmed
    then show ?thesis
      using row rec1 decided_rows(1) [OF r(2)] by (auto simp: run leaves_row_def retA_def)
  next
    case (Claimed reason)
    have "claim mid condition (ev_evidence ev) (ev_witness ev) reason
      = (\<lambda>t0. transition mid [ARMED] CLAIMED (no_updates\<lparr>up_condition := Some condition,
          up_evidence := Some (ev_evidence ev), up_witness := Some (ev_witness ev),
          up_wake_reason := reason, up_outcome := Some (trigger_claimed reason t0)\<rparr>))"
      by (simp add: fun_eq_iff claim_def)
    with Claimed wrote [of CLAIMED] ok row typed armed show ?thesis
      by (fastforce simp: run claim_with_def mid intro: decided_rows(2) [OF r(2)])
  next
    case ObserverFailed
    with wrote [of OBSERVER_FAILED] ok row typed armed show ?thesis
      by (fastforce simp: run intro: decided_rows(3) [OF r(2)])
  next
    case Expired
    then show ?thesis by (simp add: d_def observer_decision_def Let_def split: if_splits)
  qed
qed


text \<open>An armed monitor whose condition cannot be observed wakes its thread.\<close>

abbreviation unobservable :: Evaluation where
  "unobservable \<equiv> mk_eval UNKNOWN (JObj [(''kind'', JStr ''unsupported_stored_condition''),
     (''classification'', JStr ''derived'')]) [] True"

lemma sample_armed:
  "case get_monitor_row ''m1'' (monitored_ledger ARMED) of None \<Rightarrow> False | Some r \<Rightarrow>
     mon_state r = ARMED \<and> is_thread_delivery (mon_delivery r)
     \<and> contains_event_condition (mon_condition r) = Inr False
     \<and> fst (evaluate_condition sample_context sample_host (mon_condition r) []) = Inr (unobservable, mon_condition r)"
  by code_simp


end
