(* ===== verification/Delivery_Properties.thy ===== *)
theory Delivery_Properties
  imports Peer_Samples
begin

text \<open>
  What the service may conclude about a delivery from what the app-server shows of a thread.
\<close>

section \<open>Texts of a thread\<close>

text \<open>The text of a message with one text part, and the texts that carry a delivery's identity: in the
  turns of a thread, and in its queue.\<close>

definition carried_text :: "json \<Rightarrow> string" where
  "carried_text parts = (case parts of JList [v] \<Rightarrow> (case jget ''text'' v of JStr t \<Rightarrow> t | _ \<Rightarrow> []) | _ \<Rightarrow> [])"

definition delivered_texts :: "string \<Rightarrow> json list \<Rightarrow> string list" where
  "delivered_texts delivery_id turns = map (\<lambda>i. carried_text (jget ''content'' i))
     (filter (\<lambda>i. is_obj i \<and> jget ''type'' i = JStr ''userMessage'' \<and> jget ''clientId'' i = JStr delivery_id)
       (concat (map (\<lambda>t. list_items (jget ''items'' t)) turns)))"

definition queued_texts :: "string \<Rightarrow> json list \<Rightarrow> string list" where
  "queued_texts delivery_id items = map (\<lambda>i. carried_text (jget ''input'' i))
     (filter (\<lambda>i. jget ''clientUserMessageId'' i = JStr delivery_id) items)"

lemma one_text_reads: "one_text parts a b c w = (Inr t, w') \<Longrightarrow> w' = w \<and> t = carried_text parts"
  by (auto simp: one_text_def carried_text_def act_simps split: json.splits list.splits if_splits)

lemma mapA_reads:
  assumes "\<And>x y w w'. f x w = (Inr y, w') \<Longrightarrow> w' = w \<and> g y = h x"
  shows "mapA f xs w = (Inr ys, w') \<Longrightarrow> w' = w \<and> map g ys = map h xs"
proof (induction xs arbitrary: w ys)
  case Nil
  then show ?case by (simp add: act_simps)
next
  case (Cons x xs)
  then obtain y w1 zs where "f x w = (Inr y, w1)" "mapA f xs w1 = (Inr zs, w')" "ys = y # zs"
    by (auto simp: bindA_Inr act_simps)
  with Cons.IH [of w1 zs] assms [of x w y w1] show ?case by auto
qed

lemma history_reads:
  assumes "mapA (turn_history E delivery_id) turns w = (Inr history, w')"
  shows "w' = w \<and> map (jget ''pointer_digest'') (concat history)
    = map (\<lambda>t. JStr (sha256 E t)) (delivered_texts delivery_id turns)"
proof -
  have entry: "w' = w \<and> jget ''pointer_digest'' e = JStr (sha256 E (carried_text (jget ''content'' i)))"
    if "history_entry E turn i w = (Inr e, w')" for turn i e and w w' :: world
    using that by (auto simp: history_entry_def history_pointer_def bindA_Inr act_simps jget_def dest: one_text_reads)
  have turn: "w' = w \<and> map (jget ''pointer_digest'') es
      = map (\<lambda>t. JStr (sha256 E t)) (delivered_texts delivery_id [turn])"
    if "turn_history E delivery_id turn w = (Inr es, w')" for turn es and w w' :: world
    using that mapA_reads [where f = "history_entry E turn" and g = "jget ''pointer_digest''"
        and h = "\<lambda>i. JStr (sha256 E (carried_text (jget ''content'' i)))", OF entry]
    by (auto simp: turn_history_def delivered_texts_def act_simps split: json.splits)
  have "w' = w \<and> map (map (jget ''pointer_digest'')) history
      = map (\<lambda>t. map (\<lambda>t. JStr (sha256 E t)) (delivered_texts delivery_id [t])) turns"
    using mapA_reads [where f = "turn_history E delivery_id" and g = "map (jget ''pointer_digest'')", OF turn assms] .
  then show ?thesis
    by (auto simp: map_concat delivered_texts_def filter_concat comp_def)
qed

lemma queue_reads:
  assumes "mapA (queue_entry E) (List.enumerate 0 items) w = (Inr queue, w')"
  shows "w' = w \<and> map (jget ''pointer_digest'') (filter (\<lambda>i. jget ''client_user_message_id'' i = JStr delivery_id) queue)
    = map (\<lambda>t. JStr (sha256 E t)) (queued_texts delivery_id items)"
proof -
  let ?g = "\<lambda>q. (jget ''client_user_message_id'' q, jget ''pointer_digest'' q)"
    and ?h = "\<lambda>i. (jget ''clientUserMessageId'' i, JStr (sha256 E (carried_text (jget ''input'' i))))"
  have entry: "w' = w \<and> ?g q = (?h \<circ> snd) ni" if "queue_entry E ni w = (Inr q, w')" for ni q and w w' :: world
    using that by (cases ni) (auto simp: queue_entry_def queued_pointer_def bindA_Inr act_simps jget_def
        split: if_splits dest: one_text_reads)
  have "w' = w \<and> map ?g queue = map (?h \<circ> snd) (List.enumerate 0 items)"
    using mapA_reads [of "queue_entry E" ?g "?h \<circ> snd", OF entry assms] .
  then have "w' = w" "map ?g queue = map ?h (map snd (List.enumerate 0 items))"
    by (simp_all only: map_map)
  then have "w' = w" "map ?g queue = map ?h items"
    unfolding map_snd_enumerate .
  moreover have "map (jget ''pointer_digest'') (filter (\<lambda>i. jget ''client_user_message_id'' i = JStr delivery_id) queue)
      = map snd (filter (\<lambda>p. fst p = JStr delivery_id) (map ?g queue))"
    by (induction queue) auto
  moreover have "map snd (filter (\<lambda>p. fst p = JStr delivery_id) (map ?h items))
      = map (\<lambda>t. JStr (sha256 E t)) (queued_texts delivery_id items)"
    by (induction items) (auto simp: queued_texts_def)
  ultimately show ?thesis by simp
qed

section \<open>Inspection\<close>

text \<open>What the digests of the texts seen in the turns and waiting in the queue say of a delivery.\<close>

definition judged :: "string \<Rightarrow> string list \<Rightarrow> string list \<Rightarrow> string" where
  "judged digest seen waiting =
     (if \<exists>d \<in> set (seen @ waiting). d \<noteq> digest then ''delivery_modified''
      else if seen \<noteq> [] then ''recorded'' else if waiting \<noteq> [] then ''queued'' else ''absent'')"

lemma same_digest:
  assumes "map (jget ''pointer_digest'') items = map JStr ds"
  shows "length (filter (\<lambda>i. jget ''pointer_digest'' i = JStr digest) items) = length (filter (\<lambda>d. d = digest) ds)"
    "length items = length ds"
proof -
  have "length (filter (\<lambda>i. jget ''pointer_digest'' i = JStr digest) items)
      = length (filter (\<lambda>v. v = JStr digest) (map (jget ''pointer_digest'') items))"
    by (simp add: filter_map comp_def)
  then show "length (filter (\<lambda>i. jget ''pointer_digest'' i = JStr digest) items) = length (filter (\<lambda>d. d = digest) ds)"
    by (simp add: assms filter_map comp_def)
  show "length items = length ds"
    using assms by (metis length_map)
qed

lemma count_same:
  "length ds - length (filter (\<lambda>d. d = digest) ds) = 0 \<longleftrightarrow> (\<forall>d \<in> set ds. d = digest)"
  "length (filter (\<lambda>d. d = digest) ds) = 0 \<longleftrightarrow> digest \<notin> set ds"
proof -
  have "length ds - length (filter (\<lambda>d. d = digest) ds) = length (filter (\<lambda>d. d \<noteq> digest) ds)"
    using sum_length_filter_compl [of "\<lambda>d. d = digest" ds] by simp
  then show "length ds - length (filter (\<lambda>d. d = digest) ds) = 0 \<longleftrightarrow> (\<forall>d \<in> set ds. d = digest)"
    by (simp add: filter_empty_conv)
qed (auto simp: filter_empty_conv)

lemma classified:
  assumes "map (jget ''pointer_digest'') history = map JStr seen"
    "map (jget ''pointer_digest'') (filter (\<lambda>i. jget ''client_user_message_id'' i = JStr delivery_id) queue) = map JStr waiting"
  shows "jget ''classification'' (delivery_report digest live interrupted history delivery_id queue)
    = JStr (judged digest seen waiting)"
proof -
  have "jget ''classification'' (delivery_report digest live interrupted history delivery_id queue) = JStr (classify_delivery
      (length (filter (\<lambda>d. d = digest) seen)) (length seen - length (filter (\<lambda>d. d = digest) seen))
      (length (filter (\<lambda>d. d = digest) waiting)) (length waiting - length (filter (\<lambda>d. d = digest) waiting)))"
    unfolding delivery_report_def Let_def same_digest [OF assms(1)] same_digest [OF assms(2)]
    by (simp add: jget_def)
  also have "\<dots> = JStr (judged digest seen waiting)"
    unfolding classify_delivery_def count_same judged_def by (cases seen; cases waiting) auto
  finally show ?thesis .
qed

text \<open>C8. An inspection that returns has read the thread and then its queue, of the very thread asked for,
  and its verdict is that of the texts which carry the delivery's identity: modified if any of them does not
  have the pointer's digest; recorded only if one is in the history; queued only if none is and one waits;
  absent only if there is none.\<close>

theorem inspection_sound:
  assumes "inspect_thread_delivery P thread delivery_id digest w = (Inr ob, w')"
  shows "\<exists>read w1 page. request P ''thread/read'' (read_params thread True) w = (Inr read, w1)
    \<and> request P ''thread/queue/list'' (queue_params thread) w1 = (Inr page, w')
    \<and> jget ''id'' (jget ''thread'' read) = JStr thread
    \<and> jget ''classification'' ob = JStr (judged digest
        (map (sha256 (digests P)) (delivered_texts delivery_id (list_items (jget ''turns'' (jget ''thread'' read)))))
        (map (sha256 (digests P)) (queued_texts delivery_id (list_items (jget ''data'' page)))))"
proof -
  obtain read w1 thr w2 live w3 turns w4 history w5 queue
    where read: "request P ''thread/read'' (read_params thread True) w = (Inr read, w1)"
    and thr: "exact_thread read thread w1 = (Inr thr, w2)"
    and live: "runtime_status_of thr ''thread/read returned no runtime status'' w2 = (Inr live, w3)"
    and turns: "(case jget ''turns'' thr of
              JList turns \<Rightarrow>
                if list_all is_obj turns then retA turns
                else app_failA ''thread/read returned an invalid turn list''
            | _ \<Rightarrow> app_failA ''thread/read returned an invalid turn list'') w3 = (Inr turns, w4)"
    and history: "mapA (turn_history (digests P) delivery_id) turns w4 = (Inr history, w5)"
    and queue: "list_thread_queue P thread w5 = (Inr queue, w')"
    and ob: "ob = delivery_report digest live (list_ex (\<lambda>t. jget ''status'' t = JStr ''interrupted'') turns)
        (concat history) delivery_id queue"
    using assms unfolding inspect_thread_delivery_def bindA_Inr act_simps by blast
  have thread: "thr = jget ''thread'' read" "jget ''id'' thr = JStr thread" "w2 = w1"
    using thr by (auto simp: exact_thread_def Let_def bindA_Inr act_simps split: if_splits)
  have shown: "jget ''turns'' thr = JList turns" "w4 = w2"
    using turns live by (auto simp: runtime_status_of_def act_simps split: json.splits if_splits bool.splits)
  obtain page w6 items w7 where page: "request P ''thread/queue/list'' (queue_params thread) w5 = (Inr page, w6)"
    and items: "queue_items page w6 = (Inr items, w7)"
    and entries: "mapA (queue_entry (digests P)) (List.enumerate 0 items) w7 = (Inr queue, w')"
    using queue unfolding list_thread_queue_def bindA_Inr by (auto simp: act_simps split: if_splits)
  have listed: "jget ''data'' page = JList items" "w7 = w6"
    using items by (auto simp: queue_items_def act_simps split: json.splits if_splits)
  have "jget ''classification'' ob = JStr (judged digest
      (map (sha256 (digests P)) (delivered_texts delivery_id turns))
      (map (sha256 (digests P)) (queued_texts delivery_id items)))"
    unfolding ob using history_reads [OF history] queue_reads [OF entries, of delivery_id]
    by (intro classified) (simp_all add: comp_def)
  moreover have "w5 = w1" "w6 = w'"
    using history_reads [OF history] queue_reads [OF entries] thread shown listed by simp_all
  ultimately show ?thesis
    using read page thread shown listed by auto
qed

text \<open>A thread whose history has the pointer of the delivery \<open>d1\<close>.\<close>

definition told_thread :: json where
  "told_thread = JObj [(''thread'', JObj
     [(''id'', JStr ''t1''), (''status'', JObj [(''type'', JStr ''idle'')]),
      (''turns'', JList [JObj [(''id'', JStr ''u1''), (''items'', JList
         [JObj [(''type'', JStr ''userMessage''), (''id'', JStr ''i1''), (''clientId'', JStr ''d1''),
            (''content'', JList [JObj [(''type'', JStr ''text''), (''text'', JStr ''wake up'')]])]])]])])]"

fun told_incoming :: "wire_event list \<Rightarrow> ws_event list" where
  "told_incoming (Written (Some i) m ps # es) = [WsText (Some (JObj [(''id'', JInt i),
     (''result'', if m = ''thread/read'' then told_thread else sample_reply m ps)]))]"
| "told_incoming es = []"

definition told_peer :: peer where
  "told_peer = sample_peer\<lparr>incoming := told_incoming\<rparr>"

lemma told_inspected:
  "case fst (inspect_thread_delivery told_peer ''t1'' ''d1'' (sha256 hex_env ''wake up'') fresh_world) of
     Inr ob \<Rightarrow> jget ''classification'' ob = JStr ''recorded'' | Inl e \<Rightarrow> False"
  by code_simp

lemma inspection_sound_witness:
  "\<exists>ob w1 read page. fst (inspect_thread_delivery told_peer ''t1'' ''d1'' (sha256 hex_env ''wake up'') fresh_world) = Inr ob
     \<and> jget ''classification'' ob = JStr ''recorded''
     \<and> request told_peer ''thread/read'' (read_params ''t1'' True) fresh_world = (Inr read, w1)
     \<and> fst (request told_peer ''thread/queue/list'' (queue_params ''t1'') w1) = Inr page
     \<and> judged (sha256 hex_env ''wake up'')
        (map (sha256 hex_env) (delivered_texts ''d1'' (list_items (jget ''turns'' (jget ''thread'' read)))))
        (map (sha256 hex_env) (queued_texts ''d1'' (list_items (jget ''data'' page)))) = ''recorded''"
proof -
  obtain ob w' where run: "inspect_thread_delivery told_peer ''t1'' ''d1'' (sha256 hex_env ''wake up'') fresh_world = (Inr ob, w')"
    and seen: "jget ''classification'' ob = JStr ''recorded''"
    using told_inspected
    by (cases "inspect_thread_delivery told_peer ''t1'' ''d1'' (sha256 hex_env ''wake up'') fresh_world")
      (auto split: sum.splits)
  have "digests told_peer = hex_env"
    by (simp add: told_peer_def sample_peer_def)
  with inspection_sound [OF run] seen run show ?thesis by fastforce
qed

end
