(* ===== verification/Ledger_Schema.thy ===== *)
theory Ledger_Schema
  imports Ledger_Samples
begin

text \<open>
  Opening the ledger (\<open>Ledger._initialize\<close>, lines 514 to 754 of \<open>ledger.py\<close>): the two tables are created or
  given the columns they lack, the reservations are rebuilt when an earlier schema let a monitor bind only
  one of them, and the file is tied to one runtime directory. Outside the rebuild every statement commits by
  itself. The original columns are taken to be there; \<open>fill\<close> is what an added column says of the old rows.
\<close>

record ledger_file =
  monitor_columns :: "string list option"
  reservation_columns :: "string list option"
  reservation_indexes :: "(string \<times> bool \<times> string list) list"
  state_index :: bool
  recorded_root :: "string option"
  monitor_rows :: "monitor_row list"
  reservation_rows :: "event_row list"

section \<open>Columns\<close>

definition all_monitor_columns :: "string list" where
  "all_monitor_columns =
     [''monitor_id'', ''idempotency_key'', ''semantic_json'', ''target_json'', ''condition_json'', ''state'',
      ''mode'', ''idle_barrier'', ''allow_heuristic_continuation'', ''expires_at'', ''evidence_json'',
      ''witness_json'', ''outcome_json'', ''activation_snapshot_json'', ''created_at'', ''updated_at'',
      ''wake_reason'', ''rearm_of'', ''evaluation_count'', ''armed_at'', ''delivery_json'', ''delivery_state'',
      ''admission_attempted_at'', ''queue_receipt_json'', ''reconciliation_json'', ''delivery_outcome_json'',
      ''target_status_observed_at'']"

definition added_monitor_columns :: "(string \<times> (monitor_row \<Rightarrow> monitor_row)) list" where
  "added_monitor_columns =
     [(''mode'', \<lambda>r. r\<lparr>mon_mode := LEGACY\<rparr>), (''idle_barrier'', \<lambda>r. r\<lparr>mon_idle_barrier := False\<rparr>),
      (''wake_reason'', \<lambda>r. r\<lparr>mon_wake_reason := None\<rparr>), (''rearm_of'', \<lambda>r. r\<lparr>mon_rearm_of := None\<rparr>),
      (''evaluation_count'', \<lambda>r. r\<lparr>mon_evaluations := 0\<rparr>), (''armed_at'', \<lambda>r. r\<lparr>mon_armed_at := None\<rparr>),
      (''delivery_json'', \<lambda>r. r\<lparr>mon_delivery := JNull\<rparr>),
      (''delivery_state'', \<lambda>r. r\<lparr>mon_delivery_state := None\<rparr>),
      (''admission_attempted_at'', \<lambda>r. r\<lparr>mon_admission_at := None\<rparr>),
      (''queue_receipt_json'', \<lambda>r. r\<lparr>mon_receipt := JNull\<rparr>),
      (''reconciliation_json'', \<lambda>r. r\<lparr>mon_reconciliation := JNull\<rparr>),
      (''delivery_outcome_json'', \<lambda>r. r\<lparr>mon_delivery_outcome := JNull\<rparr>),
      (''target_status_observed_at'', \<lambda>r. r\<lparr>mon_status_seen_at := None\<rparr>)]"

definition all_reservation_columns :: "string list" where
  "all_reservation_columns =
     [''reservation_id'', ''idempotency_key'', ''kind'', ''producer_id'', ''semantic_json'', ''state'',
      ''token_salt'', ''token_digest'', ''expires_at'', ''bound_monitor_id'', ''heartbeat_json'',
      ''heartbeat_sequence'', ''heartbeat_fingerprint'', ''terminal_json'', ''terminal_fingerprint'',
      ''attestation_json'', ''cancelled_at'', ''expired_at'', ''created_at'', ''updated_at'']"

definition added_reservation_columns :: "(string \<times> (event_row \<Rightarrow> event_row)) list" where
  "added_reservation_columns =
     [(''heartbeat_json'', \<lambda>r. r\<lparr>row_heartbeat := Absent\<rparr>),
      (''heartbeat_sequence'', \<lambda>r. r\<lparr>row_hb_sequence := JNull\<rparr>),
      (''heartbeat_fingerprint'', \<lambda>r. r\<lparr>row_hb_fingerprint := JNull\<rparr>),
      (''terminal_json'', \<lambda>r. r\<lparr>row_terminal := Absent\<rparr>),
      (''terminal_fingerprint'', \<lambda>r. r\<lparr>row_fingerprint := JNull\<rparr>),
      (''attestation_json'', \<lambda>r. r\<lparr>row_attestation := Absent\<rparr>),
      (''cancelled_at'', \<lambda>r. r\<lparr>row_cancelled_at := JNull\<rparr>),
      (''expired_at'', \<lambda>r. r\<lparr>row_expired_at := JNull\<rparr>)]"

text \<open>\<open>if name not in columns: ALTER TABLE \<dots> ADD COLUMN\<close>, for each column in order.\<close>

fun add_missing :: "string list \<Rightarrow> (string \<times> ('r \<Rightarrow> 'r)) list \<Rightarrow> string list \<times> 'r list \<Rightarrow> string list \<times> 'r list" where
  "add_missing present [] t = t"
| "add_missing present ((name, fill) # adds) (cols, rows) =
     add_missing present adds (if name \<in> set present then (cols, rows) else (cols @ [name], map fill rows))"

section \<open>The statements\<close>

definition open_monitors :: "ledger_file \<Rightarrow> ledger_file" where
  "open_monitors f = (case monitor_columns f of
     None \<Rightarrow> f\<lparr>monitor_columns := Some all_monitor_columns, monitor_rows := [], state_index := True\<rparr>
   | Some cols \<Rightarrow>
       (case add_missing cols added_monitor_columns (cols, monitor_rows f) of (cols', rows) \<Rightarrow>
          f\<lparr>monitor_columns := Some cols', monitor_rows := rows, state_index := True\<rparr>))"

text \<open>What SQLite gives a table with a primary key and one unique column.\<close>

definition table_indexes :: "(string \<times> bool \<times> string list) list" where
  "table_indexes =
     [(''sqlite_autoindex_event_reservations_2'', True, [''idempotency_key'']),
      (''sqlite_autoindex_event_reservations_1'', True, [''reservation_id''])]"

definition open_reservations :: "ledger_file \<Rightarrow> ledger_file" where
  "open_reservations f = (case reservation_columns f of
     None \<Rightarrow> f\<lparr>reservation_columns := Some all_reservation_columns, reservation_rows := [],
               reservation_indexes := table_indexes\<rparr>
   | Some cols \<Rightarrow>
       (case add_missing cols added_reservation_columns (cols, reservation_rows f) of (cols', rows) \<Rightarrow>
          f\<lparr>reservation_columns := Some cols', reservation_rows := rows\<rparr>))"

definition unique_monitor_binding :: "ledger_file \<Rightarrow> bool" where
  "unique_monitor_binding f \<longleftrightarrow>
     list_ex (\<lambda>(name, unique, cols). unique \<and> cols = [''bound_monitor_id'']) (reservation_indexes f)"

text \<open>One transaction: every row must decode and no monitor may hold two reservations; then the table is
  copied into one without the unique index.\<close>

definition rebuild_reservations :: "digest_env \<Rightarrow> ledger_file \<Rightarrow> unit res \<times> ledger_file" where
  "rebuild_reservations E f =
     (if \<not> unique_monitor_binding f then (Inr (), f)
      else case map_res (event_from_row E) (reservation_rows f) of
        Inl e \<Rightarrow> (Inl e, f)
      | Inr _ \<Rightarrow>
          if \<not> distinct (filter (\<lambda>v. v \<noteq> JNull) (map row_bound (reservation_rows f))) then
            (Inl (RuntimeError ''legacy event reservation bindings are not single-monitor''), f)
          else (Inr (), f\<lparr>reservation_columns := Some all_reservation_columns,
                          reservation_indexes := table_indexes\<rparr>))"

definition binding_index :: "ledger_file \<Rightarrow> ledger_file" where
  "binding_index f =
     (if list_ex (\<lambda>(name, _). name = ''event_reservations_bound_monitor'') (reservation_indexes f) then f
      else f\<lparr>reservation_indexes :=
        (''event_reservations_bound_monitor'', False, [''bound_monitor_id'']) # reservation_indexes f\<rparr>)"

definition record_root :: "string \<Rightarrow> ledger_file \<Rightarrow> unit res \<times> ledger_file" where
  "record_root canonical_root f = (case recorded_root f of
     None \<Rightarrow> (Inr (), f\<lparr>recorded_root := Some canonical_root\<rparr>)
   | Some existing \<Rightarrow>
       if existing \<noteq> canonical_root then (Inl (RuntimeError
         (''runtime root mismatch in durable ledger: '' @ existing @ '' != '' @ canonical_root)), f)
       else (Inr (), f))"

definition initialize :: "digest_env \<Rightarrow> string \<Rightarrow> ledger_file \<Rightarrow> unit res \<times> ledger_file" where
  "initialize E canonical_root f =
     (case rebuild_reservations E (open_reservations (open_monitors f)) of
        (Inl e, f') \<Rightarrow> (Inl e, f')
      | (Inr _, f') \<Rightarrow> record_root canonical_root (binding_index f'))"

section \<open>Columns are added once\<close>

lemma add_missing_columns:
  "fst (add_missing present adds (cols, rows)) = cols @ filter (\<lambda>n. n \<notin> set present) (map fst adds)"
  by (induction adds arbitrary: cols rows) auto

lemma add_missing_complete:
  "fst ` set adds \<subseteq> set present \<Longrightarrow> add_missing present adds (cols, rows) = (cols, rows)"
  by (induction adds arbitrary: cols rows) auto

lemma add_missing_keeps:
  "\<forall>(n, fill) \<in> set adds. \<forall>r. g (fill r) = g r \<Longrightarrow>
     map g (snd (add_missing present adds (cols, rows))) = map g rows"
proof (induction adds arbitrary: cols rows)
  case (Cons a adds)
  then show ?case by (cases a) (simp add: comp_def)
qed simp

lemma add_missing_has_all:
  "add_missing cols adds (cols, rows) = (cols', rows') \<Longrightarrow> fst ` set adds \<subseteq> set cols'"
  using add_missing_columns [of cols adds cols rows] by auto

lemma added_are_columns:
  "fst ` set added_monitor_columns \<subseteq> set all_monitor_columns"
  "fst ` set added_reservation_columns \<subseteq> set all_reservation_columns"
  by (simp_all add: added_monitor_columns_def all_monitor_columns_def added_reservation_columns_def
      all_reservation_columns_def)

section \<open>What opening leaves\<close>

text \<open>A file that has the schema: nothing of it changes when it is opened again.\<close>

definition current_schema :: "ledger_file \<Rightarrow> bool" where
  "current_schema f \<longleftrightarrow>
     (\<exists>mc. monitor_columns f = Some mc \<and> fst ` set added_monitor_columns \<subseteq> set mc)
     \<and> (\<exists>rc. reservation_columns f = Some rc \<and> fst ` set added_reservation_columns \<subseteq> set rc)
     \<and> state_index f \<and> \<not> unique_monitor_binding f
     \<and> list_ex (\<lambda>(name, _). name = ''event_reservations_bound_monitor'') (reservation_indexes f)"

text \<open>The rows of a table that was there: as many, in their order, with what their original columns hold.\<close>

definition original_part :: "(string \<times> ('r \<Rightarrow> 'r)) list \<Rightarrow> 'r \<Rightarrow> 'r" where
  "original_part adds = fold snd adds"

definition kept_rows :: "ledger_file \<Rightarrow> ledger_file \<Rightarrow> bool" where
  "kept_rows f f' \<longleftrightarrow>
     (monitor_columns f \<noteq> None \<longrightarrow>
        map (original_part added_monitor_columns) (monitor_rows f')
          = map (original_part added_monitor_columns) (monitor_rows f))
     \<and> (reservation_columns f \<noteq> None \<longrightarrow>
          map (original_part added_reservation_columns) (reservation_rows f')
            = map (original_part added_reservation_columns) (reservation_rows f))"

lemma fills_keep:
  "\<forall>(n, fill) \<in> set added_monitor_columns. \<forall>r.
     original_part added_monitor_columns (fill r) = original_part added_monitor_columns r"
  "\<forall>(n, fill) \<in> set added_reservation_columns. \<forall>r.
     original_part added_reservation_columns (fill r) = original_part added_reservation_columns r"
  by (simp_all add: added_monitor_columns_def added_reservation_columns_def original_part_def)

lemma monitors_opened:
  "\<exists>mc. monitor_columns (open_monitors f) = Some mc \<and> fst ` set added_monitor_columns \<subseteq> set mc"
  "state_index (open_monitors f)"
  "reservation_columns (open_monitors f) = reservation_columns f"
  "reservation_rows (open_monitors f) = reservation_rows f"
  using added_are_columns(1)
  by (auto simp: open_monitors_def split: option.split prod.split dest!: add_missing_has_all)

lemma reservations_opened:
  "\<exists>rc. reservation_columns (open_reservations f) = Some rc \<and> fst ` set added_reservation_columns \<subseteq> set rc"
  "monitor_columns (open_reservations f) = monitor_columns f"
  "monitor_rows (open_reservations f) = monitor_rows f"
  "state_index (open_reservations f) = state_index f"
  using added_are_columns(2)
  by (auto simp: open_reservations_def split: option.split prod.split dest!: add_missing_has_all)

lemma rows_opened:
  "monitor_columns f \<noteq> None \<Longrightarrow>
     map (original_part added_monitor_columns) (monitor_rows (open_monitors f))
       = map (original_part added_monitor_columns) (monitor_rows f)"
  "reservation_columns f \<noteq> None \<Longrightarrow>
     map (original_part added_reservation_columns) (reservation_rows (open_reservations f))
       = map (original_part added_reservation_columns) (reservation_rows f)"
  using add_missing_keeps [OF fills_keep(1)] add_missing_keeps [OF fills_keep(2)]
  by (simp_all only: open_monitors_def open_reservations_def)
    (auto simp add: case_prod_beta split: option.splits simp del: map_eq_conv)

lemma current_unchanged:
  assumes "current_schema f"
  shows "initialize E home f = record_root home f"
proof -
  have "open_monitors f = f" "open_reservations f = f"
    using assms by (auto simp: current_schema_def open_monitors_def open_reservations_def add_missing_complete)
  then show ?thesis
    using assms by (simp add: current_schema_def initialize_def rebuild_reservations_def binding_index_def)
qed

text \<open>Before the directory is recorded the file is already current, unless the rebuild refused it.\<close>

lemma rebuild_leaves:
  assumes "rebuild_reservations E f = (r, f')"
  shows "monitor_columns f' = monitor_columns f \<and> monitor_rows f' = monitor_rows f
    \<and> state_index f' = state_index f \<and> reservation_rows f' = reservation_rows f"
    and "r = Inr () \<Longrightarrow> \<not> unique_monitor_binding f'"
    and "reservation_columns f' \<in> {reservation_columns f, Some all_reservation_columns}"
  using assms
  by (auto simp: rebuild_reservations_def unique_monitor_binding_def table_indexes_def
      split: if_splits sum.splits)

lemma binding_index_leaves:
  "monitor_columns (binding_index f) = monitor_columns f" "monitor_rows (binding_index f) = monitor_rows f"
  "state_index (binding_index f) = state_index f"
  "reservation_columns (binding_index f) = reservation_columns f"
  "reservation_rows (binding_index f) = reservation_rows f"
  "unique_monitor_binding (binding_index f) = unique_monitor_binding f"
  "list_ex (\<lambda>(name, _). name = ''event_reservations_bound_monitor'') (reservation_indexes (binding_index f))"
  by (simp_all add: binding_index_def unique_monitor_binding_def)

lemma record_root_leaves:
  assumes "record_root home f = (r, f')"
  shows "kept_rows f f'" "current_schema f' = current_schema f"
    and "r = Inr () \<Longrightarrow> recorded_root f' = Some home"
  using assms
  by (auto simp: record_root_def kept_rows_def current_schema_def unique_monitor_binding_def
      split: option.splits if_splits)

lemma initialize_leaves:
  assumes "initialize E home f = (r, f')"
  shows "kept_rows f f'"
    and "r = Inr () \<Longrightarrow> current_schema f' \<and> recorded_root f' = Some home"
proof -
  let ?f = "open_reservations (open_monitors f)"
  obtain r1 f1 where b: "rebuild_reservations E ?f = (r1, f1)"
    by (cases "rebuild_reservations E ?f")
  have k1: "kept_rows f f1"
    using monitors_opened(3,4) [of f] reservations_opened(3) [of "open_monitors f"] rebuild_leaves(1) [OF b]
      rows_opened(1) [of f] rows_opened(2) [of "open_monitors f"]
    by (simp add: kept_rows_def del: map_eq_conv)
  have c1: "monitor_columns f1 \<noteq> None" "reservation_columns f1 \<noteq> None"
    using monitors_opened(1) [of f] reservations_opened(1,2) [of "open_monitors f"]
      rebuild_leaves(1,3) [OF b] by auto
  show "kept_rows f f'"
  proof (cases r1)
    case (Inr u)
    then have "record_root home (binding_index f1) = (r, f')"
      using assms b by (simp add: initialize_def)
    from record_root_leaves(1) [OF this] show ?thesis
      using k1 c1 by (simp add: kept_rows_def binding_index_leaves)
  qed (use assms b k1 in \<open>simp add: initialize_def\<close>)
  assume r: "r = Inr ()"
  then have r1: "r1 = Inr ()" and d: "record_root home (binding_index f1) = (r, f')"
    using assms b by (auto simp: initialize_def split: sum.splits)
  have "current_schema (binding_index f1)"
    using monitors_opened(1,2) [of f] reservations_opened(1,2,4) [of "open_monitors f"]
      rebuild_leaves [OF b] added_are_columns(2) r1
    by (auto simp: current_schema_def binding_index_leaves)
  with record_root_leaves(2,3) [OF d] r show "current_schema f' \<and> recorded_root f' = Some home" by simp
qed

section \<open>The property\<close>


text \<open>A file of an earlier version: no heartbeat or delivery columns, one reservation to a monitor.\<close>

definition legacy_file :: ledger_file where
  "legacy_file =
     \<lparr>monitor_columns = Some (take 6 all_monitor_columns),
      reservation_columns = Some (take 10 all_reservation_columns),
      reservation_indexes = [(''one_binding'', True, [''bound_monitor_id''])],
      state_index = False, recorded_root = None, monitor_rows = [], reservation_rows = [sample_row]\<rparr>"

definition upgraded_file :: ledger_file where
  "upgraded_file = snd (initialize hex_env ''/home'' legacy_file)"

lemma legacy_rows:
  "add_missing present added_reservation_columns (cols, [sample_row])
     = (cols @ filter (\<lambda>n. n \<notin> set present) (map fst added_reservation_columns), [sample_row])"
  by (simp add: added_reservation_columns_def sample_row_def fresh_row_def)

lemma legacy_opens: "initialize hex_env ''/home'' legacy_file = (Inr (), upgraded_file)"
proof -
  let ?f = "open_reservations (open_monitors legacy_file)"
  have "reservation_rows ?f = [sample_row]" "recorded_root ?f = None"
    by (simp_all add: open_reservations_def open_monitors_def legacy_file_def legacy_rows
        split: prod.split)
  moreover have "row_bound sample_row = JNull" by (simp add: sample_row_def fresh_row_def)
  ultimately have "fst (initialize hex_env ''/home'' legacy_file) = Inr ()"
    by (auto simp: initialize_def rebuild_reservations_def sample_decodes record_root_def binding_index_def
        split: prod.split)
  then show ?thesis by (simp add: upgraded_file_def prod_eq_iff)
qed


end
