(* ===== verification/Paths.thy ===== *)
theory Paths
  imports Terminal_Events
begin

text \<open>
  Where a runtime lives (\<open>runtime.py\<close>, lines 24 to 90, and \<open>_spawn_daemon\<close>): the home directory, the runtime
  directory inside it, the way back from one to the other, the control socket, the identity of the loaded
  source, and the command of a started daemon. An absolute path is the list of its components; what a text
  means on this machine (\<open>expanduser\<close>, \<open>resolve\<close>), the environment and the file system are parameters.
\<close>

type_synonym path = "string list"

definition path_text :: "path \<Rightarrow> string" where
  "path_text p = (if p = [] then ''/'' else concat (map (\<lambda>c. CHR ''/'' # c) p))"

datatype mode_change = Changed | Not_permitted | Mode_error string

record path_env =
  environ :: "string \<Rightarrow> string option"
  user_home :: "string res"
  expand_user :: "string \<Rightarrow> string res"
  real_path :: "string \<Rightarrow> path res"
  make_directory :: "path \<Rightarrow> unit res"
  change_mode :: "path \<Rightarrow> mode_change"
  package_directory :: path
  source_file :: "path \<Rightarrow> string option"
  python_executable :: string

section \<open>Home, runtime directory, socket\<close>

definition RUNTIME_DIR_NAME :: string where "RUNTIME_DIR_NAME = ''codex-wake-me-up''"

text \<open>\<open>value or os.environ.get("CODEX_HOME") or Path.home() / ".codex"\<close>.\<close>

definition home_text :: "path_env \<Rightarrow> string option \<Rightarrow> string res" where
  "home_text M value =
     (if value \<notin> {None, Some []} then Inr (the value)
      else if environ M ''CODEX_HOME'' \<notin> {None, Some []} then Inr (the (environ M ''CODEX_HOME''))
      else bindE (user_home M) (\<lambda>h. Inr (h @ ''/.codex'')))"

definition resolve_codex_home :: "path_env \<Rightarrow> string option \<Rightarrow> path res" where
  "resolve_codex_home M value =
     bindE (home_text M value) (\<lambda>raw. bindE (expand_user M raw) (real_path M))"

definition chosen_runtime_root :: "path_env \<Rightarrow> string option \<Rightarrow> path res" where
  "chosen_runtime_root M value =
     bindE (resolve_codex_home M value) (\<lambda>home.
     let root_dir = home @ [''runtime'', RUNTIME_DIR_NAME] in
     bindE (make_directory M root_dir) (\<lambda>_.
     case change_mode M root_dir of
       Mode_error e \<Rightarrow> Inl (OSError e)
     | _ \<Rightarrow> Inr root_dir))"

text \<open>The name of the file system's own root is empty, and it is its own parent.\<close>

definition path_name :: "path \<Rightarrow> string" where
  "path_name p = (if p = [] then [] else List.last p)"

definition codex_home_for_runtime_root :: "path_env \<Rightarrow> string \<Rightarrow> path res" where
  "codex_home_for_runtime_root M dir =
     bindE (real_path M dir) (\<lambda>resolved.
     if path_name resolved \<noteq> RUNTIME_DIR_NAME \<or> path_name (butlast resolved) \<noteq> ''runtime'' then
       Inl (RuntimeError (''runtime root must be $CODEX_HOME/runtime/codex-wake-me-up; ''
         @ ''an arbitrary directory cannot safely identify an app-server''))
     else Inr (butlast (butlast resolved)))"

definition control_socket :: "path_env \<Rightarrow> string option \<Rightarrow> path res" where
  "control_socket M value =
     bindE (resolve_codex_home M value) (\<lambda>home.
     Inr (home @ [''app-server-control'', ''app-server-control.sock'']))"

text \<open>The client resolves the home it is given, and then derives the socket of the result.\<close>

definition client_socket :: "path_env \<Rightarrow> string option \<Rightarrow> path res" where
  "client_socket M value =
     bindE (resolve_codex_home M value) (\<lambda>home. control_socket M (Some (path_text home)))"

text \<open>The client both factories of a service open, and its ledger.\<close>

definition service_socket :: "path_env \<Rightarrow> path \<Rightarrow> path res" where
  "service_socket M dir =
     bindE (codex_home_for_runtime_root M (path_text dir)) (\<lambda>home. client_socket M (Some (path_text home)))"

section \<open>The source\<close>

definition identity_files :: "string list" where
  "identity_files =
     [''conditions.py'', ''app_server.py'', ''daemon.py'', ''delivery.py'', ''git_attestation.py'', ''ledger.py'',
      ''models.py'', ''runtime.py'', ''service.py'', ''terminal_events.py'', ''worker_delivery_adapter.py'']"

definition loaded_source_identity :: "digest_env \<Rightarrow> path_env \<Rightarrow> string" where
  "loaded_source_identity E M =
     sha256 E (concat (map (\<lambda>name.
       name @ [CHR 0x00]
       @ (case source_file M (package_directory M @ [name]) of None \<Rightarrow> [] | Some content \<Rightarrow> content)
       @ [CHR 0x00]) identity_files))"

section \<open>Starting a daemon\<close>

record spawned_process =
  argv :: "string list"
  working_directory :: string
  python_path :: string

definition spawn_command :: "path_env \<Rightarrow> path \<Rightarrow> spawned_process" where
  "spawn_command M dir =
     (let source_root = butlast (package_directory M) in
      \<lparr>argv = [python_executable M, ''-m'', ''codex_wake_me_up.daemon'', ''--runtime-root'', path_text dir],
       working_directory = path_text (butlast source_root),
       python_path = (case environ M ''PYTHONPATH'' of
           None \<Rightarrow> path_text source_root
         | Some previous \<Rightarrow>
             if previous = [] then path_text source_root else path_text source_root @ '':'' @ previous)\<rparr>)"

text \<open>The directory the daemon and the commands choose, from what follows \<open>--runtime-root\<close>.\<close>

definition daemon_root :: "path_env \<Rightarrow> string option \<Rightarrow> path res" where
  "daemon_root M arg =
     bindE (case arg of None \<Rightarrow> chosen_runtime_root M None | Some t \<Rightarrow> real_path M t) (\<lambda>dir.
     bindE (make_directory M dir) (\<lambda>_. Inr dir))"

definition command_root :: "path_env \<Rightarrow> string option \<Rightarrow> path res" where
  "command_root M arg =
     bindE (case arg of None \<Rightarrow> chosen_runtime_root M None | Some t \<Rightarrow> real_path M t) (\<lambda>dir.
     bindE (codex_home_for_runtime_root M (path_text dir)) (\<lambda>_. Inr dir))"

section \<open>One home, one runtime, one socket\<close>

text \<open>A path that is its own resolution: absolute, without links.\<close>

definition canonical_path :: "path_env \<Rightarrow> path \<Rightarrow> bool" where
  "canonical_path M p \<longleftrightarrow> expand_user M (path_text p) = Inr (path_text p) \<and> real_path M (path_text p) = Inr p"

lemma path_text_nonempty: "path_text p \<noteq> []"
  by (cases p) (simp_all add: path_text_def)

lemma canonical_home:
  assumes "canonical_path M p"
  shows "resolve_codex_home M (Some (path_text p)) = Inr p"
  using assms by (simp add: resolve_codex_home_def home_text_def canonical_path_def path_text_nonempty)

lemma chosen_root_is:
  assumes "chosen_runtime_root M value = Inr dir"
  obtains home where "resolve_codex_home M value = Inr home" "dir = home @ [''runtime'', RUNTIME_DIR_NAME]"
    "make_directory M dir = Inr ()"
proof -
  obtain home where h: "resolve_codex_home M value = Inr home"
    using assms by (auto simp: chosen_runtime_root_def bindE_Inr_iff)
  with assms have "dir = home @ [''runtime'', RUNTIME_DIR_NAME] \<and> make_directory M dir = Inr ()"
    by (auto simp: chosen_runtime_root_def bindE_Inr_iff Let_def split: mode_change.splits)
  with h that show thesis by blast
qed

lemma home_of_root:
  "canonical_path M (home @ [''runtime'', RUNTIME_DIR_NAME]) \<Longrightarrow>
     codex_home_for_runtime_root M (path_text (home @ [''runtime'', RUNTIME_DIR_NAME])) = Inr home"
  by (simp add: codex_home_for_runtime_root_def canonical_path_def path_name_def butlast_append)

text \<open>The check is exact: what it accepts is a runtime directory of the home it returns.\<close>

lemma home_of_root_sound:
  assumes "codex_home_for_runtime_root M dir = Inr home"
  shows "real_path M dir = Inr (home @ [''runtime'', RUNTIME_DIR_NAME])"
proof -
  obtain p where p: "real_path M dir = Inr p" "path_name p = RUNTIME_DIR_NAME" "path_name (butlast p) = ''runtime''"
      "home = butlast (butlast p)"
    using assms by (auto simp: codex_home_for_runtime_root_def bindE_Inr_iff split: if_splits)
  then have "p \<noteq> []" "butlast p \<noteq> []"
    by (auto simp: path_name_def RUNTIME_DIR_NAME_def)
  then have "p = butlast (butlast p) @ [List.last (butlast p)] @ [List.last p]"
    by (metis append_assoc append_butlast_last_id)
  with p \<open>p \<noteq> []\<close> \<open>butlast p \<noteq> []\<close> show ?thesis by (simp add: path_name_def)
qed

text \<open>C26. Where the home and the runtime directory chosen for it are free of links, everything that is given the
  runtime directory finds the same home: the service's client opens the very socket of that home, a command
  accepts the directory, and the daemon started for it works in it. A directory that is not of this form is
  refused, whatever a command is given.\<close>

theorem one_home_one_runtime:
  assumes "chosen_runtime_root M value = Inr dir" "resolve_codex_home M value = Inr home"
    and "canonical_path M home" "canonical_path M dir"
  shows "codex_home_for_runtime_root M (path_text dir) = Inr home
    \<and> service_socket M dir = control_socket M value
    \<and> command_root M (Some (path_text dir)) = Inr dir
    \<and> daemon_root M (Some (List.last (argv (spawn_command M dir)))) = Inr dir
    \<and> (\<forall>arg other. command_root M arg = Inr other \<longrightarrow>
         (\<exists>h. real_path M (path_text other) = Inr (h @ [''runtime'', RUNTIME_DIR_NAME])))"
proof -
  have dir: "dir = home @ [''runtime'', RUNTIME_DIR_NAME]" "make_directory M dir = Inr ()"
    using chosen_root_is [OF assms(1)] assms(2) by auto
  have home_dir: "codex_home_for_runtime_root M (path_text dir) = Inr home"
    using home_of_root assms(4) dir(1) by simp
  moreover have "service_socket M dir = control_socket M value"
    by (simp add: service_socket_def home_dir client_socket_def canonical_home [OF assms(3)] control_socket_def assms(2))
  moreover have "command_root M (Some (path_text dir)) = Inr dir"
    using assms(4) home_dir by (simp add: command_root_def canonical_path_def)
  moreover have "daemon_root M (Some (List.last (argv (spawn_command M dir)))) = Inr dir"
    using assms(4) dir(2) by (simp add: daemon_root_def spawn_command_def canonical_path_def Let_def)
  ultimately show ?thesis
    by (auto simp: command_root_def bindE_Inr_iff dest!: home_of_root_sound)
qed

text \<open>A machine whose paths are texts without links.\<close>

fun split_slash :: "string \<Rightarrow> string \<Rightarrow> string list" where
  "split_slash [] part = (if part = [] then [] else [part])"
| "split_slash (c # s) part =
     (if c = CHR ''/'' then (if part = [] then [] else [part]) @ split_slash s []
      else split_slash s (part @ [c]))"

definition plain_machine :: path_env where
  "plain_machine =
     \<lparr>environ = (\<lambda>_. None), user_home = Inr ''/u'', expand_user = Inr,
      real_path = (\<lambda>t. Inr (split_slash t [])), make_directory = (\<lambda>_. Inr ()),
      change_mode = (\<lambda>_. Not_permitted), package_directory = [''p'', ''src'', ''codex_wake_me_up''],
      source_file = (\<lambda>_. None), python_executable = ''python3''\<rparr>"

lemma one_home_one_runtime_witness:
  "codex_home_for_runtime_root plain_machine ''/u/.codex/runtime/codex-wake-me-up'' = Inr [''u'', ''.codex'']
   \<and> service_socket plain_machine [''u'', ''.codex'', ''runtime'', ''codex-wake-me-up'']
       = Inr [''u'', ''.codex'', ''app-server-control'', ''app-server-control.sock'']"
proof -
  let ?dir = "[''u'', ''.codex'', ''runtime'', ''codex-wake-me-up'']"
  have "chosen_runtime_root plain_machine None = Inr ?dir"
      "resolve_codex_home plain_machine None = Inr [''u'', ''.codex'']"
      "canonical_path plain_machine [''u'', ''.codex'']" "canonical_path plain_machine ?dir"
      "path_text ?dir = ''/u/.codex/runtime/codex-wake-me-up''"
      "control_socket plain_machine None = Inr [''u'', ''.codex'', ''app-server-control'', ''app-server-control.sock'']"
    by code_simp+
  with one_home_one_runtime [of plain_machine None ?dir "[''u'', ''.codex'']"] show ?thesis by simp
qed

end
