(* ===== verification/Reservation_Views.thy ===== *)
theory Reservation_Views
  imports Event_Facts
begin

text \<open>
  What a validated reservation shows of itself (\<open>Reservation.as_dict\<close> and \<open>as_status\<close> of
  \<open>terminal_events.py\<close>): its scope and its leaf, and with a status the fingerprint of the token, the last
  heartbeat and the terminal event, each checked again.
\<close>

definition reservation_as_dict :: "Reservation \<Rightarrow> (string \<times> json) list" where
  "reservation_as_dict r =
     reservation_semantic r
     @ (case (rsv_id r, monitor_condition r) of
          (Some i, Inr leaf) \<Rightarrow> [(''reservation_id'', JStr i), (''monitor_condition'', leaf)]
        | _ \<Rightarrow> [])
     @ [(''state'', JStr (reservation_state_value (rsv_state r)))]"

text \<open>\<open>normalize_heartbeat\<close> returns a validated heartbeat as it is.\<close>

datatype heartbeat_input = HeartbeatValue Heartbeat | HeartbeatMapping json

fun normalized_heartbeat :: "digest_env \<Rightarrow> heartbeat_input \<Rightarrow> Heartbeat res" where
  "normalized_heartbeat E (HeartbeatValue hb) = Inr hb"
| "normalized_heartbeat E (HeartbeatMapping v) = normalize_heartbeat E v JNull"

definition token_entry :: "json option \<Rightarrow> (string \<times> json) list res" where
  "token_entry given = (case given of
     None \<Rightarrow> Inr []
   | Some v \<Rightarrow>
       bindE (bounded_text v ''publish token fingerprint'') (\<lambda>f.
       if length f \<notin> {12, 64} \<or> \<not> list_all is_hex f then
         raise_validation ''publish token fingerprint must be hexadecimal''
       else Inr [(''publish_token_fingerprint'', JStr (map ascii_lower f))]))"

definition heartbeat_entry :: "digest_env \<Rightarrow> heartbeat_input option \<Rightarrow> (string \<times> json) list res" where
  "heartbeat_entry E given = (case given of
     None \<Rightarrow> Inr []
   | Some v \<Rightarrow> bindE (normalized_heartbeat E v) (\<lambda>hb. Inr [(''last_heartbeat'', JObj (heartbeat_as_dict hb))]))"

definition terminal_entry :: "digest_env \<Rightarrow> Reservation \<Rightarrow> event_input option \<Rightarrow> (string \<times> json) list res" where
  "terminal_entry E r given = (case given of
     None \<Rightarrow> Inr []
   | Some v \<Rightarrow>
       bindE (normalize_terminal_event E v None JNull) (\<lambda>ev.
       if event_kind ev \<noteq> rsv_kind r then
         raise_validation ''terminal event kind does not match reservation kind''
       else Inr [(''terminal_event'', event_as_dict ev)]))"

definition reservation_as_status ::
    "digest_env \<Rightarrow> Reservation \<Rightarrow> event_input option \<Rightarrow> heartbeat_input option \<Rightarrow> json option \<Rightarrow> json res" where
  "reservation_as_status E r terminal heartbeat fingerprint =
     bindE (token_entry fingerprint) (\<lambda>token.
     bindE (heartbeat_entry E heartbeat) (\<lambda>hb.
     bindE (terminal_entry E r terminal) (\<lambda>ev.
     Inr (JObj (reservation_as_dict r @ token @ hb @ ev)))))"

text \<open>The keys a status may have: nothing else of a producer's values reaches it as an entry.\<close>

lemma semantic_keys:
  "fst ` set (reservation_semantic r) \<subseteq>
     {''kind'', ''expires_at'', ''idempotency_key'', ''producer_identity'', ''producer_task_id'',
      ''repository'', ''worktree'', ''baseline_commit'', ''allowed_path_prefixes''}"
  by (auto simp: reservation_semantic_def opt_entry_def split: if_splits option.splits)

lemma status_shows:
  assumes "reservation_as_status E r terminal heartbeat fingerprint = Inr v"
  shows "jget ''kind'' v = JStr (kind_value (rsv_kind r))"
    and "terminal = None \<Longrightarrow> heartbeat = None \<Longrightarrow> fingerprint = None \<Longrightarrow> v = JObj (reservation_as_dict r)"
  using assms
  by (auto simp: reservation_as_status_def reservation_as_dict_def reservation_semantic_def jget_def
      token_entry_def heartbeat_entry_def terminal_entry_def)

text \<open>A status with a terminal event is about a reservation of the event's kind.\<close>

lemma status_event_kind:
  assumes "reservation_as_status E r (Some (EventValue ev)) heartbeat fingerprint = Inr v"
  shows "event_kind ev = rsv_kind r"
  using assms
  by (cases ev) (auto simp: reservation_as_status_def terminal_entry_def raise_validation_def split: if_splits)

end
